(* ===== verification/Market_Prelude.thy ===== *)
theory Market_Prelude
  imports Main "HOL-Library.Word"
begin

text \<open>
  Shared vocabulary of the development: the collections of simplification rules, Go's
  fixed-width integers, UUIDs, the string helpers of the Go standard library the services
  call, and the generic list and map lemmas the component theories rely on.
\<close>

named_theorems rt_simps \<open>equations of the runtime primitives (faults, clock, SQL statements)\<close>
named_theorems stmt_simps \<open>definitions of the SQL statements of the repositories\<close>
named_theorems handler_simps \<open>definitions of gRPC handlers and their mapping helpers\<close>

section \<open>Fixed-width integers\<close>

text \<open>
  Go's \<^verbatim>\<open>int\<close> and \<^verbatim>\<open>int64\<close> are 64-bit and \<^verbatim>\<open>int32\<close> is 32-bit two's complement. Values are
  HOL integers and every arithmetic operation of the source that can leave the range is
  wrapped with \<open>i64\<close> or \<open>i32\<close>.
\<close>

definition i64 :: "int \<Rightarrow> int" where
  "i64 x = signed_take_bit 63 x"

definition i32 :: "int \<Rightarrow> int" where
  "i32 x = signed_take_bit 31 x"

definition int4_ok :: "int \<Rightarrow> bool" where
  "int4_ok x \<longleftrightarrow> - (2 ^ 31) \<le> x \<and> x < 2 ^ 31"

definition int8_ok :: "int \<Rightarrow> bool" where
  "int8_ok x \<longleftrightarrow> - (2 ^ 63) \<le> x \<and> x < 2 ^ 63"

lemma i64_id: "int8_ok x \<Longrightarrow> i64 x = x"
  unfolding i64_def int8_ok_def by (rule signed_take_bit_int_eq_self) auto

lemma i32_id: "int4_ok x \<Longrightarrow> i32 x = x"
  unfolding i32_def int4_ok_def by (rule signed_take_bit_int_eq_self) auto

lemma int4_ok_i32 [simp]: "int4_ok (i32 x)"
  using signed_take_bit_int_greater_eq_minus_exp [of 31 x] signed_take_bit_int_less_exp [of 31 x]
  by (simp add: int4_ok_def i32_def)

lemma int8_ok_i64 [simp]: "int8_ok (i64 x)"
  using signed_take_bit_int_greater_eq_minus_exp [of 63 x] signed_take_bit_int_less_exp [of 63 x]
  by (simp add: int8_ok_def i64_def)

lemma i32_i32 [simp]: "i32 (i32 x) = i32 x"
  by (rule i32_id) simp

section \<open>UUIDs\<close>

text \<open>
  \<^verbatim>\<open>uuid.UUID\<close> is an array of 16 bytes, compared byte by byte; PostgreSQL orders it the same
  way. The text format and the parser belong to the package github.com/google/uuid, which is
  a parameter of the model.
\<close>

type_synonym uuid = "128 word"

definition uuid_Nil :: uuid where
  "uuid_Nil = 0"

section \<open>Strings\<close>

fun nat_str :: "nat \<Rightarrow> string" where
  "nat_str n = (if n < 10 then [char_of (48 + n)] else nat_str (n div 10) @ [char_of (48 + n mod 10)])"

declare nat_str.simps [simp del]

definition int_str :: "int \<Rightarrow> string" where
  "int_str k = (if k < 0 then ''-'' @ nat_str (nat (- k)) else nat_str (nat k))"

fun strings_Join :: "string list \<Rightarrow> string \<Rightarrow> string" where
  "strings_Join [] sep = ''''"
| "strings_Join [x] sep = x"
| "strings_Join (x # y # ys) sep = x @ sep @ strings_Join (y # ys) sep"

definition char_lower :: "char \<Rightarrow> char" where
  "char_lower c = (let n = of_char c in if 65 \<le> n \<and> n \<le> (90::nat) then char_of (n + 32) else c)"

definition strings_ToLower :: "string \<Rightarrow> string" where
  "strings_ToLower s = map char_lower s"

text \<open>\<^verbatim>\<open>strings.TrimSpace\<close> and \<^verbatim>\<open>strings.ToLower\<close> on ASCII text.\<close>

definition char_space :: "char \<Rightarrow> bool" where
  "char_space c \<longleftrightarrow> (let n = (of_char c :: nat) in n = 32 \<or> 9 \<le> n \<and> n \<le> 13)"

definition strings_TrimSpace :: "string \<Rightarrow> string" where
  "strings_TrimSpace s = rev (dropWhile char_space (rev (dropWhile char_space s)))"

definition strings_TrimPrefix :: "string \<Rightarrow> string \<Rightarrow> string" where
  "strings_TrimPrefix s p = (if take (length p) s = p then drop (length p) s else s)"

lemma strings_TrimPrefix_append [simp]: "strings_TrimPrefix (p @ s) p = s"
  by (simp add: strings_TrimPrefix_def)

section \<open>Lists and maps\<close>

lemma sum_list_filter_append:
  "sum_list (map f (filter P (xs @ ys))) = sum_list (map f (filter P xs)) + sum_list (map f (filter P ys))"
  by simp

lemma sum_dom_insert:
  fixes g :: "'k \<Rightarrow> 'v \<Rightarrow> int"
  assumes "finite (dom m)" and "m k = None"
  shows "(\<Sum>x\<in>dom (m(k \<mapsto> v)). g x (the ((m(k \<mapsto> v)) x)))
       = g k v + (\<Sum>x\<in>dom m. g x (the (m x)))"
proof -
  have k: "k \<notin> dom m" using assms(2) by auto
  have "(\<Sum>x\<in>dom m. g x (the ((m(k \<mapsto> v)) x))) = (\<Sum>x\<in>dom m. g x (the (m x)))"
    using k by (intro sum.cong) auto
  then show ?thesis using assms(1) k by simp
qed

lemma sum_dom_update:
  fixes g :: "'k \<Rightarrow> 'v \<Rightarrow> int"
  assumes "finite (dom m)" and "m k = Some u"
  shows "(\<Sum>x\<in>dom (m(k \<mapsto> v)). g x (the ((m(k \<mapsto> v)) x)))
       = g k v - g k u + (\<Sum>x\<in>dom m. g x (the (m x)))"
proof -
  have k: "k \<in> dom m" using assms(2) by auto
  then have d: "dom (m(k \<mapsto> v)) = dom m" by auto
  have rest: "(\<Sum>x\<in>dom m - {k}. g x (the ((m(k \<mapsto> v)) x))) = (\<Sum>x\<in>dom m - {k}. g x (the (m x)))"
    by (intro sum.cong) auto
  have "(\<Sum>x\<in>dom m. g x (the ((m(k \<mapsto> v)) x))) = g k v + (\<Sum>x\<in>dom m - {k}. g x (the (m x)))"
    using sum.remove [OF assms(1) k, of "\<lambda>x. g x (the ((m(k \<mapsto> v)) x))"] rest by simp
  moreover have "(\<Sum>x\<in>dom m. g x (the (m x))) = g k u + (\<Sum>x\<in>dom m - {k}. g x (the (m x)))"
    using sum.remove [OF assms(1) k, of "\<lambda>x. g x (the (m x))"] assms(2) by simp
  ultimately show ?thesis using d by simp
qed

end
