(* ===== verification/Go_Errors.thy ===== *)
theory Go_Errors
  imports Market_Prelude
begin

text \<open>
  Go error values and the shared error package (src/pkg/errors). An error is a tree: a
  sentinel value, an opaque error of a driver or of \<^verbatim>\<open>errors.New\<close>, an \<^verbatim>\<open>AppError\<close>, the result of
  \<^verbatim>\<open>fmt.Errorf\<close> with its \<^verbatim>\<open>%w\<close> operands, the result of \<^verbatim>\<open>errors.Join\<close>, or a gRPC status. The
  package's classification table, its translation to and from gRPC statuses and the adapters
  for GraphQL and logs follow the source function by function.
\<close>

section \<open>Error values\<close>

text \<open>
  \<open>PgUniqueViolation\<close> stands for a \<^verbatim>\<open>*pgconn.PgError\<close> with code 23505, which one repository
  looks for with \<^verbatim>\<open>errors.As\<close>.
\<close>

datatype sentinel =
    ErrNotFound | ErrAlreadyExists | ErrInvalidArgument | ErrInvalidCredentials
  | ErrPermissionDenied | ErrConflict | ErrInsufficientStock | ErrFailedPrecondition
  | ErrUnauthenticated | ErrUnavailable | ErrDeadlineExceeded
  | ErrNoRows | ErrPoison | PgUniqueViolation

fun sentinel_msg :: "sentinel \<Rightarrow> string" where
  "sentinel_msg ErrNotFound = ''not found''"
| "sentinel_msg ErrAlreadyExists = ''already exists''"
| "sentinel_msg ErrInvalidArgument = ''invalid argument''"
| "sentinel_msg ErrInvalidCredentials = ''invalid credentials''"
| "sentinel_msg ErrPermissionDenied = ''permission denied''"
| "sentinel_msg ErrConflict = ''conflict''"
| "sentinel_msg ErrInsufficientStock = ''insufficient stock''"
| "sentinel_msg ErrFailedPrecondition = ''failed precondition''"
| "sentinel_msg ErrUnauthenticated = ''unauthenticated''"
| "sentinel_msg ErrUnavailable = ''unavailable''"
| "sentinel_msg ErrDeadlineExceeded = ''deadline exceeded''"
| "sentinel_msg ErrNoRows = ''no rows in result set''"
| "sentinel_msg ErrPoison = ''poison outbox event''"
| "sentinel_msg PgUniqueViolation = ''duplicate key value violates unique constraint''"

datatype code =
    codes_OK | codes_Canceled | codes_Unknown | codes_InvalidArgument | codes_DeadlineExceeded
  | codes_NotFound | codes_AlreadyExists | codes_PermissionDenied | codes_ResourceExhausted
  | codes_FailedPrecondition | codes_Aborted | codes_OutOfRange | codes_Unimplemented
  | codes_Internal | codes_Unavailable | codes_DataLoss | codes_Unauthenticated

fun code_String :: "code \<Rightarrow> string" where
  "code_String codes_OK = ''OK''"
| "code_String codes_Canceled = ''Canceled''"
| "code_String codes_Unknown = ''Unknown''"
| "code_String codes_InvalidArgument = ''InvalidArgument''"
| "code_String codes_DeadlineExceeded = ''DeadlineExceeded''"
| "code_String codes_NotFound = ''NotFound''"
| "code_String codes_AlreadyExists = ''AlreadyExists''"
| "code_String codes_PermissionDenied = ''PermissionDenied''"
| "code_String codes_ResourceExhausted = ''ResourceExhausted''"
| "code_String codes_FailedPrecondition = ''FailedPrecondition''"
| "code_String codes_Aborted = ''Aborted''"
| "code_String codes_OutOfRange = ''OutOfRange''"
| "code_String codes_Unimplemented = ''Unimplemented''"
| "code_String codes_Internal = ''Internal''"
| "code_String codes_Unavailable = ''Unavailable''"
| "code_String codes_DataLoss = ''DataLoss''"
| "code_String codes_Unauthenticated = ''Unauthenticated''"

type_synonym Kind = string

datatype go_error =
    Sentinel sentinel
  | StdErr string
  | AppError (AppError_Code: string) (AppError_Message: string) (AppError_Err: "go_error option")
      (AppError_Kind: Kind) (AppError_Detail: string)
  | FmtErr string "go_error list"
  | JoinErr "go_error list"
  | StatusErr code string

type_synonym 'a result = "go_error + 'a"

fun err_Error :: "go_error \<Rightarrow> string" where
  "err_Error (Sentinel s) = sentinel_msg s"
| "err_Error (StdErr m) = m"
| "err_Error (AppError c m None k d) = m"
| "err_Error (AppError c m (Some e) k d) = m @ '': '' @ err_Error e"
| "err_Error (FmtErr m es) = m"
| "err_Error (JoinErr es) = strings_Join (map err_Error es) [CHR 0x0A]"
| "err_Error (StatusErr c m) = ''rpc error: code = '' @ code_String c @ '' desc = '' @ m"

text \<open>\<^verbatim>\<open>errors.Is\<close> against a sentinel walks every \<^verbatim>\<open>Unwrap\<close> chain.\<close>

fun errors_Is :: "go_error \<Rightarrow> sentinel \<Rightarrow> bool" where
  "errors_Is (Sentinel s) t = (s = t)"
| "errors_Is (StdErr m) t = False"
| "errors_Is (AppError c m None k d) t = False"
| "errors_Is (AppError c m (Some e) k d) t = errors_Is e t"
| "errors_Is (FmtErr m es) t = list_ex (\<lambda>e. errors_Is e t) es"
| "errors_Is (JoinErr es) t = list_ex (\<lambda>e. errors_Is e t) es"
| "errors_Is (StatusErr c m) t = False"

text \<open>\<^verbatim>\<open>errors.Unwrap\<close> sees a single wrapped error only.\<close>

fun errors_Unwrap :: "go_error \<Rightarrow> go_error option" where
  "errors_Unwrap (AppError c m e k d) = e"
| "errors_Unwrap (FmtErr m [e]) = Some e"
| "errors_Unwrap _ = None"

text \<open>\<open>errorf p e\<close> is \<^verbatim>\<open>fmt.Errorf("p: %w", e)\<close>; \<open>sentinelf s t\<close> is \<^verbatim>\<open>fmt.Errorf("%w: t", s)\<close>.\<close>

definition errorf :: "string \<Rightarrow> go_error \<Rightarrow> go_error" where
  "errorf p e = FmtErr (p @ '': '' @ err_Error e) [e]"

definition sentinelf :: "sentinel \<Rightarrow> string \<Rightarrow> go_error" where
  "sentinelf s t = FmtErr (sentinel_msg s @ '': '' @ t) [Sentinel s]"

lemma errors_Is_errorf [simp]: "errors_Is (errorf p e) t = errors_Is e t"
  by (simp add: errorf_def)

lemma errors_Is_sentinelf [simp]: "errors_Is (sentinelf s m) t = (s = t)"
  by (simp add: sentinelf_def)

text \<open>\<^verbatim>\<open>errors.Join\<close>: nil when there is no error.\<close>

definition errors_Join :: "go_error list \<Rightarrow> go_error option" where
  "errors_Join es = (if es = [] then None else Some (JoinErr es))"

section \<open>The classification table\<close>

definition KindNotFound :: Kind where "KindNotFound = ''not_found''"
definition KindAlreadyExists :: Kind where "KindAlreadyExists = ''already_exists''"
definition KindInvalidArgument :: Kind where "KindInvalidArgument = ''invalid_argument''"
definition KindInvalidCredentials :: Kind where "KindInvalidCredentials = ''invalid_credentials''"
definition KindPermissionDenied :: Kind where "KindPermissionDenied = ''permission_denied''"
definition KindConflict :: Kind where "KindConflict = ''conflict''"
definition KindInsufficientStock :: Kind where "KindInsufficientStock = ''insufficient_stock''"
definition KindFailedPrecondition :: Kind where "KindFailedPrecondition = ''failed_precondition''"
definition KindUnauthenticated :: Kind where "KindUnauthenticated = ''unauthenticated''"
definition KindUnavailable :: Kind where "KindUnavailable = ''unavailable''"
definition KindDeadlineExceeded :: Kind where "KindDeadlineExceeded = ''deadline_exceeded''"
definition KindInternal :: Kind where "KindInternal = ''internal''"

lemmas kind_defs = KindNotFound_def KindAlreadyExists_def KindInvalidArgument_def
  KindInvalidCredentials_def KindPermissionDenied_def KindConflict_def KindInsufficientStock_def
  KindFailedPrecondition_def KindUnauthenticated_def KindUnavailable_def KindDeadlineExceeded_def
  KindInternal_def

record Entry =
  GRPCCode :: code
  HTTPStatus :: int
  PublicKey :: string
  Retryable :: bool

definition registry_table :: "(Kind \<times> Entry) list" where
  "registry_table =
    [(KindNotFound, \<lparr>GRPCCode = codes_NotFound, HTTPStatus = 404, PublicKey = ''NOT_FOUND'', Retryable = False\<rparr>),
     (KindAlreadyExists, \<lparr>GRPCCode = codes_AlreadyExists, HTTPStatus = 409, PublicKey = ''ALREADY_EXISTS'', Retryable = False\<rparr>),
     (KindInvalidArgument, \<lparr>GRPCCode = codes_InvalidArgument, HTTPStatus = 400, PublicKey = ''INVALID_ARGUMENT'', Retryable = False\<rparr>),
     (KindInvalidCredentials, \<lparr>GRPCCode = codes_Unauthenticated, HTTPStatus = 401, PublicKey = ''INVALID_CREDENTIALS'', Retryable = False\<rparr>),
     (KindPermissionDenied, \<lparr>GRPCCode = codes_PermissionDenied, HTTPStatus = 403, PublicKey = ''PERMISSION_DENIED'', Retryable = False\<rparr>),
     (KindConflict, \<lparr>GRPCCode = codes_FailedPrecondition, HTTPStatus = 409, PublicKey = ''CONFLICT'', Retryable = False\<rparr>),
     (KindInsufficientStock, \<lparr>GRPCCode = codes_FailedPrecondition, HTTPStatus = 409, PublicKey = ''INSUFFICIENT_STOCK'', Retryable = False\<rparr>),
     (KindFailedPrecondition, \<lparr>GRPCCode = codes_FailedPrecondition, HTTPStatus = 409, PublicKey = ''FAILED_PRECONDITION'', Retryable = False\<rparr>),
     (KindUnauthenticated, \<lparr>GRPCCode = codes_Unauthenticated, HTTPStatus = 401, PublicKey = ''UNAUTHENTICATED'', Retryable = False\<rparr>),
     (KindUnavailable, \<lparr>GRPCCode = codes_Unavailable, HTTPStatus = 503, PublicKey = ''UNAVAILABLE'', Retryable = True\<rparr>),
     (KindDeadlineExceeded, \<lparr>GRPCCode = codes_DeadlineExceeded, HTTPStatus = 504, PublicKey = ''DEADLINE_EXCEEDED'', Retryable = True\<rparr>),
     (KindInternal, \<lparr>GRPCCode = codes_Internal, HTTPStatus = 500, PublicKey = ''INTERNAL'', Retryable = False\<rparr>)]"

definition EntryFor :: "Kind \<Rightarrow> Entry option" where
  "EntryFor kind = map_of registry_table kind"

text \<open>Go iterates over the map in an unspecified order; the list order here is one of them.\<close>

definition Kinds :: "Kind list" where
  "Kinds = map fst registry_table"

definition ParseKind :: "string \<Rightarrow> Kind" where
  "ParseKind s = (case EntryFor s of Some _ \<Rightarrow> s | None \<Rightarrow> KindInternal)"

section \<open>Constructors\<close>

definition E :: "Kind \<Rightarrow> string \<Rightarrow> go_error" where
  "E kind message = AppError kind message None kind ''''"

definition New :: "string \<Rightarrow> string \<Rightarrow> go_error" where
  "New code message = AppError code message None (ParseKind code) ''''"

definition Wrap :: "go_error option \<Rightarrow> string \<Rightarrow> string \<Rightarrow> go_error" where
  "Wrap err code message = AppError code message err (ParseKind code) ''''"

fun WithDetail :: "go_error option \<Rightarrow> string \<Rightarrow> go_error option" where
  "WithDetail None detail = None"
| "WithDetail (Some (AppError c m e k d)) detail = Some (AppError c m e k detail)"
| "WithDetail (Some err) detail =
     Some (AppError KindInternal (err_Error err) (Some err) KindInternal detail)"

section \<open>Translation to and from gRPC statuses\<close>

fun app_entry :: "go_error \<Rightarrow> Entry option" where
  "app_entry (AppError c m e k d) =
     (case EntryFor k of
        Some entry \<Rightarrow> Some entry
      | None \<Rightarrow> if c \<noteq> '''' then EntryFor (ParseKind c) else None)"
| "app_entry _ = None"

definition to_status :: "go_error \<Rightarrow> go_error" where
  "to_status err =
     (case app_entry err of
        Some entry \<Rightarrow> StatusErr (GRPCCode entry) (err_Error err)
      | None \<Rightarrow>
          if errors_Is err ErrNotFound then StatusErr codes_NotFound (err_Error err)
          else if errors_Is err ErrAlreadyExists then StatusErr codes_AlreadyExists (err_Error err)
          else if errors_Is err ErrInvalidArgument then StatusErr codes_InvalidArgument (err_Error err)
          else if errors_Is err ErrInvalidCredentials then StatusErr codes_Unauthenticated (err_Error err)
          else if errors_Is err ErrPermissionDenied then StatusErr codes_PermissionDenied (err_Error err)
          else if errors_Is err ErrConflict \<or> errors_Is err ErrInsufficientStock \<or> errors_Is err ErrFailedPrecondition
            then StatusErr codes_FailedPrecondition (err_Error err)
          else if errors_Is err ErrUnauthenticated then StatusErr codes_Unauthenticated (err_Error err)
          else if errors_Is err ErrUnavailable then StatusErr codes_Unavailable (err_Error err)
          else if errors_Is err ErrDeadlineExceeded then StatusErr codes_DeadlineExceeded (err_Error err)
          else StatusErr codes_Internal ''internal error'')"

definition ToStatus :: "go_error option \<Rightarrow> go_error option" where
  "ToStatus err = (case err of None \<Rightarrow> None | Some e \<Rightarrow> Some (to_status e))"

fun kindFromGRPC :: "code \<Rightarrow> Kind" where
  "kindFromGRPC codes_NotFound = KindNotFound"
| "kindFromGRPC codes_AlreadyExists = KindAlreadyExists"
| "kindFromGRPC codes_InvalidArgument = KindInvalidArgument"
| "kindFromGRPC codes_Unauthenticated = KindUnauthenticated"
| "kindFromGRPC codes_PermissionDenied = KindPermissionDenied"
| "kindFromGRPC codes_FailedPrecondition = KindFailedPrecondition"
| "kindFromGRPC codes_Unavailable = KindUnavailable"
| "kindFromGRPC codes_DeadlineExceeded = KindDeadlineExceeded"
| "kindFromGRPC _ = KindInternal"

text \<open>
  \<^verbatim>\<open>status.FromError\<close> belongs to the grpc package and is a parameter: \<open>Some (c, m)\<close> when the
  error carries a status. The package documents that a status error is returned as it is.
\<close>

type_synonym from_error = "go_error \<Rightarrow> (code \<times> string) option"

definition from_error_ok :: "from_error \<Rightarrow> bool" where
  "from_error_ok fe \<longleftrightarrow> (\<forall>c m. fe (StatusErr c m) = Some (c, m))"

definition FromStatus :: "from_error \<Rightarrow> go_error option \<Rightarrow> go_error option" where
  "FromStatus fe err =
     (case err of
        None \<Rightarrow> None
      | Some e \<Rightarrow>
          (case fe e of
             None \<Rightarrow> Some (AppError KindInternal (err_Error e) None KindInternal '''')
           | Some (c, m) \<Rightarrow> Some (AppError (kindFromGRPC c) m None (kindFromGRPC c) '''')))"

definition Code :: "from_error \<Rightarrow> go_error option \<Rightarrow> code" where
  "Code fe err =
     (case err of
        None \<Rightarrow> codes_OK
      | Some e \<Rightarrow> (case fe (to_status e) of None \<Rightarrow> codes_Internal | Some (c, m) \<Rightarrow> c))"

lemma size_errors_Unwrap: "errors_Unwrap e = Some e' \<Longrightarrow> size e' < size e"
  by (cases e rule: errors_Unwrap.cases) auto

function IsKind :: "go_error option \<Rightarrow> Kind \<Rightarrow> bool" where
  "IsKind None kind = False"
| "IsKind (Some e) kind =
     (if (case e of AppError c m i k d \<Rightarrow> k = kind | _ \<Rightarrow> False) then True
      else IsKind (errors_Unwrap e) kind)"
  by pat_completeness auto
termination
  by (relation "measure (\<lambda>(e, k). case e of None \<Rightarrow> 0 | Some e \<Rightarrow> Suc (size e))")
    (auto split: option.splits dest: size_errors_Unwrap)

section \<open>GraphQL and log adapters\<close>

record GraphQLError =
  GQL_Message :: string
  GQL_code :: string
  GQL_publicKey :: string
  GQL_retryable :: bool
  GQL_detail :: string

definition as_app_error :: "from_error \<Rightarrow> go_error \<Rightarrow> go_error" where
  "as_app_error fe err =
     (case err of AppError c m e k d \<Rightarrow> err
      | _ \<Rightarrow> the (FromStatus fe (ToStatus (Some err))))"

definition entry_or_internal :: "Kind \<Rightarrow> Entry" where
  "entry_or_internal kind =
     (case EntryFor kind of Some entry \<Rightarrow> entry | None \<Rightarrow> the (EntryFor KindInternal))"

definition ToGraphQLError :: "from_error \<Rightarrow> go_error option \<Rightarrow> GraphQLError option" where
  "ToGraphQLError fe err =
     (case err of
        None \<Rightarrow> None
      | Some e \<Rightarrow>
          (let ae = as_app_error fe e; entry = entry_or_internal (AppError_Kind ae)
           in Some \<lparr>GQL_Message = AppError_Message ae,
                    GQL_code = code_String (GRPCCode entry),
                    GQL_publicKey = PublicKey entry,
                    GQL_retryable = Retryable entry,
                    GQL_detail = AppError_Detail ae\<rparr>))"

record LogFields =
  LF_kind :: string
  LF_code :: string
  LF_message :: string
  LF_detail :: string
  LF_retryable :: bool
  LF_error :: string

definition Fields :: "from_error \<Rightarrow> go_error option \<Rightarrow> LogFields option" where
  "Fields fe err =
     (case err of
        None \<Rightarrow> None
      | Some e \<Rightarrow>
          (let ae = as_app_error fe e; entry = entry_or_internal (AppError_Kind ae)
           in Some \<lparr>LF_kind = AppError_Kind ae, LF_code = AppError_Code ae,
                    LF_message = AppError_Message ae, LF_detail = AppError_Detail ae,
                    LF_retryable = Retryable entry, LF_error = err_Error e\<rparr>))"

end
