(* ===== verification/Go_Runtime.thy ===== *)
theory Go_Runtime
  imports Go_Errors
begin

text \<open>
  The world a service runs in: a schedule of faults for its external calls, the clock, the
  source of fresh UUIDs and its database. \<open>sql\<close> runs one statement; \<open>txm_Run\<close> is the
  transaction manager of src/pkg/txmanager. The locale \<open>transactional\<close> is the contract the
  use cases rely on, and it is interpreted on the transaction manager below.
\<close>

section \<open>Worlds and faults\<close>

text \<open>
  Every external call consumes one entry of the fault schedule. \<open>FailBefore\<close> loses the request,
  \<open>FailAfter\<close> loses the reply: the effect has happened but the caller sees an error. An
  exhausted schedule means that no further call fails.
\<close>

datatype fault = NoFault | FailBefore go_error | FailAfter go_error

record 'db world =
  faults :: "fault list"
  clock :: int
  uuid_src :: "nat \<Rightarrow> uuid"
  uuid_ctr :: nat
  db :: 'db

definition take_fault :: "('db, 'x) world_scheme \<Rightarrow> fault \<times> ('db, 'x) world_scheme" where
  "take_fault w = (case faults w of [] \<Rightarrow> (NoFault, w) | f # fs \<Rightarrow> (f, w\<lparr>faults := fs\<rparr>))"

definition uuid_New :: "('db, 'x) world_scheme \<Rightarrow> uuid \<times> ('db, 'x) world_scheme" where
  "uuid_New w = (uuid_src w (uuid_ctr w), w\<lparr>uuid_ctr := Suc (uuid_ctr w)\<rparr>)"

definition sleep :: "int \<Rightarrow> ('db, 'x) world_scheme \<Rightarrow> ('db, 'x) world_scheme" where
  "sleep d w = w\<lparr>clock := clock w + max 0 d\<rparr>"

text \<open>
  The package github.com/google/uuid, as far as the services use it. It documents that
  \<^verbatim>\<open>Parse\<close> reads back what \<^verbatim>\<open>String\<close> prints.
\<close>

record uuid_lib =
  uuid_String :: "uuid \<Rightarrow> string"
  uuid_Parse :: "string \<Rightarrow> uuid result"

definition uuid_lib_ok :: "uuid_lib \<Rightarrow> bool" where
  "uuid_lib_ok L \<longleftrightarrow> (\<forall>u. uuid_Parse L (uuid_String L u) = Inr u)"

text \<open>A concrete text format, for evaluating the model on inputs.\<close>

definition unary_uuid :: uuid_lib where
  "unary_uuid =
     \<lparr>uuid_String = \<lambda>u. replicate (unat u) (CHR ''x''),
      uuid_Parse = \<lambda>s. if list_all (\<lambda>c. c = CHR ''x'') s then Inr (of_nat (length s))
                       else Inl (StdErr ''invalid UUID'')\<rparr>"

lemma unary_uuid_ok [simp]: "uuid_lib_ok unary_uuid"
  by (auto simp: uuid_lib_ok_def unary_uuid_def list_all_iff)

lemma unary_uuid_String [simp]:
  "uuid_String unary_uuid 1 = ''x''" "uuid_String unary_uuid 2 = ''xx''"
  "uuid_String unary_uuid 3 = ''xxx''"
proof -
  have "replicate 2 c = [c, c]" "replicate 3 c = [c, c, c]" for c :: char
    by (simp_all add: numeral_2_eq_2 numeral_3_eq_3)
  then show "uuid_String unary_uuid 1 = ''x''" "uuid_String unary_uuid 2 = ''xx''"
    "uuid_String unary_uuid 3 = ''xxx''"
    by (simp_all add: unary_uuid_def)
qed

lemma unary_uuid_Parse [simp]:
  "uuid_Parse unary_uuid ''x'' = Inr 1" "uuid_Parse unary_uuid ''xx'' = Inr 2"
  "uuid_Parse unary_uuid ''xxx'' = Inr 3"
  by (simp_all add: unary_uuid_def)

section \<open>Sequencing\<close>

text \<open>
  Go's \<^verbatim>\<open>if err != nil { return err }\<close> is a case distinction on the result of a call. A sequence
  of calls succeeds only when every call of it does.
\<close>

lemma err_case_Inr:
  "(case r of (Inl err, w1) \<Rightarrow> (Inl (g err), h w1) | (Inr x, w1) \<Rightarrow> f x w1) = (Inr y, w') \<longleftrightarrow>
   (\<exists>x w1. r = (Inr x, w1) \<and> f x w1 = (Inr y, w'))"
  by (cases r; cases "fst r") auto

lemma err_if_Inr:
  "(if b then (Inl e, w1) else r) = (Inr y, w') \<longleftrightarrow> \<not> b \<and> r = (Inr y, w')"
  by auto

lemmas seq_Inr = err_case_Inr err_if_Inr

section \<open>SQL statements\<close>

type_synonym ('db, 'a) stmt = "'db \<Rightarrow> go_error + 'a \<times> 'db"

definition sql :: "('db, 'a) stmt \<Rightarrow> ('db, 'x) world_scheme \<Rightarrow> 'a result \<times> ('db, 'x) world_scheme" where
  "sql stmt w =
     (case take_fault w of
        (FailBefore e, w1) \<Rightarrow> (Inl e, w1)
      | (NoFault, w1) \<Rightarrow>
          (case stmt (db w1) of Inl e \<Rightarrow> (Inl e, w1) | Inr (x, d) \<Rightarrow> (Inr x, w1\<lparr>db := d\<rparr>))
      | (FailAfter e, w1) \<Rightarrow>
          (case stmt (db w1) of Inl e' \<Rightarrow> (Inl e', w1) | Inr (x, d) \<Rightarrow> (Inl e, w1\<lparr>db := d\<rparr>)))"

text \<open>A query that reads one row: no row is \<^verbatim>\<open>pgx.ErrNoRows\<close>.\<close>

definition query_row :: "('db \<Rightarrow> 'a option) \<Rightarrow> ('db, 'a) stmt" where
  "query_row q d = (case q d of None \<Rightarrow> Inl (Sentinel ErrNoRows) | Some x \<Rightarrow> Inr (x, d))"

definition query_rows :: "('db \<Rightarrow> 'a) \<Rightarrow> ('db, 'a) stmt" where
  "query_rows q d = Inr (q d, d)"

text \<open>Reading the rows of a result set can fail on its own (\<^verbatim>\<open>rows.Err\<close>).\<close>

definition rows_Err :: "('db, 'x) world_scheme \<Rightarrow> unit result \<times> ('db, 'x) world_scheme" where
  "rows_Err w =
     (case take_fault w of
        (NoFault, w1) \<Rightarrow> (Inr (), w1)
      | (FailBefore e, w1) \<Rightarrow> (Inl e, w1)
      | (FailAfter e, w1) \<Rightarrow> (Inl e, w1))"

text \<open>The select on \<^verbatim>\<open>ctx.Done()\<close> and \<^verbatim>\<open>time.After\<close>: a fault is the context ending first.\<close>

definition ctx_wait :: "int \<Rightarrow> ('db, 'x) world_scheme \<Rightarrow> go_error option \<times> ('db, 'x) world_scheme" where
  "ctx_wait d w =
     (case take_fault w of
        (NoFault, w1) \<Rightarrow> (None, sleep d w1)
      | (FailBefore e, w1) \<Rightarrow> (Some e, w1)
      | (FailAfter e, w1) \<Rightarrow> (Some e, w1))"

lemma db_take_fault [simp]: "take_fault w = (f, w1) \<Longrightarrow> db w1 = db w"
  by (auto simp: take_fault_def split: list.splits)

lemma take_fault_no_faults [rt_simps]: "faults w = [] \<Longrightarrow> take_fault w = (NoFault, w)"
  by (simp add: take_fault_def)

lemma sql_no_faults [rt_simps]:
  "faults w = [] \<Longrightarrow> sql stmt w =
     (case stmt (db w) of Inl e \<Rightarrow> (Inl e, w) | Inr (x, d) \<Rightarrow> (Inr x, w\<lparr>db := d\<rparr>))"
  by (simp add: sql_def take_fault_no_faults)

text \<open>A statement either leaves the database alone or has its whole effect.\<close>

lemma sql_cases:
  assumes "sql stmt w = (r, w')"
  obtains (ok) x d where "r = Inr x" "stmt (db w) = Inr (x, d)" "db w' = d"
        | (lost) e x d where "r = Inl e" "stmt (db w) = Inr (x, d)" "db w' = d"
        | (failed) e where "r = Inl e" "db w' = db w"
proof -
  obtain f w1 where tf: "take_fault w = (f, w1)" by fastforce
  show thesis
    using assms tf that db_take_fault [OF tf]
    by (cases f) (auto simp: sql_def split: sum.splits prod.splits)
qed

lemma sql_Inr:
  assumes "sql stmt w = (Inr x, w')"
  shows "stmt (db w) = Inr (x, db w')"
  using assms by (cases rule: sql_cases) auto

lemma sql_query_row_db: "db (snd (sql (query_row q) w)) = db w"
proof -
  obtain r w' where s: "sql (query_row q) w = (r, w')" by fastforce
  then have "db w' = db w"
    by (cases rule: sql_cases) (auto simp: query_row_def split: option.splits)
  with s show ?thesis by simp
qed

lemma sql_query_rows_db: "db (snd (sql (query_rows q) w)) = db w"
proof -
  obtain r w' where s: "sql (query_rows q) w = (r, w')" by fastforce
  then have "db w' = db w" by (cases rule: sql_cases) (auto simp: query_rows_def)
  with s show ?thesis by simp
qed

lemma query_row_db: "sql (query_row q) w = (r, w') \<Longrightarrow> db w' = db w"
  using sql_query_row_db [of q w] by simp

lemma query_rows_db: "sql (query_rows q) w = (r, w') \<Longrightarrow> db w' = db w"
  using sql_query_rows_db [of q w] by simp

lemma rows_Err_db: "rows_Err w = (r, w') \<Longrightarrow> db w' = db w"
  by (auto simp: rows_Err_def split: prod.splits fault.splits)

lemma rows_Err_no_faults [rt_simps]: "faults w = [] \<Longrightarrow> rows_Err w = (Inr (), w)"
  by (simp add: rows_Err_def take_fault_no_faults)

section \<open>The transaction manager\<close>

definition txm_Run ::
  "(('db, 'x) world_scheme \<Rightarrow> 'a result \<times> ('db, 'x) world_scheme) \<Rightarrow>
   ('db, 'x) world_scheme \<Rightarrow> 'a result \<times> ('db, 'x) world_scheme" where
  "txm_Run fn w =
     (case take_fault w of
        (NoFault, w1) \<Rightarrow>
          (case fn w1 of
             (Inl e, w2) \<Rightarrow> (Inl e, w2\<lparr>db := db w\<rparr>)
           | (Inr x, w2) \<Rightarrow>
               (case take_fault w2 of
                  (NoFault, w3) \<Rightarrow> (Inr x, w3)
                | (FailBefore e, w3) \<Rightarrow> (Inl (errorf ''commit tx'' e), w3\<lparr>db := db w\<rparr>)
                | (FailAfter e, w3) \<Rightarrow> (Inl (errorf ''commit tx'' e), w3)))
      | (FailBefore e, w1) \<Rightarrow> (Inl (errorf ''begin tx'' e), w1)
      | (FailAfter e, w1) \<Rightarrow> (Inl (errorf ''begin tx'' e), w1))"

text \<open>The low-level variant hands out the raw transaction; its control flow is the same.\<close>

definition RunTx ::
  "(('db, 'x) world_scheme \<Rightarrow> 'a result \<times> ('db, 'x) world_scheme) \<Rightarrow>
   ('db, 'x) world_scheme \<Rightarrow> 'a result \<times> ('db, 'x) world_scheme" where
  "RunTx fn w =
     (case take_fault w of
        (NoFault, w1) \<Rightarrow>
          (case fn w1 of
             (Inl e, w2) \<Rightarrow> (Inl e, w2\<lparr>db := db w\<rparr>)
           | (Inr x, w2) \<Rightarrow>
               (case take_fault w2 of
                  (NoFault, w3) \<Rightarrow> (Inr x, w3)
                | (FailBefore e, w3) \<Rightarrow> (Inl (errorf ''commit tx'' e), w3\<lparr>db := db w\<rparr>)
                | (FailAfter e, w3) \<Rightarrow> (Inl (errorf ''commit tx'' e), w3)))
      | (FailBefore e, w1) \<Rightarrow> (Inl (errorf ''begin tx'' e), w1)
      | (FailAfter e, w1) \<Rightarrow> (Inl (errorf ''begin tx'' e), w1))"

lemma RunTx_txm_Run: "RunTx = txm_Run"
  by (intro ext) (simp add: RunTx_def txm_Run_def)

lemma txm_Run_no_faults [rt_simps]:
  "faults w = [] \<Longrightarrow> txm_Run fn w =
     (case fn w of
        (Inl e, w2) \<Rightarrow> (Inl e, w2\<lparr>db := db w\<rparr>)
      | (Inr x, w2) \<Rightarrow>
          (case take_fault w2 of
             (NoFault, w3) \<Rightarrow> (Inr x, w3)
           | (FailBefore e, w3) \<Rightarrow> (Inl (errorf ''commit tx'' e), w3\<lparr>db := db w\<rparr>)
           | (FailAfter e, w3) \<Rightarrow> (Inl (errorf ''commit tx'' e), w3)))"
  by (simp add: txm_Run_def take_fault_no_faults)

text \<open>
  What a transaction promises its client, whatever fails: the database is either untouched or
  it is the one a successful run of the body produced, and a success is always of the latter
  kind.
\<close>

locale transactional =
  fixes run :: "('w \<Rightarrow> 'a result \<times> 'w) \<Rightarrow> 'w \<Rightarrow> 'a result \<times> 'w"
    and dbof :: "'w \<Rightarrow> 'db"
  assumes run_ok: "run fn w = (Inr x, w') \<Longrightarrow>
      \<exists>w0 w1. dbof w0 = dbof w \<and> fn w0 = (Inr x, w1) \<and> dbof w' = dbof w1"
    and run_err: "run fn w = (Inl e, w') \<Longrightarrow>
      dbof w' = dbof w \<or> (\<exists>w0 w1 x. dbof w0 = dbof w \<and> fn w0 = (Inr x, w1) \<and> dbof w' = dbof w1)"
begin

lemma all_or_nothing:
  "dbof (snd (run fn w)) = dbof w
   \<or> (\<exists>w0 w1 x. dbof w0 = dbof w \<and> fn w0 = (Inr x, w1) \<and> dbof (snd (run fn w)) = dbof w1)"
proof (cases "run fn w")
  case (Pair r w')
  then show ?thesis using run_ok [of fn w] run_err [of fn w] by (cases r) auto
qed

lemma stable:
  assumes "\<And>w0 w1 x. dbof w0 = dbof w \<Longrightarrow> fn w0 = (Inr x, w1) \<Longrightarrow> dbof w1 = dbof w"
  shows "dbof (snd (run fn w)) = dbof w"
  using all_or_nothing [of fn w] assms by metis

text \<open>An invariant needs to hold only at the successful end of the body, not in between.\<close>

lemma invariant:
  assumes "I (dbof w)"
    and "\<And>w0 w1 x. I (dbof w0) \<Longrightarrow> fn w0 = (Inr x, w1) \<Longrightarrow> I (dbof w1)"
  shows "I (dbof (snd (run fn w)))"
  using all_or_nothing [of fn w] assms by metis

lemma relation:
  assumes "\<And>d. R d d"
    and "\<And>w0 w1 x. fn w0 = (Inr x, w1) \<Longrightarrow> R (dbof w0) (dbof w1)"
  shows "R (dbof w) (dbof (snd (run fn w)))"
  using all_or_nothing [of fn w] assms by metis

end

lemma txm_Run_ok:
  assumes run: "txm_Run fn w = (Inr x, w')"
  shows "\<exists>w0 w1. db w0 = db w \<and> fn w0 = (Inr x, w1) \<and> db w' = db w1"
proof -
  obtain f w1 where f: "take_fault w = (f, w1)" by fastforce
  obtain r w2 where r: "fn w1 = (r, w2)" by fastforce
  obtain g w3 where g: "take_fault w2 = (g, w3)" by fastforce
  from run f r g have "r = Inr x" "w' = w3"
    by (auto simp: txm_Run_def split: fault.splits sum.splits)
  with f r g show ?thesis using db_take_fault by metis
qed

lemma txm_Run_err:
  assumes run: "txm_Run fn w = (Inl e, w')"
  shows "db w' = db w \<or> (\<exists>w0 w1 x. db w0 = db w \<and> fn w0 = (Inr x, w1) \<and> db w' = db w1)"
proof -
  obtain f w1 where f: "take_fault w = (f, w1)" by fastforce
  obtain r w2 where r: "fn w1 = (r, w2)" by fastforce
  obtain g w3 where g: "take_fault w2 = (g, w3)" by fastforce
  from run f r g consider "db w' = db w" | x where "r = Inr x" "w' = w3"
    by (auto simp: txm_Run_def split: fault.splits sum.splits)
  then show ?thesis
  proof cases
    case 1
    then show ?thesis ..
  next
    case 2
    with f r g show ?thesis using db_take_fault by metis
  qed
qed

interpretation txm: transactional txm_Run db
  by unfold_locales (fact txm_Run_ok, fact txm_Run_err)

interpretation rtx: transactional RunTx db
  unfolding RunTx_txm_Run by (rule txm.transactional_axioms)

text \<open>What a call leaves alone: everything but the faults and the database.\<close>

lemma take_fault_world: "take_fault w = (f, w1) \<Longrightarrow> \<exists>fs. w1 = w\<lparr>faults := fs\<rparr>"
proof (cases "faults w")
  case Nil
  assume "take_fault w = (f, w1)"
  with Nil have "w1 = w\<lparr>faults := faults w\<rparr>" by (simp add: take_fault_def)
  then show ?thesis ..
next
  case (Cons g fs)
  assume "take_fault w = (f, w1)"
  with Cons have "w1 = w\<lparr>faults := fs\<rparr>" by (simp add: take_fault_def)
  then show ?thesis ..
qed

lemma sql_world:
  assumes "sql stmt w = (r, w1)"
  shows "\<exists>fs d. w1 = w\<lparr>faults := fs, db := d\<rparr>"
proof -
  obtain f w0 where tf: "take_fault w = (f, w0)" by fastforce
  obtain fs where w0: "w0 = w\<lparr>faults := fs\<rparr>" using take_fault_world [OF tf] by blast
  have "w1 = w0 \<or> (\<exists>d. w1 = w0\<lparr>db := d\<rparr>)"
    using assms tf by (cases f; cases "stmt (db w0)") (auto simp: sql_def)
  moreover have "w0 = w0\<lparr>db := db w0\<rparr>" by simp
  ultimately obtain d where "w1 = w0\<lparr>db := d\<rparr>" by metis
  with w0 show ?thesis by (intro exI [of _ fs] exI [of _ d]) simp
qed

lemma rows_Err_world:
  assumes "rows_Err w = (r, w1)"
  shows "\<exists>fs. w1 = w\<lparr>faults := fs\<rparr>"
proof -
  obtain f w0 where tf: "take_fault w = (f, w0)" by fastforce
  then have "w1 = w0" using assms by (cases f) (simp_all add: rows_Err_def)
  then show ?thesis using take_fault_world [OF tf] by simp
qed

lemma txm_Run_worlds:
  assumes "txm_Run fn w = (r, w')" "take_fault w = (f, w1)" "fn w1 = (q, w2)" "take_fault w2 = (g, w3)"
  shows "w' = w1 \<or> w' = w2\<lparr>db := db w\<rparr> \<or> w' = w3\<lparr>db := db w\<rparr> \<or> (\<exists>x. q = Inr x) \<and> w' = w3"
proof -
  have "snd (txm_Run fn w) = (case f of NoFault \<Rightarrow>
      (case q of Inl _ \<Rightarrow> w2\<lparr>db := db w\<rparr>
       | Inr _ \<Rightarrow> (case g of NoFault \<Rightarrow> w3 | FailBefore _ \<Rightarrow> w3\<lparr>db := db w\<rparr> | FailAfter _ \<Rightarrow> w3)) | _ \<Rightarrow> w1)"
    unfolding txm_Run_def assms(2) by (cases f; cases q; cases g) (simp_all add: assms(3,4))
  then have "w' = (case f of NoFault \<Rightarrow>
      (case q of Inl _ \<Rightarrow> w2\<lparr>db := db w\<rparr>
       | Inr _ \<Rightarrow> (case g of NoFault \<Rightarrow> w3 | FailBefore _ \<Rightarrow> w3\<lparr>db := db w\<rparr> | FailAfter _ \<Rightarrow> w3)) | _ \<Rightarrow> w1)"
    unfolding assms(1) snd_conv .
  then show ?thesis
    by (cases f; cases q; cases g) (simp only: fault.case sum.case, blast)+
qed

text \<open>
  A property of worlds that no fault schedule matters to holds after a transaction when it holds
  before, after a rollback and after a successful body.
\<close>

lemma txm_Run_inv:
  assumes run: "txm_Run fn w = (r, w')"
    and before: "\<And>fs. P (w\<lparr>faults := fs\<rparr>)"
    and undone: "\<And>fs q w2 gs. fn (w\<lparr>faults := fs\<rparr>) = (q, w2) \<Longrightarrow> P (w2\<lparr>faults := gs, db := db w\<rparr>)"
    and after: "\<And>fs x w2 gs. fn (w\<lparr>faults := fs\<rparr>) = (Inr x, w2) \<Longrightarrow> P (w2\<lparr>faults := gs\<rparr>)"
  shows "P w'"
proof -
  obtain f w1 where f: "take_fault w = (f, w1)" by fastforce
  obtain q w2 where q: "fn w1 = (q, w2)" by fastforce
  obtain g w3 where g: "take_fault w2 = (g, w3)" by fastforce
  obtain fs where w1: "w1 = w\<lparr>faults := fs\<rparr>" using take_fault_world [OF f] ..
  obtain gs where w3: "w3 = w2\<lparr>faults := gs\<rparr>" using take_fault_world [OF g] ..
  have w2: "w2 = w2\<lparr>faults := faults w2\<rparr>" by simp
  note q' = q [unfolded w1]
  consider "w' = w1" | "w' = w2\<lparr>db := db w\<rparr>" | "w' = w3\<lparr>db := db w\<rparr>" | x where "q = Inr x" "w' = w3"
    using txm_Run_worlds [OF run f q g] by (elim disjE conjE exE)
  then show ?thesis
  proof cases
    case 1
    then show ?thesis using before by (simp add: w1)
  next
    case 2
    have "w2\<lparr>db := db w\<rparr> = w2\<lparr>faults := faults w2, db := db w\<rparr>" by simp
    then show ?thesis unfolding 2 using undone [OF q', of "faults w2"] by (simp only:)
  next
    case 3
    then show ?thesis unfolding 3 w3 using undone [OF q'] by simp
  next
    case 4
    then show ?thesis unfolding 4(2) w3 using after [OF q' [unfolded 4(1)]] by simp
  qed
qed

lemma txm_Run_success:
  assumes run: "txm_Run fn w = (Inr x, w')"
  obtains fs gs w2 where "fn (w\<lparr>faults := fs\<rparr>) = (Inr x, w2)" "w' = w2\<lparr>faults := gs\<rparr>"
proof -
  obtain f w1 where f: "take_fault w = (f, w1)" by fastforce
  obtain q w2 where q: "fn w1 = (q, w2)" by fastforce
  obtain g w3 where g: "take_fault w2 = (g, w3)" by fastforce
  obtain fs where w1: "w1 = w\<lparr>faults := fs\<rparr>" using take_fault_world [OF f] ..
  obtain gs where w3: "w3 = w2\<lparr>faults := gs\<rparr>" using take_fault_world [OF g] ..
  have "q = Inr x \<and> w' = w3"
    using run unfolding txm_Run_def f prod.case by (cases f; cases q; cases g) (simp_all add: q g)
  then show thesis using that q w1 w3 by simp
qed

section \<open>Calls that may be retried\<close>

text \<open>
  The contract of an operation that a client may retry after any error: seen through \<open>view\<close>, a
  call either changes nothing or does what \<open>spec\<close> says, a successful call has done it, and doing
  it again changes nothing. Between two attempts the environment may change the world as long
  as the view stays.
\<close>

locale retriable =
  fixes call :: "'w \<Rightarrow> 'r result \<times> 'w"
    and view :: "'w \<Rightarrow> 's"
    and spec :: "'s \<Rightarrow> 's option"
  assumes call_atomic: "view (snd (call w)) = view w \<or> spec (view w) = Some (view (snd (call w)))"
    and call_done: "call w = (Inr x, w') \<Longrightarrow> spec (view w) = Some (view w')"
    and spec_idem: "spec s = Some t \<Longrightarrow> spec t = Some t"
begin

lemma at_most_once:
  assumes "\<forall>e\<in>set es. \<forall>w. view (e w) = view w"
  shows "view (fold (\<lambda>e w. snd (call (e w))) es w) = view w
       \<or> spec (view w) = Some (view (fold (\<lambda>e w. snd (call (e w))) es w))"
  using assms
proof (induction es arbitrary: w)
  case Nil
  then show ?case by simp
next
  case (Cons e es)
  let ?w1 = "snd (call (e w))"
  let ?v = "view (fold (\<lambda>e w. snd (call (e w))) es ?w1)"
  have e: "view (e w) = view w" using Cons.prems by simp
  have IH: "?v = view ?w1 \<or> spec (view ?w1) = Some ?v"
    using Cons by simp
  from call_atomic [of "e w"] e
  consider "view ?w1 = view w" | "spec (view w) = Some (view ?w1)" by auto
  then show ?case
  proof cases
    case 1
    with IH show ?thesis by simp
  next
    case 2
    with IH show ?thesis using spec_idem by fastforce
  qed
qed

text \<open>A retry after a success, whatever fails during it, leaves the view as the success left it.\<close>

lemma retry_after_success:
  assumes "call w = (Inr x, w1)" and "view w2 = view w1"
  shows "view (snd (call w2)) = view w1"
  using call_done [OF assms(1)] spec_idem call_atomic [of w2] assms(2) by fastforce

end

section \<open>Calls that answer a repetition from their record\<close>

text \<open>
  The contract of an operation that is idempotent by a key: from a good database a successful call
  leaves a record in the database that agrees with its answer, and a call that finds a record
  changes nothing and answers, if it answers at all, what is recorded. Calls with the same key may
  differ in their other arguments \<open>q\<close>. Whatever else happens meanwhile, a \<open>step\<close> keeps a record up to
  the changes \<open>same\<close> allows.
\<close>

locale replayable =
  fixes call :: "'q \<Rightarrow> 'w \<Rightarrow> 'r result \<times> 'w"
    and dbof :: "'w \<Rightarrow> 'd"
    and good :: "'d \<Rightarrow> bool"
    and recorded :: "'d \<Rightarrow> 'r \<Rightarrow> bool"
    and same :: "'r \<Rightarrow> 'r \<Rightarrow> bool"
    and step :: "'w \<Rightarrow> 'w \<Rightarrow> bool"
  assumes records: "good (dbof w) \<Longrightarrow> call q w = (Inr r, w') \<Longrightarrow> \<exists>s. recorded (dbof w') s \<and> same r s"
    and replay: "recorded (dbof w) s \<Longrightarrow>
      dbof (snd (call q w)) = dbof w \<and> (\<forall>r' w'. call q w = (Inr r', w') \<longrightarrow> r' = s)"
    and keeps: "step w w' \<Longrightarrow> recorded (dbof w) s \<Longrightarrow> \<exists>s'. recorded (dbof w') s' \<and> same s s'"
    and same_trans: "same r s \<Longrightarrow> same s t \<Longrightarrow> same r t"
begin

lemma same_answer:
  assumes "good (dbof w)" and "call q w = (Inr r, w1)" and "step w1 w2" and "call q' w2 = (Inr r', w3)"
  shows "same r r' \<and> recorded (dbof w2) r' \<and> dbof w3 = dbof w2"
proof -
  obtain s where s: "recorded (dbof w1) s" "same r s" using records [OF assms(1,2)] by blast
  obtain s' where s': "recorded (dbof w2) s'" "same s s'" using keeps [OF assms(3) s(1)] by blast
  have "dbof w3 = dbof w2" "r' = s'" using replay [OF s'(1), of q'] assms(4) by auto
  then show ?thesis using s' same_trans [OF s(2) s'(2)] by simp
qed

end

end
