(* ===== verification/Auth_Context.thy ===== *)
theory Auth_Context
  imports Go_Runtime
begin

text \<open>
  Authentication and authorisation (src/pkg/auth and the auth part of src/pkg/middleware): the
  identity carried by a request context, the JWT verifier and the issuer of service tokens, the
  interceptors that connect them to handlers, and the role checks the handlers call. The JWT
  package is a parameter.
\<close>

section \<open>Identities and contexts\<close>

type_synonym Role = string

definition RoleUser :: Role where "RoleUser = ''user''"
definition RoleAdmin :: Role where "RoleAdmin = ''admin''"
definition RoleService :: Role where "RoleService = ''service''"

lemmas role_defs = RoleUser_def RoleAdmin_def RoleService_def

record Identity =
  Identity_UserID :: string
  Identity_Role :: Role
  Identity_AuthorizationHeader :: string

text \<open>
  The values a request context can hold: the identity, the two legacy keys (the role key may
  hold a \<^verbatim>\<open>Role\<close>, a string or something else), the incoming \<^verbatim>\<open>authorization\<close> metadata and the
  metadata collected for outgoing calls.
\<close>

datatype ctx_value = RoleValue Role | StringValue string | OtherValue

record ctx =
  ctx_identity :: "Identity option"
  ctx_user_id :: "ctx_value option"
  ctx_role :: "ctx_value option"
  ctx_incoming :: "string list option"
  ctx_outgoing :: "(string \<times> string) list"

definition ctx_Background :: ctx where
  "ctx_Background = \<lparr>ctx_identity = None, ctx_user_id = None, ctx_role = None,
     ctx_incoming = None, ctx_outgoing = []\<rparr>"

definition WithIdentity :: "ctx \<Rightarrow> Identity \<Rightarrow> ctx" where
  "WithIdentity c i = c\<lparr>ctx_identity := Some i\<rparr>"

definition IdentityFromContext :: "ctx \<Rightarrow> Identity option" where
  "IdentityFromContext c = ctx_identity c"

definition GetUserID :: "ctx \<Rightarrow> string \<times> bool" where
  "GetUserID c =
     (case IdentityFromContext c of
        Some i \<Rightarrow> (Identity_UserID i, True)
      | None \<Rightarrow> (case ctx_user_id c of Some (StringValue v) \<Rightarrow> (v, True) | _ \<Rightarrow> ('''', False)))"

definition GetRole :: "ctx \<Rightarrow> Role \<times> bool" where
  "GetRole c =
     (case IdentityFromContext c of
        Some i \<Rightarrow> (Identity_Role i, True)
      | None \<Rightarrow>
          (case ctx_role c of
             None \<Rightarrow> (RoleUser, False)
           | Some (RoleValue r) \<Rightarrow> (r, True)
           | Some (StringValue r) \<Rightarrow> (r, True)
           | Some OtherValue \<Rightarrow> (RoleUser, False)))"

text \<open>\<open>None\<close> is Go's nil error: the role is allowed.\<close>

definition RequireRole :: "ctx \<Rightarrow> Role list \<Rightarrow> go_error option" where
  "RequireRole c allowed =
     (case GetRole c of
        (role, ok) \<Rightarrow>
          if \<not> ok then Some (StatusErr codes_PermissionDenied ''missing role'')
          else if list_ex (\<lambda>a. role = a) allowed then None
          else Some (StatusErr codes_PermissionDenied (''role '' @ role @ '' not allowed'')))"

definition isPublicEndpoint :: "string \<Rightarrow> bool" where
  "isPublicEndpoint method =
     list_ex (\<lambda>p. method = p)
       [''/user.v1.UserService/Register'',
        ''/user.v1.UserService/Login'',
        ''/grpc.health.v1.Health/Check'',
        ''/catalog.v1.CatalogService/GetProduct'',
        ''/catalog.v1.CatalogService/ListProducts'',
        ''/catalog.v1.CatalogService/SearchProducts'']"

lemma RequireRole_None:
  "RequireRole c allowed = None \<longleftrightarrow> snd (GetRole c) \<and> fst (GetRole c) \<in> set allowed"
  by (auto simp: RequireRole_def list_ex_iff split: prod.splits)

lemma GetRole_WithIdentity [simp]: "GetRole (WithIdentity c i) = (Identity_Role i, True)"
  by (simp add: GetRole_def WithIdentity_def IdentityFromContext_def)

lemma GetUserID_WithIdentity [simp]: "GetUserID (WithIdentity c i) = (Identity_UserID i, True)"
  by (simp add: GetUserID_def WithIdentity_def IdentityFromContext_def)

section \<open>Tokens\<close>

record CustomClaims =
  Subject :: string
  Issuer :: string
  Audience :: "string list"
  JWT_ID :: string
  NotBefore :: "int option"
  IssuedAt :: "int option"
  ExpiresAt :: "int option"
  Claims_Role :: string

text \<open>
  The package golang-jwt: signing with HS256, parsing with a key function (it sees whether the
  token's method is an HMAC and the algorithm's name), and its time stamps of second precision.
  Times are in nanoseconds.
\<close>

record jwt_Token =
  Token_Valid :: bool
  Token_Claims :: CustomClaims

type_synonym keyfunc = "bool \<Rightarrow> string \<Rightarrow> string result"

record jwt_lib =
  jwt_SignedString :: "CustomClaims \<Rightarrow> string \<Rightarrow> string result"
  jwt_ParseWithClaims :: "string \<Rightarrow> keyfunc \<Rightarrow> int \<Rightarrow> jwt_Token \<times> go_error option"
  jwt_NewNumericDate :: "int \<Rightarrow> int"

definition time_valid :: "int \<Rightarrow> CustomClaims \<Rightarrow> bool" where
  "time_valid now c \<longleftrightarrow>
     (case ExpiresAt c of None \<Rightarrow> True | Some t \<Rightarrow> now < t) \<and>
     (case NotBefore c of None \<Rightarrow> True | Some t \<Rightarrow> t \<le> now)"

text \<open>
  The documented behaviour the services rely on: a token signed with a secret parses without
  error under that secret while its claims are in time, and yields the claims it was made of;
  a \<^verbatim>\<open>NumericDate\<close> is the time truncated to seconds.
\<close>

definition jwt_lib_ok :: "jwt_lib \<Rightarrow> bool" where
  "jwt_lib_ok J \<longleftrightarrow>
     (\<forall>c secret tok kf now. jwt_SignedString J c secret = Inr tok \<longrightarrow>
        kf True ''HS256'' = Inr secret \<longrightarrow> time_valid now c \<longrightarrow>
        jwt_ParseWithClaims J tok kf now = (\<lparr>Token_Valid = True, Token_Claims = c\<rparr>, None)) \<and>
     (\<forall>t. jwt_NewNumericDate J t \<le> t \<and> t < jwt_NewNumericDate J t + 1000000000)"

definition audienceContains :: "string list \<Rightarrow> string \<Rightarrow> bool" where
  "audienceContains aud target = list_ex (\<lambda>a. a = target) aud"

definition hmac_keyfunc :: "string \<Rightarrow> keyfunc" where
  "hmac_keyfunc secret is_hmac alg =
     (if \<not> is_hmac then Inl (StdErr (''unexpected signing method: '' @ alg)) else Inr secret)"

definition parseJWT :: "jwt_lib \<Rightarrow> int \<Rightarrow> string \<Rightarrow> string \<Rightarrow> string \<Rightarrow> string \<Rightarrow> CustomClaims result" where
  "parseJWT J now tokenStr secret issuer audience =
     (case jwt_ParseWithClaims J tokenStr (hmac_keyfunc secret) now of
        (token, err) \<Rightarrow>
          (case err of
             Some e \<Rightarrow> Inl (errorf ''invalid token'' e)
           | None \<Rightarrow>
               if \<not> Token_Valid token then Inl (StdErr ''invalid token: %!w(<nil>)'')
               else (let claims = Token_Claims token in
                 if Subject claims = '''' then Inl (StdErr ''missing subject in token'')
                 else if Issuer claims \<noteq> issuer then Inl (StdErr ''invalid token issuer'')
                 else if \<not> audienceContains (Audience claims) audience
                   then Inl (StdErr ''invalid token audience'')
                 else if JWT_ID claims = '''' then Inl (StdErr ''missing token id'')
                 else if (case NotBefore claims of None \<Rightarrow> False | Some t \<Rightarrow> now < t)
                   then Inl (StdErr ''token not valid yet'')
                 else if (case ExpiresAt claims of None \<Rightarrow> False | Some t \<Rightarrow> t < now)
                   then Inl (StdErr ''token expired'')
                 else if Claims_Role claims = '''' then Inr (claims\<lparr>Claims_Role := RoleUser\<rparr>)
                 else Inr claims)))"

definition ParseJWT :: "jwt_lib \<Rightarrow> int \<Rightarrow> string \<Rightarrow> string \<Rightarrow> CustomClaims result" where
  "ParseJWT J now tokenStr secret = parseJWT J now tokenStr secret ''go-ozon-marketplace'' ''api-gateway''"

definition ParseBearer :: "jwt_lib \<Rightarrow> int \<Rightarrow> string \<Rightarrow> string \<Rightarrow> CustomClaims result" where
  "ParseBearer J now bearer secret =
     (let tokenStr = strings_TrimPrefix bearer ''Bearer '' in
      if tokenStr = bearer then Inl (StdErr ''invalid authorization header format'')
      else ParseJWT J now tokenStr secret)"

record JWTVerifier =
  Verifier_secret :: string
  Verifier_issuer :: string
  Verifier_audience :: string

type_synonym VerifyOption = "JWTVerifier \<Rightarrow> JWTVerifier"

definition WithIssuer :: "string \<Rightarrow> VerifyOption" where
  "WithIssuer issuer v = v\<lparr>Verifier_issuer := issuer\<rparr>"

definition WithAudience :: "string \<Rightarrow> VerifyOption" where
  "WithAudience audience v = v\<lparr>Verifier_audience := audience\<rparr>"

definition NewJWTVerifier :: "string \<Rightarrow> VerifyOption list \<Rightarrow> JWTVerifier" where
  "NewJWTVerifier secret opts =
     fold (\<lambda>opt v. opt v) opts
       \<lparr>Verifier_secret = secret, Verifier_issuer = ''go-ozon-marketplace'',
        Verifier_audience = ''api-gateway''\<rparr>"

type_synonym verify_fn = "int \<Rightarrow> string \<Rightarrow> Identity result"

definition Verify :: "jwt_lib \<Rightarrow> JWTVerifier \<Rightarrow> verify_fn" where
  "Verify J v now token =
     (case parseJWT J now token (Verifier_secret v) (Verifier_issuer v) (Verifier_audience v) of
        Inl err \<Rightarrow> Inl err
      | Inr claims \<Rightarrow> Inr \<lparr>Identity_UserID = Subject claims, Identity_Role = Claims_Role claims,
                         Identity_AuthorizationHeader = ''''\<rparr>)"

record ServiceTokenIssuer =
  Issuer_secret :: string
  Issuer_subject :: string
  Issuer_audience :: string

definition hour :: int where
  "hour = 3600 * 1000000000"

definition Issue ::
  "jwt_lib \<Rightarrow> uuid_lib \<Rightarrow> ServiceTokenIssuer \<Rightarrow> ('db, 'x) world_scheme \<Rightarrow>
   string result \<times> ('db, 'x) world_scheme" where
  "Issue J L i w =
     (case uuid_New w of
        (u, w1) \<Rightarrow>
          (case jwt_SignedString J
                  \<lparr>Subject = Issuer_subject i, Issuer = ''go-ozon-marketplace'',
                   Audience = [Issuer_audience i], JWT_ID = uuid_String L u, NotBefore = None, IssuedAt = None,
                   ExpiresAt = Some (jwt_NewNumericDate J (clock w1 + hour)),
                   Claims_Role = RoleService\<rparr>
                  (Issuer_secret i) of
             Inl err \<Rightarrow> (Inl (errorf ''sign service token'' err), w1)
           | Inr tok \<Rightarrow> (Inr (''Bearer '' @ tok), w1)))"

section \<open>Interceptors\<close>

type_synonym ('req, 'resp, 'w) handler = "ctx \<Rightarrow> 'req \<Rightarrow> 'w \<Rightarrow> 'resp result \<times> 'w"

definition AuthUnaryInterceptor ::
  "verify_fn \<Rightarrow> string \<Rightarrow> ('req, 'resp, ('db, 'x) world_scheme) handler \<Rightarrow>
   ('req, 'resp, ('db, 'x) world_scheme) handler" where
  "AuthUnaryInterceptor verify method handler c req w =
     (if isPublicEndpoint method then handler c req w
      else (case ctx_incoming c of
              None \<Rightarrow> (Inl (StatusErr codes_Unauthenticated ''missing metadata''), w)
            | Some [] \<Rightarrow> (Inl (StatusErr codes_Unauthenticated ''missing authorization header''), w)
            | Some (h # _) \<Rightarrow>
                (case verify (clock w) (strings_TrimPrefix h ''Bearer '') of
                   Inl err \<Rightarrow>
                     (Inl (StatusErr codes_Unauthenticated (''invalid token: '' @ err_Error err)), w)
                 | Inr identity \<Rightarrow> handler (WithIdentity c identity) req w)))"

text \<open>The HTTP middleware answers 401 itself or calls the next handler.\<close>

definition AuthHTTP ::
  "verify_fn \<Rightarrow> (ctx \<Rightarrow> ('db, 'x) world_scheme \<Rightarrow> int \<times> ('db, 'x) world_scheme) \<Rightarrow> string \<Rightarrow>
   ctx \<Rightarrow> ('db, 'x) world_scheme \<Rightarrow> int \<times> ('db, 'x) world_scheme" where
  "AuthHTTP verify nxt authHeader c w =
     (if authHeader = '''' then nxt c w
      else (case verify (clock w) (strings_TrimPrefix authHeader ''Bearer '') of
              Inl err \<Rightarrow> (401, w)
            | Inr identity \<Rightarrow>
                nxt (WithIdentity c (identity\<lparr>Identity_AuthorizationHeader := authHeader\<rparr>)) w))"

definition ServiceAuthInterceptor ::
  "('w \<Rightarrow> string result \<times> 'w) \<Rightarrow> ('req, 'resp, 'w) handler \<Rightarrow> ('req, 'resp, 'w) handler" where
  "ServiceAuthInterceptor issue invoker c req w =
     (case issue w of
        (Inl err, w1) \<Rightarrow> (Inl err, w1)
      | (Inr token, w1) \<Rightarrow>
          invoker (c\<lparr>ctx_outgoing := ctx_outgoing c @ [(''authorization'', token)]\<rparr>) req w1)"

definition UserAuthInterceptor ::
  "('req, 'resp, 'w) handler \<Rightarrow> ('req, 'resp, 'w) handler" where
  "UserAuthInterceptor invoker c req w =
     (case IdentityFromContext c of
        Some i \<Rightarrow>
          if Identity_AuthorizationHeader i \<noteq> ''''
          then invoker (c\<lparr>ctx_outgoing := ctx_outgoing c @
                 [(''authorization'', Identity_AuthorizationHeader i)]\<rparr>) req w
          else invoker c req w
      | None \<Rightarrow> invoker c req w)"

end
