(* ===== verification/Go_Std.thy ===== *)
theory Go_Std
  imports Go_Runtime
begin

text \<open>
  Parts of the Go standard library the services call: JSON values as \<^verbatim>\<open>encoding/json\<close> reads and
  writes them, and the RFC 3339 format of \<^verbatim>\<open>time.Time\<close>. The Redis client, an external package,
  is a record of functions on an abstract state.
\<close>

section \<open>JSON\<close>

text \<open>
  A JSON text is represented by its syntax tree; \<open>JInvalid\<close> stands for a text that is not JSON.
  An object keeps the order of its members.
\<close>

datatype json =
    JNull | JBool bool | JNum int | JStr string | JArr "json list"
  | JObj "(string \<times> json) list" | JInvalid

text \<open>
  Decoding an object into a struct: members are taken in order, \<open>null\<close> leaves a field alone,
  unknown members are skipped, names are compared without regard to case and a value of the
  wrong type is an error.
\<close>

definition EqualFold :: "string \<Rightarrow> string \<Rightarrow> bool" where
  "EqualFold s t = (strings_ToLower s = strings_ToLower t)"

lemma EqualFold_refl [simp]: "EqualFold s s"
  by (simp add: EqualFold_def)

lemma EqualFold_length: "length s \<noteq> length t \<Longrightarrow> \<not> EqualFold s t"
  unfolding EqualFold_def strings_ToLower_def by (metis length_map)

fun json_fields :: "(string \<Rightarrow> json \<Rightarrow> 's \<Rightarrow> 's result) \<Rightarrow> (string \<times> json) list \<Rightarrow> 's \<Rightarrow> 's result" where
  "json_fields put [] s = Inr s"
| "json_fields put ((k, v) # kvs) s =
     (case (if v = JNull then Inr s else put k v s) of
        Inl e \<Rightarrow> Inl e
      | Inr s' \<Rightarrow> json_fields put kvs s')"

definition json_object :: "(string \<Rightarrow> json \<Rightarrow> 's \<Rightarrow> 's result) \<Rightarrow> json \<Rightarrow> 's \<Rightarrow> 's result" where
  "json_object put j s =
     (case j of
        JObj kvs \<Rightarrow> json_fields put kvs s
      | JNull \<Rightarrow> Inr s
      | _ \<Rightarrow> Inl (StdErr ''json: cannot unmarshal''))"

definition json_type_error :: "'a result" where
  "json_type_error = Inl (StdErr ''json: cannot unmarshal field'')"

section \<open>Time stamps\<close>

text \<open>
  Instants are nanoseconds since the Unix epoch, in UTC. \<open>civil\<close> is the proleptic Gregorian
  date of a day number.
\<close>

definition civil :: "int \<Rightarrow> int \<times> int \<times> int" where
  "civil days =
     (let z = days + 719468;
          era = z div 146097;
          doe = z mod 146097;
          yoe = (doe - doe div 1460 + doe div 36524 - doe div 146096) div 365;
          doy = doe - (365 * yoe + yoe div 4 - yoe div 100);
          mp = (5 * doy + 2) div 153;
          d = doy - (153 * mp + 2) div 5 + 1;
          m = (if mp < 10 then mp + 3 else mp - 9);
          y = yoe + era * 400 + (if m \<le> 2 then 1 else 0)
      in (y, m, d))"

definition pad :: "nat \<Rightarrow> int \<Rightarrow> string" where
  "pad n k = (let s = int_str k in replicate (n - length s) (CHR ''0'') @ s)"

definition time_RFC3339 :: "int \<Rightarrow> string" where
  "time_RFC3339 t =
     (let secs = t div 1000000000;
          sod = secs mod 86400
      in case civil (secs div 86400) of
           (y, m, d) \<Rightarrow>
             pad 4 y @ ''-'' @ pad 2 m @ ''-'' @ pad 2 d @ ''T'' @ pad 2 (sod div 3600) @ '':'' @
             pad 2 (sod div 60 mod 60) @ '':'' @ pad 2 (sod mod 60) @ ''Z'')"

lemma time_RFC3339_example: "time_RFC3339 (1700000000 * 1000000000) = ''2023-11-14T22:13:20Z''"
  by code_simp

text \<open>\<^verbatim>\<open>time.Time\<close> marshals itself to JSON with a fraction without trailing zeros.\<close>

definition time_RFC3339Nano :: "int \<Rightarrow> string" where
  "time_RFC3339Nano t =
     (let ns = t mod 1000000000;
          frac = rev (dropWhile (\<lambda>c. c = CHR ''0'') (rev (pad 9 ns)))
      in butlast (time_RFC3339 t) @ (if ns = 0 then '''' else ''.'' @ frac) @ ''Z'')"

text \<open>\<^verbatim>\<open>time.Time{}\<close> is the first instant of the year 1.\<close>

definition time_zero :: int where "time_zero = - 62135596800 * 1000000000"

definition second :: int where "second = 1000000000"
definition millisecond :: int where "millisecond = 1000000"
definition minute :: int where "minute = 60 * second"

section \<open>PostgreSQL types\<close>

text \<open>
  PostgreSQL keeps microseconds, and \<open>varchar(n)\<close> counts characters, of which every byte but a
  continuation byte starts one.
\<close>

definition pg_timestamp :: "int \<Rightarrow> int" where
  "pg_timestamp t = t div 1000 * 1000"

lemma pg_timestamp_idem [simp]: "pg_timestamp (pg_timestamp t) = pg_timestamp t"
  by (simp add: pg_timestamp_def)

definition utf8_length :: "string \<Rightarrow> nat" where
  "utf8_length s = length (filter (\<lambda>c. (of_char c :: nat) < 128 \<or> 192 \<le> (of_char c :: nat)) s)"

section \<open>UTF-8\<close>

text \<open>
  \<^verbatim>\<open>encoding/json\<close> writes a string with every byte that is not part of a valid UTF-8 sequence
  replaced by the three bytes of U+FFFD. \<open>utf8_rune s\<close> is the length of the valid sequence \<open>s\<close>
  begins with, 0 if there is none.
\<close>

definition byte_in :: "nat \<Rightarrow> nat \<Rightarrow> char \<Rightarrow> bool" where
  "byte_in lo hi c \<longleftrightarrow> lo \<le> (of_char c :: nat) \<and> (of_char c :: nat) \<le> hi"

definition utf8_second :: "char \<Rightarrow> char \<Rightarrow> bool" where
  "utf8_second c d =
     (if byte_in 224 224 c then byte_in 160 191 d
      else if byte_in 237 237 c then byte_in 128 159 d
      else if byte_in 240 240 c then byte_in 144 191 d
      else if byte_in 244 244 c then byte_in 128 143 d
      else byte_in 128 191 d)"

definition utf8_rune :: "string \<Rightarrow> nat" where
  "utf8_rune s =
     (case s of
        [] \<Rightarrow> 0
      | c # ds \<Rightarrow>
          (let n = (if byte_in 0 127 c then 1 else if byte_in 194 223 c then 2
                    else if byte_in 224 239 c then 3 else if byte_in 240 244 c then 4 else 0)
           in if n \<le> length s \<and> (1 < n \<longrightarrow> utf8_second c (hd ds)) \<and> list_all (byte_in 128 191) (take (n - 2) (drop 2 s))
              then n else 0))"

function utf8_coerce :: "string \<Rightarrow> string" where
  "utf8_coerce s =
     (if s = [] then []
      else if utf8_rune s = 0 then [CHR 0xEF, CHR 0xBF, CHR 0xBD] @ utf8_coerce (tl s)
      else take (utf8_rune s) s @ utf8_coerce (drop (utf8_rune s) s))"
  by pat_completeness auto
termination
  by (relation "measure length") (auto simp: length_greater_0_conv)

declare utf8_coerce.simps [simp del]

definition utf8_valid :: "string \<Rightarrow> bool" where
  "utf8_valid s \<longleftrightarrow> utf8_coerce s = s"

lemma utf8_coerce_ascii: "list_all (byte_in 0 127) s \<Longrightarrow> utf8_coerce s = s"
proof (induction s)
  case (Cons c s)
  then have "utf8_rune (c # s) = 1" by (simp add: utf8_rune_def)
  then show ?case using Cons by (simp add: utf8_coerce.simps [of "c # s"])
qed (simp add: utf8_coerce.simps)

section \<open>The Redis client\<close>

text \<open>
  \<open>Get\<close>, \<open>Set\<close> with a time to live and \<open>Publish\<close>, as functions of the state of the server and of
  the connection. Any of them may fail.
\<close>

record 'c redis_client =
  redis_Get :: "string \<Rightarrow> int \<Rightarrow> 'c \<Rightarrow> json result \<times> 'c"
  redis_Set :: "string \<Rightarrow> json \<Rightarrow> int \<Rightarrow> int \<Rightarrow> 'c \<Rightarrow> go_error option \<times> 'c"
  redis_Publish :: "string \<Rightarrow> json \<Rightarrow> 'c \<Rightarrow> 'c"

end
