(* ===== verification/Inventory_Model.thy ===== *)
theory Inventory_Model
  imports Auth_Context Go_Std
begin

text \<open>
  The inventory service (src/services/inventory-service): its tables, the statements of the
  PostgreSQL repository, the use case with its Redis cache, and the gRPC handlers.
\<close>

section \<open>Data\<close>

record Stock =
  Stock_ProductID :: uuid
  Stock_Available :: int
  Stock_Reserved :: int

record ReservationRow =
  Reservation_Quantity :: int
  Reservation_Status :: string

record LedgerEntry =
  Ledger_ID :: uuid
  Ledger_ProductID :: uuid
  Ledger_OrderID :: "uuid option"
  Ledger_QuantityChange :: int
  Ledger_OperationType :: string
  Ledger_CreatedAt :: int

text \<open>The tables: inventory by product, reservations by (order, product), and the ledger.\<close>

record inventory_row =
  row_available :: int
  row_reserved :: int

record inv_db =
  inventory :: "uuid \<rightharpoonup> inventory_row"
  reservations :: "uuid \<times> uuid \<rightharpoonup> ReservationRow"
  inventory_ledger :: "LedgerEntry list"

record 'c inv_world = "inv_db world" +
  inv_redis :: "'c redis_client option"
  inv_cache :: 'c

definition ledgerOpReserve :: string where
  "ledgerOpReserve = ''LEDGER_OPERATION_RESERVE''"

definition ledgerOpRelease :: string where
  "ledgerOpRelease = ''LEDGER_OPERATION_RELEASE''"

definition cacheTTL :: int where
  "cacheTTL = 5 * minute"

section \<open>Statements of the repository\<close>

text \<open>
  Integer parameters are bound to \<^verbatim>\<open>INT\<close> columns: a value outside the 32-bit range is an error,
  as is a row that violates a \<^verbatim>\<open>CHECK\<close> constraint of the migrations.
\<close>

definition stmt_GetStock :: "uuid \<Rightarrow> (inv_db, Stock) stmt" where
  "stmt_GetStock productID =
     query_row (\<lambda>d. map_option (\<lambda>r. \<lparr>Stock_ProductID = productID, Stock_Available = row_available r,
                                      Stock_Reserved = row_reserved r\<rparr>) (inventory d productID))"

definition stmt_InsertReservation :: "uuid \<Rightarrow> uuid \<Rightarrow> int \<Rightarrow> (inv_db, int) stmt" where
  "stmt_InsertReservation orderID productID quantity d =
     (if \<not> int4_ok quantity then Inl (StdErr ''value is out of range for int4'')
      else if \<not> quantity > 0 then Inl (StdErr ''violates check constraint reservations_quantity_check'')
      else (case reservations d (orderID, productID) of
              Some _ \<Rightarrow> Inr (0, d)
            | None \<Rightarrow> Inr (1, d\<lparr>reservations := (reservations d)((orderID, productID) \<mapsto>
                 \<lparr>Reservation_Quantity = quantity, Reservation_Status = ''reserved''\<rparr>)\<rparr>)))"

definition stmt_SelectReservation :: "uuid \<Rightarrow> uuid \<Rightarrow> (inv_db, ReservationRow) stmt" where
  "stmt_SelectReservation orderID productID = query_row (\<lambda>d. reservations d (orderID, productID))"

definition stmt_UpdateReservationStatus :: "uuid \<Rightarrow> uuid \<Rightarrow> string \<Rightarrow> (inv_db, int) stmt" where
  "stmt_UpdateReservationStatus orderID productID status d =
     (if length status > 20 then Inl (StdErr ''value too long for type character varying(20)'')
      else (case reservations d (orderID, productID) of
              None \<Rightarrow> Inr (0, d)
            | Some r \<Rightarrow> Inr (1, d\<lparr>reservations := (reservations d)((orderID, productID) \<mapsto>
                 r\<lparr>Reservation_Status := status\<rparr>)\<rparr>)))"

text \<open>An update of an inventory row, with the column type and the checks of the table.\<close>

definition put_inventory :: "uuid \<Rightarrow> int \<Rightarrow> int \<Rightarrow> (inv_db, int) stmt" where
  "put_inventory productID a r d =
     (if \<not> int4_ok a \<or> \<not> int4_ok r then Inl (StdErr ''integer out of range'')
      else if a < 0 then Inl (StdErr ''violates check constraint chk_inventory_available'')
      else if r < 0 then Inl (StdErr ''violates check constraint chk_inventory_reserved'')
      else Inr (1, d\<lparr>inventory := (inventory d)(productID \<mapsto> \<lparr>row_available = a, row_reserved = r\<rparr>)\<rparr>))"

definition stmt_UpdateStockForReserve :: "uuid \<Rightarrow> int \<Rightarrow> (inv_db, int) stmt" where
  "stmt_UpdateStockForReserve productID quantity d =
     (if \<not> int4_ok quantity then Inl (StdErr ''value is out of range for int4'')
      else (case inventory d productID of
              None \<Rightarrow> Inr (0, d)
            | Some r \<Rightarrow>
                if row_available r \<ge> quantity
                then put_inventory productID (row_available r - quantity) (row_reserved r + quantity) d
                else Inr (0, d)))"

definition stmt_UpdateStockForRelease :: "uuid \<Rightarrow> int \<Rightarrow> (inv_db, int) stmt" where
  "stmt_UpdateStockForRelease productID quantity d =
     (if \<not> int4_ok quantity then Inl (StdErr ''value is out of range for int4'')
      else (case inventory d productID of
              None \<Rightarrow> Inr (0, d)
            | Some r \<Rightarrow>
                if row_reserved r \<ge> quantity
                then put_inventory productID (row_available r + quantity) (row_reserved r - quantity) d
                else Inr (0, d)))"

text \<open>The ledger row's id and time are the column defaults.\<close>

definition stmt_InsertLedger ::
  "uuid \<Rightarrow> int \<Rightarrow> uuid \<Rightarrow> uuid \<Rightarrow> int \<Rightarrow> string \<Rightarrow> (inv_db, int) stmt" where
  "stmt_InsertLedger newID now productID orderID quantityChange operationType d =
     (if \<not> int4_ok quantityChange then Inl (StdErr ''value is out of range for int4'')
      else if length operationType > 50 then Inl (StdErr ''value too long for type character varying(50)'')
      else if list_ex (\<lambda>e. Ledger_ID e = newID) (inventory_ledger d)
        then Inl (StdErr ''duplicate key value violates unique constraint inventory_ledger_pkey'')
      else Inr (1, d\<lparr>inventory_ledger := inventory_ledger d @
             [\<lparr>Ledger_ID = newID, Ledger_ProductID = productID, Ledger_OrderID = Some orderID,
               Ledger_QuantityChange = quantityChange, Ledger_OperationType = operationType,
               Ledger_CreatedAt = now\<rparr>]\<rparr>))"

text \<open>\<^verbatim>\<open>ORDER BY created_at DESC\<close>; rows of equal time keep the order they were inserted in.\<close>

definition stmt_GetLedger :: "uuid \<Rightarrow> (inv_db, LedgerEntry list) stmt" where
  "stmt_GetLedger productID =
     query_rows (\<lambda>d. sort_key (\<lambda>e. - Ledger_CreatedAt e)
       (filter (\<lambda>e. Ledger_ProductID e = productID) (inventory_ledger d)))"

section \<open>The repository\<close>

type_synonym ('c, 'x) iw = "('c, 'x) inv_world_scheme"

definition InventoryPostgres_GetStock :: "uuid \<Rightarrow> ('c, 'x) iw \<Rightarrow> Stock result \<times> ('c, 'x) iw" where
  "InventoryPostgres_GetStock productID w =
     (case sql (stmt_GetStock productID) w of
        (Inl err, w1) \<Rightarrow>
          if errors_Is err ErrNoRows then (Inl (sentinelf ErrNotFound ''stock''), w1)
          else (Inl (errorf ''get stock'' err), w1)
      | (Inr stock, w1) \<Rightarrow> (Inr stock, w1))"

definition InventoryPostgres_InsertReservation ::
  "uuid \<Rightarrow> uuid \<Rightarrow> int \<Rightarrow> ('c, 'x) iw \<Rightarrow> int result \<times> ('c, 'x) iw" where
  "InventoryPostgres_InsertReservation orderID productID quantity w =
     (case sql (stmt_InsertReservation orderID productID quantity) w of
        (Inl err, w1) \<Rightarrow> (Inl (errorf ''insert reservation'' err), w1)
      | (Inr n, w1) \<Rightarrow> (Inr n, w1))"

definition InventoryPostgres_SelectReservation ::
  "uuid \<Rightarrow> uuid \<Rightarrow> ('c, 'x) iw \<Rightarrow> ReservationRow result \<times> ('c, 'x) iw" where
  "InventoryPostgres_SelectReservation orderID productID w =
     (case sql (stmt_SelectReservation orderID productID) w of
        (Inl err, w1) \<Rightarrow>
          if errors_Is err ErrNoRows then (Inl (sentinelf ErrNotFound ''reservation not found''), w1)
          else (Inl (errorf ''select reservation'' err), w1)
      | (Inr row, w1) \<Rightarrow> (Inr row, w1))"

text \<open>\<^verbatim>\<open>FOR UPDATE\<close> also locks the row until the transaction ends.\<close>

definition InventoryPostgres_SelectReservationForUpdate ::
  "uuid \<Rightarrow> uuid \<Rightarrow> ('c, 'x) iw \<Rightarrow> ReservationRow result \<times> ('c, 'x) iw" where
  "InventoryPostgres_SelectReservationForUpdate orderID productID w =
     (case sql (stmt_SelectReservation orderID productID) w of
        (Inl err, w1) \<Rightarrow>
          if errors_Is err ErrNoRows then (Inl (sentinelf ErrNotFound ''reservation not found''), w1)
          else (Inl (errorf ''select reservation'' err), w1)
      | (Inr row, w1) \<Rightarrow> (Inr row, w1))"

definition InventoryPostgres_UpdateReservationStatus ::
  "uuid \<Rightarrow> uuid \<Rightarrow> string \<Rightarrow> ('c, 'x) iw \<Rightarrow> unit result \<times> ('c, 'x) iw" where
  "InventoryPostgres_UpdateReservationStatus orderID productID status w =
     (case sql (stmt_UpdateReservationStatus orderID productID status) w of
        (Inl err, w1) \<Rightarrow> (Inl (errorf ''update reservation status'' err), w1)
      | (Inr _, w1) \<Rightarrow> (Inr (), w1))"

definition InventoryPostgres_UpdateStockForReserve ::
  "uuid \<Rightarrow> int \<Rightarrow> ('c, 'x) iw \<Rightarrow> int result \<times> ('c, 'x) iw" where
  "InventoryPostgres_UpdateStockForReserve productID quantity w =
     (case sql (stmt_UpdateStockForReserve productID quantity) w of
        (Inl err, w1) \<Rightarrow> (Inl (errorf ''update stock'' err), w1)
      | (Inr n, w1) \<Rightarrow> (Inr n, w1))"

definition InventoryPostgres_UpdateStockForRelease ::
  "uuid \<Rightarrow> int \<Rightarrow> ('c, 'x) iw \<Rightarrow> int result \<times> ('c, 'x) iw" where
  "InventoryPostgres_UpdateStockForRelease productID quantity w =
     (case sql (stmt_UpdateStockForRelease productID quantity) w of
        (Inl err, w1) \<Rightarrow> (Inl (errorf ''update stock'' err), w1)
      | (Inr n, w1) \<Rightarrow> (Inr n, w1))"

definition InventoryPostgres_InsertLedger ::
  "uuid \<Rightarrow> uuid \<Rightarrow> int \<Rightarrow> string \<Rightarrow> ('c, 'x) iw \<Rightarrow> unit result \<times> ('c, 'x) iw" where
  "InventoryPostgres_InsertLedger productID orderID quantityChange operationType w =
     (case uuid_New w of
        (newID, w0) \<Rightarrow>
          (case sql (stmt_InsertLedger newID (clock w0) productID orderID quantityChange operationType) w0 of
             (Inl err, w1) \<Rightarrow> (Inl (errorf ''insert ledger'' err), w1)
           | (Inr _, w1) \<Rightarrow> (Inr (), w1)))"

definition InventoryPostgres_GetLedger ::
  "uuid \<Rightarrow> ('c, 'x) iw \<Rightarrow> LedgerEntry list result \<times> ('c, 'x) iw" where
  "InventoryPostgres_GetLedger productID w =
     (case sql (stmt_GetLedger productID) w of
        (Inl err, w1) \<Rightarrow> (Inl (errorf ''get ledger'' err), w1)
      | (Inr entries, w1) \<Rightarrow>
          (case rows_Err w1 of
             (Inl err, w2) \<Rightarrow> (Inl (errorf ''ledger rows err'' err), w2)
           | (Inr _, w2) \<Rightarrow> (Inr entries, w2)))"

section \<open>The use case\<close>

definition cacheKey :: "uuid_lib \<Rightarrow> uuid \<Rightarrow> string" where
  "cacheKey L productID = ''inventory:'' @ uuid_String L productID"

text \<open>\<^verbatim>\<open>json.Marshal\<close> and \<^verbatim>\<open>json.Unmarshal\<close> of \<^verbatim>\<open>domain.Stock\<close>, which has no JSON tags.\<close>

definition Stock_Marshal :: "uuid_lib \<Rightarrow> Stock \<Rightarrow> json" where
  "Stock_Marshal L s =
     JObj [(''ProductID'', JStr (uuid_String L (Stock_ProductID s))),
           (''Available'', JNum (Stock_Available s)),
           (''Reserved'', JNum (Stock_Reserved s))]"

definition Stock_field :: "uuid_lib \<Rightarrow> string \<Rightarrow> json \<Rightarrow> Stock \<Rightarrow> Stock result" where
  "Stock_field L k v s =
     (if EqualFold k ''ProductID'' then
        (case v of
           JStr t \<Rightarrow> (case uuid_Parse L t of Inl e \<Rightarrow> Inl e | Inr u \<Rightarrow> Inr (s\<lparr>Stock_ProductID := u\<rparr>))
         | _ \<Rightarrow> json_type_error)
      else if EqualFold k ''Available'' then
        (case v of JNum n \<Rightarrow> if int8_ok n then Inr (s\<lparr>Stock_Available := n\<rparr>) else json_type_error
         | _ \<Rightarrow> json_type_error)
      else if EqualFold k ''Reserved'' then
        (case v of JNum n \<Rightarrow> if int8_ok n then Inr (s\<lparr>Stock_Reserved := n\<rparr>) else json_type_error
         | _ \<Rightarrow> json_type_error)
      else Inr s)"

definition Stock_Unmarshal :: "uuid_lib \<Rightarrow> json \<Rightarrow> Stock result" where
  "Stock_Unmarshal L j =
     json_object (Stock_field L) j \<lparr>Stock_ProductID = uuid_Nil, Stock_Available = 0, Stock_Reserved = 0\<rparr>"

text \<open>The Redis commands, on the client of the world; \<open>None\<close> is the nil client.\<close>

definition redis_get :: "string \<Rightarrow> ('c, 'x) iw \<Rightarrow> json result \<times> ('c, 'x) iw" where
  "redis_get key w =
     (case inv_redis w of
        None \<Rightarrow> (Inl (StdErr ''redis: nil''), w)
      | Some R \<Rightarrow> (case redis_Get R key (clock w) (inv_cache w) of (r, c) \<Rightarrow> (r, w\<lparr>inv_cache := c\<rparr>)))"

definition redis_set :: "string \<Rightarrow> json \<Rightarrow> int \<Rightarrow> ('c, 'x) iw \<Rightarrow> ('c, 'x) iw" where
  "redis_set key v ttl w =
     (case inv_redis w of
        None \<Rightarrow> w
      | Some R \<Rightarrow> w\<lparr>inv_cache := snd (redis_Set R key v (clock w) ttl (inv_cache w))\<rparr>)"

definition redis_publish :: "string \<Rightarrow> json \<Rightarrow> ('c, 'x) iw \<Rightarrow> ('c, 'x) iw" where
  "redis_publish channel v w =
     (case inv_redis w of
        None \<Rightarrow> w
      | Some R \<Rightarrow> w\<lparr>inv_cache := redis_Publish R channel v (inv_cache w)\<rparr>)"

definition InventoryUsecase_GetStock ::
  "uuid_lib \<Rightarrow> uuid \<Rightarrow> ('c, 'x) iw \<Rightarrow> Stock result \<times> ('c, 'x) iw" where
  "InventoryUsecase_GetStock L productID w =
     (let key = cacheKey L productID;
          (cached, w1) =
            (if inv_redis w \<noteq> None
             then (case redis_get key w of
                     (Inr val, w1) \<Rightarrow>
                       (case Stock_Unmarshal L val of Inr stock \<Rightarrow> (Some stock, w1) | Inl _ \<Rightarrow> (None, w1))
                   | (Inl _, w1) \<Rightarrow> (None, w1))
             else (None, w))
      in case cached of
           Some stock \<Rightarrow> (Inr stock, w1)
         | None \<Rightarrow>
             (case InventoryPostgres_GetStock productID w1 of
                (Inl err, w2) \<Rightarrow> (Inl (errorf ''get stock'' err), w2)
              | (Inr stock, w2) \<Rightarrow>
                  (Inr stock,
                   if inv_redis w2 \<noteq> None then redis_set key (Stock_Marshal L stock) cacheTTL w2
                   else w2)))"

definition publishInventoryEvent :: "uuid_lib \<Rightarrow> uuid \<Rightarrow> ('c, 'x) iw \<Rightarrow> ('c, 'x) iw" where
  "publishInventoryEvent L productID w =
     (if inv_redis w = None then w
      else (case InventoryPostgres_GetStock productID w of
              (Inl _, w1) \<Rightarrow> w1
            | (Inr stock, w1) \<Rightarrow>
                redis_publish ''inventory-events''
                  (JObj [(''payload'', JObj [(''available'', JNum (Stock_Available stock)),
                                             (''product_id'', JStr (uuid_String L productID)),
                                             (''reserved'', JNum (Stock_Reserved stock))]),
                         (''topic'', JStr ''inventory'')]) w1))"

definition writeStockToCache :: "uuid_lib \<Rightarrow> uuid \<Rightarrow> ('c, 'x) iw \<Rightarrow> ('c, 'x) iw" where
  "writeStockToCache L productID w =
     (if inv_redis w = None then w
      else (case InventoryPostgres_GetStock productID w of
              (Inl _, w1) \<Rightarrow> w1
            | (Inr stock, w1) \<Rightarrow> redis_set (cacheKey L productID) (Stock_Marshal L stock) cacheTTL w1))"

text \<open>The error for a non-positive quantity; its code is not a registered kind.\<close>

definition invalid_quantity :: go_error where
  "invalid_quantity =
     Wrap (Some (Sentinel ErrInvalidArgument)) ''invalid_quantity'' ''quantity must be positive''"

definition reserve ::
  "uuid \<Rightarrow> int \<Rightarrow> uuid \<Rightarrow> ('c, 'x) iw \<Rightarrow> unit result \<times> ('c, 'x) iw" where
  "reserve productID quantity orderID w =
     (case InventoryPostgres_InsertReservation orderID productID quantity w of
        (Inl err, w1) \<Rightarrow> (Inl err, w1)
      | (Inr rowsAffected, w1) \<Rightarrow>
          if rowsAffected = 0 then
            (case InventoryPostgres_SelectReservationForUpdate orderID productID w1 of
               (Inl err, w2) \<Rightarrow> (Inl err, w2)
             | (Inr existing, w2) \<Rightarrow>
                 if Reservation_Status existing \<noteq> ''reserved'' then
                   (Inl (sentinelf ErrFailedPrecondition
                      (''reservation already '' @ Reservation_Status existing)), w2)
                 else if Reservation_Quantity existing \<noteq> quantity then
                   (Inl (sentinelf ErrConflict
                      (''reservation quantity mismatch (expected '' @ int_str quantity @
                       '', found '' @ int_str (Reservation_Quantity existing) @ '')'')), w2)
                 else (Inr (), w2))
          else
            (case InventoryPostgres_UpdateStockForReserve productID quantity w1 of
               (Inl err, w2) \<Rightarrow> (Inl err, w2)
             | (Inr affected, w2) \<Rightarrow>
                 if affected = 0 then (Inl (Sentinel ErrInsufficientStock), w2)
                 else
                   (case InventoryPostgres_InsertLedger productID orderID (i64 (- quantity)) ledgerOpReserve w2 of
                      (Inl err, w3) \<Rightarrow> (Inl err, w3)
                    | (Inr _, w3) \<Rightarrow> (Inr (), w3))))"

definition InventoryUsecase_Reserve ::
  "uuid_lib \<Rightarrow> uuid \<Rightarrow> int \<Rightarrow> string \<Rightarrow> ('c, 'x) iw \<Rightarrow> unit result \<times> ('c, 'x) iw" where
  "InventoryUsecase_Reserve L productID quantity orderID w =
     (if quantity \<le> 0 then (Inl invalid_quantity, w)
      else (case uuid_Parse L orderID of
              Inl err \<Rightarrow> (Inl (errorf ''invalid order_id'' err), w)
            | Inr orderUUID \<Rightarrow>
                (case txm_Run (reserve productID quantity orderUUID) w of
                   (Inl err, w1) \<Rightarrow> (Inl (errorf ''reserve'' err), w1)
                 | (Inr _, w1) \<Rightarrow>
                     (Inr (), publishInventoryEvent L productID (writeStockToCache L productID w1)))))"

definition release ::
  "uuid \<Rightarrow> int \<Rightarrow> uuid \<Rightarrow> ('c, 'x) iw \<Rightarrow> unit result \<times> ('c, 'x) iw" where
  "release productID quantity orderID w =
     (case InventoryPostgres_SelectReservationForUpdate orderID productID w of
        (Inl err, w1) \<Rightarrow> (Inl err, w1)
      | (Inr reserved, w1) \<Rightarrow>
          if Reservation_Status reserved = ''released'' \<and> Reservation_Quantity reserved = quantity
          then (Inr (), w1)
          else if Reservation_Status reserved \<noteq> ''reserved'' then
            (Inl (sentinelf ErrFailedPrecondition
               (''reservation already '' @ Reservation_Status reserved)), w1)
          else if Reservation_Quantity reserved \<noteq> quantity then
            (Inl (sentinelf ErrConflict
               (''release quantity mismatch (reserved '' @ int_str (Reservation_Quantity reserved) @
                '', requested '' @ int_str quantity @ '')'')), w1)
          else
            (case InventoryPostgres_UpdateStockForRelease productID quantity w1 of
               (Inl err, w2) \<Rightarrow> (Inl err, w2)
             | (Inr affected, w2) \<Rightarrow>
                 if affected = 0 then (Inl (Sentinel ErrInsufficientStock), w2)
                 else
                   (case InventoryPostgres_UpdateReservationStatus orderID productID ''released'' w2 of
                      (Inl err, w3) \<Rightarrow> (Inl err, w3)
                    | (Inr _, w3) \<Rightarrow>
                        (case InventoryPostgres_InsertLedger productID orderID quantity ledgerOpRelease w3 of
                           (Inl err, w4) \<Rightarrow> (Inl err, w4)
                         | (Inr _, w4) \<Rightarrow> (Inr (), w4)))))"

definition InventoryUsecase_Release ::
  "uuid_lib \<Rightarrow> uuid \<Rightarrow> int \<Rightarrow> string \<Rightarrow> ('c, 'x) iw \<Rightarrow> unit result \<times> ('c, 'x) iw" where
  "InventoryUsecase_Release L productID quantity orderID w =
     (if quantity \<le> 0 then (Inl invalid_quantity, w)
      else (case uuid_Parse L orderID of
              Inl err \<Rightarrow> (Inl (errorf ''invalid order_id'' err), w)
            | Inr orderUUID \<Rightarrow>
                (case txm_Run (release productID quantity orderUUID) w of
                   (Inl err, w1) \<Rightarrow> (Inl (errorf ''release'' err), w1)
                 | (Inr _, w1) \<Rightarrow>
                     (Inr (), publishInventoryEvent L productID (writeStockToCache L productID w1)))))"

definition InventoryUsecase_GetLedger ::
  "uuid \<Rightarrow> ('c, 'x) iw \<Rightarrow> LedgerEntry list result \<times> ('c, 'x) iw" where
  "InventoryUsecase_GetLedger productID w = InventoryPostgres_GetLedger productID w"

section \<open>The gRPC handlers\<close>

record ReserveRequest =
  ReserveRequest_ProductId :: string
  ReserveRequest_Quantity :: int
  ReserveRequest_OrderId :: string
  ReserveRequest_IdempotencyKey :: string

record ReleaseRequest =
  ReleaseRequest_ProductId :: string
  ReleaseRequest_Quantity :: int
  ReleaseRequest_OrderId :: string
  ReleaseRequest_IdempotencyKey :: string

record GetStockResponse =
  GetStockResponse_Available :: int
  GetStockResponse_Reserved :: int

record LedgerEntryProto =
  LedgerProto_Id :: string
  LedgerProto_ProductId :: string
  LedgerProto_OrderId :: string
  LedgerProto_QuantityChange :: int
  LedgerProto_OperationType :: int
  LedgerProto_CreatedAt :: string

definition inventory_mapError :: "go_error \<Rightarrow> go_error" where
  "inventory_mapError err =
     (case ToStatus (Some err) of
        Some s \<Rightarrow> s
      | None \<Rightarrow> StatusErr codes_Internal ''internal error'')"

text \<open>The response of \<^verbatim>\<open>Reserve\<close> and \<^verbatim>\<open>Release\<close> is its \<^verbatim>\<open>Success\<close> field.\<close>

definition InventoryHandler_Reserve ::
  "uuid_lib \<Rightarrow> (ReserveRequest, bool, ('c, 'x) iw) handler" where
  "InventoryHandler_Reserve L c req w =
     (case RequireRole c [RoleService] of
        Some err \<Rightarrow> (Inl err, w)
      | None \<Rightarrow>
          (case uuid_Parse L (ReserveRequest_ProductId req) of
             Inl _ \<Rightarrow> (Inl (StatusErr codes_InvalidArgument ''invalid product_id''), w)
           | Inr productID \<Rightarrow>
               (case uuid_Parse L (ReserveRequest_OrderId req) of
                  Inl _ \<Rightarrow> (Inl (StatusErr codes_InvalidArgument ''invalid order_id''), w)
                | Inr orderID \<Rightarrow>
                    (case InventoryUsecase_Reserve L productID (ReserveRequest_Quantity req)
                            (uuid_String L orderID) w of
                       (Inl err, w1) \<Rightarrow> (Inl (inventory_mapError err), w1)
                     | (Inr _, w1) \<Rightarrow> (Inr True, w1)))))"

definition InventoryHandler_Release ::
  "uuid_lib \<Rightarrow> (ReleaseRequest, bool, ('c, 'x) iw) handler" where
  "InventoryHandler_Release L c req w =
     (case RequireRole c [RoleService] of
        Some err \<Rightarrow> (Inl err, w)
      | None \<Rightarrow>
          (case uuid_Parse L (ReleaseRequest_ProductId req) of
             Inl _ \<Rightarrow> (Inl (StatusErr codes_InvalidArgument ''invalid product_id''), w)
           | Inr productID \<Rightarrow>
               (case uuid_Parse L (ReleaseRequest_OrderId req) of
                  Inl _ \<Rightarrow> (Inl (StatusErr codes_InvalidArgument ''invalid order_id''), w)
                | Inr orderID \<Rightarrow>
                    (case InventoryUsecase_Release L productID (ReleaseRequest_Quantity req)
                            (uuid_String L orderID) w of
                       (Inl err, w1) \<Rightarrow> (Inl (inventory_mapError err), w1)
                     | (Inr _, w1) \<Rightarrow> (Inr True, w1)))))"

definition InventoryHandler_GetStock ::
  "uuid_lib \<Rightarrow> (string, GetStockResponse, ('c, 'x) iw) handler" where
  "InventoryHandler_GetStock L c req w =
     (case uuid_Parse L req of
        Inl _ \<Rightarrow> (Inl (StatusErr codes_InvalidArgument ''invalid product_id''), w)
      | Inr productID \<Rightarrow>
          (case InventoryUsecase_GetStock L productID w of
             (Inl err, w1) \<Rightarrow>
               if errors_Is err ErrNotFound then (Inl (StatusErr codes_NotFound (err_Error err)), w1)
               else (Inl (StatusErr codes_Internal (''get stock: '' @ err_Error err)), w1)
           | (Inr stock, w1) \<Rightarrow>
               (Inr \<lparr>GetStockResponse_Available = i32 (Stock_Available stock),
                     GetStockResponse_Reserved = i32 (Stock_Reserved stock)\<rparr>, w1)))"

text \<open>The generated table of operation numbers; a missing key reads as zero.\<close>

definition LedgerOperation_value :: "string \<Rightarrow> int" where
  "LedgerOperation_value s =
     (case map_of [(''LEDGER_OPERATION_UNSPECIFIED'', 0), (''LEDGER_OPERATION_RESERVE'', 1),
                   (''LEDGER_OPERATION_RELEASE'', 2), (''LEDGER_OPERATION_REFUND'', 3),
                   (''LEDGER_OPERATION_ADJUST'', 4)] s of
        Some v \<Rightarrow> v | None \<Rightarrow> 0)"

definition ledger_toProto :: "uuid_lib \<Rightarrow> LedgerEntry \<Rightarrow> LedgerEntryProto" where
  "ledger_toProto L e =
     \<lparr>LedgerProto_Id = uuid_String L (Ledger_ID e),
      LedgerProto_ProductId = uuid_String L (Ledger_ProductID e),
      LedgerProto_OrderId = (case Ledger_OrderID e of None \<Rightarrow> '''' | Some u \<Rightarrow> uuid_String L u),
      LedgerProto_QuantityChange = i32 (Ledger_QuantityChange e),
      LedgerProto_OperationType = LedgerOperation_value (Ledger_OperationType e),
      LedgerProto_CreatedAt = time_RFC3339 (Ledger_CreatedAt e)\<rparr>"

definition InventoryHandler_GetLedger ::
  "uuid_lib \<Rightarrow> (string, LedgerEntryProto list, ('c, 'x) iw) handler" where
  "InventoryHandler_GetLedger L c req w =
     (case uuid_Parse L req of
        Inl _ \<Rightarrow> (Inl (StatusErr codes_InvalidArgument ''invalid product_id''), w)
      | Inr productID \<Rightarrow>
          (case InventoryUsecase_GetLedger productID w of
             (Inl err, w1) \<Rightarrow> (Inl (StatusErr codes_Internal (''get ledger: '' @ err_Error err)), w1)
           | (Inr entries, w1) \<Rightarrow> (Inr (map (ledger_toProto L) entries), w1)))"

end
