(* ===== verification/Inventory_Stock.thy ===== *)
theory Inventory_Stock
  imports Inventory_Model
begin

text \<open>
  Correctness of stock keeping in the inventory service. An abstract account of stock says what
  one reservation and one release do; the repository statements inside a transaction refine it
  for every schedule of faults. The invariant ties the reserved column to the reservation rows
  and to the ledger.
\<close>

section \<open>What a successful repository call has done\<close>

lemma InsertReservation_Inr:
  "InventoryPostgres_InsertReservation orderID p q w = (Inr n, w') \<Longrightarrow>
   stmt_InsertReservation orderID p q (db w) = Inr (n, db w')"
  by (auto simp: InventoryPostgres_InsertReservation_def split: prod.splits sum.splits dest: sql_Inr)

lemma SelectReservationForUpdate_Inr:
  "InventoryPostgres_SelectReservationForUpdate orderID p w = (Inr r, w') \<Longrightarrow>
   reservations (db w) (orderID, p) = Some r \<and> db w' = db w"
  by (auto simp: InventoryPostgres_SelectReservationForUpdate_def stmt_SelectReservation_def query_row_def
      split: prod.splits sum.splits if_splits option.splits dest!: sql_Inr)

lemma UpdateReservationStatus_Inr:
  "InventoryPostgres_UpdateReservationStatus orderID p st w = (Inr u, w') \<Longrightarrow>
   \<exists>n. stmt_UpdateReservationStatus orderID p st (db w) = Inr (n, db w')"
  by (auto simp: InventoryPostgres_UpdateReservationStatus_def split: prod.splits sum.splits dest: sql_Inr)

lemma UpdateStockForReserve_Inr:
  "InventoryPostgres_UpdateStockForReserve p q w = (Inr n, w') \<Longrightarrow>
   stmt_UpdateStockForReserve p q (db w) = Inr (n, db w')"
  by (auto simp: InventoryPostgres_UpdateStockForReserve_def split: prod.splits sum.splits dest: sql_Inr)

lemma UpdateStockForRelease_Inr:
  "InventoryPostgres_UpdateStockForRelease p q w = (Inr n, w') \<Longrightarrow>
   stmt_UpdateStockForRelease p q (db w) = Inr (n, db w')"
  by (auto simp: InventoryPostgres_UpdateStockForRelease_def split: prod.splits sum.splits dest: sql_Inr)

lemma db_uuid_New [simp]: "db (snd (uuid_New w)) = db w"
  by (simp add: uuid_New_def)

lemma InsertLedger_Inr:
  assumes "InventoryPostgres_InsertLedger p orderID q opn w = (Inr u, w')"
  shows "\<exists>e. db w' = (db w)\<lparr>inventory_ledger := inventory_ledger (db w) @ [e]\<rparr>
           \<and> Ledger_ProductID e = p \<and> Ledger_QuantityChange e = q
           \<and> Ledger_OrderID e = Some orderID \<and> Ledger_OperationType e = opn"
proof -
  let ?e = "\<lparr>Ledger_ID = uuid_src w (uuid_ctr w), Ledger_ProductID = p, Ledger_OrderID = Some orderID,
      Ledger_QuantityChange = q, Ledger_OperationType = opn, Ledger_CreatedAt = clock w\<rparr>"
  have "db w' = (db w)\<lparr>inventory_ledger := inventory_ledger (db w) @ [?e]\<rparr>"
    using assms
    by (auto simp: InventoryPostgres_InsertLedger_def uuid_New_def stmt_InsertLedger_def
        split: prod.splits sum.splits if_splits dest!: sql_Inr)
  then show ?thesis by (intro exI [of _ ?e]) simp
qed

lemmas repo_Inr = InsertReservation_Inr SelectReservationForUpdate_Inr UpdateReservationStatus_Inr
  UpdateStockForReserve_Inr UpdateStockForRelease_Inr InsertLedger_Inr

section \<open>The abstract account\<close>

text \<open>
  The account of a database: free and held units per product, the reservations, and the balance
  of the ledger per product.
\<close>

record account =
  acc_stock :: "uuid \<rightharpoonup> inventory_row"
  acc_held :: "uuid \<times> uuid \<rightharpoonup> ReservationRow"
  acc_balance :: "uuid \<Rightarrow> int"

definition ledger_sum :: "inv_db \<Rightarrow> uuid \<Rightarrow> int" where
  "ledger_sum d p = sum_list (map Ledger_QuantityChange
     (filter (\<lambda>e. Ledger_ProductID e = p) (inventory_ledger d)))"

definition account_of :: "inv_db \<Rightarrow> account" where
  "account_of d = \<lparr>acc_stock = inventory d, acc_held = reservations d, acc_balance = ledger_sum d\<rparr>"

definition spec_reserve :: "uuid \<Rightarrow> int \<Rightarrow> uuid \<Rightarrow> account \<Rightarrow> account option" where
  "spec_reserve p q orderID a =
     (case acc_held a (orderID, p) of
        Some r \<Rightarrow>
          if Reservation_Status r = ''reserved'' \<and> Reservation_Quantity r = q then Some a else None
      | None \<Rightarrow>
          (case acc_stock a p of
             None \<Rightarrow> None
           | Some s \<Rightarrow>
               if q \<le> row_available s \<and> int4_ok (row_reserved s + q)
               then Some \<lparr>acc_stock = (acc_stock a)(p \<mapsto>
                            \<lparr>row_available = row_available s - q, row_reserved = row_reserved s + q\<rparr>),
                          acc_held = (acc_held a)((orderID, p) \<mapsto>
                            \<lparr>Reservation_Quantity = q, Reservation_Status = ''reserved''\<rparr>),
                          acc_balance = (acc_balance a)(p := acc_balance a p - q)\<rparr>
               else None))"

definition spec_release :: "uuid \<Rightarrow> int \<Rightarrow> uuid \<Rightarrow> account \<Rightarrow> account option" where
  "spec_release p q orderID a =
     (case acc_held a (orderID, p) of
        None \<Rightarrow> None
      | Some r \<Rightarrow>
          if Reservation_Quantity r \<noteq> q then None
          else if Reservation_Status r = ''released'' then Some a
          else if Reservation_Status r \<noteq> ''reserved'' then None
          else (case acc_stock a p of
                  None \<Rightarrow> None
                | Some s \<Rightarrow>
                    if q \<le> row_reserved s \<and> int4_ok (row_available s + q)
                    then Some \<lparr>acc_stock = (acc_stock a)(p \<mapsto>
                                 \<lparr>row_available = row_available s + q, row_reserved = row_reserved s - q\<rparr>),
                               acc_held = (acc_held a)((orderID, p) \<mapsto>
                                 r\<lparr>Reservation_Status := ''released''\<rparr>),
                               acc_balance = (acc_balance a)(p := acc_balance a p + q)\<rparr>
                    else None))"

section \<open>Refinement of the transaction bodies\<close>

lemma ledger_sum_append:
  "ledger_sum (d\<lparr>inventory_ledger := inventory_ledger d @ [e]\<rparr>) =
   (ledger_sum d)(Ledger_ProductID e := ledger_sum d (Ledger_ProductID e) + Ledger_QuantityChange e)"
  by (auto simp: ledger_sum_def fun_eq_iff)

lemma ledger_sum_other [simp]:
  "ledger_sum (d\<lparr>inventory := i\<rparr>) = ledger_sum d"
  "ledger_sum (d\<lparr>reservations := r\<rparr>) = ledger_sum d"
  by (auto simp: ledger_sum_def fun_eq_iff)

lemma i64_neg_int4: "int4_ok q \<Longrightarrow> i64 (- q) = - q"
  by (rule i64_id) (auto simp: int4_ok_def int8_ok_def)

lemma stmt_InsertReservation_Inr:
  "stmt_InsertReservation orderID p q d = Inr (n, d') \<longleftrightarrow>
     int4_ok q \<and> 0 < q \<and>
     (if reservations d (orderID, p) = None
      then n = 1 \<and> d' = d\<lparr>reservations := (reservations d)((orderID, p) \<mapsto>
             \<lparr>Reservation_Quantity = q, Reservation_Status = ''reserved''\<rparr>)\<rparr>
      else n = 0 \<and> d' = d)"
  by (auto simp: stmt_InsertReservation_def split: option.splits)

lemma stmt_UpdateStockForReserve_Inr:
  "stmt_UpdateStockForReserve p q d = Inr (n, d') \<Longrightarrow> n \<noteq> 0 \<Longrightarrow>
   \<exists>s. inventory d p = Some s \<and> q \<le> row_available s \<and> int4_ok (row_available s - q)
     \<and> int4_ok (row_reserved s + q) \<and> 0 \<le> row_reserved s + q
     \<and> d' = d\<lparr>inventory := (inventory d)(p \<mapsto>
         \<lparr>row_available = row_available s - q, row_reserved = row_reserved s + q\<rparr>)\<rparr>"
  by (auto simp: stmt_UpdateStockForReserve_def put_inventory_def split: option.splits if_splits)

lemma stmt_UpdateStockForRelease_Inr:
  "stmt_UpdateStockForRelease p q d = Inr (n, d') \<Longrightarrow> n \<noteq> 0 \<Longrightarrow>
   \<exists>s. inventory d p = Some s \<and> q \<le> row_reserved s \<and> int4_ok (row_available s + q)
     \<and> int4_ok (row_reserved s - q) \<and> 0 \<le> row_available s + q
     \<and> d' = d\<lparr>inventory := (inventory d)(p \<mapsto>
         \<lparr>row_available = row_available s + q, row_reserved = row_reserved s - q\<rparr>)\<rparr>"
  by (auto simp: stmt_UpdateStockForRelease_def put_inventory_def split: option.splits if_splits)

lemma stmt_UpdateReservationStatus_Inr:
  "stmt_UpdateReservationStatus orderID p st d = Inr (n, d') \<Longrightarrow> reservations d (orderID, p) = Some r \<Longrightarrow>
   d' = d\<lparr>reservations := (reservations d)((orderID, p) \<mapsto> r\<lparr>Reservation_Status := st\<rparr>)\<rparr>"
  by (auto simp: stmt_UpdateReservationStatus_def split: if_splits)

lemma reserve_refines:
  assumes "reserve p q orderID w = (Inr u, w')"
  shows "spec_reserve p q orderID (account_of (db w)) = Some (account_of (db w')) \<and> 0 < q"
proof -
  from assms obtain n w1 where ins: "InventoryPostgres_InsertReservation orderID p q w = (Inr n, w1)"
    by (auto simp: reserve_def seq_Inr)
  from stmt_InsertReservation_Inr [THEN iffD1, OF InsertReservation_Inr [OF ins]]
  have q: "int4_ok q" "0 < q" by auto
  show ?thesis
  proof (cases "n = 0")
    case True
    with assms obtain r where
      r: "InventoryPostgres_SelectReservationForUpdate orderID p w1 = (Inr r, w')"
        "Reservation_Status r = ''reserved''" "Reservation_Quantity r = q"
      by (auto simp: reserve_def ins seq_Inr)
    have "db w1 = db w"
      using InsertReservation_Inr [OF ins] True
      by (auto simp: stmt_InsertReservation_Inr split: if_splits)
    with r SelectReservationForUpdate_Inr [OF r(1)] q show ?thesis
      by (auto simp: spec_reserve_def account_of_def)
  next
    case False
    with assms obtain k w2 where
      upd: "InventoryPostgres_UpdateStockForReserve p q w1 = (Inr k, w2)" and k: "k \<noteq> 0"
      and led: "InventoryPostgres_InsertLedger p orderID (i64 (- q)) ledgerOpReserve w2 = (Inr (), w')"
      by (auto simp: reserve_def ins seq_Inr)
    have fresh: "reservations (db w) (orderID, p) = None"
      and d1: "db w1 = (db w)\<lparr>reservations := (reservations (db w))((orderID, p) \<mapsto>
             \<lparr>Reservation_Quantity = q, Reservation_Status = ''reserved''\<rparr>)\<rparr>"
      using InsertReservation_Inr [OF ins] False
      by (auto simp: stmt_InsertReservation_Inr split: if_splits)
    obtain s where s: "inventory (db w) p = Some s" "q \<le> row_available s" "int4_ok (row_reserved s + q)"
      and d2: "db w2 = (db w1)\<lparr>inventory := (inventory (db w))(p \<mapsto>
         \<lparr>row_available = row_available s - q, row_reserved = row_reserved s + q\<rparr>)\<rparr>"
      using stmt_UpdateStockForReserve_Inr [OF UpdateStockForReserve_Inr [OF upd] k] d1 by auto
    obtain e where e: "Ledger_ProductID e = p" "Ledger_QuantityChange e = - q"
      and d3: "db w' = (db w2)\<lparr>inventory_ledger := inventory_ledger (db w2) @ [e]\<rparr>"
      using InsertLedger_Inr [OF led] q i64_neg_int4 by auto
    show ?thesis
      unfolding spec_reserve_def account_of_def d3 ledger_sum_append e
      by (simp add: d2 d1 s fresh q)
  qed
qed

lemma release_refines:
  assumes "release p q orderID w = (Inr u, w')"
  shows "spec_release p q orderID (account_of (db w)) = Some (account_of (db w'))"
proof -
  from assms obtain r w1 where sel: "InventoryPostgres_SelectReservationForUpdate orderID p w = (Inr r, w1)"
    by (auto simp: release_def seq_Inr)
  note r = SelectReservationForUpdate_Inr [OF sel]
  show ?thesis
  proof (cases "Reservation_Status r = ''released'' \<and> Reservation_Quantity r = q")
    case True
    with assms sel have "w' = w1" by (auto simp: release_def)
    with True r show ?thesis by (auto simp: spec_release_def account_of_def)
  next
    case False
    then have no: "(Reservation_Status r = ''released'' \<and> Reservation_Quantity r = q) = False" by simp
    from assms obtain k w2 w3 where
      st: "Reservation_Status r = ''reserved''" "Reservation_Quantity r = q"
      and upd: "InventoryPostgres_UpdateStockForRelease p q w1 = (Inr k, w2)" and k: "k \<noteq> 0"
      and rel: "InventoryPostgres_UpdateReservationStatus orderID p ''released'' w2 = (Inr (), w3)"
      and led: "InventoryPostgres_InsertLedger p orderID q ledgerOpRelease w3 = (Inr (), w')"
      unfolding release_def sel prod.case sum.case no if_False by (auto simp: seq_Inr)
    obtain s where s: "inventory (db w) p = Some s" "q \<le> row_reserved s" "int4_ok (row_available s + q)"
      and d2: "db w2 = (db w)\<lparr>inventory := (inventory (db w))(p \<mapsto>
         \<lparr>row_available = row_available s + q, row_reserved = row_reserved s - q\<rparr>)\<rparr>"
      using stmt_UpdateStockForRelease_Inr [OF UpdateStockForRelease_Inr [OF upd] k] r by auto
    have d3: "db w3 = (db w2)\<lparr>reservations := (reservations (db w2))((orderID, p) \<mapsto>
        r\<lparr>Reservation_Status := ''released''\<rparr>)\<rparr>"
      using UpdateReservationStatus_Inr [OF rel] r d2
        stmt_UpdateReservationStatus_Inr [of orderID p "''released''" "db w2" _ "db w3" r] by auto
    obtain e where e: "Ledger_ProductID e = p" "Ledger_QuantityChange e = q"
      and d4: "db w' = (db w3)\<lparr>inventory_ledger := inventory_ledger (db w3) @ [e]\<rparr>"
      using InsertLedger_Inr [OF led] by auto
    show ?thesis
      unfolding spec_release_def account_of_def d4 ledger_sum_append e
      by (simp add: d3 d2 s r st)
  qed
qed

section \<open>Idempotence of the account\<close>

lemma spec_reserve_idem: "spec_reserve p q orderID a = Some b \<Longrightarrow> spec_reserve p q orderID b = Some b"
  by (auto simp: spec_reserve_def split: option.splits if_splits)

lemma spec_release_idem: "spec_release p q orderID a = Some b \<Longrightarrow> spec_release p q orderID b = Some b"
  by (auto simp: spec_release_def split: option.splits if_splits)

section \<open>The use case\<close>

text \<open>Reading stock, and refreshing the cache from it, leaves the database alone.\<close>

lemma GetStock_db [simp]: "db (snd (InventoryPostgres_GetStock p w)) = db w"
  by (auto simp: InventoryPostgres_GetStock_def stmt_GetStock_def split: prod.splits sum.splits
      dest: query_row_db)

lemma GetStock_db': "InventoryPostgres_GetStock p w = (r, w') \<Longrightarrow> db w' = db w"
  using GetStock_db [of p w] by simp

lemma redis_set_db [simp]: "db (redis_set k v t w) = db w"
  by (simp add: redis_set_def split: option.splits)

lemma redis_publish_db [simp]: "db (redis_publish k v w) = db w"
  by (simp add: redis_publish_def split: option.splits)

lemma redis_get_db: "redis_get k w = (r, w') \<Longrightarrow> db w' = db w"
  by (auto simp: redis_get_def split: option.splits prod.splits)

lemma writeStockToCache_db [simp]: "db (writeStockToCache L p w) = db w"
  by (auto simp: writeStockToCache_def split: prod.splits sum.splits dest: GetStock_db')

lemma publishInventoryEvent_db [simp]: "db (publishInventoryEvent L p w) = db w"
  by (auto simp: publishInventoryEvent_def split: prod.splits sum.splits dest: GetStock_db')

text \<open>What the use case promises of the account, for the order id as it arrives.\<close>

definition account_reserve :: "uuid_lib \<Rightarrow> uuid \<Rightarrow> int \<Rightarrow> string \<Rightarrow> account \<Rightarrow> account option" where
  "account_reserve L p q orderID a =
     (case uuid_Parse L orderID of
        Inl _ \<Rightarrow> None
      | Inr u \<Rightarrow> if 0 < q then spec_reserve p q u a else None)"

definition account_release :: "uuid_lib \<Rightarrow> uuid \<Rightarrow> int \<Rightarrow> string \<Rightarrow> account \<Rightarrow> account option" where
  "account_release L p q orderID a =
     (case uuid_Parse L orderID of
        Inl _ \<Rightarrow> None
      | Inr u \<Rightarrow> if 0 < q then spec_release p q u a else None)"

definition account_view :: "('c, 'x) iw \<Rightarrow> account" where
  "account_view w = account_of (db w)"

lemma account_run:
  assumes "\<And>w u w'. fn w = (Inr u, w') \<Longrightarrow> spec (account_of (db w)) = Some (account_of (db w'))"
  shows "account_of (db (snd (txm_Run fn w))) = account_of (db w)
       \<or> spec (account_of (db w)) = Some (account_of (db (snd (txm_Run fn w))))"
  using txm.all_or_nothing [of fn w] assms by metis

lemma account_run_Inr:
  assumes "\<And>w u w'. fn w = (Inr u, w') \<Longrightarrow> spec (account_of (db w)) = Some (account_of (db w'))"
    and "txm_Run fn w = (Inr x, w')"
  shows "spec (account_of (db w)) = Some (account_of (db w'))"
  using txm.run_ok [OF assms(2)] assms(1) by metis

lemma Reserve_atomic:
  "account_view (snd (InventoryUsecase_Reserve L p q orderID w)) = account_view w
   \<or> account_reserve L p q orderID (account_view w)
     = Some (account_view (snd (InventoryUsecase_Reserve L p q orderID w)))"
proof (cases "uuid_Parse L orderID")
  case (Inr u)
  obtain r w1 where run: "txm_Run (reserve p q u) w = (r, w1)" by fastforce
  have "db (snd (InventoryUsecase_Reserve L p q orderID w)) = (if q \<le> 0 then db w else db w1)"
    using run by (auto simp: InventoryUsecase_Reserve_def Inr split: sum.splits)
  then show ?thesis
    using account_run [where fn = "reserve p q u" and spec = "spec_reserve p q u" and w = w]
      reserve_refines [of p q u] run Inr
    by (auto simp: account_view_def account_reserve_def)
qed (simp add: InventoryUsecase_Reserve_def)

lemma Reserve_done:
  assumes "InventoryUsecase_Reserve L p q orderID w = (Inr x, w')"
  shows "account_reserve L p q orderID (account_view w) = Some (account_view w')"
proof -
  from assms obtain u w1 where u: "uuid_Parse L orderID = Inr u" "0 < q"
    and run: "txm_Run (reserve p q u) w = (Inr (), w1)" and w': "db w' = db w1"
    by (auto simp: InventoryUsecase_Reserve_def err_if_Inr seq_Inr split: sum.splits)
  show ?thesis
    using account_run_Inr [where fn = "reserve p q u" and spec = "spec_reserve p q u", OF _ run]
      reserve_refines [of p q u] u w'
    by (auto simp: account_view_def account_reserve_def)
qed

lemma Release_atomic:
  "account_view (snd (InventoryUsecase_Release L p q orderID w)) = account_view w
   \<or> account_release L p q orderID (account_view w)
     = Some (account_view (snd (InventoryUsecase_Release L p q orderID w)))"
proof (cases "uuid_Parse L orderID")
  case (Inr u)
  obtain r w1 where run: "txm_Run (release p q u) w = (r, w1)" by fastforce
  have "db (snd (InventoryUsecase_Release L p q orderID w)) = (if q \<le> 0 then db w else db w1)"
    using run by (auto simp: InventoryUsecase_Release_def Inr split: sum.splits)
  then show ?thesis
    using account_run [where fn = "release p q u" and spec = "spec_release p q u" and w = w]
      release_refines [of p q u] run Inr
    by (auto simp: account_view_def account_release_def)
qed (simp add: InventoryUsecase_Release_def)

lemma Release_done:
  assumes "InventoryUsecase_Release L p q orderID w = (Inr x, w')"
  shows "account_release L p q orderID (account_view w) = Some (account_view w')"
proof -
  from assms obtain u w1 where u: "uuid_Parse L orderID = Inr u" "0 < q"
    and run: "txm_Run (release p q u) w = (Inr (), w1)" and w': "db w' = db w1"
    by (auto simp: InventoryUsecase_Release_def err_if_Inr seq_Inr split: sum.splits)
  show ?thesis
    using account_run_Inr [where fn = "release p q u" and spec = "spec_release p q u", OF _ run]
      release_refines [of p q u] u w'
    by (auto simp: account_view_def account_release_def)
qed

interpretation inv_reserve: retriable
  "InventoryUsecase_Reserve L p q orderID" account_view "account_reserve L p q orderID"
proof (unfold_locales, goal_cases)
  case 1
  show ?case by (rule Reserve_atomic)
next
  case 2
  then show ?case by (rule Reserve_done)
next
  case 3
  then show ?case
    by (auto simp: account_reserve_def split: sum.splits if_splits intro: spec_reserve_idem)
qed

interpretation inv_release: retriable
  "InventoryUsecase_Release L p q orderID" account_view "account_release L p q orderID"
proof (unfold_locales, goal_cases)
  case 1
  show ?case by (rule Release_atomic)
next
  case 2
  then show ?case by (rule Release_done)
next
  case 3
  then show ?case
    by (auto simp: account_release_def split: sum.splits if_splits intro: spec_release_idem)
qed

end
