(* ===== verification/Inventory_Props.thy ===== *)
theory Inventory_Props
  imports Inventory_Stock
begin

text \<open>
  The invariant of the inventory tables, its preservation by every handler from any reachable
  state, and the properties of the inventory service.
\<close>

section \<open>The invariant\<close>

text \<open>\<open>held a p\<close>: units of product \<open>p\<close> under reservations that are not released.\<close>

definition active :: "uuid \<Rightarrow> uuid \<times> uuid \<Rightarrow> ReservationRow \<Rightarrow> int" where
  "active p k r = (if snd k = p \<and> Reservation_Status r = ''reserved'' then Reservation_Quantity r else 0)"

definition held :: "account \<Rightarrow> uuid \<Rightarrow> int" where
  "held a p = (\<Sum>k\<in>dom (acc_held a). active p k (the (acc_held a k)))"

definition reservation_ok :: "ReservationRow \<Rightarrow> bool" where
  "reservation_ok r \<longleftrightarrow> 0 < Reservation_Quantity r \<and> int4_ok (Reservation_Quantity r)
     \<and> Reservation_Status r \<in> {''reserved'', ''released''}"

definition row_ok :: "inventory_row \<Rightarrow> bool" where
  "row_ok s \<longleftrightarrow> 0 \<le> row_available s \<and> 0 \<le> row_reserved s
     \<and> int4_ok (row_available s) \<and> int4_ok (row_reserved s)"

definition stock_reserved :: "account \<Rightarrow> uuid \<Rightarrow> int" where
  "stock_reserved a p = (case acc_stock a p of None \<Rightarrow> 0 | Some s \<Rightarrow> row_reserved s)"

definition units :: "account \<Rightarrow> uuid \<Rightarrow> int" where
  "units a p = (case acc_stock a p of None \<Rightarrow> 0 | Some s \<Rightarrow> row_available s + row_reserved s)"

definition account_wf :: "account \<Rightarrow> bool" where
  "account_wf a \<longleftrightarrow>
     finite (dom (acc_held a)) \<and>
     (\<forall>k r. acc_held a k = Some r \<longrightarrow> reservation_ok r) \<and>
     (\<forall>p s. acc_stock a p = Some s \<longrightarrow> row_ok s) \<and>
     (\<forall>p. stock_reserved a p = held a p) \<and>
     (\<forall>p. acc_balance a p = - held a p)"

definition inv_wf :: "inv_db \<Rightarrow> bool" where
  "inv_wf d = account_wf (account_of d)"

lemma account_wfI:
  assumes "finite (dom (acc_held a))"
    and "\<And>k r. acc_held a k = Some r \<Longrightarrow> reservation_ok r"
    and "\<And>p s. acc_stock a p = Some s \<Longrightarrow> row_ok s"
    and "\<And>p. stock_reserved a p = held a p"
    and "\<And>p. acc_balance a p = - held a p"
  shows "account_wf a"
  using assms unfolding account_wf_def by blast

lemma account_wfD:
  assumes "account_wf a"
  shows "finite (dom (acc_held a))"
    and "acc_held a k = Some r \<Longrightarrow> reservation_ok r"
    and "acc_stock a p = Some s \<Longrightarrow> row_ok s"
    and "stock_reserved a p = held a p"
    and "acc_balance a p = - held a p"
  using assms unfolding account_wf_def by blast+

lemma held_insert:
  assumes "finite (dom (acc_held a))" and "acc_held a k = None" and "acc_held b = (acc_held a)(k \<mapsto> r)"
  shows "held b p = active p k r + held a p"
  unfolding held_def assms(3) by (rule sum_dom_insert [OF assms(1,2)])

lemma held_update:
  assumes "finite (dom (acc_held a))" and "acc_held a k = Some u" and "acc_held b = (acc_held a)(k \<mapsto> r)"
  shows "held b p = active p k r - active p k u + held a p"
  unfolding held_def assms(3) by (rule sum_dom_update [OF assms(1,2)])

lemma spec_reserve_wf:
  assumes wf: "account_wf a" and q: "0 < q" "int4_ok q" and s: "spec_reserve p q orderID a = Some b"
  shows "account_wf b"
proof (cases "acc_held a (orderID, p)")
  case (Some r)
  with s wf show ?thesis by (auto simp: spec_reserve_def split: if_splits)
next
  case None
  let ?r = "\<lparr>Reservation_Quantity = q, Reservation_Status = ''reserved''\<rparr>"
  from s None obtain t where t: "acc_stock a p = Some t" "q \<le> row_available t" "int4_ok (row_reserved t + q)"
    and b: "b = \<lparr>acc_stock = (acc_stock a)(p \<mapsto>
                   \<lparr>row_available = row_available t - q, row_reserved = row_reserved t + q\<rparr>),
                 acc_held = (acc_held a)((orderID, p) \<mapsto> ?r),
                 acc_balance = (acc_balance a)(p := acc_balance a p - q)\<rparr>"
    by (auto simp: spec_reserve_def split: option.splits if_splits)
  have h: "held b x = (if x = p then q else 0) + held a x" for x
    using held_insert [OF account_wfD(1) [OF wf] None, of b ?r x] by (auto simp: b active_def)
  show ?thesis
  proof (rule account_wfI)
    show "finite (dom (acc_held b))" using account_wfD(1) [OF wf] by (simp add: b)
    show "reservation_ok r" if "acc_held b k = Some r" for k r
      using that q account_wfD(2) [OF wf] by (auto simp: b reservation_ok_def split: if_splits)
    show "row_ok u" if "acc_stock b x = Some u" for x u
    proof (cases "x = p")
      case True
      with that t q account_wfD(3) [OF wf t(1)] show ?thesis
        by (auto simp: b row_ok_def int4_ok_def)
    qed (use that account_wfD(3) [OF wf] in \<open>simp add: b\<close>)
    show "stock_reserved b x = held b x" for x
      using account_wfD(4) [OF wf, of x] t unfolding h by (auto simp: stock_reserved_def b split: option.splits)
    show "acc_balance b x = - held b x" for x
      using account_wfD(5) [OF wf, of x] unfolding h by (auto simp: b)
  qed
qed

lemma spec_release_wf:
  assumes wf: "account_wf a" and s: "spec_release p q orderID a = Some b"
  shows "account_wf b"
proof -
  from s obtain r where r: "acc_held a (orderID, p) = Some r" "Reservation_Quantity r = q"
    by (auto simp: spec_release_def split: option.splits if_splits)
  note rok = account_wfD(2) [OF wf r(1)]
  show ?thesis
  proof (cases "Reservation_Status r = ''released''")
    case True
    with s r wf show ?thesis by (auto simp: spec_release_def)
  next
    case False
    let ?r = "r\<lparr>Reservation_Status := ''released''\<rparr>"
    from s r False obtain t where st: "Reservation_Status r = ''reserved''"
      and t: "acc_stock a p = Some t" "q \<le> row_reserved t" "int4_ok (row_available t + q)"
      and b: "b = \<lparr>acc_stock = (acc_stock a)(p \<mapsto>
                   \<lparr>row_available = row_available t + q, row_reserved = row_reserved t - q\<rparr>),
                 acc_held = (acc_held a)((orderID, p) \<mapsto> ?r),
                 acc_balance = (acc_balance a)(p := acc_balance a p + q)\<rparr>"
      by (auto simp: spec_release_def split: option.splits if_splits)
    have h: "held b x = held a x - (if x = p then q else 0)" for x
      using held_update [OF account_wfD(1) [OF wf] r(1), of b ?r x] st r(2)
      by (auto simp: b active_def)
    show ?thesis
    proof (rule account_wfI)
      show "finite (dom (acc_held b))" using account_wfD(1) [OF wf] by (simp add: b)
      show "reservation_ok u" if "acc_held b k = Some u" for k u
        using that rok account_wfD(2) [OF wf] by (auto simp: b reservation_ok_def split: if_splits)
      show "row_ok u" if "acc_stock b x = Some u" for x u
      proof (cases "x = p")
        case True
        with that t rok r account_wfD(3) [OF wf t(1)] show ?thesis
          by (auto simp: b row_ok_def int4_ok_def reservation_ok_def)
      qed (use that account_wfD(3) [OF wf] in \<open>simp add: b\<close>)
      show "stock_reserved b x = held b x" for x
        using account_wfD(4) [OF wf, of x] t unfolding h by (auto simp: stock_reserved_def b split: option.splits)
      show "acc_balance b x = - held b x" for x
        using account_wfD(5) [OF wf, of x] unfolding h by (auto simp: b)
    qed
  qed
qed

lemma spec_reserve_units: "spec_reserve p q orderID a = Some b \<Longrightarrow> units b = units a"
  by (auto simp: spec_reserve_def units_def fun_eq_iff split: option.splits if_splits)

lemma spec_release_units: "spec_release p q orderID a = Some b \<Longrightarrow> units b = units a"
  by (auto simp: spec_release_def units_def fun_eq_iff split: option.splits if_splits)

lemma spec_reserve_dom: "spec_reserve p q orderID a = Some b \<Longrightarrow> dom (acc_stock b) = dom (acc_stock a)"
  by (auto simp: spec_reserve_def split: option.splits if_splits)

lemma spec_release_dom: "spec_release p q orderID a = Some b \<Longrightarrow> dom (acc_stock b) = dom (acc_stock a)"
  by (auto simp: spec_release_def split: option.splits if_splits)

lemma spec_release_reserve:
  assumes "spec_reserve p q u a = Some b" and "acc_held a (u, p) = None" and "spec_release p q u b = Some c"
  shows "acc_stock c = acc_stock a \<and> acc_balance c = acc_balance a \<and>
    acc_held c (u, p) = Some \<lparr>Reservation_Quantity = q, Reservation_Status = ''released''\<rparr>"
proof -
  from assms(1,2) obtain s where s: "acc_stock a p = Some s"
    and b: "b = \<lparr>acc_stock = (acc_stock a)(p \<mapsto>
                   \<lparr>row_available = row_available s - q, row_reserved = row_reserved s + q\<rparr>),
                 acc_held = (acc_held a)((u, p) \<mapsto>
                   \<lparr>Reservation_Quantity = q, Reservation_Status = ''reserved''\<rparr>),
                 acc_balance = (acc_balance a)(p := acc_balance a p - q)\<rparr>"
    by (auto simp: spec_reserve_def split: option.splits if_splits)
  show ?thesis
    using assms(3) s by (auto simp: spec_release_def b fun_eq_iff split: if_splits)
qed

section \<open>Handlers\<close>

lemma account_reserve_wf:
  assumes "account_wf a" and "int4_ok q" and "account_reserve L p q orderID a = Some b"
  shows "account_wf b \<and> units b = units a"
  using assms spec_reserve_wf spec_reserve_units
  by (fastforce simp: account_reserve_def split: sum.splits if_splits)

lemma account_release_wf:
  assumes "account_wf a" and "account_release L p q orderID a = Some b"
  shows "account_wf b \<and> units b = units a"
  using assms spec_release_wf spec_release_units
  by (fastforce simp: account_release_def split: sum.splits if_splits)

text \<open>A handler's effect on the account is that of at most one call of the use case.\<close>

lemma InventoryHandler_Reserve_view:
  "account_view (snd (InventoryHandler_Reserve L c req w)) = account_view w
   \<or> (\<exists>p orderID. account_reserve L p (ReserveRequest_Quantity req) orderID (account_view w)
        = Some (account_view (snd (InventoryHandler_Reserve L c req w))))"
proof -
  have "snd (InventoryHandler_Reserve L c req w) = w \<or>
    (\<exists>p orderID. snd (InventoryHandler_Reserve L c req w) =
       snd (InventoryUsecase_Reserve L p (ReserveRequest_Quantity req) orderID w))"
    unfolding InventoryHandler_Reserve_def
    by (auto split: option.splits sum.splits prod.splits) (metis snd_conv)+
  then show ?thesis using inv_reserve.call_atomic by metis
qed

lemma InventoryHandler_Release_view:
  "account_view (snd (InventoryHandler_Release L c req w)) = account_view w
   \<or> (\<exists>p orderID. account_release L p (ReleaseRequest_Quantity req) orderID (account_view w)
        = Some (account_view (snd (InventoryHandler_Release L c req w))))"
proof -
  have "snd (InventoryHandler_Release L c req w) = w \<or>
    (\<exists>p orderID. snd (InventoryHandler_Release L c req w) =
       snd (InventoryUsecase_Release L p (ReleaseRequest_Quantity req) orderID w))"
    unfolding InventoryHandler_Release_def
    by (auto split: option.splits sum.splits prod.splits) (metis snd_conv)+
  then show ?thesis using inv_release.call_atomic by metis
qed

lemma InventoryUsecase_GetStock_db [simp]: "db (snd (InventoryUsecase_GetStock L p w)) = db w"
  by (auto simp: InventoryUsecase_GetStock_def Let_def split: prod.splits sum.splits option.splits if_splits
      dest!: redis_get_db GetStock_db')

lemma InventoryUsecase_GetStock_db': "InventoryUsecase_GetStock L p w = (r, w') \<Longrightarrow> db w' = db w"
  using InventoryUsecase_GetStock_db [of L p w] by simp

lemma InventoryHandler_GetStock_db [simp]: "db (snd (InventoryHandler_GetStock L c req w)) = db w"
  by (auto simp: InventoryHandler_GetStock_def split: sum.splits prod.splits
      dest: InventoryUsecase_GetStock_db')

lemma InventoryPostgres_GetLedger_db: "InventoryPostgres_GetLedger p w = (r, w') \<Longrightarrow> db w' = db w"
  by (auto simp: InventoryPostgres_GetLedger_def stmt_GetLedger_def split: prod.splits sum.splits
      dest!: query_rows_db rows_Err_db)

lemma InventoryHandler_GetLedger_db [simp]: "db (snd (InventoryHandler_GetLedger L c req w)) = db w"
  by (auto simp: InventoryHandler_GetLedger_def InventoryUsecase_GetLedger_def split: sum.splits prod.splits
      dest: InventoryPostgres_GetLedger_db)

section \<open>Reachable states\<close>

text \<open>
  A step of the service is one handler call, of any caller and with any request whose quantity
  is an \<^verbatim>\<open>int32\<close>, or a step of the environment: time passes, a new fault schedule begins, Redis
  changes on its own.
\<close>

inductive inv_step :: "uuid_lib \<Rightarrow> ('c, 'x) iw \<Rightarrow> ('c, 'x) iw \<Rightarrow> bool" for L where
  step_Reserve: "int4_ok (ReserveRequest_Quantity req) \<Longrightarrow>
     inv_step L w (snd (InventoryHandler_Reserve L c req w))"
| step_Release: "int4_ok (ReleaseRequest_Quantity rel) \<Longrightarrow>
     inv_step L w (snd (InventoryHandler_Release L c rel w))"
| step_GetStock: "inv_step L w (snd (InventoryHandler_GetStock L c s w))"
| step_GetLedger: "inv_step L w (snd (InventoryHandler_GetLedger L c s w))"
| step_env: "db w' = db w \<Longrightarrow> inv_step L w w'"

inductive inv_steps :: "uuid_lib \<Rightarrow> ('c, 'x) iw \<Rightarrow> ('c, 'x) iw \<Rightarrow> bool" for L where
  steps_refl: "inv_steps L w w"
| steps_step: "inv_steps L w w1 \<Longrightarrow> inv_step L w1 w2 \<Longrightarrow> inv_steps L w w2"

lemma inv_step_wf:
  assumes "inv_step L w w'" and "account_wf (account_view w)"
  shows "account_wf (account_view w') \<and> units (account_view w') = units (account_view w)"
  using assms
proof (induction rule: inv_step.induct)
  case (step_Reserve req w c)
  then show ?case
    using InventoryHandler_Reserve_view [of L c req w] account_reserve_wf by metis
next
  case (step_Release rel w c)
  then show ?case
    using InventoryHandler_Release_view [of L c rel w] account_release_wf by metis
qed (auto simp: account_view_def)

lemma inv_steps_wf:
  assumes "inv_steps L w w'" and "account_wf (account_view w)"
  shows "account_wf (account_view w') \<and> units (account_view w') = units (account_view w)"
  using assms
proof (induction rule: inv_steps.induct)
  case (steps_step w w1 w2)
  then show ?case using inv_step_wf by metis
qed simp

lemma inv_steps_dom:
  "inv_steps L w w' \<Longrightarrow> dom (acc_stock (account_view w')) = dom (acc_stock (account_view w))"
proof (induction rule: inv_steps.induct)
  case (steps_step w w1 w2)
  from steps_step.hyps(2) have "dom (acc_stock (account_view w2)) = dom (acc_stock (account_view w1))"
  proof (induction rule: inv_step.induct)
    case (step_Reserve req w c)
    then show ?case
      using InventoryHandler_Reserve_view [of L c req w] spec_reserve_dom
      by (fastforce simp: account_reserve_def split: sum.splits if_splits)
  next
    case (step_Release rel w c)
    then show ?case
      using InventoryHandler_Release_view [of L c rel w] spec_release_dom
      by (fastforce simp: account_release_def split: sum.splits if_splits)
  qed (auto simp: account_view_def)
  then show ?case using steps_step.IH by simp
qed simp

lemma held_le_units: "account_wf a \<Longrightarrow> 0 \<le> held a p \<and> held a p \<le> units a p"
  using account_wfD(3,4) [of a p]
  by (auto simp: stock_reserved_def units_def row_ok_def split: option.splits)

section \<open>Behaviour without faults\<close>

definition ledger_fresh :: "('c, 'x) iw \<Rightarrow> bool" where
  "ledger_fresh w \<longleftrightarrow> \<not> list_ex (\<lambda>e. Ledger_ID e = uuid_src w (uuid_ctr w)) (inventory_ledger (db w))"

lemmas repo_run = InventoryPostgres_InsertReservation_def InventoryPostgres_SelectReservationForUpdate_def
  InventoryPostgres_UpdateReservationStatus_def InventoryPostgres_UpdateStockForReserve_def
  InventoryPostgres_UpdateStockForRelease_def InventoryPostgres_InsertLedger_def
  stmt_InsertReservation_def stmt_SelectReservation_def stmt_UpdateReservationStatus_def
  stmt_UpdateStockForReserve_def stmt_UpdateStockForRelease_def stmt_InsertLedger_def
  put_inventory_def query_row_def uuid_New_def

lemma ledger_op_length [simp]: "length ledgerOpReserve = 24" "length ledgerOpRelease = 24"
  by (simp_all add: ledgerOpReserve_def ledgerOpRelease_def)

lemma ledger_fresh_list_ex:
  "ledger_fresh w \<Longrightarrow> list_ex (\<lambda>e. Ledger_ID e = uuid_src w (uuid_ctr w)) (inventory_ledger (db w)) = False"
  by (simp add: ledger_fresh_def)

lemma reserve_complete:
  assumes w: "faults w = []" "ledger_fresh w" "inv_wf (db w)" and q: "0 < q" "int4_ok q"
    and s: "spec_reserve p q u (account_of (db w)) = Some b"
  shows "\<exists>w'. reserve p q u w = (Inr (), w') \<and> faults w' = []"
proof (cases "reservations (db w) (u, p)")
  case (Some r)
  with s have "Reservation_Status r = ''reserved''" "Reservation_Quantity r = q"
    by (auto simp: spec_reserve_def account_of_def split: if_splits)
  with Some q w(1) show ?thesis by (simp add: reserve_def repo_run rt_simps)
next
  case None
  with s obtain t where t: "inventory (db w) p = Some t" "q \<le> row_available t" "int4_ok (row_reserved t + q)"
    by (auto simp: spec_reserve_def account_of_def split: option.splits if_splits)
  have "row_ok t" using w(3) t(1) account_wfD(3) [of "account_of (db w)" p t]
    by (simp add: inv_wf_def account_of_def)
  then have "int4_ok (row_available t - q)" "0 \<le> row_reserved t + q" "0 \<le> row_available t - q"
    using t q by (auto simp: row_ok_def int4_ok_def)
  moreover have "int4_ok (- q)" using q by (auto simp: int4_ok_def)
  ultimately show ?thesis
    using None t q w(1) ledger_fresh_list_ex [OF w(2)]
    by (simp add: reserve_def repo_run rt_simps i64_neg_int4)
qed

lemma release_complete:
  assumes w: "faults w = []" "ledger_fresh w" "inv_wf (db w)"
    and s: "spec_release p q u (account_of (db w)) = Some b"
  shows "\<exists>w'. release p q u w = (Inr (), w') \<and> faults w' = []"
proof -
  from s obtain r where r: "reservations (db w) (u, p) = Some r" "Reservation_Quantity r = q"
    by (auto simp: spec_release_def account_of_def split: option.splits if_splits)
  have rok: "reservation_ok r" using w(3) r(1) account_wfD(2) [of "account_of (db w)" "(u, p)" r]
    by (simp add: inv_wf_def account_of_def)
  show ?thesis
  proof (cases "Reservation_Status r = ''released''")
    case True
    with r w(1) show ?thesis by (simp add: release_def repo_run rt_simps)
  next
    case False
    with s r obtain t where t: "inventory (db w) p = Some t" "q \<le> row_reserved t" "int4_ok (row_available t + q)"
      and st: "Reservation_Status r = ''reserved''"
      by (auto simp: spec_release_def account_of_def split: option.splits if_splits)
    have "row_ok t" using w(3) t(1) account_wfD(3) [of "account_of (db w)" p t]
      by (simp add: inv_wf_def account_of_def)
    then have "int4_ok (row_reserved t - q)" "0 \<le> row_available t + q" "0 \<le> row_reserved t - q"
      using t rok r by (auto simp: row_ok_def int4_ok_def reservation_ok_def)
    moreover have "int4_ok q" using rok r by (simp add: reservation_ok_def)
    ultimately show ?thesis
      using r t st w(1) ledger_fresh_list_ex [OF w(2)]
      by (simp add: release_def repo_run rt_simps)
  qed
qed

text \<open>Whether a call without faults succeeds is decided by the account alone.\<close>

lemma Reserve_Inr_iff:
  assumes w: "faults w = []" "ledger_fresh w" "inv_wf (db w)" and q: "int4_ok q"
  shows "(\<exists>w'. InventoryUsecase_Reserve L p q orderID w = (Inr (), w'))
       \<longleftrightarrow> account_reserve L p q orderID (account_view w) \<noteq> None"
proof
  assume "\<exists>w'. InventoryUsecase_Reserve L p q orderID w = (Inr (), w')"
  then show "account_reserve L p q orderID (account_view w) \<noteq> None"
    using inv_reserve.call_done by fastforce
next
  assume "account_reserve L p q orderID (account_view w) \<noteq> None"
  then obtain u b where u: "uuid_Parse L orderID = Inr u" "0 < q"
    and s: "spec_reserve p q u (account_of (db w)) = Some b"
    by (auto simp: account_reserve_def account_view_def split: sum.splits if_splits)
  from reserve_complete [OF w u(2) q s] obtain w1 where "reserve p q u w = (Inr (), w1)" "faults w1 = []"
    by blast
  then show "\<exists>w'. InventoryUsecase_Reserve L p q orderID w = (Inr (), w')"
    using u w by (simp add: InventoryUsecase_Reserve_def rt_simps)
qed

lemma Release_Inr_iff:
  assumes w: "faults w = []" "ledger_fresh w" "inv_wf (db w)"
  shows "(\<exists>w'. InventoryUsecase_Release L p q orderID w = (Inr (), w'))
       \<longleftrightarrow> account_release L p q orderID (account_view w) \<noteq> None"
proof
  assume "\<exists>w'. InventoryUsecase_Release L p q orderID w = (Inr (), w')"
  then show "account_release L p q orderID (account_view w) \<noteq> None"
    using inv_release.call_done by fastforce
next
  assume "account_release L p q orderID (account_view w) \<noteq> None"
  then obtain u b where u: "uuid_Parse L orderID = Inr u" "0 < q"
    and s: "spec_release p q u (account_of (db w)) = Some b"
    by (auto simp: account_release_def account_view_def split: sum.splits if_splits)
  from release_complete [OF w s] obtain w1 where "release p q u w = (Inr (), w1)" "faults w1 = []"
    by blast
  then show "\<exists>w'. InventoryUsecase_Release L p q orderID w = (Inr (), w')"
    using u w by (simp add: InventoryUsecase_Release_def rt_simps)
qed

section \<open>A concrete service\<close>

definition demo_inv :: "unit inv_world" where
  "demo_inv = \<lparr>faults = [], clock = 0, uuid_src = of_nat, uuid_ctr = 0,
     db = \<lparr>inventory = [1 \<mapsto> \<lparr>row_available = 10, row_reserved = 0\<rparr>],
           reservations = Map.empty, inventory_ledger = []\<rparr>,
     inv_redis = None, inv_cache = ()\<rparr>"

definition demo_service :: ctx where
  "demo_service = WithIdentity ctx_Background
     \<lparr>Identity_UserID = ''order-service'', Identity_Role = RoleService,
      Identity_AuthorizationHeader = ''''\<rparr>"

definition demo_reserve :: ReserveRequest where
  "demo_reserve = \<lparr>ReserveRequest_ProductId = ''x'', ReserveRequest_Quantity = 3,
     ReserveRequest_OrderId = ''xx'', ReserveRequest_IdempotencyKey = ''k''\<rparr>"

lemma demo_inv_wf: "inv_wf (db demo_inv)"
  by (auto simp: inv_wf_def account_wf_def account_of_def demo_inv_def held_def stock_reserved_def
      row_ok_def int4_ok_def ledger_sum_def split: option.splits if_splits)

lemma demo_inv_fresh: "ledger_fresh demo_inv" "faults demo_inv = []"
  by (simp_all add: ledger_fresh_def demo_inv_def)

lemma demo_inv_steps:
  "inv_steps unary_uuid demo_inv (snd (InventoryHandler_Reserve unary_uuid demo_service demo_reserve demo_inv))"
  by (rule steps_step [OF steps_refl step_Reserve]) (simp add: demo_reserve_def int4_ok_def)

section \<open>Properties of the inventory service\<close>

text \<open>
  C7. Whatever sequence of handler calls, faults and environment steps the service goes through,
  the stock invariant holds: no negative column, every product's reserved column equals the sum
  of its unreleased reservations, and the ledger balances it.
\<close>

theorem inventory_invariant:
  assumes "inv_steps L w w'" and "inv_wf (db w)"
  shows "inv_wf (db w')"
  using inv_steps_wf [OF assms(1)] assms(2) by (simp add: inv_wf_def account_view_def)

theorem inventory_invariant_witness:
  "inv_wf (db (snd (InventoryHandler_Reserve unary_uuid demo_service demo_reserve demo_inv)))"
  by (rule inventory_invariant [OF demo_inv_steps demo_inv_wf])

text \<open>
  C1. No overselling: along every run of the service, the units on sale are never negative and
  together with the units under unreleased reservations they are exactly the units the product
  started with.
\<close>

theorem inventory_no_oversell:
  assumes "inv_steps L w w'" and "inv_wf (db w)" and "inventory (db w) p = Some s"
  shows "\<exists>s'. inventory (db w') p = Some s' \<and> 0 \<le> row_available s' \<and>
    row_available s' + held (account_of (db w')) p = row_available s + row_reserved s"
proof -
  have wf: "account_wf (account_of (db w'))" and u: "units (account_of (db w')) = units (account_of (db w))"
    using inv_steps_wf [OF assms(1)] assms(2) by (auto simp: inv_wf_def account_view_def)
  from inv_steps_dom [OF assms(1)] assms(3) obtain s' where s': "inventory (db w') p = Some s'"
    by (fastforce simp: account_view_def account_of_def)
  have "units (account_of (db w')) p = units (account_of (db w)) p" using u by simp
  then show ?thesis
    using s' assms(3) account_wfD(3) [OF wf, of p s'] account_wfD(4) [OF wf, of p]
    by (auto simp: units_def account_of_def stock_reserved_def row_ok_def)
qed

theorem inventory_no_oversell_witness:
  "\<exists>s'. inventory (db (snd (InventoryHandler_Reserve unary_uuid demo_service demo_reserve demo_inv))) 1 = Some s'
     \<and> 0 \<le> row_available s' \<and> row_available s' + held (account_of
       (db (snd (InventoryHandler_Reserve unary_uuid demo_service demo_reserve demo_inv)))) 1 = 10"
  using inventory_no_oversell [OF demo_inv_steps demo_inv_wf, of 1 "\<lparr>row_available = 10, row_reserved = 0\<rparr>"]
  by (simp add: demo_inv_def)

text \<open>
  C8. A reservation can be retried safely: any number of attempts of the same reservation, each
  with its own faults (lost replies included) and with arbitrary changes of the world outside the
  database in between, reserves the units at most once.
\<close>

theorem reserve_at_most_once:
  assumes "\<forall>e\<in>set es. \<forall>w. account_view (e w) = account_view w"
  shows "account_view (fold (\<lambda>e w. snd (InventoryUsecase_Reserve L p q orderID (e w))) es w) = account_view w
    \<or> account_reserve L p q orderID (account_view w)
      = Some (account_view (fold (\<lambda>e w. snd (InventoryUsecase_Reserve L p q orderID (e w))) es w))"
  using assms by (rule inv_reserve.at_most_once)

theorem reserve_at_most_once_witness:
  "account_view (fold (\<lambda>e w. snd (InventoryUsecase_Reserve unary_uuid 1 3 ''xx'' (e w)))
       [\<lambda>w. w\<lparr>faults := [NoFault, NoFault, NoFault, NoFault, FailAfter (StdErr ''reset'')]\<rparr>, \<lambda>w. w] demo_inv)
     = account_view demo_inv
   \<or> account_reserve unary_uuid 1 3 ''xx'' (account_view demo_inv)
     = Some (account_view (fold (\<lambda>e w. snd (InventoryUsecase_Reserve unary_uuid 1 3 ''xx'' (e w)))
       [\<lambda>w. w\<lparr>faults := [NoFault, NoFault, NoFault, NoFault, FailAfter (StdErr ''reset'')]\<rparr>, \<lambda>w. w] demo_inv))"
  by (rule reserve_at_most_once) (auto simp: account_view_def)

text \<open>
  C30. The account decides: when nothing fails, \<^verbatim>\<open>Reserve\<close> succeeds exactly when the same
  reservation is already held, or none exists for the order and product and enough units are
  free; otherwise it returns an error and the account is as before.
\<close>

theorem reserve_decided_by_account:
  assumes "faults w = []" and "ledger_fresh w" and "inv_wf (db w)" and "int4_ok q"
  shows "case account_reserve L p q orderID (account_view w) of
      Some a \<Rightarrow> fst (InventoryUsecase_Reserve L p q orderID w) = Inr () \<and>
        account_view (snd (InventoryUsecase_Reserve L p q orderID w)) = a
    | None \<Rightarrow> (\<exists>e. fst (InventoryUsecase_Reserve L p q orderID w) = Inl e) \<and>
        account_view (snd (InventoryUsecase_Reserve L p q orderID w)) = account_view w"
proof (cases "account_reserve L p q orderID (account_view w)")
  case None
  moreover from None Reserve_Inr_iff [OF assms, of L p orderID]
  obtain e w' where "InventoryUsecase_Reserve L p q orderID w = (Inl e, w')"
    by (cases "InventoryUsecase_Reserve L p q orderID w"; cases "fst (InventoryUsecase_Reserve L p q orderID w)") auto
  ultimately show ?thesis using inv_reserve.call_atomic [of L p q orderID w] by auto
next
  case (Some a)
  with Reserve_Inr_iff [OF assms, of L p orderID] obtain w' where "InventoryUsecase_Reserve L p q orderID w = (Inr (), w')"
    by fastforce
  with Some inv_reserve.call_done [of L p q orderID w "()" w'] show ?thesis by simp
qed

theorem reserve_decided_by_account_witness:
  "fst (InventoryUsecase_Reserve unary_uuid 1 3 ''xx'' demo_inv) = Inr ()
   \<and> (\<exists>e. fst (InventoryUsecase_Reserve unary_uuid 1 11 ''xx'' demo_inv) = Inl e)"
  using reserve_decided_by_account [OF demo_inv_fresh(2,1) demo_inv_wf, of 3 unary_uuid 1 "''xx''"]
    reserve_decided_by_account [OF demo_inv_fresh(2,1) demo_inv_wf, of 11 unary_uuid 1 "''xx''"]
  by (simp add: account_reserve_def unary_uuid_def spec_reserve_def account_view_def account_of_def
      demo_inv_def int4_ok_def)

text \<open>
  C31. A release undoes its reservation: after a successful first reservation and a successful
  release of it, the product's row and the ledger balance are what they were, and the
  reservation is on record as released.
\<close>

theorem release_undoes_reserve:
  assumes "uuid_Parse L orderID = Inr u" and "reservations (db w) (u, p) = None"
    and "InventoryUsecase_Reserve L p q orderID w = (Inr x, w1)" and "db w2 = db w1"
    and "InventoryUsecase_Release L p q orderID w2 = (Inr y, w3)"
  shows "inventory (db w3) = inventory (db w) \<and> ledger_sum (db w3) = ledger_sum (db w) \<and>
    reservations (db w3) (u, p) = Some \<lparr>Reservation_Quantity = q, Reservation_Status = ''released''\<rparr>"
proof -
  have 1: "spec_reserve p q u (account_of (db w)) = Some (account_of (db w1))"
    using inv_reserve.call_done [OF assms(3)] assms(1)
    by (auto simp: account_reserve_def account_view_def split: if_splits)
  have 2: "spec_release p q u (account_of (db w1)) = Some (account_of (db w3))"
    using inv_release.call_done [OF assms(5)] assms(1,4)
    by (auto simp: account_release_def account_view_def split: if_splits)
  from spec_release_reserve [OF 1 _ 2] assms(2) show ?thesis by (simp add: account_of_def)
qed

theorem release_undoes_reserve_witness:
  "\<exists>w1 w3. InventoryUsecase_Reserve unary_uuid 1 3 ''xx'' demo_inv = (Inr (), w1)
     \<and> InventoryUsecase_Release unary_uuid 1 3 ''xx'' w1 = (Inr (), w3)
     \<and> inventory (db w3) = inventory (db demo_inv)"
proof -
  obtain w1 where 1: "InventoryUsecase_Reserve unary_uuid 1 3 ''xx'' demo_inv = (Inr (), w1)"
    and w1: "faults w1 = []" "reservations (db w1) (2, 1) =
        Some \<lparr>Reservation_Quantity = 3, Reservation_Status = ''reserved''\<rparr>"
      "inventory (db w1) 1 = Some \<lparr>row_available = 7, row_reserved = 3\<rparr>" "inv_redis w1 = None"
      "map Ledger_ID (inventory_ledger (db w1)) = [0]" "uuid_src w1 = of_nat" "uuid_ctr w1 = 1"
    by (simp add: InventoryUsecase_Reserve_def unary_uuid_def reserve_def repo_run rt_simps demo_inv_def
        int4_ok_def i64_neg_int4 writeStockToCache_def publishInventoryEvent_def)
  have fr: "list_ex (\<lambda>e. Ledger_ID e = 1) (inventory_ledger (db w1)) = False"
    using w1(5) by (auto simp: list_ex_iff map_eq_Cons_conv)
  obtain w3 where 3: "InventoryUsecase_Release unary_uuid 1 3 ''xx'' w1 = (Inr (), w3)"
    using w1 fr by (simp add: InventoryUsecase_Release_def unary_uuid_def release_def repo_run rt_simps
        int4_ok_def writeStockToCache_def publishInventoryEvent_def)
  have "inventory (db w3) = inventory (db demo_inv)"
    using release_undoes_reserve [OF _ _ 1 refl 3, of 2] by (simp add: unary_uuid_def demo_inv_def)
  with 1 3 show ?thesis by blast
qed

section \<open>Cache and access\<close>

lemma sql_frame:
  "sql stmt (w :: ('c, 'x) iw) = (r, w') \<Longrightarrow>
   inv_redis w' = inv_redis w \<and> inv_cache w' = inv_cache w \<and> clock w' = clock w"
proof -
  assume s: "sql stmt w = (r, w')"
  obtain f w1 where f: "take_fault w = (f, w1)" by fastforce
  then have "inv_redis w1 = inv_redis w \<and> inv_cache w1 = inv_cache w \<and> clock w1 = clock w"
    by (auto simp: take_fault_def split: list.splits)
  with s f show ?thesis by (cases f) (auto simp: sql_def split: sum.splits)
qed

lemma repo_frame:
  "InventoryPostgres_InsertReservation u p q (w :: ('c, 'x) iw) = (r1, w') \<Longrightarrow>
     inv_redis w' = inv_redis w \<and> inv_cache w' = inv_cache w \<and> clock w' = clock w"
  "InventoryPostgres_SelectReservationForUpdate u p (w :: ('c, 'x) iw) = (r2, w') \<Longrightarrow>
     inv_redis w' = inv_redis w \<and> inv_cache w' = inv_cache w \<and> clock w' = clock w"
  "InventoryPostgres_UpdateStockForReserve p q (w :: ('c, 'x) iw) = (r3, w') \<Longrightarrow>
     inv_redis w' = inv_redis w \<and> inv_cache w' = inv_cache w \<and> clock w' = clock w"
  "InventoryPostgres_InsertLedger p u n opn (w :: ('c, 'x) iw) = (r4, w') \<Longrightarrow>
     inv_redis w' = inv_redis w \<and> inv_cache w' = inv_cache w \<and> clock w' = clock w"
  unfolding InventoryPostgres_InsertReservation_def InventoryPostgres_SelectReservationForUpdate_def
    InventoryPostgres_UpdateStockForReserve_def InventoryPostgres_InsertLedger_def uuid_New_def
  by (auto split: prod.splits sum.splits if_splits dest!: sql_frame)

lemma reserve_frame:
  assumes "reserve p q u w = (Inr x, w')"
  shows "inv_redis w' = inv_redis w \<and> inv_cache w' = inv_cache w \<and> clock w' = clock w"
proof -
  obtain n w1 where 1: "InventoryPostgres_InsertReservation u p q w = (Inr n, w1)"
    using assms by (auto simp: reserve_def seq_Inr)
  show ?thesis
  proof (cases "n = 0")
    case True
    then show ?thesis using assms 1 by (auto simp: reserve_def seq_Inr dest!: repo_frame)
  next
    case False
    then show ?thesis using assms 1 by (auto simp: reserve_def seq_Inr dest!: repo_frame)
  qed
qed

lemma held_pos:
  assumes wf: "account_wf a" and r: "acc_held a (u, p) = Some r" "Reservation_Status r = ''reserved''"
  shows "0 < held a p"
proof -
  have "active p (u, p) (the (acc_held a (u, p))) \<le> held a p"
    unfolding held_def
  proof (rule member_le_sum)
    show "(u, p) \<in> dom (acc_held a)" using r by auto
    show "0 \<le> active p k (the (acc_held a k))" if "k \<in> dom (acc_held a) - {(u, p)}" for k
      using that account_wfD(2) [OF wf, of k] by (auto simp: active_def reservation_ok_def)
  qed (rule account_wfD(1) [OF wf])
  then show ?thesis using r account_wfD(2) [OF wf r(1)] by (simp add: active_def reservation_ok_def)
qed

lemma spec_reserve_stock:
  assumes "account_wf a" and "spec_reserve p q u a = Some b"
  shows "\<exists>s. acc_stock b p = Some s"
proof (cases "acc_held a (u, p)")
  case None
  then show ?thesis using assms(2) by (auto simp: spec_reserve_def split: option.splits if_splits)
next
  case (Some r)
  with assms(2) have "b = a" "Reservation_Status r = ''reserved''"
    by (auto simp: spec_reserve_def split: if_splits)
  then show ?thesis
    using held_pos [OF assms(1) Some] account_wfD(4) [OF assms(1), of p]
    by (auto simp: stock_reserved_def split: option.splits)
qed

text \<open>
  Write-through: after a successful reservation during which nothing fails, the value handed
  to Redis under the product's key is the stock row just committed, with the cache's time to
  live, and it is followed by the inventory event for the product.
\<close>

theorem reserve_writes_through:
  assumes "faults w = []" and "ledger_fresh w" and "inv_wf (db w)" and "int4_ok q"
    and "inv_redis w = Some R"
    and "InventoryUsecase_Reserve L p q orderID w = (Inr x, w')"
  shows "\<exists>s e. inventory (db w') p = Some s \<and>
    inv_cache w' = redis_Publish R ''inventory-events'' e
      (snd (redis_Set R (cacheKey L p)
        (Stock_Marshal L \<lparr>Stock_ProductID = p, Stock_Available = row_available s, Stock_Reserved = row_reserved s\<rparr>)
        (clock w) cacheTTL (inv_cache w)))"
proof -
  from assms(6) obtain u w1 where u: "uuid_Parse L orderID = Inr u" "0 < q"
    and run: "txm_Run (reserve p q u) w = (Inr (), w1)"
    and w': "w' = publishInventoryEvent L p (writeStockToCache L p w1)"
    by (auto simp: InventoryUsecase_Reserve_def seq_Inr split: sum.splits)
  obtain b where b: "spec_reserve p q u (account_of (db w)) = Some b"
    using inv_reserve.call_done [OF assms(6)] u by (auto simp: account_reserve_def account_view_def)
  obtain w2 where w2: "reserve p q u w = (Inr (), w2)" "faults w2 = []"
    using reserve_complete [OF assms(1-3) u(2) assms(4) b] by blast
  with run assms(1) have w1: "w1 = w2" by (simp add: rt_simps)
  obtain s where s: "inventory (db w1) p = Some s"
    using spec_reserve_stock [of "account_of (db w)" p q u "account_of (db w1)"]
      reserve_refines [OF w2(1)] assms(3) w1
    by (auto simp: inv_wf_def account_of_def)
  show ?thesis
    using reserve_frame [OF w2(1)] w1 w2 s assms(5) w'
    by (auto simp: writeStockToCache_def publishInventoryEvent_def InventoryPostgres_GetStock_def
        stmt_GetStock_def query_row_def rt_simps redis_set_def redis_publish_def)
qed

definition demo_redis :: "(string \<times> json) list redis_client" where
  "demo_redis = \<lparr>redis_Get = \<lambda>k now c. (case map_of c k of None \<Rightarrow> Inl (StdErr ''redis: nil'') | Some v \<Rightarrow> Inr v, c),
     redis_Set = \<lambda>k v now ttl c. (None, (k, v) # c), redis_Publish = \<lambda>ch v c. (ch, v) # c\<rparr>"

definition demo_inv_redis :: "(string \<times> json) list inv_world" where
  "demo_inv_redis = \<lparr>faults = [], clock = 0, uuid_src = of_nat, uuid_ctr = 0, db = db demo_inv,
     inv_redis = Some demo_redis, inv_cache = []\<rparr>"

theorem reserve_writes_through_witness:
  "\<exists>w' s e. InventoryUsecase_Reserve unary_uuid 1 3 ''xx'' demo_inv_redis = (Inr (), w') \<and>
     inventory (db w') 1 = Some s \<and>
     inv_cache w' = [(''inventory-events'', e), (''inventory:x'', Stock_Marshal unary_uuid
       \<lparr>Stock_ProductID = 1, Stock_Available = row_available s, Stock_Reserved = row_reserved s\<rparr>)]"
proof -
  have w: "faults demo_inv_redis = []" "ledger_fresh demo_inv_redis" "inv_wf (db demo_inv_redis)"
    "int4_ok 3" "inv_redis demo_inv_redis = Some demo_redis"
    using demo_inv_wf by (simp_all add: demo_inv_redis_def ledger_fresh_def demo_inv_def int4_ok_def)
  have "account_reserve unary_uuid 1 3 ''xx'' (account_view demo_inv_redis) \<noteq> None"
    by (simp add: account_reserve_def unary_uuid_def spec_reserve_def account_view_def account_of_def
        demo_inv_redis_def demo_inv_def int4_ok_def)
  then obtain w' where w': "InventoryUsecase_Reserve unary_uuid 1 3 ''xx'' demo_inv_redis = (Inr (), w')"
    using Reserve_Inr_iff [OF w(1-4)] by blast
  from reserve_writes_through [OF w w'] show ?thesis
    using w' by (auto simp: demo_redis_def demo_inv_redis_def cacheKey_def unary_uuid_def)
qed

text \<open>
  C36. Stock is changed for services only: without the service role both mutating handlers answer
  \<^verbatim>\<open>PermissionDenied\<close> and leave the whole world as it was.
\<close>

theorem inventory_mutations_need_service_role:
  assumes "GetRole c \<noteq> (RoleService, True)"
  shows "\<exists>m. InventoryHandler_Reserve L c req w = (Inl (StatusErr codes_PermissionDenied m), w)
    \<and> InventoryHandler_Release L c rel w = (Inl (StatusErr codes_PermissionDenied m), w)"
  using assms
  by (auto simp: InventoryHandler_Reserve_def InventoryHandler_Release_def RequireRole_def split: prod.splits)

theorem inventory_mutations_need_service_role_witness:
  "\<exists>m. InventoryHandler_Reserve unary_uuid ctx_Background demo_reserve demo_inv
       = (Inl (StatusErr codes_PermissionDenied m), demo_inv)"
  using inventory_mutations_need_service_role
    [of ctx_Background unary_uuid demo_reserve demo_inv
      "\<lparr>ReleaseRequest_ProductId = ''x'', ReleaseRequest_Quantity = 3, ReleaseRequest_OrderId = ''xx'',
        ReleaseRequest_IdempotencyKey = ''k''\<rparr>"]
  by (auto simp: GetRole_def IdentityFromContext_def ctx_Background_def)

text \<open>
  A non-positive quantity is refused before the database is touched, but the status is
  \<^verbatim>\<open>Internal\<close> although the error wraps \<^verbatim>\<open>ErrInvalidArgument\<close>: the code \<^verbatim>\<open>invalid_quantity\<close> is not a
  registered kind.
\<close>

theorem invalid_quantity_status:
  assumes "GetRole c = (RoleService, True)" and "uuid_lib_ok L"
    and "ReserveRequest_ProductId req = uuid_String L p" and "ReserveRequest_OrderId req = uuid_String L u"
    and "ReserveRequest_Quantity req \<le> 0"
  shows "errors_Is invalid_quantity ErrInvalidArgument \<and>
    InventoryHandler_Reserve L c req w =
      (Inl (StatusErr codes_Internal ''quantity must be positive: invalid argument''), w)"
  using assms
  by (simp add: InventoryHandler_Reserve_def RequireRole_def uuid_lib_ok_def InventoryUsecase_Reserve_def
      inventory_mapError_def ToStatus_def to_status_def invalid_quantity_def Wrap_def ParseKind_def
      EntryFor_def registry_table_def kind_defs)

theorem invalid_quantity_status_witness:
  "InventoryHandler_Reserve unary_uuid demo_service (demo_reserve\<lparr>ReserveRequest_Quantity := 0\<rparr>) demo_inv =
     (Inl (StatusErr codes_Internal ''quantity must be positive: invalid argument''), demo_inv)"
  using invalid_quantity_status [of demo_service unary_uuid
      "demo_reserve\<lparr>ReserveRequest_Quantity := 0\<rparr>" 1 2 demo_inv]
  by (simp add: demo_service_def demo_reserve_def)

end
