(* ===== verification/Payment_Model.thy ===== *)
theory Payment_Model
  imports Auth_Context Go_Std
begin

text \<open>
  The payment service (src/services/payment-service): payments and refunds, the statements of
  the PostgreSQL repository with the constraints of the migrations, the use case and the gRPC
  handlers, and the dead-letter producer the handler reports failures to.
\<close>

section \<open>Data\<close>

definition StatusPending :: string where "StatusPending = ''pending''"
definition StatusSuccess :: string where "StatusSuccess = ''success''"
definition StatusFailed :: string where "StatusFailed = ''failed''"
definition StatusRefunded :: string where "StatusRefunded = ''refunded''"

lemmas pay_status_defs = StatusPending_def StatusSuccess_def StatusFailed_def StatusRefunded_def

record Payment =
  Payment_ID :: uuid
  Payment_OrderID :: uuid
  Payment_UserID :: uuid
  Payment_Amount :: int
  Payment_Status :: string

record Refund =
  Refund_ID :: uuid
  Refund_PaymentID :: uuid
  Refund_Amount :: int
  Refund_Reason :: string
  Refund_Status :: string
  Refund_IdempotencyKey :: string
  Refund_CreatedAt :: int

record pay_db =
  payments :: "Payment list"
  refunds :: "Refund list"

text \<open>
  The random source yields the numerators of \<^verbatim>\<open>rand.Float64\<close>, which are multiples of \<open>1 / 2 ^ 53\<close>.
  \<open>pay_dlq\<close> tells whether a dead-letter producer is configured; \<open>pay_dlq_events\<close> are the sends
  started so far.
\<close>

record pay_world = "pay_db world" +
  pay_rand :: "nat \<Rightarrow> int"
  pay_rand_ctr :: nat
  pay_dlq :: bool
  pay_dlq_events :: "(string \<times> string \<times> string) list"

type_synonym 'x pw = "'x pay_world_scheme"

section \<open>Statements of the repository\<close>

definition payment_checks :: "Payment \<Rightarrow> go_error option" where
  "payment_checks p =
     (if \<not> int8_ok (Payment_Amount p) then Some (StdErr ''value is out of range for int8'')
      else if Payment_Amount p < 0 then Some (StdErr ''violates check constraint chk_payments_amount'')
      else if Payment_Status p \<notin> {''pending'', ''success'', ''failed'', ''refunded''}
        then Some (StdErr ''violates check constraint chk_payments_status'')
      else None)"

definition has_payment_id :: "uuid \<Rightarrow> pay_db \<Rightarrow> bool" where
  "has_payment_id i d = list_ex (\<lambda>p. Payment_ID p = i) (payments d)"

definition has_payment_order :: "uuid \<Rightarrow> pay_db \<Rightarrow> bool" where
  "has_payment_order i d = list_ex (\<lambda>p. Payment_OrderID p = i) (payments d)"

definition stmt_Create :: "Payment \<Rightarrow> (pay_db, unit) stmt" where
  "stmt_Create p d =
     (case payment_checks p of
        Some e \<Rightarrow> Inl e
      | None \<Rightarrow>
          if has_payment_id (Payment_ID p) d \<or> has_payment_order (Payment_OrderID p) d
          then Inl (StdErr ''duplicate key value violates unique constraint'')
          else Inr ((), d\<lparr>payments := payments d @ [p]\<rparr>))"

text \<open>\<^verbatim>\<open>ON CONFLICT (order_id) DO NOTHING RETURNING\<close>: a conflict returns no row.\<close>

definition stmt_InsertOrNothing :: "Payment \<Rightarrow> (pay_db, Payment) stmt" where
  "stmt_InsertOrNothing p d =
     (case payment_checks p of
        Some e \<Rightarrow> Inl e
      | None \<Rightarrow>
          if has_payment_order (Payment_OrderID p) d then Inl (Sentinel ErrNoRows)
          else if has_payment_id (Payment_ID p) d
            then Inl (StdErr ''duplicate key value violates unique constraint payments_pkey'')
          else Inr (p, d\<lparr>payments := payments d @ [p]\<rparr>))"

definition stmt_GetByOrderID :: "uuid \<Rightarrow> (pay_db, Payment) stmt" where
  "stmt_GetByOrderID i = query_row (\<lambda>d. find (\<lambda>p. Payment_OrderID p = i) (payments d))"

definition stmt_GetByID :: "uuid \<Rightarrow> (pay_db, Payment) stmt" where
  "stmt_GetByID i = query_row (\<lambda>d. find (\<lambda>p. Payment_ID p = i) (payments d))"

definition set_status :: "string \<Rightarrow> (Payment \<Rightarrow> bool) \<Rightarrow> (pay_db, int) stmt" where
  "set_status s P d =
     (let n = length (filter P (payments d)) in
      if n > 0 \<and> s \<notin> {''pending'', ''success'', ''failed'', ''refunded''}
      then Inl (StdErr ''violates check constraint chk_payments_status'')
      else Inr (int n, d\<lparr>payments := map (\<lambda>p. if P p then p\<lparr>Payment_Status := s\<rparr> else p) (payments d)\<rparr>))"

definition stmt_UpdateStatus :: "uuid \<Rightarrow> string \<Rightarrow> (pay_db, int) stmt" where
  "stmt_UpdateStatus i s = set_status s (\<lambda>p. Payment_ID p = i)"

definition stmt_UpdateStatusIf :: "uuid \<Rightarrow> string \<Rightarrow> string \<Rightarrow> (pay_db, int) stmt" where
  "stmt_UpdateStatusIf i newStatus expectedStatus =
     set_status newStatus (\<lambda>p. Payment_ID p = i \<and> Payment_Status p = expectedStatus)"

text \<open>A stored refund keeps the microseconds of its time.\<close>

definition stored_refund :: "Refund \<Rightarrow> Refund" where
  "stored_refund r = r\<lparr>Refund_CreatedAt := pg_timestamp (Refund_CreatedAt r)\<rparr>"

definition stmt_CreateRefund :: "Refund \<Rightarrow> (pay_db, unit) stmt" where
  "stmt_CreateRefund r d =
     (if \<not> int8_ok (Refund_Amount r) then Inl (StdErr ''value is out of range for int8'')
      else if utf8_length (Refund_Reason r) > 500 \<or> utf8_length (Refund_Status r) > 50
           \<or> utf8_length (Refund_IdempotencyKey r) > 255
        then Inl (StdErr ''value too long for type character varying'')
      else if list_ex (\<lambda>x. Refund_ID x = Refund_ID r) (refunds d)
        then Inl (StdErr ''duplicate key value violates unique constraint refunds_pkey'')
      else if Refund_IdempotencyKey r \<noteq> '''' \<and>
           list_ex (\<lambda>x. Refund_IdempotencyKey x = Refund_IdempotencyKey r) (refunds d)
        then Inl (StdErr ''duplicate key value violates unique constraint idx_refunds_idempotency_key'')
      else if \<not> has_payment_id (Refund_PaymentID r) d
        then Inl (StdErr ''violates foreign key constraint refunds_payment_id_fkey'')
      else Inr ((), d\<lparr>refunds := refunds d @ [stored_refund r]\<rparr>))"

definition stmt_GetRefund :: "uuid \<Rightarrow> (pay_db, Refund) stmt" where
  "stmt_GetRefund i = query_row (\<lambda>d. find (\<lambda>r. Refund_ID r = i) (refunds d))"

definition stmt_GetRefundByIdempotencyKey :: "string \<Rightarrow> (pay_db, Refund) stmt" where
  "stmt_GetRefundByIdempotencyKey k = query_row (\<lambda>d. find (\<lambda>r. Refund_IdempotencyKey r = k) (refunds d))"

definition stmt_ListRefunds :: "uuid \<Rightarrow> (pay_db, Refund list) stmt" where
  "stmt_ListRefunds i =
     query_rows (\<lambda>d. sort_key (\<lambda>r. - Refund_CreatedAt r) (filter (\<lambda>r. Refund_PaymentID r = i) (refunds d)))"

section \<open>The repository\<close>

definition PaymentPostgres_Create :: "Payment \<Rightarrow> 'x pw \<Rightarrow> unit result \<times> 'x pw" where
  "PaymentPostgres_Create payment w =
     (case sql (stmt_Create payment) w of
        (Inl err, w1) \<Rightarrow> (Inl (errorf ''insert payment'' err), w1)
      | (Inr _, w1) \<Rightarrow> (Inr (), w1))"

definition PaymentPostgres_CreateOrGet :: "Payment \<Rightarrow> 'x pw \<Rightarrow> Payment result \<times> 'x pw" where
  "PaymentPostgres_CreateOrGet payment w =
     (case sql (stmt_InsertOrNothing payment) w of
        (Inr p, w1) \<Rightarrow> (Inr p, w1)
      | (Inl err, w1) \<Rightarrow>
          if \<not> errors_Is err ErrNoRows then (Inl (errorf ''insert payment'' err), w1)
          else (case sql (stmt_GetByOrderID (Payment_OrderID payment)) w1 of
                  (Inl err, w2) \<Rightarrow>
                    if errors_Is err ErrNoRows then (Inl (sentinelf ErrNotFound ''payment''), w2)
                    else (Inl (errorf ''get payment by order id'' err), w2)
                | (Inr p, w2) \<Rightarrow> (Inr p, w2)))"

definition PaymentPostgres_GetByID :: "uuid \<Rightarrow> 'x pw \<Rightarrow> Payment result \<times> 'x pw" where
  "PaymentPostgres_GetByID i w =
     (case sql (stmt_GetByID i) w of
        (Inl err, w1) \<Rightarrow>
          if errors_Is err ErrNoRows then (Inl (sentinelf ErrNotFound ''payment''), w1)
          else (Inl (errorf ''get payment by id'' err), w1)
      | (Inr p, w1) \<Rightarrow> (Inr p, w1))"

definition PaymentPostgres_UpdateStatus :: "uuid \<Rightarrow> string \<Rightarrow> 'x pw \<Rightarrow> unit result \<times> 'x pw" where
  "PaymentPostgres_UpdateStatus i status w =
     (case sql (stmt_UpdateStatus i status) w of
        (Inl err, w1) \<Rightarrow> (Inl (errorf ''update payment status'' err), w1)
      | (Inr _, w1) \<Rightarrow> (Inr (), w1))"

definition PaymentPostgres_UpdateStatusIf ::
  "uuid \<Rightarrow> string \<Rightarrow> string \<Rightarrow> 'x pw \<Rightarrow> bool result \<times> 'x pw" where
  "PaymentPostgres_UpdateStatusIf i newStatus expectedStatus w =
     (case sql (stmt_UpdateStatusIf i newStatus expectedStatus) w of
        (Inl err, w1) \<Rightarrow> (Inl (errorf ''update payment status'' err), w1)
      | (Inr n, w1) \<Rightarrow> (Inr (n > 0), w1))"

definition PaymentPostgres_CreateRefund :: "Refund \<Rightarrow> 'x pw \<Rightarrow> unit result \<times> 'x pw" where
  "PaymentPostgres_CreateRefund refund w =
     (case sql (stmt_CreateRefund refund) w of
        (Inl err, w1) \<Rightarrow> (Inl (errorf ''insert refund'' err), w1)
      | (Inr _, w1) \<Rightarrow> (Inr (), w1))"

definition PaymentPostgres_GetRefund :: "uuid \<Rightarrow> 'x pw \<Rightarrow> Refund result \<times> 'x pw" where
  "PaymentPostgres_GetRefund i w =
     (case sql (stmt_GetRefund i) w of
        (Inl err, w1) \<Rightarrow>
          if errors_Is err ErrNoRows then (Inl (sentinelf ErrNotFound ''refund''), w1)
          else (Inl (errorf ''get refund by id'' err), w1)
      | (Inr r, w1) \<Rightarrow> (Inr r, w1))"

definition PaymentPostgres_GetRefundByIdempotencyKey :: "string \<Rightarrow> 'x pw \<Rightarrow> Refund result \<times> 'x pw" where
  "PaymentPostgres_GetRefundByIdempotencyKey key w =
     (case sql (stmt_GetRefundByIdempotencyKey key) w of
        (Inl err, w1) \<Rightarrow>
          if errors_Is err ErrNoRows then (Inl (sentinelf ErrNotFound ''refund''), w1)
          else (Inl (errorf ''get refund by idempotency key'' err), w1)
      | (Inr r, w1) \<Rightarrow> (Inr r, w1))"

definition PaymentPostgres_ListRefunds :: "uuid \<Rightarrow> 'x pw \<Rightarrow> Refund list result \<times> 'x pw" where
  "PaymentPostgres_ListRefunds i w =
     (case sql (stmt_ListRefunds i) w of
        (Inl err, w1) \<Rightarrow> (Inl (errorf ''list refunds'' err), w1)
      | (Inr rs, w1) \<Rightarrow>
          (case rows_Err w1 of
             (Inl err, w2) \<Rightarrow> (Inl (errorf ''refund rows err'' err), w2)
           | (Inr _, w2) \<Rightarrow> (Inr rs, w2)))"

section \<open>The use case\<close>

definition rand_Float64 :: "'x pw \<Rightarrow> int \<times> 'x pw" where
  "rand_Float64 w = (pay_rand w (pay_rand_ctr w), w\<lparr>pay_rand_ctr := Suc (pay_rand_ctr w)\<rparr>)"

text \<open>The double nearest to 0.9 is \<open>8106479329266893 / 2 ^ 53\<close>.\<close>

definition finalStatus_of :: "int \<Rightarrow> string" where
  "finalStatus_of randVal = (if randVal < 8106479329266893 then StatusSuccess else StatusFailed)"

definition process_payment_tx :: "Payment \<Rightarrow> string \<Rightarrow> 'x pw \<Rightarrow> Payment result \<times> 'x pw" where
  "process_payment_tx payment finalStatus w =
     (case PaymentPostgres_CreateOrGet payment w of
        (Inl err, w1) \<Rightarrow> (Inl (errorf ''create or get payment'' err), w1)
      | (Inr existing, w1) \<Rightarrow>
          if Payment_Status existing = StatusPending then
            (case PaymentPostgres_UpdateStatusIf (Payment_ID existing) finalStatus StatusPending w1 of
               (Inl err, w2) \<Rightarrow> (Inl (errorf ''update payment status'' err), w2)
             | (Inr _, w2) \<Rightarrow> (Inr (existing\<lparr>Payment_Status := finalStatus\<rparr>), w2))
          else (Inr existing, w1))"

definition PaymentUsecase_ProcessPayment ::
  "uuid \<Rightarrow> uuid \<Rightarrow> int \<Rightarrow> 'x pw \<Rightarrow> Payment result \<times> 'x pw" where
  "PaymentUsecase_ProcessPayment orderID userID amountCents w =
     (case rand_Float64 w of
        (randVal, w1) \<Rightarrow>
          (case uuid_New w1 of
             (newID, w2) \<Rightarrow>
               (case txm_Run (process_payment_tx
                        \<lparr>Payment_ID = newID, Payment_OrderID = orderID, Payment_UserID = userID,
                         Payment_Amount = amountCents, Payment_Status = StatusPending\<rparr>
                        (finalStatus_of randVal)) w2 of
                  (Inl err, w3) \<Rightarrow> (Inl err, w3)
                | (Inr r, w3) \<Rightarrow> (Inr r, w3))))"

text \<open>The rest of the refund transaction, after the look-up by idempotency key.\<close>

definition refund_new :: "uuid \<Rightarrow> int \<Rightarrow> string \<Rightarrow> 'x pw \<Rightarrow> (Payment \<times> Refund) result \<times> 'x pw" where
  "refund_new paymentID amountCents idempotencyKey w =
     (case PaymentPostgres_GetByID paymentID w of
        (Inl err, w1) \<Rightarrow> (Inl (errorf ''get payment'' err), w1)
      | (Inr payment, w1) \<Rightarrow>
          if Payment_Status payment \<noteq> StatusSuccess then
            (Inl (sentinelf ErrFailedPrecondition
               (''payment status '' @ Payment_Status payment @ '' cannot be refunded'')), w1)
          else
            (let refundAmount = (if amountCents = 0 then Payment_Amount payment else amountCents) in
             if refundAmount > Payment_Amount payment then
               (Inl (sentinelf ErrInvalidArgument ''refund amount exceeds payment amount''), w1)
             else
               (case uuid_New w1 of
                  (newID, w2) \<Rightarrow>
                    (let refund = \<lparr>Refund_ID = newID, Refund_PaymentID = Payment_ID payment,
                                   Refund_Amount = refundAmount, Refund_Reason = '''',
                                   Refund_Status = StatusRefunded, Refund_IdempotencyKey = idempotencyKey,
                                   Refund_CreatedAt = clock w2\<rparr> in
                     (case PaymentPostgres_CreateRefund refund w2 of
                        (Inl err, w3) \<Rightarrow> (Inl (errorf ''create refund'' err), w3)
                      | (Inr _, w3) \<Rightarrow>
                          (case PaymentPostgres_UpdateStatusIf (Payment_ID payment) StatusRefunded StatusSuccess w3 of
                             (Inl err, w4) \<Rightarrow> (Inl (errorf ''update payment status'' err), w4)
                           | (Inr updated, w4) \<Rightarrow>
                               if \<not> updated then
                                 (Inl (sentinelf ErrFailedPrecondition
                                    ''payment already refunded or status changed''), w4)
                               else (Inr (payment\<lparr>Payment_Status := StatusRefunded\<rparr>, refund), w4)))))))"

definition refund_tx :: "uuid \<Rightarrow> int \<Rightarrow> string \<Rightarrow> 'x pw \<Rightarrow> (Payment \<times> Refund) result \<times> 'x pw" where
  "refund_tx paymentID amountCents idempotencyKey w =
     (if idempotencyKey \<noteq> '''' then
        (case PaymentPostgres_GetRefundByIdempotencyKey idempotencyKey w of
           (Inr existingRefund, w1) \<Rightarrow>
             (case PaymentPostgres_GetByID (Refund_PaymentID existingRefund) w1 of
                (Inl err, w2) \<Rightarrow> (Inl (errorf ''get payment for existing refund'' err), w2)
              | (Inr payment, w2) \<Rightarrow> (Inr (payment, existingRefund), w2))
         | (Inl err, w1) \<Rightarrow>
             if \<not> errors_Is err ErrNotFound then (Inl (errorf ''check refund idempotency'' err), w1)
             else refund_new paymentID amountCents idempotencyKey w1)
      else refund_new paymentID amountCents idempotencyKey w)"

definition PaymentUsecase_Refund ::
  "uuid \<Rightarrow> int \<Rightarrow> string \<Rightarrow> 'x pw \<Rightarrow> (Payment \<times> Refund) result \<times> 'x pw" where
  "PaymentUsecase_Refund paymentID amountCents idempotencyKey w =
     txm_Run (refund_tx paymentID amountCents idempotencyKey) w"

definition PaymentUsecase_GetByID :: "uuid \<Rightarrow> 'x pw \<Rightarrow> Payment result \<times> 'x pw" where
  "PaymentUsecase_GetByID paymentID w = PaymentPostgres_GetByID paymentID w"

definition PaymentUsecase_GetRefund :: "uuid \<Rightarrow> 'x pw \<Rightarrow> Refund result \<times> 'x pw" where
  "PaymentUsecase_GetRefund refundID w = PaymentPostgres_GetRefund refundID w"

definition PaymentUsecase_ListRefunds :: "uuid \<Rightarrow> 'x pw \<Rightarrow> Refund list result \<times> 'x pw" where
  "PaymentUsecase_ListRefunds paymentID w = PaymentPostgres_ListRefunds paymentID w"

section \<open>The dead-letter producer\<close>

text \<open>
  \<^verbatim>\<open>SendToDLQ\<close> starts a goroutine and returns; the world records the send. \<open>dlq_send\<close> is what
  the goroutine runs, with the Kafka producer as a parameter.
\<close>

definition SendToDLQ :: "string \<Rightarrow> string \<Rightarrow> string \<Rightarrow> 'x pw \<Rightarrow> 'x pw" where
  "SendToDLQ eventType payload reason w =
     (if \<not> pay_dlq w then w
      else w\<lparr>pay_dlq_events := pay_dlq_events w @ [(eventType, payload, reason)]\<rparr>)"

definition dlq_send ::
  "(string \<Rightarrow> string \<Rightarrow> json \<Rightarrow> go_error option) option \<Rightarrow> string \<Rightarrow> int \<Rightarrow> string \<Rightarrow> string \<Rightarrow> string \<Rightarrow>
   go_error option" where
  "dlq_send producer topic now eventType payload reason =
     (case producer of
        None \<Rightarrow> None
      | Some SendMessage \<Rightarrow>
          SendMessage topic eventType
            (JObj [(''event_type'', JStr eventType), (''payload'', JStr payload),
                   (''reason'', JStr reason), (''timestamp'', JStr (time_RFC3339Nano now))]))"

section \<open>The gRPC handlers\<close>

record ProcessPaymentRequest =
  ProcessPaymentRequest_OrderId :: string
  ProcessPaymentRequest_AmountCents :: int
  ProcessPaymentRequest_IdempotencyKey :: string

record ProcessPaymentResponse =
  ProcessPaymentResponse_PaymentId :: string
  ProcessPaymentResponse_Status :: int

record RefundRequest =
  RefundRequest_PaymentId :: string
  RefundRequest_AmountCents :: int
  RefundRequest_IdempotencyKey :: string

record RefundProto =
  RefundProto_Id :: string
  RefundProto_PaymentId :: string
  RefundProto_Amount :: int
  RefundProto_Reason :: string
  RefundProto_Status :: int
  RefundProto_CreatedAt :: string

definition statusToProtoMap :: "string \<Rightarrow> int option" where
  "statusToProtoMap =
     map_of [(StatusPending, 1), (StatusSuccess, 2), (StatusFailed, 3), (StatusRefunded, 4)]"

definition payment_statusToProto :: "string \<Rightarrow> int" where
  "payment_statusToProto s = (case statusToProtoMap s of Some ps \<Rightarrow> ps | None \<Rightarrow> 0)"

definition refundToProto :: "uuid_lib \<Rightarrow> Refund \<Rightarrow> RefundProto" where
  "refundToProto L r =
     \<lparr>RefundProto_Id = uuid_String L (Refund_ID r), RefundProto_PaymentId = uuid_String L (Refund_PaymentID r),
      RefundProto_Amount = Refund_Amount r, RefundProto_Reason = Refund_Reason r,
      RefundProto_Status = payment_statusToProto (Refund_Status r),
      RefundProto_CreatedAt = time_RFC3339 (Refund_CreatedAt r)\<rparr>"

text \<open>\<open>req_String\<close> is the generated text form of the request.\<close>

definition PaymentHandler_ProcessPayment ::
  "uuid_lib \<Rightarrow> (ProcessPaymentRequest \<Rightarrow> string) \<Rightarrow> (ProcessPaymentRequest, ProcessPaymentResponse, 'x pw) handler" where
  "PaymentHandler_ProcessPayment L req_String c req w =
     (case GetUserID c of
        (authUserID, ok) \<Rightarrow>
          if \<not> ok then (Inl (StatusErr codes_Unauthenticated ''missing user_id in context''), w)
          else
            (case uuid_Parse L (ProcessPaymentRequest_OrderId req) of
               Inl err \<Rightarrow> (Inl (to_status err), w)
             | Inr orderID \<Rightarrow>
                 (case uuid_Parse L authUserID of
                    Inl err \<Rightarrow> (Inl (to_status err), w)
                  | Inr userID \<Rightarrow>
                      (case PaymentUsecase_ProcessPayment orderID userID (ProcessPaymentRequest_AmountCents req) w of
                         (Inl err, w1) \<Rightarrow>
                           (Inl (to_status err),
                            SendToDLQ ''ProcessPaymentFailed'' (req_String req) (err_Error err) w1)
                       | (Inr payment, w1) \<Rightarrow>
                           (Inr \<lparr>ProcessPaymentResponse_PaymentId = uuid_String L (Payment_ID payment),
                                 ProcessPaymentResponse_Status = payment_statusToProto (Payment_Status payment)\<rparr>,
                            w1)))))"

definition PaymentHandler_Refund :: "uuid_lib \<Rightarrow> (RefundRequest, int, 'x pw) handler" where
  "PaymentHandler_Refund L c req w =
     (case GetUserID c of
        (authUserID, ok) \<Rightarrow>
          if \<not> ok then (Inl (StatusErr codes_Unauthenticated ''missing user_id in context''), w)
          else
            (let role = fst (GetRole c) in
             case uuid_Parse L (RefundRequest_PaymentId req) of
               Inl err \<Rightarrow> (Inl (to_status err), w)
             | Inr paymentID \<Rightarrow>
                 (case PaymentUsecase_GetByID paymentID w of
                    (Inl err, w1) \<Rightarrow> (Inl (to_status err), w1)
                  | (Inr payment, w1) \<Rightarrow>
                      if role \<noteq> RoleAdmin \<and> uuid_String L (Payment_UserID payment) \<noteq> authUserID then
                        (Inl (StatusErr codes_PermissionDenied ''payment does not belong to user''), w1)
                      else
                        (case PaymentUsecase_Refund paymentID (RefundRequest_AmountCents req)
                                (RefundRequest_IdempotencyKey req) w1 of
                           (Inl err, w2) \<Rightarrow> (Inl (to_status err), w2)
                         | (Inr (payment', _), w2) \<Rightarrow>
                             (Inr (payment_statusToProto (Payment_Status payment')), w2)))))"

definition PaymentHandler_GetRefund :: "uuid_lib \<Rightarrow> (string, RefundProto, 'x pw) handler" where
  "PaymentHandler_GetRefund L c req w =
     (case GetUserID c of
        (authUserID, ok) \<Rightarrow>
          if \<not> ok then (Inl (StatusErr codes_Unauthenticated ''missing user_id in context''), w)
          else
            (let role = fst (GetRole c) in
             case uuid_Parse L req of
               Inl _ \<Rightarrow> (Inl (StatusErr codes_InvalidArgument ''invalid refund_id''), w)
             | Inr refundID \<Rightarrow>
                 (case PaymentUsecase_GetRefund refundID w of
                    (Inl err, w1) \<Rightarrow> (Inl (to_status err), w1)
                  | (Inr refund, w1) \<Rightarrow>
                      (case PaymentUsecase_GetByID (Refund_PaymentID refund) w1 of
                         (Inl err, w2) \<Rightarrow> (Inl (to_status err), w2)
                       | (Inr payment, w2) \<Rightarrow>
                           if role \<noteq> RoleAdmin \<and> uuid_String L (Payment_UserID payment) \<noteq> authUserID then
                             (Inl (StatusErr codes_PermissionDenied ''refund does not belong to user''), w2)
                           else (Inr (refundToProto L refund), w2)))))"

definition PaymentHandler_ListRefunds :: "uuid_lib \<Rightarrow> (string, RefundProto list, 'x pw) handler" where
  "PaymentHandler_ListRefunds L c req w =
     (case GetUserID c of
        (authUserID, ok) \<Rightarrow>
          if \<not> ok then (Inl (StatusErr codes_Unauthenticated ''missing user_id in context''), w)
          else
            (let role = fst (GetRole c) in
             case uuid_Parse L req of
               Inl _ \<Rightarrow> (Inl (StatusErr codes_InvalidArgument ''invalid payment_id''), w)
             | Inr paymentID \<Rightarrow>
                 (case PaymentUsecase_GetByID paymentID w of
                    (Inl err, w1) \<Rightarrow> (Inl (to_status err), w1)
                  | (Inr payment, w1) \<Rightarrow>
                      if role \<noteq> RoleAdmin \<and> uuid_String L (Payment_UserID payment) \<noteq> authUserID then
                        (Inl (StatusErr codes_PermissionDenied ''payment does not belong to user''), w1)
                      else
                        (case PaymentUsecase_ListRefunds paymentID w1 of
                           (Inl err, w2) \<Rightarrow> (Inl (to_status err), w2)
                         | (Inr rs, w2) \<Rightarrow> (Inr (map (refundToProto L) rs), w2)))))"

end
