(* ===== verification/Payment_Props.thy ===== *)
theory Payment_Props
  imports Payment_Model
begin

text \<open>
  Correctness of the payment service: what a successful transaction has done to the tables, the
  invariant of payments and refunds, and idempotence of charging and refunding. The locale
  \<open>replayable\<close> is interpreted on both operations of the use case.
\<close>

section \<open>What a successful repository call has done\<close>

lemma find_map_preserve:
  assumes "\<And>x. P (f x) = P x"
  shows "find P (map f xs) = map_option f (find P xs)"
  using assms by (induction xs) auto

lemma GetByID_Inr:
  assumes "PaymentPostgres_GetByID i w = (Inr p, w')"
  shows "find (\<lambda>p. Payment_ID p = i) (payments (db w)) = Some p \<and> db w' = db w"
proof -
  from assms have "sql (stmt_GetByID i) w = (Inr p, w')"
    by (auto simp: PaymentPostgres_GetByID_def split: prod.splits sum.splits if_splits)
  from sql_Inr [OF this] show ?thesis
    by (auto simp: stmt_GetByID_def query_row_def split: option.splits)
qed

lemma GetRefundByIdempotencyKey_Inr:
  assumes "PaymentPostgres_GetRefundByIdempotencyKey k w = (Inr r, w')"
  shows "find (\<lambda>r. Refund_IdempotencyKey r = k) (refunds (db w)) = Some r \<and> db w' = db w"
proof -
  from assms have "sql (stmt_GetRefundByIdempotencyKey k) w = (Inr r, w')"
    by (auto simp: PaymentPostgres_GetRefundByIdempotencyKey_def split: prod.splits sum.splits if_splits)
  from sql_Inr [OF this] show ?thesis
    by (auto simp: stmt_GetRefundByIdempotencyKey_def query_row_def split: option.splits)
qed

lemma GetRefundByIdempotencyKey_db:
  "PaymentPostgres_GetRefundByIdempotencyKey k w = (r, w') \<Longrightarrow> db w' = db w"
  by (auto simp: PaymentPostgres_GetRefundByIdempotencyKey_def stmt_GetRefundByIdempotencyKey_def
      split: prod.splits sum.splits if_splits dest: query_row_db)

text \<open>A status update that returns changed the rows it names.\<close>

definition with_status :: "string \<Rightarrow> (Payment \<Rightarrow> bool) \<Rightarrow> pay_db \<Rightarrow> pay_db" where
  "with_status s P d = d\<lparr>payments := map (\<lambda>p. if P p then p\<lparr>Payment_Status := s\<rparr> else p) (payments d)\<rparr>"

lemma UpdateStatusIf_Inr:
  assumes "PaymentPostgres_UpdateStatusIf i s t w = (Inr b, w')"
  shows "db w' = with_status s (\<lambda>p. Payment_ID p = i \<and> Payment_Status p = t) (db w) \<and>
    (b \<longleftrightarrow> (\<exists>p\<in>set (payments (db w)). Payment_ID p = i \<and> Payment_Status p = t))"
proof -
  from assms obtain n where n: "sql (stmt_UpdateStatusIf i s t) w = (Inr n, w')" and b: "b = (n > 0)"
    by (auto simp: PaymentPostgres_UpdateStatusIf_def split: prod.splits sum.splits)
  from sql_Inr [OF n]
  have "n = int (length (filter (\<lambda>p. Payment_ID p = i \<and> Payment_Status p = t) (payments (db w))))"
    and "db w' = with_status s (\<lambda>p. Payment_ID p = i \<and> Payment_Status p = t) (db w)"
    by (auto simp: stmt_UpdateStatusIf_def set_status_def Let_def with_status_def split: if_splits)
  then show ?thesis using b by (auto simp: filter_empty_conv)
qed

lemma stored_refund_simps [simp]:
  "Refund_ID (stored_refund r) = Refund_ID r" "Refund_PaymentID (stored_refund r) = Refund_PaymentID r"
  "Refund_Amount (stored_refund r) = Refund_Amount r" "Refund_Reason (stored_refund r) = Refund_Reason r"
  "Refund_Status (stored_refund r) = Refund_Status r" "Refund_IdempotencyKey (stored_refund r) = Refund_IdempotencyKey r"
  "stored_refund (stored_refund r) = stored_refund r"
  by (simp_all add: stored_refund_def)

lemma CreateRefund_Inr:
  assumes "PaymentPostgres_CreateRefund r w = (Inr u, w')"
  shows "stmt_CreateRefund r (db w) = Inr ((), db w')"
  using assms by (auto simp: PaymentPostgres_CreateRefund_def split: prod.splits sum.splits dest: sql_Inr)

lemma stmt_CreateRefund_Inr:
  "stmt_CreateRefund r d = Inr (u, d') \<longleftrightarrow>
     int8_ok (Refund_Amount r) \<and> utf8_length (Refund_Reason r) \<le> 500 \<and> utf8_length (Refund_Status r) \<le> 50
     \<and> utf8_length (Refund_IdempotencyKey r) \<le> 255
     \<and> Refund_ID r \<notin> Refund_ID ` set (refunds d)
     \<and> (Refund_IdempotencyKey r \<noteq> '''' \<longrightarrow> Refund_IdempotencyKey r \<notin> Refund_IdempotencyKey ` set (refunds d))
     \<and> has_payment_id (Refund_PaymentID r) d \<and> d' = d\<lparr>refunds := refunds d @ [stored_refund r]\<rparr>"
  by (auto simp: stmt_CreateRefund_def list_ex_iff image_iff not_less) metis+

lemma stmt_InsertOrNothing_Inr:
  "stmt_InsertOrNothing p d = Inr (q, d') \<longleftrightarrow>
     payment_checks p = None \<and> \<not> has_payment_order (Payment_OrderID p) d
     \<and> \<not> has_payment_id (Payment_ID p) d \<and> q = p \<and> d' = d\<lparr>payments := payments d @ [p]\<rparr>"
  by (auto simp: stmt_InsertOrNothing_def split: option.splits)

lemma payment_checks_None:
  "payment_checks p = None \<Longrightarrow> 0 \<le> Payment_Amount p \<and> int8_ok (Payment_Amount p)"
  by (simp add: payment_checks_def split: if_splits)

lemma not_has_payment:
  "\<not> has_payment_id i d \<longleftrightarrow> i \<notin> Payment_ID ` set (payments d)"
  "\<not> has_payment_order i d \<longleftrightarrow> i \<notin> Payment_OrderID ` set (payments d)"
  by (auto simp: has_payment_id_def has_payment_order_def list_ex_iff)

lemma find_order_None: "\<not> has_payment_order i d \<Longrightarrow> find (\<lambda>p. Payment_OrderID p = i) (payments d) = None"
  by (auto simp: has_payment_order_def list_ex_iff find_None_iff)

lemma find_append: "find P (xs @ ys) = (case find P xs of None \<Rightarrow> find P ys | Some x \<Rightarrow> Some x)"
  by (induction xs) auto

text \<open>Charging an order finds its payment or creates it; a lost reply of the insert makes no difference.\<close>

lemma CreateOrGet_Inr:
  assumes "PaymentPostgres_CreateOrGet p w = (Inr q, w')"
  shows "(find (\<lambda>x. Payment_OrderID x = Payment_OrderID p) (payments (db w)) = Some q \<and> db w' = db w)
    \<or> (payment_checks p = None \<and> \<not> has_payment_order (Payment_OrderID p) (db w)
       \<and> \<not> has_payment_id (Payment_ID p) (db w) \<and> q = p
       \<and> db w' = (db w)\<lparr>payments := payments (db w) @ [p]\<rparr>)"
proof -
  obtain r w1 where ins: "sql (stmt_InsertOrNothing p) w = (r, w1)" by fastforce
  have sel: "find (\<lambda>x. Payment_OrderID x = Payment_OrderID p) (payments (db w1)) = Some q \<and> db w' = db w1"
    if "r = Inl e" for e
  proof -
    from assms ins that have "sql (stmt_GetByOrderID (Payment_OrderID p)) w1 = (Inr q, w')"
      by (auto simp: PaymentPostgres_CreateOrGet_def split: prod.splits sum.splits if_splits)
    from sql_Inr [OF this] show ?thesis
      by (auto simp: stmt_GetByOrderID_def query_row_def split: option.splits)
  qed
  from ins show ?thesis
  proof (cases rule: sql_cases)
    case (ok x d)
    with assms ins have "q = x" "w' = w1" by (auto simp: PaymentPostgres_CreateOrGet_def)
    with ok show ?thesis by (auto simp: stmt_InsertOrNothing_Inr)
  next
    case (lost e x d)
    with sel [of e] show ?thesis
      by (auto simp: stmt_InsertOrNothing_Inr find_append find_order_None)
  next
    case (failed e)
    with sel [of e] show ?thesis by auto
  qed
qed

section \<open>The transactions\<close>

lemma process_payment_tx_Inr:
  assumes "process_payment_tx p fs w = (Inr r, w')" and "Payment_Status p = StatusPending"
  shows "(find (\<lambda>x. Payment_OrderID x = Payment_OrderID p) (payments (db w)) = Some r \<and> db w' = db w
           \<and> Payment_Status r \<noteq> StatusPending)
    \<or> (\<exists>q. find (\<lambda>x. Payment_OrderID x = Payment_OrderID p) (payments (db w)) = Some q
           \<and> Payment_Status q = StatusPending \<and> r = q\<lparr>Payment_Status := fs\<rparr>
           \<and> db w' = with_status fs (\<lambda>x. Payment_ID x = Payment_ID q \<and> Payment_Status x = StatusPending) (db w))
    \<or> (payment_checks p = None \<and> \<not> has_payment_order (Payment_OrderID p) (db w)
       \<and> \<not> has_payment_id (Payment_ID p) (db w) \<and> r = p\<lparr>Payment_Status := fs\<rparr>
       \<and> db w' = (db w)\<lparr>payments := payments (db w) @ [r]\<rparr>)"
proof -
  obtain q w1 where q: "PaymentPostgres_CreateOrGet p w = (Inr q, w1)"
    using assms(1) by (auto simp: process_payment_tx_def seq_Inr)
  show ?thesis
  proof (cases "Payment_Status q = StatusPending")
    case False
    with assms(1) q have "r = q" "w' = w1" by (auto simp: process_payment_tx_def)
    with CreateOrGet_Inr [OF q] False assms(2) show ?thesis by auto
  next
    case True
    with assms(1) q obtain b where r: "r = q\<lparr>Payment_Status := fs\<rparr>"
      and u: "PaymentPostgres_UpdateStatusIf (Payment_ID q) fs StatusPending w1 = (Inr b, w')"
      by (auto simp: process_payment_tx_def seq_Inr)
    note u = UpdateStatusIf_Inr [OF u, THEN conjunct1]
    from CreateOrGet_Inr [OF q] show ?thesis
    proof
      assume "find (\<lambda>x. Payment_OrderID x = Payment_OrderID p) (payments (db w)) = Some q \<and> db w1 = db w"
      with r u True show ?thesis by auto
    next
      assume new: "payment_checks p = None \<and> \<not> has_payment_order (Payment_OrderID p) (db w)
       \<and> \<not> has_payment_id (Payment_ID p) (db w) \<and> q = p
       \<and> db w1 = (db w)\<lparr>payments := payments (db w) @ [p]\<rparr>"
      have "map (\<lambda>x. if Payment_ID x = Payment_ID p \<and> Payment_Status x = StatusPending
            then x\<lparr>Payment_Status := fs\<rparr> else x) (payments (db w)) = payments (db w)"
        using new by (intro map_idI) (auto simp: has_payment_id_def list_ex_iff)
      with new r u assms(2) show ?thesis by (simp add: with_status_def)
    qed
  qed
qed

lemma refund_new_Inr:
  assumes "refund_new i a k w = (Inr (p', r), w')"
  shows "\<exists>p. find (\<lambda>x. Payment_ID x = i) (payments (db w)) = Some p \<and> Payment_Status p = StatusSuccess
    \<and> p' = p\<lparr>Payment_Status := StatusRefunded\<rparr> \<and> Refund_PaymentID r = Payment_ID p
    \<and> Refund_Amount r = (if a = 0 then Payment_Amount p else a) \<and> Refund_Amount r \<le> Payment_Amount p
    \<and> Refund_IdempotencyKey r = k \<and> Refund_Status r = StatusRefunded
    \<and> Refund_ID r \<notin> Refund_ID ` set (refunds (db w))
    \<and> (k \<noteq> '''' \<longrightarrow> k \<notin> Refund_IdempotencyKey ` set (refunds (db w)))
    \<and> db w' = with_status StatusRefunded (\<lambda>x. Payment_ID x = Payment_ID p \<and> Payment_Status x = StatusSuccess)
                ((db w)\<lparr>refunds := refunds (db w) @ [stored_refund r]\<rparr>)"
proof -
  obtain p w1 where p: "PaymentPostgres_GetByID i w = (Inr p, w1)"
    using assms by (auto simp: refund_new_def seq_Inr)
  define amt where "amt = (if a = 0 then Payment_Amount p else a)"
  define r0 where "r0 = \<lparr>Refund_ID = uuid_src w1 (uuid_ctr w1), Refund_PaymentID = Payment_ID p, Refund_Amount = amt,
     Refund_Reason = '''', Refund_Status = StatusRefunded, Refund_IdempotencyKey = k, Refund_CreatedAt = clock w1\<rparr>"
  let ?w2 = "w1\<lparr>uuid_ctr := Suc (uuid_ctr w1)\<rparr>"
  have "\<exists>w3. Payment_Status p = StatusSuccess \<and> amt \<le> Payment_Amount p
    \<and> PaymentPostgres_CreateRefund r0 ?w2 = (Inr (), w3)
    \<and> PaymentPostgres_UpdateStatusIf (Payment_ID p) StatusRefunded StatusSuccess w3 = (Inr True, w')
    \<and> p' = p\<lparr>Payment_Status := StatusRefunded\<rparr> \<and> r = r0"
    using assms unfolding refund_new_def p prod.case sum.case uuid_New_def Let_def amt_def [symmetric]
    by (auto simp: seq_Inr r0_def)
  then obtain w3 where st: "Payment_Status p = StatusSuccess" "amt \<le> Payment_Amount p"
    and cr: "PaymentPostgres_CreateRefund r0 ?w2 = (Inr (), w3)"
    and up: "PaymentPostgres_UpdateStatusIf (Payment_ID p) StatusRefunded StatusSuccess w3 = (Inr True, w')"
    and res: "p' = p\<lparr>Payment_Status := StatusRefunded\<rparr>" "r = r0"
    by blast
  have d1: "db ?w2 = db w" using GetByID_Inr [OF p] by simp
  have r0: "Refund_PaymentID r0 = Payment_ID p" "Refund_Amount r0 = amt" "Refund_IdempotencyKey r0 = k"
    "Refund_Status r0 = StatusRefunded" by (simp_all add: r0_def)
  note cr = CreateRefund_Inr [OF cr, unfolded stmt_CreateRefund_Inr d1]
  note up = UpdateStatusIf_Inr [OF up, THEN conjunct1]
  show ?thesis
    using GetByID_Inr [OF p] st cr up res unfolding r0 res(2)
    by (intro exI [of _ p]) (simp add: amt_def)
qed

lemma refund_tx_Inr:
  assumes "refund_tx i a k w = (Inr (p, r), w')"
  shows "(k \<noteq> '''' \<and> find (\<lambda>r. Refund_IdempotencyKey r = k) (refunds (db w)) = Some r
      \<and> find (\<lambda>p. Payment_ID p = Refund_PaymentID r) (payments (db w)) = Some p \<and> db w' = db w)
    \<or> (\<exists>w1. db w1 = db w \<and> refund_new i a k w1 = (Inr (p, r), w'))"
proof (cases "k = ''''")
  case True
  with assms show ?thesis by (auto simp: refund_tx_def)
next
  case False
  obtain x w1 where x: "PaymentPostgres_GetRefundByIdempotencyKey k w = (x, w1)" by fastforce
  show ?thesis
  proof (cases x)
    case (Inl e)
    with assms False x have "refund_new i a k w1 = (Inr (p, r), w')"
      by (auto simp: refund_tx_def split: if_splits)
    with GetRefundByIdempotencyKey_db [OF x] show ?thesis by blast
  next
    case (Inr y)
    with assms False x have "y = r" and g: "PaymentPostgres_GetByID (Refund_PaymentID y) w1 = (Inr p, w')"
      by (auto simp: refund_tx_def seq_Inr)
    with GetRefundByIdempotencyKey_Inr [of k w y w1] x Inr GetByID_Inr [OF g] False show ?thesis by auto
  qed
qed

section \<open>The invariant\<close>

definition pay_wf :: "pay_db \<Rightarrow> bool" where
  "pay_wf d \<longleftrightarrow>
     distinct (map Payment_ID (payments d)) \<and> distinct (map Payment_OrderID (payments d)) \<and>
     (\<forall>p\<in>set (payments d). 0 \<le> Payment_Amount p \<and> int8_ok (Payment_Amount p) \<and>
        Payment_Status p \<in> {StatusSuccess, StatusFailed, StatusRefunded}) \<and>
     distinct (map Refund_ID (refunds d)) \<and> distinct (map Refund_PaymentID (refunds d)) \<and>
     distinct (filter (\<lambda>k. k \<noteq> '''') (map Refund_IdempotencyKey (refunds d))) \<and>
     (\<forall>r\<in>set (refunds d). \<exists>p\<in>set (payments d). Payment_ID p = Refund_PaymentID r \<and>
        Payment_Status p = StatusRefunded \<and> Refund_Amount r \<le> Payment_Amount p)"

lemma pay_wfD:
  assumes "pay_wf d"
  shows "distinct (map Payment_ID (payments d))" and "distinct (map Payment_OrderID (payments d))"
    and "p \<in> set (payments d) \<Longrightarrow> 0 \<le> Payment_Amount p \<and> int8_ok (Payment_Amount p) \<and>
        Payment_Status p \<in> {StatusSuccess, StatusFailed, StatusRefunded}"
    and "distinct (map Refund_ID (refunds d))" and "distinct (map Refund_PaymentID (refunds d))"
    and "distinct (filter (\<lambda>k. k \<noteq> '''') (map Refund_IdempotencyKey (refunds d)))"
    and "r \<in> set (refunds d) \<Longrightarrow> \<exists>p\<in>set (payments d). Payment_ID p = Refund_PaymentID r \<and>
        Payment_Status p = StatusRefunded \<and> Refund_Amount r \<le> Payment_Amount p"
  using assms unfolding pay_wf_def by blast+

lemma pay_wf_no_pending: "pay_wf d \<Longrightarrow> p \<in> set (payments d) \<Longrightarrow> Payment_Status p \<noteq> StatusPending"
  by (auto simp: pay_wf_def pay_status_defs)

lemma process_payment_tx_wf:
  assumes wf: "pay_wf (db w)" and run: "process_payment_tx p fs w = (Inr r, w')"
    and p: "Payment_Status p = StatusPending" and fs: "fs \<in> {StatusSuccess, StatusFailed}"
  shows "pay_wf (db w')"
  using process_payment_tx_Inr [OF run p]
proof (elim disjE exE conjE)
  assume "db w' = db w"
  then show ?thesis using wf by simp
next
  fix q
  assume "find (\<lambda>x. Payment_OrderID x = Payment_OrderID p) (payments (db w)) = Some q"
    and "Payment_Status q = StatusPending"
  then show ?thesis using pay_wf_no_pending [OF wf, of q] by (auto simp: find_Some_iff)
next
  assume "payment_checks p = None" and "\<not> has_payment_order (Payment_OrderID p) (db w)"
    and "\<not> has_payment_id (Payment_ID p) (db w)" and "r = p\<lparr>Payment_Status := fs\<rparr>"
    and "db w' = (db w)\<lparr>payments := payments (db w) @ [r]\<rparr>"
  note new = this
  have pm: "payments (db w') = payments (db w) @ [r]" "refunds (db w') = refunds (db w)"
    using new(5) by simp_all
  have r: "0 \<le> Payment_Amount r \<and> int8_ok (Payment_Amount r) \<and> Payment_Status r \<in> {StatusSuccess, StatusFailed, StatusRefunded}"
    using payment_checks_None [OF new(1)] fs unfolding new(4) by (elim insertE emptyE) simp_all
  have "Payment_ID r \<notin> Payment_ID ` set (payments (db w))" "Payment_OrderID r \<notin> Payment_OrderID ` set (payments (db w))"
    using new(2,3) by (simp_all add: new(4) not_has_payment)
  then have "distinct (map Payment_ID (payments (db w'))) \<and> distinct (map Payment_OrderID (payments (db w')))"
    using pay_wfD(1,2) [OF wf] by (simp add: pm)
  moreover have "\<forall>x\<in>set (payments (db w')). 0 \<le> Payment_Amount x \<and> int8_ok (Payment_Amount x) \<and>
        Payment_Status x \<in> {StatusSuccess, StatusFailed, StatusRefunded}"
    using pay_wfD(3) [OF wf] r unfolding pm by auto
  moreover have "\<forall>x\<in>set (refunds (db w')). \<exists>y\<in>set (payments (db w')). Payment_ID y = Refund_PaymentID x \<and>
        Payment_Status y = StatusRefunded \<and> Refund_Amount x \<le> Payment_Amount y"
  proof
    fix x
    assume "x \<in> set (refunds (db w'))"
    then have "x \<in> set (refunds (db w))" by (simp add: pm)
    from pay_wfD(7) [OF wf this] show "\<exists>y\<in>set (payments (db w')). Payment_ID y = Refund_PaymentID x \<and>
        Payment_Status y = StatusRefunded \<and> Refund_Amount x \<le> Payment_Amount y"
      unfolding pm(1) set_append by blast
  qed
  moreover have "distinct (map Refund_ID (refunds (db w')))" "distinct (map Refund_PaymentID (refunds (db w')))"
    "distinct (filter (\<lambda>k. k \<noteq> '''') (map Refund_IdempotencyKey (refunds (db w'))))"
    using pay_wfD(4,5,6) [OF wf] by (simp_all only: pm(2))
  ultimately show ?thesis unfolding pay_wf_def by blast
qed

lemma refund_new_wf:
  assumes wf: "pay_wf (db w)" and run: "refund_new i a k w = (Inr (p', r), w')"
  shows "pay_wf (db w')"
proof -
  from refund_new_Inr [OF run] obtain p where
    p: "find (\<lambda>x. Payment_ID x = i) (payments (db w)) = Some p" "Payment_Status p = StatusSuccess"
    and r: "Refund_PaymentID r = Payment_ID p" "Refund_Amount r \<le> Payment_Amount p"
      "Refund_IdempotencyKey r = k" "Refund_ID r \<notin> Refund_ID ` set (refunds (db w))"
      "k \<noteq> '''' \<longrightarrow> k \<notin> Refund_IdempotencyKey ` set (refunds (db w))"
    and d: "db w' = with_status StatusRefunded (\<lambda>x. Payment_ID x = Payment_ID p \<and> Payment_Status x = StatusSuccess)
                ((db w)\<lparr>refunds := refunds (db w) @ [stored_refund r]\<rparr>)"
    by blast
  let ?f = "\<lambda>x. if Payment_ID x = Payment_ID p \<and> Payment_Status x = StatusSuccess
      then x\<lparr>Payment_Status := StatusRefunded\<rparr> else x"
  have pin: "p \<in> set (payments (db w))" using p(1) by (auto simp: find_Some_iff)
  have ids: "map Payment_ID (map ?f xs) = map Payment_ID xs" "map Payment_OrderID (map ?f xs) = map Payment_OrderID xs" for xs
    by (induction xs) auto
  have uniq: "x = p" if "x \<in> set (payments (db w))" "Payment_ID x = Payment_ID p" for x
    using pay_wfD(1) [OF wf] that pin by (auto simp: distinct_map inj_on_def)
  have norefund: "Refund_PaymentID x \<noteq> Payment_ID p" if "x \<in> set (refunds (db w))" for x
  proof
    assume "Refund_PaymentID x = Payment_ID p"
    with pay_wfD(7) [OF wf that] obtain y where "y \<in> set (payments (db w))" "Payment_ID y = Payment_ID p"
      "Payment_Status y = StatusRefunded" by auto
    with uniq [of y] p(2) show False by (simp add: pay_status_defs)
  qed
  have fp: "?f p = p\<lparr>Payment_Status := StatusRefunded\<rparr>" using p(2) by simp
  have rows: "\<exists>y\<in>set (map ?f (payments (db w))). Payment_ID y = Refund_PaymentID x \<and>
      Payment_Status y = StatusRefunded \<and> Refund_Amount x \<le> Payment_Amount y"
    if "x \<in> set (refunds (db w) @ [stored_refund r])" for x
  proof (cases "x = stored_refund r")
    case True
    have "?f p \<in> set (map ?f (payments (db w)))" unfolding set_map by (rule imageI [OF pin])
    then show ?thesis using True r fp by (intro bexI [of _ "?f p"]) auto
  next
    case False
    with that pay_wfD(7) [OF wf, of x] obtain y where y: "y \<in> set (payments (db w))" "Payment_ID y = Refund_PaymentID x"
      "Payment_Status y = StatusRefunded" "Refund_Amount x \<le> Payment_Amount y"
      by auto
    have "?f y \<in> set (map ?f (payments (db w)))" unfolding set_map by (rule imageI [OF y(1)])
    then show ?thesis using y by (intro bexI [of _ "?f y"]) auto
  qed
  have stat: "\<forall>y\<in>set (map ?f (payments (db w))). 0 \<le> Payment_Amount y \<and> int8_ok (Payment_Amount y) \<and>
        Payment_Status y \<in> {StatusSuccess, StatusFailed, StatusRefunded}"
    using pay_wfD(3) [OF wf] by auto
  have pm: "payments (db w') = map ?f (payments (db w))" "refunds (db w') = refunds (db w) @ [stored_refund r]"
    by (simp_all add: d with_status_def)
  have nr: "Payment_ID p \<notin> Refund_PaymentID ` set (refunds (db w))" using norefund by fastforce
  have refs: "distinct (map Refund_ID (refunds (db w) @ [stored_refund r]))" "distinct (map Refund_PaymentID (refunds (db w) @ [stored_refund r]))"
    "distinct (filter (\<lambda>k. k \<noteq> '''') (map Refund_IdempotencyKey (refunds (db w) @ [stored_refund r])))"
    using pay_wfD(4,5,6) [OF wf] r nr by auto
  show ?thesis
    unfolding pay_wf_def pm ids using pay_wfD(1,2) [OF wf] refs stat rows by blast
qed

lemma refund_tx_wf:
  assumes "pay_wf (db w)" and "refund_tx i a k w = (Inr x, w')"
  shows "pay_wf (db w')"
proof -
  obtain p r where x: "x = (p, r)" by fastforce
  from refund_tx_Inr [OF assms(2) [unfolded x]] assms(1) refund_new_wf show ?thesis by metis
qed

section \<open>The use case\<close>

lemma finalStatus_of_cases: "finalStatus_of k \<in> {StatusSuccess, StatusFailed}"
  by (simp add: finalStatus_of_def)

lemma ProcessPayment_run:
  assumes "PaymentUsecase_ProcessPayment orderID userID a w = (res, w')"
  obtains w2 p fs where "db w2 = db w" "Payment_OrderID p = orderID" "Payment_UserID p = userID"
    "Payment_Amount p = a" "Payment_Status p = StatusPending" "fs \<in> {StatusSuccess, StatusFailed}"
    "txm_Run (process_payment_tx p fs) w2 = (res, w')"
proof -
  let ?w2 = "w\<lparr>pay_rand_ctr := Suc (pay_rand_ctr w), uuid_ctr := Suc (uuid_ctr w)\<rparr>"
  let ?p = "\<lparr>Payment_ID = uuid_src w (uuid_ctr w), Payment_OrderID = orderID, Payment_UserID = userID,
     Payment_Amount = a, Payment_Status = StatusPending\<rparr>"
  have "txm_Run (process_payment_tx ?p (finalStatus_of (pay_rand w (pay_rand_ctr w)))) ?w2 = (res, w')"
    using assms
    by (auto simp: PaymentUsecase_ProcessPayment_def rand_Float64_def uuid_New_def split: prod.splits sum.splits)
  then show thesis
    using that [of ?w2 ?p "finalStatus_of (pay_rand w (pay_rand_ctr w))"] finalStatus_of_cases by simp
qed

lemma ProcessPayment_wf:
  assumes "pay_wf (db w)"
  shows "pay_wf (db (snd (PaymentUsecase_ProcessPayment orderID userID a w)))"
proof -
  obtain res w' where r: "PaymentUsecase_ProcessPayment orderID userID a w = (res, w')" by fastforce
  from r obtain w2 p fs where w2: "db w2 = db w" "Payment_Status p = StatusPending" "fs \<in> {StatusSuccess, StatusFailed}"
    "txm_Run (process_payment_tx p fs) w2 = (res, w')"
    by (rule ProcessPayment_run)
  have "pay_wf (db (snd (txm_Run (process_payment_tx p fs) w2)))"
    using assms w2 by (intro txm.invariant [of pay_wf]) (auto intro: process_payment_tx_wf)
  with r w2 show ?thesis by simp
qed

lemma Refund_wf:
  assumes "pay_wf (db w)"
  shows "pay_wf (db (snd (PaymentUsecase_Refund i a k w)))"
  unfolding PaymentUsecase_Refund_def
  using assms by (intro txm.invariant [of pay_wf]) (auto intro: refund_tx_wf)

text \<open>The record of a charge is the order's payment, once it is no longer pending.\<close>

definition charge_recorded :: "uuid \<Rightarrow> pay_db \<Rightarrow> Payment \<Rightarrow> bool" where
  "charge_recorded orderID d p \<longleftrightarrow>
     find (\<lambda>x. Payment_OrderID x = orderID) (payments d) = Some p \<and> Payment_Status p \<noteq> StatusPending"

lemma process_payment_tx_records:
  assumes "process_payment_tx p fs w = (Inr r, w')" and "Payment_Status p = StatusPending"
    and "fs \<in> {StatusSuccess, StatusFailed}"
  shows "charge_recorded (Payment_OrderID p) (db w') r"
proof -
  have fs: "fs \<noteq> StatusPending" using assms(3) by (auto simp: pay_status_defs)
  from process_payment_tx_Inr [OF assms(1,2)] show ?thesis
  proof (elim disjE exE conjE)
    fix q
    assume q: "find (\<lambda>x. Payment_OrderID x = Payment_OrderID p) (payments (db w)) = Some q"
      "Payment_Status q = StatusPending" "r = q\<lparr>Payment_Status := fs\<rparr>"
      "db w' = with_status fs (\<lambda>x. Payment_ID x = Payment_ID q \<and> Payment_Status x = StatusPending) (db w)"
    then show ?thesis using fs by (simp add: charge_recorded_def with_status_def find_map_preserve)
  next
    assume "find (\<lambda>x. Payment_OrderID x = Payment_OrderID p) (payments (db w)) = Some r"
      "db w' = db w" "Payment_Status r \<noteq> StatusPending"
    then show ?thesis by (simp add: charge_recorded_def)
  next
    assume "\<not> has_payment_order (Payment_OrderID p) (db w)" "r = p\<lparr>Payment_Status := fs\<rparr>"
      "db w' = (db w)\<lparr>payments := payments (db w) @ [r]\<rparr>"
    then show ?thesis using fs by (simp add: charge_recorded_def find_append find_order_None)
  qed
qed

lemma process_payment_tx_replay:
  assumes "process_payment_tx p fs w = (Inr r', w')" and "Payment_Status p = StatusPending"
    and "charge_recorded (Payment_OrderID p) (db w) r"
  shows "r' = r \<and> db w' = db w"
  using process_payment_tx_Inr [OF assms(1,2)] assms(3) find_order_None [of "Payment_OrderID p" "db w"]
  unfolding charge_recorded_def by (elim disjE exE conjE) simp_all

lemma ProcessPayment_records:
  assumes "PaymentUsecase_ProcessPayment orderID userID a w = (Inr r, w')"
  shows "charge_recorded orderID (db w') r"
proof -
  from assms obtain w2 p fs where p: "Payment_OrderID p = orderID" "Payment_Status p = StatusPending"
    "fs \<in> {StatusSuccess, StatusFailed}" "txm_Run (process_payment_tx p fs) w2 = (Inr r, w')"
    by (rule ProcessPayment_run)
  show ?thesis
    using txm.run_ok [OF p(4)] process_payment_tx_records [OF _ p(2,3)] p(1) by fastforce
qed

lemma ProcessPayment_new:
  fixes w w' :: "'x pw"
  assumes "PaymentUsecase_ProcessPayment orderID userID a w = (Inr r, w')" and "\<not> has_payment_order orderID (db w)"
  shows "Payment_UserID r = userID \<and> Payment_Amount r = a"
proof -
  from assms(1) obtain w2 p fs where p: "db w2 = db w" "Payment_OrderID p = orderID" "Payment_UserID p = userID"
    "Payment_Amount p = a" "Payment_Status p = StatusPending" "txm_Run (process_payment_tx p fs) w2 = (Inr r, w')"
    by (rule ProcessPayment_run)
  obtain w3 w4 :: "'x pw" where w3: "db w3 = db w2" "process_payment_tx p fs w3 = (Inr r, w4)"
    using txm.run_ok [OF p(6)] by metis
  from process_payment_tx_Inr [OF w3(2) p(5)] show ?thesis
    using find_order_None [OF assms(2)] p(1-4) w3(1) by (elim disjE exE conjE) simp_all
qed

lemma ProcessPayment_replay:
  fixes w :: "'x pw"
  assumes "charge_recorded orderID (db w) r"
  shows "db (snd (PaymentUsecase_ProcessPayment orderID userID a w)) = db w \<and>
    (\<forall>r' w'. PaymentUsecase_ProcessPayment orderID userID a w = (Inr r', w') \<longrightarrow> r' = r)"
proof -
  obtain res w' where res: "PaymentUsecase_ProcessPayment orderID userID a w = (res, w')" by fastforce
  then obtain w2 p fs where p: "db w2 = db w" "Payment_OrderID p = orderID" "Payment_Status p = StatusPending"
    "txm_Run (process_payment_tx p fs) w2 = (res, w')"
    by (rule ProcessPayment_run)
  have body: "r' = r \<and> db w1 = db w"
    if "db w0 = db w2" "process_payment_tx p fs w0 = (Inr r', w1)" for w0 w1 :: "'x pw" and r'
    using process_payment_tx_replay [OF that(2) p(3)] assms that(1) p(1,2) by auto
  have "db (snd (txm_Run (process_payment_tx p fs) w2)) = db w2"
    by (rule txm.stable) (use body p(1) in metis)
  then have "db w' = db w" using p by simp
  moreover have "r' = r" if "res = Inr r'" for r'
    using txm.run_ok [OF p(4) [unfolded that]] body by blast
  ultimately show ?thesis using res by auto
qed

text \<open>Other charges leave the record alone; a refund may turn the payment from success to refunded.\<close>

definition charge_same :: "Payment \<Rightarrow> Payment \<Rightarrow> bool" where
  "charge_same p p' \<longleftrightarrow> p' = p \<or> Payment_Status p = StatusSuccess \<and> p' = p\<lparr>Payment_Status := StatusRefunded\<rparr>"

lemma charge_same_trans: "charge_same p q \<Longrightarrow> charge_same q r \<Longrightarrow> charge_same p r"
  by (auto simp: charge_same_def pay_status_defs)

lemma find_with_status:
  assumes "\<And>p. Q (p\<lparr>Payment_Status := s\<rparr>) = Q p" and "find Q (payments d) = Some p"
  shows "find Q (payments (with_status s P d)) = Some (if P p then p\<lparr>Payment_Status := s\<rparr> else p)"
  using assms by (simp add: with_status_def find_map_preserve)

lemma process_payment_tx_keeps:
  assumes "process_payment_tx q fs w = (Inr r, w')" and "Payment_Status q = StatusPending"
    and "find Q (payments (db w)) = Some p" and "Payment_Status p \<noteq> StatusPending"
    and "\<And>p. Q (p\<lparr>Payment_Status := fs\<rparr>) = Q p"
  shows "find Q (payments (db w')) = Some p \<and> refunds (db w') = refunds (db w)"
  using process_payment_tx_Inr [OF assms(1,2)]
proof (elim disjE exE conjE)
  fix x
  assume "db w' = with_status fs (\<lambda>y. Payment_ID y = Payment_ID x \<and> Payment_Status y = StatusPending) (db w)"
  then show ?thesis using find_with_status [where s = fs and Q = Q, OF assms(5,3)] assms(4) by (simp add: with_status_def)
qed (use assms(3) in \<open>simp_all add: find_append\<close>)

lemma refund_tx_db:
  assumes "refund_tx i a k w = (Inr pr, w')"
  obtains "db w' = db w"
  | j where "db w' = with_status StatusRefunded (\<lambda>y. Payment_ID y = j \<and> Payment_Status y = StatusSuccess)
      ((db w)\<lparr>refunds := refunds (db w) @ [stored_refund (snd pr)]\<rparr>)"
proof -
  have "refund_tx i a k w = (Inr (fst pr, snd pr), w')" using assms by simp
  from refund_tx_Inr [OF this] show thesis
  proof (elim disjE exE conjE)
    fix w1
    assume d: "db w1 = db w" and new: "refund_new i a k w1 = (Inr (fst pr, snd pr), w')"
    show thesis using refund_new_Inr [OF new] by (elim exE conjE) (rule that(2), simp add: d)
  qed (rule that(1))
qed

lemma refund_tx_keeps:
  assumes "refund_tx i a k w = (Inr pr, w')" and "find Q (payments (db w)) = Some p"
    and "\<And>p. Q (p\<lparr>Payment_Status := StatusRefunded\<rparr>) = Q p"
  shows "\<exists>p'. find Q (payments (db w')) = Some p' \<and> charge_same p p'"
  using assms(1)
proof (cases rule: refund_tx_db)
  case (2 j)
  then show ?thesis
    using find_with_status [where s = StatusRefunded and Q = Q, OF assms(3), of "(db w)\<lparr>refunds := refunds (db w) @ [stored_refund (snd pr)]\<rparr>" p] assms(2)
    by (auto simp: charge_same_def)
qed (use assms(2) in \<open>simp add: charge_same_def\<close>)

text \<open>The record of a refund is the refund with the key, together with its payment.\<close>

definition refund_recorded :: "string \<Rightarrow> pay_db \<Rightarrow> Payment \<times> Refund \<Rightarrow> bool" where
  "refund_recorded k d pr \<longleftrightarrow>
     find (\<lambda>r. Refund_IdempotencyKey r = k) (refunds d) = Some (snd pr) \<and>
     find (\<lambda>p. Payment_ID p = Refund_PaymentID (snd pr)) (payments d) = Some (fst pr) \<and>
     Payment_Status (fst pr) = StatusRefunded"

text \<open>The first answer has the time of the clock, a repetition the time as it is stored.\<close>

definition refund_same :: "Payment \<times> Refund \<Rightarrow> Payment \<times> Refund \<Rightarrow> bool" where
  "refund_same pr pr' \<longleftrightarrow> fst pr' = fst pr \<and> (snd pr' = snd pr \<or> snd pr' = stored_refund (snd pr))"

lemma refund_same_trans: "refund_same p q \<Longrightarrow> refund_same q r \<Longrightarrow> refund_same p r"
  by (auto simp: refund_same_def)

lemma refund_tx_records:
  assumes "refund_tx i a k w = (Inr (p, r), w')" and "k \<noteq> ''''" and wf: "pay_wf (db w)"
  shows "\<exists>s. refund_recorded k (db w') s \<and> refund_same (p, r) s"
  using refund_tx_Inr [OF assms(1)]
proof (elim disjE exE conjE)
  fix w1
  assume "db w1 = db w" and new: "refund_new i a k w1 = (Inr (p, r), w')"
  from refund_new_Inr [OF new] \<open>db w1 = db w\<close> obtain q where
    q: "find (\<lambda>x. Payment_ID x = i) (payments (db w)) = Some q" "Payment_Status q = StatusSuccess"
      "p = q\<lparr>Payment_Status := StatusRefunded\<rparr>" "Refund_PaymentID r = Payment_ID q"
      "Refund_IdempotencyKey r = k" "k \<notin> Refund_IdempotencyKey ` set (refunds (db w))"
    and d: "db w' = with_status StatusRefunded (\<lambda>x. Payment_ID x = Payment_ID q \<and> Payment_Status x = StatusSuccess)
                ((db w)\<lparr>refunds := refunds (db w) @ [stored_refund r]\<rparr>)"
    using assms(2) by auto
  have "find (\<lambda>x. Refund_IdempotencyKey x = k) (refunds (db w)) = None"
    using q(6) by (auto simp: find_None_iff)
  moreover have "Payment_ID q = i" using q(1) by (auto simp: find_Some_iff)
  ultimately have "refund_recorded k (db w') (p, stored_refund r)"
    using q by (simp add: d refund_recorded_def with_status_def find_append find_map_preserve)
  then show ?thesis by (intro exI [of _ "(p, stored_refund r)"]) (simp add: refund_same_def)
next
  assume f: "find (\<lambda>r. Refund_IdempotencyKey r = k) (refunds (db w)) = Some r"
    "find (\<lambda>p. Payment_ID p = Refund_PaymentID r) (payments (db w)) = Some p" "db w' = db w"
  then have in_tables: "r \<in> set (refunds (db w))" "p \<in> set (payments (db w))" "Payment_ID p = Refund_PaymentID r"
    by (auto simp: find_Some_iff)
  obtain y where y: "y \<in> set (payments (db w))" "Payment_ID y = Refund_PaymentID r" "Payment_Status y = StatusRefunded"
    using pay_wfD(7) [OF wf in_tables(1)] by auto
  then have "y = p" using pay_wfD(1) [OF wf] in_tables by (auto simp: distinct_map inj_on_def)
  then show ?thesis using f y by (intro exI [of _ "(p, r)"]) (simp add: refund_recorded_def refund_same_def)
qed

lemma refund_tx_replay:
  assumes "refund_tx i a k w = (Inr pr', w')" and "k \<noteq> ''''" and "refund_recorded k (db w) pr"
  shows "pr' = pr \<and> db w' = db w"
proof -
  obtain p r where pr': "pr' = (p, r)" by fastforce
  from refund_tx_Inr [OF assms(1) [unfolded pr']] show ?thesis
  proof (elim disjE exE conjE)
    fix w1
    assume "db w1 = db w" and new: "refund_new i a k w1 = (Inr (p, r), w')"
    with refund_new_Inr [OF new] assms(2) have "k \<notin> Refund_IdempotencyKey ` set (refunds (db w))" by auto
    then show ?thesis using assms(3) by (auto simp: refund_recorded_def find_Some_iff)
  next
    assume "find (\<lambda>r. Refund_IdempotencyKey r = k) (refunds (db w)) = Some r"
      "find (\<lambda>p. Payment_ID p = Refund_PaymentID r) (payments (db w)) = Some p" "db w' = db w"
    then show ?thesis using assms(3) pr' by (simp add: refund_recorded_def prod_eq_iff)
  qed
qed

lemma Refund_records:
  fixes w w' :: "'x pw"
  assumes "pay_wf (db w)" and "PaymentUsecase_Refund i a (c # k) w = (Inr pr, w')"
  shows "\<exists>s. refund_recorded (c # k) (db w') s \<and> refund_same pr s"
proof -
  obtain w1 w2 :: "'x pw" where "db w1 = db w" "refund_tx i a (c # k) w1 = (Inr pr, w2)" "db w' = db w2"
    using txm.run_ok [OF assms(2) [unfolded PaymentUsecase_Refund_def]] by metis
  then show ?thesis using refund_tx_records [of i a "c # k" w1 "fst pr" "snd pr" w2] assms(1) by simp
qed

lemma refund_tx_keeps_record:
  assumes "refund_tx i a k w = (Inr pr, w')" and "refund_recorded l (db w) s"
  shows "refund_recorded l (db w') s"
proof -
  have refunded: "Payment_Status (fst s) = StatusRefunded" using assms(2) by (simp add: refund_recorded_def)
  then have "charge_same (fst s) p' \<Longrightarrow> p' = fst s" for p' by (auto simp: charge_same_def pay_status_defs)
  then have p: "find (\<lambda>p. Payment_ID p = Refund_PaymentID (snd s)) (payments (db w')) = Some (fst s)"
    using refund_tx_keeps [OF assms(1), of "\<lambda>p. Payment_ID p = Refund_PaymentID (snd s)" "fst s"] assms(2)
    by (auto simp: refund_recorded_def)
  from assms(1) have "\<exists>rs. refunds (db w') = refunds (db w) @ rs"
    by (cases rule: refund_tx_db) (simp_all add: with_status_def)
  then show ?thesis using p assms(2) by (auto simp: refund_recorded_def find_append)
qed

lemma process_payment_tx_keeps_record:
  assumes "process_payment_tx q fs w = (Inr r, w')" and "Payment_Status q = StatusPending" and "refund_recorded l (db w) s"
  shows "refund_recorded l (db w') s"
  using process_payment_tx_keeps [OF assms(1,2), of "\<lambda>p. Payment_ID p = Refund_PaymentID (snd s)" "fst s"] assms(3)
  by (simp add: refund_recorded_def pay_status_defs)

lemma Refund_replay:
  fixes w :: "'x pw"
  assumes "refund_recorded (c # k) (db w) r"
  shows "db (snd (PaymentUsecase_Refund i a (c # k) w)) = db w \<and>
    (\<forall>r' w'. PaymentUsecase_Refund i a (c # k) w = (Inr r', w') \<longrightarrow> r' = r)"
proof -
  have body: "r' = r \<and> db w1 = db w"
    if "db w0 = db w" "refund_tx i a (c # k) w0 = (Inr r', w1)" for w0 w1 :: "'x pw" and r'
    using refund_tx_replay [OF that(2)] assms that(1) by auto
  have "db (snd (PaymentUsecase_Refund i a (c # k) w)) = db w"
    unfolding PaymentUsecase_Refund_def by (rule txm.stable) (use body in metis)
  moreover have "r' = r" if "PaymentUsecase_Refund i a (c # k) w = (Inr r', w')" for r' w'
    using txm.run_ok [OF that [unfolded PaymentUsecase_Refund_def]] body by blast
  ultimately show ?thesis by blast
qed

section \<open>Handlers and reachable states\<close>

lemma SendToDLQ_db [simp]: "db (SendToDLQ e p r w) = db w"
  by (simp add: SendToDLQ_def)

lemma GetByID_db: "PaymentPostgres_GetByID i w = (r, w') \<Longrightarrow> db w' = db w"
  by (auto simp: PaymentPostgres_GetByID_def stmt_GetByID_def split: prod.splits sum.splits if_splits
      dest: query_row_db)

lemma GetRefund_db: "PaymentPostgres_GetRefund i w = (r, w') \<Longrightarrow> db w' = db w"
  by (auto simp: PaymentPostgres_GetRefund_def stmt_GetRefund_def split: prod.splits sum.splits if_splits
      dest: query_row_db)

lemma ListRefunds_db: "PaymentPostgres_ListRefunds i w = (r, w') \<Longrightarrow> db w' = db w"
  by (auto simp: PaymentPostgres_ListRefunds_def stmt_ListRefunds_def split: prod.splits sum.splits
      dest!: query_rows_db rows_Err_db)

lemma PaymentHandler_ProcessPayment_db:
  "db (snd (PaymentHandler_ProcessPayment L rs c req w)) = db w \<or>
   (\<exists>orderID userID a. db (snd (PaymentHandler_ProcessPayment L rs c req w)) =
      db (snd (PaymentUsecase_ProcessPayment orderID userID a w)))"
proof (cases "snd (GetUserID c)")
  case True
  then show ?thesis
  proof (cases "uuid_Parse L (ProcessPaymentRequest_OrderId req)")
    case (Inr orderID)
    then show ?thesis
    proof (cases "uuid_Parse L (fst (GetUserID c))")
      case (Inr userID)
      obtain res w1 where r: "PaymentUsecase_ProcessPayment orderID userID (ProcessPaymentRequest_AmountCents req) w = (res, w1)"
        by fastforce
      have "db (snd (PaymentHandler_ProcessPayment L rs c req w)) = db w1"
        using True Inr \<open>uuid_Parse L (ProcessPaymentRequest_OrderId req) = Inr orderID\<close> r
        by (cases res) (simp_all add: PaymentHandler_ProcessPayment_def case_prod_beta)
      then show ?thesis using r by (metis snd_conv)
    qed (simp add: PaymentHandler_ProcessPayment_def case_prod_beta True)
  qed (simp add: PaymentHandler_ProcessPayment_def case_prod_beta True)
qed (simp add: PaymentHandler_ProcessPayment_def case_prod_beta)

lemma PaymentHandler_Refund_db:
  fixes w :: "'x pw"
  shows "db (snd (PaymentHandler_Refund L c req w)) = db w \<or>
   (\<exists>(w1 :: 'x pw) i a k. db w1 = db w \<and> db (snd (PaymentHandler_Refund L c req w)) = db (snd (PaymentUsecase_Refund i a k w1)))"
proof (cases "snd (GetUserID c)")
  case True
  then show ?thesis
  proof (cases "uuid_Parse L (RefundRequest_PaymentId req)")
    case (Inr i)
    obtain g w1 where g: "PaymentUsecase_GetByID i w = (g, w1)" by fastforce
    then have d: "db w1 = db w" using GetByID_db by (simp add: PaymentUsecase_GetByID_def)
    obtain res w2 where r: "PaymentUsecase_Refund i (RefundRequest_AmountCents req)
       (RefundRequest_IdempotencyKey req) w1 = (res, w2)" by fastforce
    have "db (snd (PaymentHandler_Refund L c req w)) \<in> {db w1, db w2}"
      using True Inr g r
      by (cases g; cases res) (simp_all add: PaymentHandler_Refund_def case_prod_beta)
    then show ?thesis using r d by (metis insertE singletonD snd_conv)
  qed (simp add: PaymentHandler_Refund_def case_prod_beta)
qed (simp add: PaymentHandler_Refund_def case_prod_beta)

lemma PaymentHandler_GetRefund_db: "db (snd (PaymentHandler_GetRefund L c req w)) = db w"
  by (auto simp: PaymentHandler_GetRefund_def PaymentUsecase_GetRefund_def PaymentUsecase_GetByID_def
      split: prod.splits sum.splits dest!: GetRefund_db GetByID_db)

lemma PaymentHandler_ListRefunds_db: "db (snd (PaymentHandler_ListRefunds L c req w)) = db w"
  by (auto simp: PaymentHandler_ListRefunds_def PaymentUsecase_ListRefunds_def PaymentUsecase_GetByID_def
      split: prod.splits sum.splits dest!: ListRefunds_db GetByID_db)

inductive pay_steps :: "uuid_lib \<Rightarrow> (ProcessPaymentRequest \<Rightarrow> string) \<Rightarrow> 'x pw \<Rightarrow> 'x pw \<Rightarrow> bool" for L rs where
  pay_refl: "pay_steps L rs w w"
| pay_process: "pay_steps L rs w w1 \<Longrightarrow> pay_steps L rs w (snd (PaymentHandler_ProcessPayment L rs c req w1))"
| pay_refund: "pay_steps L rs w w1 \<Longrightarrow> pay_steps L rs w (snd (PaymentHandler_Refund L c rreq w1))"
| pay_get: "pay_steps L rs w w1 \<Longrightarrow> pay_steps L rs w (snd (PaymentHandler_GetRefund L c s w1))"
| pay_list: "pay_steps L rs w w1 \<Longrightarrow> pay_steps L rs w (snd (PaymentHandler_ListRefunds L c s w1))"
| pay_env: "pay_steps L rs w w1 \<Longrightarrow> db w2 = db w1 \<Longrightarrow> pay_steps L rs w w2"

lemma pay_steps_wf: "pay_steps L rs w w' \<Longrightarrow> pay_wf (db w) \<Longrightarrow> pay_wf (db w')"
proof (induction rule: pay_steps.induct)
  case (pay_process w w1 c req)
  then show ?case
    using PaymentHandler_ProcessPayment_db [of L rs c req w1] ProcessPayment_wf by metis
next
  case (pay_refund w w1 c rreq)
  then show ?case using PaymentHandler_Refund_db [of L c rreq w1] Refund_wf by metis
qed (simp_all add: PaymentHandler_GetRefund_db PaymentHandler_ListRefunds_db)

text \<open>What every transaction keeps is kept by every request.\<close>

lemma pay_steps_keep:
  fixes w w' :: "'x pw"
  assumes "pay_steps L rs w w'" and "Q (db w)"
    and charge: "\<And>(v :: 'x pw) v' q fs r. process_payment_tx q fs v = (Inr r, v') \<Longrightarrow> Payment_Status q = StatusPending \<Longrightarrow>
      fs \<in> {StatusSuccess, StatusFailed} \<Longrightarrow> Q (db v) \<Longrightarrow> Q (db v')"
    and refund: "\<And>(v :: 'x pw) v' i a k pr. refund_tx i a k v = (Inr pr, v') \<Longrightarrow> Q (db v) \<Longrightarrow> Q (db v')"
  shows "Q (db w')"
proof -
  have P: "Q (db (snd (PaymentUsecase_ProcessPayment orderID userID a v)))" if "Q (db v)" for orderID userID a and v :: "'x pw"
  proof -
    obtain res v' where r: "PaymentUsecase_ProcessPayment orderID userID a v = (res, v')" by fastforce
    from r obtain v2 p fs where v2: "db v2 = db v" "Payment_Status p = StatusPending" "fs \<in> {StatusSuccess, StatusFailed}"
      "txm_Run (process_payment_tx p fs) v2 = (res, v')"
      by (rule ProcessPayment_run)
    have "Q (db (snd (txm_Run (process_payment_tx p fs) v2)))"
      using that v2 charge by (intro txm.invariant [of Q]) auto
    with r v2 show ?thesis by simp
  qed
  have R: "Q (db (snd (PaymentUsecase_Refund i a k v)))" if "Q (db v)" for i a k and v :: "'x pw"
    unfolding PaymentUsecase_Refund_def using that refund by (intro txm.invariant [of Q]) auto
  from assms(1,2) show ?thesis
  proof (induction rule: pay_steps.induct)
    case (pay_process w w1 c req)
    then show ?case using PaymentHandler_ProcessPayment_db [of L rs c req w1] P by metis
  next
    case (pay_refund w w1 c rreq)
    then show ?case using PaymentHandler_Refund_db [of L c rreq w1] R by metis
  qed (simp_all add: PaymentHandler_GetRefund_db PaymentHandler_ListRefunds_db)
qed

lemma charge_kept:
  fixes w w' :: "'x pw"
  assumes "pay_steps L rs w w'" and "charge_recorded orderID (db w) p"
  shows "\<exists>p'. charge_recorded orderID (db w') p' \<and> charge_same p p'"
proof (rule pay_steps_keep [OF assms(1), where Q = "\<lambda>d. \<exists>p'. charge_recorded orderID d p' \<and> charge_same p p'"])
  show "\<exists>p'. charge_recorded orderID (db w) p' \<and> charge_same p p'" using assms(2) by (auto simp: charge_same_def)
next
  fix v v' :: "'x pw" and q fs r
  assume run: "process_payment_tx q fs v = (Inr r, v')" "Payment_Status q = StatusPending"
    and "\<exists>p'. charge_recorded orderID (db v) p' \<and> charge_same p p'"
  then obtain p' where p': "charge_recorded orderID (db v) p'" "charge_same p p'" by blast
  then have "charge_recorded orderID (db v') p'"
    using process_payment_tx_keeps [OF run, of "\<lambda>x. Payment_OrderID x = orderID" p'] by (simp add: charge_recorded_def)
  with p'(2) show "\<exists>p'. charge_recorded orderID (db v') p' \<and> charge_same p p'" by blast
next
  fix v v' :: "'x pw" and i a k pr
  assume run: "refund_tx i a k v = (Inr pr, v')" and "\<exists>p'. charge_recorded orderID (db v) p' \<and> charge_same p p'"
  then obtain p' where p': "find (\<lambda>x. Payment_OrderID x = orderID) (payments (db v)) = Some p'"
    "Payment_Status p' \<noteq> StatusPending" "charge_same p p'" by (auto simp: charge_recorded_def)
  obtain p2 where p2: "find (\<lambda>x. Payment_OrderID x = orderID) (payments (db v')) = Some p2" "charge_same p' p2"
    using refund_tx_keeps [OF run p'(1)] by auto
  have "Payment_Status p2 \<noteq> StatusPending" using p2(2) p'(2) by (auto simp: charge_same_def pay_status_defs)
  then show "\<exists>p'. charge_recorded orderID (db v') p' \<and> charge_same p p'"
    using p2 charge_same_trans [OF p'(3) p2(2)] by (auto simp: charge_recorded_def)
qed

lemma refund_kept:
  assumes "pay_steps L rs w w'" and "refund_recorded k (db w) s"
  shows "refund_recorded k (db w') s"
  by (rule pay_steps_keep [OF assms(1), where Q = "\<lambda>d. refund_recorded k d s"])
    (use assms(2) in \<open>auto intro: refund_tx_keeps_record process_payment_tx_keeps_record\<close>)

interpretation charge: replayable
  "\<lambda>(userID, a). PaymentUsecase_ProcessPayment orderID userID a" db pay_wf "charge_recorded orderID" charge_same "pay_steps L rs"
proof unfold_locales
  fix q :: "uuid \<times> int" and r and w w' :: "'x pw"
  assume "(case q of (userID, a) \<Rightarrow> PaymentUsecase_ProcessPayment orderID userID a) w = (Inr r, w')"
  then show "\<exists>s. charge_recorded orderID (db w') s \<and> charge_same r s"
    using ProcessPayment_records by (cases q) (force simp: charge_same_def)
qed (auto intro: charge_kept charge_same_trans dest: ProcessPayment_replay)

interpretation refunding: replayable
  "\<lambda>(i, a). PaymentUsecase_Refund i a (c # k)" db pay_wf "refund_recorded (c # k)" refund_same "pay_steps L rs"
proof unfold_locales
  fix q :: "uuid \<times> int" and r and w w' :: "'x pw"
  assume "pay_wf (db w)" "(case q of (i, a) \<Rightarrow> PaymentUsecase_Refund i a (c # k)) w = (Inr r, w')"
  then show "\<exists>s. refund_recorded (c # k) (db w') s \<and> refund_same r s"
    by (cases q) (simp only: prod.case, rule Refund_records)
next
  fix w w' :: "'x pw" and s
  assume "pay_steps L rs w w'" "refund_recorded (c # k) (db w) s"
  then show "\<exists>s'. refund_recorded (c # k) (db w') s' \<and> refund_same s s'"
    using refund_kept by (force simp: refund_same_def)
qed (auto intro: refund_same_trans dest: Refund_replay)

lemma at_most_one_refund:
  assumes "distinct (map f xs)"
  shows "length (filter (\<lambda>x. f x = y) xs) \<le> 1"
  using assms
proof (induction xs)
  case (Cons x xs)
  then show ?case by (auto simp: filter_empty_conv image_iff)
qed simp

lemma filter_unique:
  assumes "distinct (map f xs)" and "find (\<lambda>x. f x = y) xs = Some x"
  shows "filter (\<lambda>x. f x = y) xs = [x]"
  using assms
proof (induction xs)
  case (Cons z zs)
  then show ?case by (auto simp: filter_empty_conv image_iff split: if_splits)
qed simp

lemma filter_keys_unique:
  assumes "distinct (filter (\<lambda>k. k \<noteq> '''') (map f xs))" and "find (\<lambda>x. f x = k) xs = Some x" and "k \<noteq> ''''"
  shows "filter (\<lambda>x. f x = k) xs = [x]"
  using assms
proof (induction xs)
  case (Cons z zs)
  then show ?case by (auto simp: filter_empty_conv image_iff split: if_splits)
qed simp

lemma refunds_bounded:
  assumes wf: "pay_wf d" and p: "p \<in> set (payments d)"
  shows "sum_list (map Refund_Amount (filter (\<lambda>r. Refund_PaymentID r = Payment_ID p) (refunds d))) \<le> Payment_Amount p"
proof -
  let ?rs = "filter (\<lambda>r. Refund_PaymentID r = Payment_ID p) (refunds d)"
  have "length ?rs \<le> 1" using at_most_one_refund [OF pay_wfD(5) [OF wf]] .
  then consider "?rs = []" | r where "?rs = [r]" by (cases ?rs) auto
  then show ?thesis
  proof cases
    case 1
    with pay_wfD(3) [OF wf p] show ?thesis by simp
  next
    case (2 r)
    then have "r \<in> set ?rs" by simp
    then have r: "r \<in> set (refunds d)" "Refund_PaymentID r = Payment_ID p" by auto
    from pay_wfD(7) [OF wf r(1)] obtain y where y: "y \<in> set (payments d)" "Payment_ID y = Payment_ID p"
      "Refund_Amount r \<le> Payment_Amount y" using r(2) by auto
    then have "y = p" using pay_wfD(1) [OF wf] p by (auto simp: distinct_map inj_on_def)
    with 2 y show ?thesis by simp
  qed
qed

section \<open>A concrete service\<close>

definition demo_pay :: pay_world where
  "demo_pay = \<lparr>faults = [], clock = 0, uuid_src = of_nat, uuid_ctr = 7,
     db = \<lparr>payments = [], refunds = []\<rparr>,
     pay_rand = (\<lambda>_. 0), pay_rand_ctr = 0, pay_dlq = True, pay_dlq_events = []\<rparr>"

lemma demo_pay_wf: "pay_wf (db demo_pay)"
  by (simp add: pay_wf_def demo_pay_def)

definition demo_user :: ctx where
  "demo_user = WithIdentity ctx_Background
     \<lparr>Identity_UserID = ''xxx'', Identity_Role = RoleUser, Identity_AuthorizationHeader = ''''\<rparr>"

definition demo_paid :: Payment where
  "demo_paid = \<lparr>Payment_ID = 7, Payment_OrderID = 1, Payment_UserID = 3, Payment_Amount = 500,
     Payment_Status = ''success''\<rparr>"

lemma demo_charge:
  "\<exists>w1. PaymentUsecase_ProcessPayment 1 3 500 demo_pay = (Inr demo_paid, w1) \<and>
     db w1 = \<lparr>payments = [demo_paid], refunds = []\<rparr> \<and> faults w1 = []"
  by (simp add: PaymentUsecase_ProcessPayment_def rand_Float64_def uuid_New_def process_payment_tx_def
      PaymentPostgres_CreateOrGet_def PaymentPostgres_UpdateStatusIf_def stmt_InsertOrNothing_def
      payment_checks_def has_payment_order_def has_payment_id_def stmt_UpdateStatusIf_def set_status_def
      demo_pay_def rt_simps pay_status_defs int8_ok_def finalStatus_of_def demo_paid_def)

lemma demo_refund:
  assumes "db w = \<lparr>payments = [demo_paid], refunds = []\<rparr>" and "faults w = []"
  shows "\<exists>r w1. PaymentUsecase_Refund 7 0 ''k'' w = (Inr (demo_paid\<lparr>Payment_Status := ''refunded''\<rparr>, r), w1)
    \<and> db w1 = \<lparr>payments = [demo_paid\<lparr>Payment_Status := ''refunded''\<rparr>], refunds = [stored_refund r]\<rparr>
    \<and> Refund_CreatedAt r = clock w \<and> Refund_IdempotencyKey r = ''k'' \<and> Refund_PaymentID r = 7 \<and> faults w1 = []"
  using assms
  by (simp add: PaymentUsecase_Refund_def refund_tx_def refund_new_def Let_def
      PaymentPostgres_GetRefundByIdempotencyKey_def stmt_GetRefundByIdempotencyKey_def
      PaymentPostgres_GetByID_def stmt_GetByID_def query_row_def PaymentPostgres_CreateRefund_def
      stmt_CreateRefund_def PaymentPostgres_UpdateStatusIf_def stmt_UpdateStatusIf_def set_status_def
      has_payment_id_def uuid_New_def rt_simps pay_status_defs int8_ok_def demo_paid_def utf8_length_def)

text \<open>The owner has the payment refunded.\<close>

definition demo_refund_request :: RefundRequest where
  "demo_refund_request = \<lparr>RefundRequest_PaymentId = ''xxxxxxx'', RefundRequest_AmountCents = 0, RefundRequest_IdempotencyKey = ''k''\<rparr>"

lemma demo_refund_step:
  assumes "db w = \<lparr>payments = [demo_paid], refunds = []\<rparr>" and "faults w = []"
  shows "\<exists>w1 r. snd (PaymentHandler_Refund unary_uuid demo_user demo_refund_request w) = w1 \<and> faults w1 = []
    \<and> db w1 = \<lparr>payments = [demo_paid\<lparr>Payment_Status := ''refunded''\<rparr>], refunds = [r]\<rparr> \<and> Refund_PaymentID r = 7"
proof -
  have g: "PaymentUsecase_GetByID 7 w = (Inr demo_paid, w)"
    using assms by (simp add: PaymentUsecase_GetByID_def PaymentPostgres_GetByID_def stmt_GetByID_def query_row_def rt_simps demo_paid_def)
  obtain r w1 where w1: "PaymentUsecase_Refund 7 0 ''k'' w = (Inr (demo_paid\<lparr>Payment_Status := ''refunded''\<rparr>, r), w1)"
    "db w1 = \<lparr>payments = [demo_paid\<lparr>Payment_Status := ''refunded''\<rparr>], refunds = [stored_refund r]\<rparr>" "Refund_PaymentID r = 7" "faults w1 = []"
    using demo_refund [OF assms] by blast
  have u: "uuid_Parse unary_uuid ''xxxxxxx'' = Inr 7" "uuid_String unary_uuid 3 = ''xxx''"
    by (simp_all add: unary_uuid_def) (simp add: numeral_3_eq_3)
  have "snd (PaymentHandler_Refund unary_uuid demo_user demo_refund_request w) = w1"
    using g w1(1) by (simp add: PaymentHandler_Refund_def demo_user_def demo_refund_request_def u) (simp add: demo_paid_def u)
  then show ?thesis using w1 stored_refund_simps(2) by metis
qed

section \<open>Properties of the payment service\<close>

text \<open>
  C9. Whatever the handlers are called with and whatever fails, an order has at most one payment,
  no committed payment is pending, a payment has at most one refund and is then marked refunded,
  idempotency keys are unique, and no refund exceeds its payment.
\<close>

theorem payment_invariant:
  assumes "pay_steps L rs w w'" and "pay_wf (db w)"
  shows "pay_wf (db w')"
  using assms by (rule pay_steps_wf)

theorem payment_invariant_witness:
  "pay_wf (db (snd (PaymentHandler_ProcessPayment unary_uuid (\<lambda>_. '''') demo_user
     \<lparr>ProcessPaymentRequest_OrderId = ''x'', ProcessPaymentRequest_AmountCents = 500,
      ProcessPaymentRequest_IdempotencyKey = ''k''\<rparr> demo_pay)))"
  by (rule payment_invariant [OF pay_process [OF pay_refl] demo_pay_wf])

text \<open>
  C3. Customers are never paid back more than they paid: in every reachable state the refunds of a
  payment sum up to at most its amount.
\<close>

theorem refunds_never_exceed_payment:
  assumes "pay_steps L rs w w'" and "pay_wf (db w)" and "p \<in> set (payments (db w'))"
  shows "sum_list (map Refund_Amount (filter (\<lambda>r. Refund_PaymentID r = Payment_ID p) (refunds (db w'))))
    \<le> Payment_Amount p"
  using refunds_bounded [OF pay_steps_wf [OF assms(1,2)] assms(3)] .

theorem refunds_never_exceed_payment_witness:
  "\<exists>(w' :: pay_world) p r. payments (db w') = [p] \<and> Payment_Amount p = 500 \<and> refunds (db w') = [r] \<and>
     Refund_PaymentID r = Payment_ID p \<and>
     sum_list (map Refund_Amount (filter (\<lambda>r. Refund_PaymentID r = Payment_ID p) (refunds (db w')))) \<le> 500"
proof -
  let ?p = "demo_paid\<lparr>Payment_Status := ''refunded''\<rparr>"
  obtain w1 where w1: "PaymentUsecase_ProcessPayment 1 3 500 demo_pay = (Inr demo_paid, w1)"
    "db w1 = \<lparr>payments = [demo_paid], refunds = []\<rparr>" "faults w1 = []"
    using demo_charge by blast
  let ?req = "\<lparr>ProcessPaymentRequest_OrderId = ''x'', ProcessPaymentRequest_AmountCents = 500,
      ProcessPaymentRequest_IdempotencyKey = ''k''\<rparr>"
  let ?w = "snd (PaymentHandler_ProcessPayment unary_uuid (\<lambda>_. '''') demo_user ?req demo_pay)"
  have w: "?w = w1" using w1(1) by (simp add: PaymentHandler_ProcessPayment_def demo_user_def)
  let ?w2 = "snd (PaymentHandler_Refund unary_uuid demo_user demo_refund_request ?w)"
  obtain r where w2: "db ?w2 = \<lparr>payments = [?p], refunds = [r]\<rparr>" "Refund_PaymentID r = 7"
    using demo_refund_step [OF w1(2,3)] unfolding w by blast
  have "sum_list (map Refund_Amount (filter (\<lambda>r. Refund_PaymentID r = Payment_ID ?p) (refunds (db ?w2)))) \<le> Payment_Amount ?p"
    by (rule refunds_never_exceed_payment [OF pay_refund [OF pay_process [OF pay_refl]] demo_pay_wf]) (simp add: w2)
  then show ?thesis using w2 by (intro exI [of _ ?w2] exI [of _ ?p] exI [of _ r]) (simp add: demo_paid_def)
qed

text \<open>
  C10. Charging is exactly-once per order: after a successful charge of an order, whatever requests
  for this or other orders, refunds and failures follow, a later charge of the order that succeeds,
  by whatever user and for whatever amount, changes no table and reports the payment of the first
  charge, as success or failure as it was decided then or as refunded if it was refunded meanwhile;
  that payment belongs to the order and is its only one. If the order had no payment before, it is
  for the user and the amount of the first charge.
\<close>

theorem charge_exactly_once:
  assumes "pay_wf (db w)" and "PaymentUsecase_ProcessPayment orderID userID a w = (Inr p, w1)"
    and "pay_steps L rs w1 w2"
    and "PaymentUsecase_ProcessPayment orderID userID' a' w2 = (Inr p', w3)"
  shows "Payment_OrderID p = orderID
    \<and> (p' = p \<or> Payment_Status p = StatusSuccess \<and> p' = p\<lparr>Payment_Status := StatusRefunded\<rparr>)
    \<and> db w3 = db w2 \<and> filter (\<lambda>x. Payment_OrderID x = orderID) (payments (db w3)) = [p']
    \<and> (\<not> has_payment_order orderID (db w) \<longrightarrow> Payment_UserID p = userID \<and> Payment_Amount p = a)"
proof -
  have "(case (userID, a) of (u, x) \<Rightarrow> PaymentUsecase_ProcessPayment orderID u x) w = (Inr p, w1)"
    "(case (userID', a') of (u, x) \<Rightarrow> PaymentUsecase_ProcessPayment orderID u x) w2 = (Inr p', w3)"
    using assms(2,4) by simp_all
  from charge.same_answer [OF assms(1) this(1) assms(3) this(2)]
  have same: "charge_same p p'" "charge_recorded orderID (db w2) p'" "db w3 = db w2" by simp_all
  have "Payment_OrderID p = orderID"
    using ProcessPayment_records [OF assms(2)] by (auto simp: charge_recorded_def find_Some_iff)
  moreover have "pay_wf (db w2)"
    using pay_steps_wf [OF assms(3)] ProcessPayment_wf [OF assms(1), of orderID userID a] assms(2) by simp
  then have "filter (\<lambda>x. Payment_OrderID x = orderID) (payments (db w2)) = [p']"
    using same(2) pay_wfD(2) by (intro filter_unique) (auto simp: charge_recorded_def)
  moreover have "Payment_UserID p = userID \<and> Payment_Amount p = a" if "\<not> has_payment_order orderID (db w)"
    using ProcessPayment_new [OF assms(2) that] .
  ultimately show ?thesis using same by (simp add: charge_same_def)
qed

theorem charge_exactly_once_witness:
  "\<exists>w1 w2 w3. PaymentUsecase_ProcessPayment 1 3 500 demo_pay = (Inr demo_paid, w1) \<and>
     w2 = snd (PaymentHandler_Refund unary_uuid demo_user demo_refund_request w1) \<and>
     PaymentUsecase_ProcessPayment 1 4 900 w2 = (Inr (demo_paid\<lparr>Payment_Status := ''refunded''\<rparr>), w3) \<and> db w3 = db w2"
proof -
  let ?p = "demo_paid\<lparr>Payment_Status := ''refunded''\<rparr>"
  obtain w1 where w1: "PaymentUsecase_ProcessPayment 1 3 500 demo_pay = (Inr demo_paid, w1)"
    "db w1 = \<lparr>payments = [demo_paid], refunds = []\<rparr>" "faults w1 = []"
    using demo_charge by blast
  define w2 where "w2 = snd (PaymentHandler_Refund unary_uuid demo_user demo_refund_request w1)"
  have step: "pay_steps unary_uuid (\<lambda>_. '''') w1 w2" unfolding w2_def by (rule pay_refund [OF pay_refl])
  obtain r where w2: "db w2 = \<lparr>payments = [?p], refunds = [r]\<rparr>" "faults w2 = []"
    using demo_refund_step [OF w1(2,3)] unfolding w2_def by blast
  have "\<exists>p' w3. PaymentUsecase_ProcessPayment 1 4 900 w2 = (Inr p', w3)"
    using w2 by (simp add: PaymentUsecase_ProcessPayment_def rand_Float64_def uuid_New_def
        process_payment_tx_def PaymentPostgres_CreateOrGet_def stmt_InsertOrNothing_def payment_checks_def
        has_payment_order_def stmt_GetByOrderID_def query_row_def rt_simps pay_status_defs int8_ok_def demo_paid_def)
  then obtain p' w3 where w3: "PaymentUsecase_ProcessPayment 1 4 900 w2 = (Inr p', w3)" by blast
  from charge_exactly_once [OF demo_pay_wf w1(1) step w3] have "db w3 = db w2" "p' \<in> set (payments (db w3))"
    by (auto simp: filter_eq_Cons_iff)
  then have "p' = ?p" "db w3 = db w2" using w2(1) by simp_all
  then show ?thesis using w1(1) w3 w2_def by blast
qed

text \<open>
  C11. Refunding is exactly-once per idempotency key: after a success with a non-empty key, whatever
  requests and failures follow, a later call with that key that succeeds, whatever payment and
  amount it names, changes no table and reports the payment and the refund of the first call, the
  only one with that key. Its time may have lost what PostgreSQL does not store, the part below a
  microsecond.
\<close>

theorem refund_exactly_once:
  assumes "pay_wf (db w)" and "key \<noteq> ''''" and "PaymentUsecase_Refund i a key w = (Inr (p, r), w1)"
    and "pay_steps L rs w1 w2"
    and "PaymentUsecase_Refund i' a' key w2 = (Inr (p', r'), w3)"
  shows "p' = p \<and> (r' = r \<or> r' = r\<lparr>Refund_CreatedAt := pg_timestamp (Refund_CreatedAt r)\<rparr>)
    \<and> Payment_Status p = StatusRefunded \<and> Payment_ID p = Refund_PaymentID r
    \<and> db w3 = db w2 \<and> filter (\<lambda>x. Refund_IdempotencyKey x = key) (refunds (db w3)) = [r']"
proof -
  obtain c k where key: "key = c # k" using assms(2) by (cases key) auto
  have "(case (i, a) of (j, x) \<Rightarrow> PaymentUsecase_Refund j x (c # k)) w = (Inr (p, r), w1)"
    "(case (i', a') of (j, x) \<Rightarrow> PaymentUsecase_Refund j x (c # k)) w2 = (Inr (p', r'), w3)"
    using assms(3,5) by (simp_all add: key)
  from refunding.same_answer [OF assms(1) this(1) assms(4) this(2)]
  have same: "refund_same (p, r) (p', r')" "refund_recorded key (db w2) (p', r')" "db w3 = db w2"
    by (simp_all add: key)
  have "pay_wf (db w2)"
    using pay_steps_wf [OF assms(4)] Refund_wf [OF assms(1), of i a key] assms(3) by simp
  then have "filter (\<lambda>x. Refund_IdempotencyKey x = key) (refunds (db w2)) = [r']"
    using same(2) pay_wfD(6) assms(2) by (intro filter_keys_unique) (auto simp: refund_recorded_def)
  moreover have "Payment_Status p' = StatusRefunded \<and> Payment_ID p' = Refund_PaymentID r'"
    using same(2) by (auto simp: refund_recorded_def find_Some_iff)
  ultimately show ?thesis using same by (auto simp: refund_same_def stored_refund_def)
qed

theorem refund_exactly_once_witness:
  "\<exists>(w :: pay_world) p r w1 r' w3. PaymentUsecase_Refund 7 0 ''k'' w = (Inr (p, r), w1) \<and> Refund_CreatedAt r = 1234567 \<and>
     PaymentUsecase_Refund 9 5 ''k'' w1 = (Inr (p, r'), w3) \<and> r' = r\<lparr>Refund_CreatedAt := 1234000\<rparr> \<and> db w3 = db w1"
proof -
  define w where "w = demo_pay\<lparr>db := \<lparr>payments = [demo_paid], refunds = []\<rparr>, clock := 1234567\<rparr>"
  have w: "db w = \<lparr>payments = [demo_paid], refunds = []\<rparr>" "faults w = []" "clock w = 1234567"
    by (simp_all add: w_def demo_pay_def)
  have wf: "pay_wf (db w)" by (simp add: w pay_wf_def demo_paid_def pay_status_defs int8_ok_def)
  let ?p = "demo_paid\<lparr>Payment_Status := ''refunded''\<rparr>"
  obtain r w1 where w1: "PaymentUsecase_Refund 7 0 ''k'' w = (Inr (?p, r), w1)"
    "db w1 = \<lparr>payments = [?p], refunds = [stored_refund r]\<rparr>" "Refund_CreatedAt r = 1234567"
    "Refund_IdempotencyKey r = ''k''" "Refund_PaymentID r = 7" "faults w1 = []"
    using demo_refund [OF w(1,2)] w(3) by auto
  have "\<exists>p' r' w3. PaymentUsecase_Refund 9 5 ''k'' w1 = (Inr (p', r'), w3)"
    using w1(2,4-6) by (simp add: PaymentUsecase_Refund_def refund_tx_def demo_paid_def
        PaymentPostgres_GetRefundByIdempotencyKey_def stmt_GetRefundByIdempotencyKey_def
        PaymentPostgres_GetByID_def stmt_GetByID_def query_row_def rt_simps)
  then obtain p' r' w3 where w3: "PaymentUsecase_Refund 9 5 ''k'' w1 = (Inr (p', r'), w3)" by blast
  from refund_exactly_once [where L = unary_uuid and rs = "\<lambda>_. ''''", OF wf _ w1(1) pay_refl w3]
  have "p' = ?p" "db w3 = db w1" "r' \<in> set (refunds (db w3))" by (auto simp: filter_eq_Cons_iff)
  then have "r' = r\<lparr>Refund_CreatedAt := 1234000\<rparr>"
    using w1(2,3) by (simp add: stored_refund_def pg_timestamp_def)
  with w1(1,3) w3 \<open>p' = ?p\<close> \<open>db w3 = db w1\<close> show ?thesis by blast
qed

text \<open>
  A payment that is not in status success is never refunded anew: with a key that is not on
  record the call fails and the tables stay as they are, whatever else fails.
\<close>

theorem refund_needs_success:
  fixes w :: "'x pw"
  assumes "find (\<lambda>x. Payment_ID x = i) (payments (db w)) = Some p" and "Payment_Status p \<noteq> StatusSuccess"
    and "find (\<lambda>r. Refund_IdempotencyKey r = k) (refunds (db w)) = None"
  shows "(\<exists>e. fst (PaymentUsecase_Refund i a k w) = Inl e) \<and> db (snd (PaymentUsecase_Refund i a k w)) = db w"
proof -
  have no: "refund_tx i a k w0 \<noteq> (Inr pr, w1)" if "db w0 = db w" for w0 w1 :: "'x pw" and pr
  proof
    assume "refund_tx i a k w0 = (Inr pr, w1)"
    with refund_tx_Inr [of i a k w0 "fst pr" "snd pr" w1] assms that
    obtain w2 :: "'x pw" where "db w2 = db w" "refund_new i a k w2 = (Inr (fst pr, snd pr), w1)" by auto
    with refund_new_Inr [of i a k w2 "fst pr" "snd pr" w1] assms show False by auto
  qed
  have "db (snd (PaymentUsecase_Refund i a k w)) = db w"
    unfolding PaymentUsecase_Refund_def by (rule txm.stable) (use no in metis)
  moreover have "fst (PaymentUsecase_Refund i a k w) \<noteq> Inr pr" for pr
    unfolding PaymentUsecase_Refund_def
    using txm.run_ok [of "refund_tx i a k" w pr "snd (txm_Run (refund_tx i a k) w)"] no by (metis prod.collapse)
  ultimately show ?thesis by (metis old.sum.exhaust)
qed

theorem refund_needs_success_witness:
  "\<exists>e. fst (PaymentUsecase_Refund 7 0 ''k'' (demo_pay\<lparr>db := \<lparr>payments = [demo_paid\<lparr>Payment_Status := ''failed''\<rparr>],
     refunds = []\<rparr>\<rparr>)) = Inl e"
  using refund_needs_success [of 7 "demo_pay\<lparr>db := \<lparr>payments = [demo_paid\<lparr>Payment_Status := ''failed''\<rparr>],
     refunds = []\<rparr>\<rparr>" "demo_paid\<lparr>Payment_Status := ''failed''\<rparr>" "''k''" 0]
  by (simp add: demo_paid_def pay_status_defs)

text \<open>
  C34. Only the owner of a payment or an administrator gets it refunded: for any other caller the
  handler never changes the tables and never answers with success.
\<close>

theorem refund_only_owner_or_admin:
  assumes "fst (GetRole c) \<noteq> RoleAdmin" and "uuid_Parse L (RefundRequest_PaymentId req) = Inr i"
    and "find (\<lambda>x. Payment_ID x = i) (payments (db w)) = Some p"
    and "uuid_String L (Payment_UserID p) \<noteq> fst (GetUserID c)"
  shows "db (snd (PaymentHandler_Refund L c req w)) = db w \<and> (\<exists>e. fst (PaymentHandler_Refund L c req w) = Inl e)"
proof (cases "snd (GetUserID c)")
  case True
  obtain g w1 where g: "PaymentUsecase_GetByID i w = (g, w1)" by fastforce
  then have d: "db w1 = db w" using GetByID_db by (simp add: PaymentUsecase_GetByID_def)
  have "g = Inr q \<Longrightarrow> q = p" for q
    using GetByID_Inr [of i w q w1] g assms(3) by (simp add: PaymentUsecase_GetByID_def)
  then show ?thesis
    using True assms g d by (cases g) (simp_all add: PaymentHandler_Refund_def case_prod_beta)
qed (simp add: PaymentHandler_Refund_def case_prod_beta)

theorem refund_only_owner_or_admin_witness:
  "\<exists>e. fst (PaymentHandler_Refund unary_uuid
     (WithIdentity ctx_Background \<lparr>Identity_UserID = ''xx'', Identity_Role = RoleUser, Identity_AuthorizationHeader = ''''\<rparr>)
     \<lparr>RefundRequest_PaymentId = ''xxxxxxx'', RefundRequest_AmountCents = 0, RefundRequest_IdempotencyKey = ''k''\<rparr>
     (demo_pay\<lparr>db := \<lparr>payments = [demo_paid], refunds = []\<rparr>\<rparr>)) = Inl e"
  using refund_only_owner_or_admin [of
      "WithIdentity ctx_Background \<lparr>Identity_UserID = ''xx'', Identity_Role = RoleUser, Identity_AuthorizationHeader = ''''\<rparr>"
      unary_uuid "\<lparr>RefundRequest_PaymentId = ''xxxxxxx'', RefundRequest_AmountCents = 0, RefundRequest_IdempotencyKey = ''k''\<rparr>"
      7 "demo_pay\<lparr>db := \<lparr>payments = [demo_paid], refunds = []\<rparr>\<rparr>" demo_paid]
  by (simp add: role_defs demo_paid_def) (simp add: unary_uuid_def)

end
