(* ===== verification/Order_Model.thy ===== *)
theory Order_Model
  imports Auth_Context Go_Std
begin

text \<open>
  The order service (src/services/order-service), first part: orders, their status machine, the
  tables and the PostgreSQL repositories of orders, sagas and the outbox.
\<close>

section \<open>The status machine of an order\<close>

type_synonym OrderStatus = string

definition OrderStatusUnspecified :: OrderStatus where "OrderStatusUnspecified = ''unspecified''"
definition OrderStatusPending :: OrderStatus where "OrderStatusPending = ''pending''"
definition OrderStatusAwaitingPayment :: OrderStatus where "OrderStatusAwaitingPayment = ''awaiting_payment''"
definition OrderStatusPaid :: OrderStatus where "OrderStatusPaid = ''paid''"
definition OrderStatusProcessing :: OrderStatus where "OrderStatusProcessing = ''processing''"
definition OrderStatusShipped :: OrderStatus where "OrderStatusShipped = ''shipped''"
definition OrderStatusDelivered :: OrderStatus where "OrderStatusDelivered = ''delivered''"
definition OrderStatusCancelled :: OrderStatus where "OrderStatusCancelled = ''cancelled''"
definition OrderStatusRefunded :: OrderStatus where "OrderStatusRefunded = ''refunded''"

lemmas order_status_defs = OrderStatusUnspecified_def OrderStatusPending_def OrderStatusAwaitingPayment_def
  OrderStatusPaid_def OrderStatusProcessing_def OrderStatusShipped_def OrderStatusDelivered_def
  OrderStatusCancelled_def OrderStatusRefunded_def

text \<open>A missing key of the Go map reads as the empty slice.\<close>

definition allowedTransitions :: "OrderStatus \<Rightarrow> OrderStatus list" where
  "allowedTransitions s =
     (case map_of
        [(OrderStatusPending, [OrderStatusAwaitingPayment, OrderStatusCancelled]),
         (OrderStatusAwaitingPayment, [OrderStatusPaid, OrderStatusCancelled]),
         (OrderStatusPaid, [OrderStatusProcessing, OrderStatusCancelled, OrderStatusRefunded]),
         (OrderStatusProcessing, [OrderStatusShipped, OrderStatusCancelled, OrderStatusRefunded]),
         (OrderStatusShipped, [OrderStatusDelivered, OrderStatusCancelled, OrderStatusRefunded]),
         (OrderStatusDelivered, [OrderStatusRefunded])] s of
        Some ns \<Rightarrow> ns | None \<Rightarrow> [])"

definition CanTransition :: "OrderStatus \<Rightarrow> OrderStatus \<Rightarrow> bool" where
  "CanTransition s target =
     (if s = target then True else list_ex (\<lambda>nxt. nxt = target) (allowedTransitions s))"

definition ValidateTransition :: "OrderStatus \<Rightarrow> OrderStatus \<Rightarrow> go_error option" where
  "ValidateTransition s target =
     (if \<not> CanTransition s target
      then Some (StdErr (''invalid status transition from '' @ s @ '' to '' @ target))
      else None)"

definition CancellableDirectly :: "OrderStatus \<Rightarrow> bool" where
  "CancellableDirectly s \<longleftrightarrow> s = OrderStatusPending \<or> s = OrderStatusAwaitingPayment"

definition ParseOrderStatus :: "string \<Rightarrow> OrderStatus result" where
  "ParseOrderStatus status =
     (let s = strings_ToLower status in
      if s = '''' \<or> s = ''unspecified'' then Inr OrderStatusUnspecified
      else if s = ''pending'' then Inr OrderStatusPending
      else if s = ''awaiting_payment'' then Inr OrderStatusAwaitingPayment
      else if s = ''paid'' then Inr OrderStatusPaid
      else if s = ''processing'' then Inr OrderStatusProcessing
      else if s = ''shipped'' then Inr OrderStatusShipped
      else if s = ''delivered'' then Inr OrderStatusDelivered
      else if s = ''cancelled'' then Inr OrderStatusCancelled
      else if s = ''refunded'' then Inr OrderStatusRefunded
      else Inl (StdErr (''unknown order status: '' @ status)))"

section \<open>Data\<close>

record OrderItem =
  Item_ID :: uuid
  Item_OrderID :: uuid
  Item_ProductID :: uuid
  Item_Quantity :: int
  Item_Price :: int

record Order =
  Order_ID :: uuid
  Order_UserID :: uuid
  Order_Items :: "OrderItem list"
  Order_TotalAmount :: int
  Order_Status :: OrderStatus
  Order_CreatedAt :: int
  Order_UpdatedAt :: int

record OutboxEvent =
  Outbox_ID :: uuid
  Outbox_AggregateType :: string
  Outbox_AggregateID :: string
  Outbox_EventType :: string
  Outbox_Payload :: json
  Outbox_CreatedAt :: int
  Outbox_ProcessedAt :: "int option"
  Outbox_RetryCount :: int
  Outbox_LastError :: "string option"
  Outbox_NextRetryAt :: "int option"

record OutboxDLQEvent =
  DLQ_ID :: uuid
  DLQ_AggregateType :: string
  DLQ_AggregateID :: string
  DLQ_EventType :: string
  DLQ_Payload :: json
  DLQ_CreatedAt :: int
  DLQ_FailedAt :: int
  DLQ_LastError :: "string option"
  DLQ_RetryCount :: int

record SagaReservedItem =
  Reserved_ProductID :: string
  Reserved_Quantity :: int

record Saga =
  Saga_ID :: uuid
  Saga_OrderID :: uuid
  Saga_Status :: string
  Saga_CurrentStep :: string
  Saga_ErrorMessage :: string
  Saga_PaymentID :: string
  Saga_ReservedItems :: "SagaReservedItem list"
  Saga_CreatedAt :: int
  Saga_UpdatedAt :: int

text \<open>
  The tables. A row of \<open>orders\<close> is an order without its items; a row of \<open>sagas\<close> keeps the
  reserved items as the JSON column. \<open>Outbox_NextRetryAt\<close> is \<open>None\<close> for Go's zero time.
\<close>

record SagaRow =
  srow_id :: uuid
  srow_order_id :: uuid
  srow_status :: string
  srow_current_step :: string
  srow_error_message :: string
  srow_payment_id :: string
  srow_reserved_items :: json
  srow_created_at :: int
  srow_updated_at :: int

record OrderRow =
  orow_id :: uuid
  orow_user_id :: uuid
  orow_total_amount :: int
  orow_status :: OrderStatus
  orow_created_at :: int
  orow_updated_at :: int

record ord_db =
  orders :: "OrderRow list"
  order_items :: "OrderItem list"
  sagas :: "SagaRow list"
  outbox :: "OutboxEvent list"
  outbox_dlq :: "OutboxDLQEvent list"

text \<open>
  The world of the service: the Redis client, the messages on the Kafka topics, and the rest of
  the system behind the gRPC clients.
\<close>

record ('c, 'r) ord_world = "ord_db world" +
  ord_redis :: "'c redis_client option"
  ord_cache :: 'c
  ord_kafka :: "(string \<times> string \<times> json) list"
  remote :: 'r

type_synonym ('c, 'r, 'x) ow = "('c, 'r, 'x) ord_world_scheme"

section \<open>Orders\<close>

definition order_status_check :: "string \<Rightarrow> bool" where
  "order_status_check s \<longleftrightarrow> s \<in> {''pending'', ''awaiting_payment'', ''paid'', ''processing'', ''shipped'',
     ''delivered'', ''cancelled'', ''refunded''}"

definition stmt_InsertOrder :: "Order \<Rightarrow> (ord_db, unit) stmt" where
  "stmt_InsertOrder order d =
     (if \<not> int8_ok (Order_TotalAmount order) then Inl (StdErr ''value is out of range for int8'')
      else if \<not> order_status_check (Order_Status order)
        then Inl (StdErr ''violates check constraint chk_orders_status'')
      else if list_ex (\<lambda>ro. orow_id ro = Order_ID order) (orders d)
        then Inl (StdErr ''duplicate key value violates unique constraint orders_pkey'')
      else Inr ((), d\<lparr>orders := orders d @
             [\<lparr>orow_id = Order_ID order, orow_user_id = Order_UserID order,
               orow_total_amount = Order_TotalAmount order, orow_status = Order_Status order,
               orow_created_at = pg_timestamp (Order_CreatedAt order), orow_updated_at = pg_timestamp (Order_UpdatedAt order)\<rparr>]\<rparr>))"

definition stmt_InsertOrderItem :: "OrderItem \<Rightarrow> (ord_db, unit) stmt" where
  "stmt_InsertOrderItem item d =
     (if \<not> int4_ok (Item_Quantity item) \<or> \<not> int8_ok (Item_Price item)
        then Inl (StdErr ''value is out of range'')
      else if Item_Quantity item < 0 then Inl (StdErr ''violates check constraint chk_order_items_quantity'')
      else if Item_Price item < 0 then Inl (StdErr ''violates check constraint chk_order_items_price'')
      else if list_ex (\<lambda>i. Item_ID i = Item_ID item) (order_items d)
        then Inl (StdErr ''duplicate key value violates unique constraint order_items_pkey'')
      else if \<not> list_ex (\<lambda>ro. orow_id ro = Item_OrderID item) (orders d)
        then Inl (StdErr ''violates foreign key constraint order_items_order_id_fkey'')
      else Inr ((), d\<lparr>order_items := order_items d @ [item]\<rparr>))"

fun stmt_InsertItems :: "OrderItem list \<Rightarrow> (ord_db, unit) stmt" where
  "stmt_InsertItems [] d = Inr ((), d)"
| "stmt_InsertItems (i # is) d =
     (case stmt_InsertOrderItem i d of Inl e \<Rightarrow> Inl e | Inr (_, d1) \<Rightarrow> stmt_InsertItems is d1)"

text \<open>The items go to the server as one batch, whose result is read and then closed.\<close>

definition OrderPostgres_Create :: "Order \<Rightarrow> ('c, 'r, 'x) ow \<Rightarrow> unit result \<times> ('c, 'r, 'x) ow" where
  "OrderPostgres_Create order w =
     (case sql (stmt_InsertOrder order) w of
        (Inl err, w1) \<Rightarrow> (Inl (errorf ''insert order'' err), w1)
      | (Inr _, w1) \<Rightarrow>
          (case sql (stmt_InsertItems (Order_Items order)) w1 of
             (Inl err, w2) \<Rightarrow> (Inl (errorf ''insert order item batch'' err), w2)
           | (Inr _, w2) \<Rightarrow>
               (case rows_Err w2 of
                  (Inl err, w3) \<Rightarrow> (Inl (errorf ''close batch'' err), w3)
                | (Inr _, w3) \<Rightarrow> (Inr (), w3))))"

text \<open>Rows of the left join of an order with its items.\<close>

definition left_join :: "ord_db \<Rightarrow> OrderRow \<Rightarrow> (OrderRow \<times> OrderItem option) list" where
  "left_join d ro =
     (let is = filter (\<lambda>i. Item_OrderID i = orow_id ro) (order_items d) in
      if is = [] then [(ro, None)] else map (\<lambda>i. (ro, Some i)) is)"

definition order_of_row :: "OrderRow \<Rightarrow> Order" where
  "order_of_row ro =
     \<lparr>Order_ID = orow_id ro, Order_UserID = orow_user_id ro, Order_Items = [],
      Order_TotalAmount = orow_total_amount ro, Order_Status = orow_status ro,
      Order_CreatedAt = orow_created_at ro, Order_UpdatedAt = orow_updated_at ro\<rparr>"

definition append_item :: "OrderItem option \<Rightarrow> Order \<Rightarrow> Order" where
  "append_item item order =
     (case item of None \<Rightarrow> order | Some i \<Rightarrow> order\<lparr>Order_Items := Order_Items order @ [i]\<rparr>)"

fun scan_order :: "Order option \<Rightarrow> (OrderRow \<times> OrderItem option) list \<Rightarrow> Order option" where
  "scan_order order [] = order"
| "scan_order order ((ro, item) # rows) =
     scan_order (Some (append_item item (case order of None \<Rightarrow> order_of_row ro | Some od \<Rightarrow> od))) rows"

definition stmt_GetOrder :: "uuid \<Rightarrow> (ord_db, (OrderRow \<times> OrderItem option) list) stmt" where
  "stmt_GetOrder i =
     query_rows (\<lambda>d. concat (map (\<lambda>ro. sort_key (\<lambda>(ro, item). case item of None \<Rightarrow> 0 | Some it \<Rightarrow> Item_ID it) (left_join d ro))
       (filter (\<lambda>ro. orow_id ro = i) (orders d))))"

definition OrderPostgres_GetByID :: "uuid \<Rightarrow> ('c, 'r, 'x) ow \<Rightarrow> Order result \<times> ('c, 'r, 'x) ow" where
  "OrderPostgres_GetByID i w =
     (case sql (stmt_GetOrder i) w of
        (Inl err, w1) \<Rightarrow> (Inl (errorf ''get order by id'' err), w1)
      | (Inr rows, w1) \<Rightarrow>
          (case rows_Err w1 of
             (Inl err, w2) \<Rightarrow> (Inl (errorf ''iterate order'' err), w2)
           | (Inr _, w2) \<Rightarrow>
               (case scan_order None rows of
                  None \<Rightarrow> (Inl (sentinelf ErrNotFound ''order''), w2)
                | Some order \<Rightarrow> (Inr order, w2))))"

definition stmt_UpdateOrderStatus :: "int \<Rightarrow> uuid \<Rightarrow> OrderStatus \<Rightarrow> (ord_db, int) stmt" where
  "stmt_UpdateOrderStatus now i status d =
     (let n = length (filter (\<lambda>ro. orow_id ro = i) (orders d)) in
      if n > 0 \<and> \<not> order_status_check status then Inl (StdErr ''violates check constraint chk_orders_status'')
      else Inr (int n, d\<lparr>orders := map (\<lambda>ro. if orow_id ro = i
             then ro\<lparr>orow_status := status, orow_updated_at := pg_timestamp now\<rparr> else ro) (orders d)\<rparr>))"

definition OrderPostgres_UpdateStatus ::
  "uuid \<Rightarrow> OrderStatus \<Rightarrow> ('c, 'r, 'x) ow \<Rightarrow> unit result \<times> ('c, 'r, 'x) ow" where
  "OrderPostgres_UpdateStatus i status w =
     (case sql (stmt_UpdateOrderStatus (clock w) i status) w of
        (Inl err, w1) \<Rightarrow> (Inl (errorf ''update order status'' err), w1)
      | (Inr n, w1) \<Rightarrow>
          if n = 0 then (Inl (sentinelf ErrNotFound ''order''), w1) else (Inr (), w1))"

text \<open>
  \<^verbatim>\<open>ORDER BY o.created_at DESC, o.id\<close>, then limit and offset on the joined rows. The slice under
  construction is updated at the order's index.
\<close>

definition stmt_CountOrders :: "uuid \<Rightarrow> (ord_db, int) stmt" where
  "stmt_CountOrders u = query_rows (\<lambda>d. int (length (filter (\<lambda>ro. orow_user_id ro = u) (orders d))))"

definition stmt_ListOrders :: "uuid \<Rightarrow> int \<Rightarrow> int \<Rightarrow> (ord_db, (OrderRow \<times> OrderItem option) list) stmt" where
  "stmt_ListOrders u limit offset d =
     (if limit < 0 then Inl (StdErr ''LIMIT must not be negative'')
      else query_rows (\<lambda>d. take (nat limit) (drop (nat offset)
        (concat (map (left_join d)
          (sort_key (\<lambda>ro. - orow_created_at ro) (sort_key orow_id (filter (\<lambda>ro. orow_user_id ro = u) (orders d)))))))) d)"

definition add_listed :: "Order list \<Rightarrow> OrderRow \<times> OrderItem option \<Rightarrow> Order list" where
  "add_listed os row =
     (case row of
        (ro, item) \<Rightarrow>
          (let os1 = (if list_ex (\<lambda>x. Order_ID x = orow_id ro) os then os else os @ [order_of_row ro])
           in map (\<lambda>x. if Order_ID x = orow_id ro then append_item item x else x) os1))"

definition OrderPostgres_ListByUser ::
  "uuid \<Rightarrow> int \<Rightarrow> int \<Rightarrow> ('c, 'r, 'x) ow \<Rightarrow> (Order list \<times> int) result \<times> ('c, 'r, 'x) ow" where
  "OrderPostgres_ListByUser userID page pageSize w =
     (let offset0 = i64 (i64 (page - 1) * pageSize);
          offset = (if offset0 < 0 then 0 else offset0)
      in case sql (stmt_CountOrders userID) w of
           (Inl err, w1) \<Rightarrow> (Inl (errorf ''count orders'' err), w1)
         | (Inr cnt, w1) \<Rightarrow>
             (case sql (stmt_ListOrders userID pageSize offset) w1 of
                (Inl err, w2) \<Rightarrow> (Inl (errorf ''list orders'' err), w2)
              | (Inr rows, w2) \<Rightarrow>
                  (case rows_Err w2 of
                     (Inl err, w3) \<Rightarrow> (Inl (errorf ''iterate orders'' err), w3)
                   | (Inr _, w3) \<Rightarrow> (Inr (foldl add_listed [] rows, cnt), w3))))"

section \<open>Sagas\<close>

definition marshalReservedItem :: "SagaReservedItem \<Rightarrow> json" where
  "marshalReservedItem i = JObj [(''product_id'', JStr (Reserved_ProductID i)), (''quantity'', JNum (Reserved_Quantity i))]"

definition marshalReservedItems :: "SagaReservedItem list \<Rightarrow> json" where
  "marshalReservedItems items = JArr (map marshalReservedItem items)"

text \<open>Decoding errors are ignored: a field that does not fit keeps its zero value.\<close>

definition reserved_field :: "string \<times> json \<Rightarrow> SagaReservedItem \<Rightarrow> SagaReservedItem" where
  "reserved_field kv i =
     (if EqualFold (fst kv) ''product_id'' then
        (case snd kv of JStr s \<Rightarrow> i\<lparr>Reserved_ProductID := s\<rparr> | _ \<Rightarrow> i)
      else if EqualFold (fst kv) ''quantity'' then
        (case snd kv of JNum n \<Rightarrow> if int4_ok n then i\<lparr>Reserved_Quantity := n\<rparr> else i | _ \<Rightarrow> i)
      else i)"

definition unmarshalReservedItem :: "json \<Rightarrow> SagaReservedItem" where
  "unmarshalReservedItem j =
     (case j of JObj kvs \<Rightarrow> fold reserved_field kvs \<lparr>Reserved_ProductID = '''', Reserved_Quantity = 0\<rparr>
      | _ \<Rightarrow> \<lparr>Reserved_ProductID = '''', Reserved_Quantity = 0\<rparr>)"

definition unmarshalReservedItems :: "json \<Rightarrow> SagaReservedItem list" where
  "unmarshalReservedItems j = (case j of JArr js \<Rightarrow> map unmarshalReservedItem js | _ \<Rightarrow> [])"

definition saga_to_row :: "Saga \<Rightarrow> SagaRow" where
  "saga_to_row s =
     \<lparr>srow_id = Saga_ID s, srow_order_id = Saga_OrderID s, srow_status = Saga_Status s,
      srow_current_step = Saga_CurrentStep s, srow_error_message = Saga_ErrorMessage s,
      srow_payment_id = Saga_PaymentID s,
      srow_reserved_items = marshalReservedItems (Saga_ReservedItems s),
      srow_created_at = pg_timestamp (Saga_CreatedAt s), srow_updated_at = pg_timestamp (Saga_UpdatedAt s)\<rparr>"

definition saga_of_row :: "SagaRow \<Rightarrow> Saga" where
  "saga_of_row r =
     \<lparr>Saga_ID = srow_id r, Saga_OrderID = srow_order_id r, Saga_Status = srow_status r,
      Saga_CurrentStep = srow_current_step r, Saga_ErrorMessage = srow_error_message r,
      Saga_PaymentID = srow_payment_id r,
      Saga_ReservedItems = unmarshalReservedItems (srow_reserved_items r),
      Saga_CreatedAt = srow_created_at r, Saga_UpdatedAt = srow_updated_at r\<rparr>"

definition stmt_CreateSaga :: "Saga \<Rightarrow> (ord_db, unit) stmt" where
  "stmt_CreateSaga s d =
     (if length (Saga_Status s) > 50 \<or> length (Saga_CurrentStep s) > 50
        then Inl (StdErr ''value too long for type character varying(50)'')
      else if list_ex (\<lambda>r. srow_id r = Saga_ID s \<or> srow_order_id r = Saga_OrderID s) (sagas d)
        then Inl (StdErr ''duplicate key value violates unique constraint'')
      else if \<not> list_ex (\<lambda>ro. orow_id ro = Saga_OrderID s) (orders d)
        then Inl (StdErr ''violates foreign key constraint sagas_order_id_fkey'')
      else Inr ((), d\<lparr>sagas := sagas d @ [saga_to_row s]\<rparr>))"

definition SagaPostgres_Create :: "Saga \<Rightarrow> ('c, 'r, 'x) ow \<Rightarrow> unit result \<times> ('c, 'r, 'x) ow" where
  "SagaPostgres_Create s w =
     (case sql (stmt_CreateSaga s) w of
        (Inl err, w1) \<Rightarrow> (Inl (errorf ''insert saga'' err), w1)
      | (Inr _, w1) \<Rightarrow> (Inr (), w1))"

definition stmt_GetSaga :: "uuid \<Rightarrow> (ord_db, SagaRow) stmt" where
  "stmt_GetSaga orderID = query_row (\<lambda>d. find (\<lambda>r. srow_order_id r = orderID) (sagas d))"

definition SagaPostgres_GetByOrderID :: "uuid \<Rightarrow> ('c, 'r, 'x) ow \<Rightarrow> Saga result \<times> ('c, 'r, 'x) ow" where
  "SagaPostgres_GetByOrderID orderID w =
     (case sql (stmt_GetSaga orderID) w of
        (Inl err, w1) \<Rightarrow>
          if errors_Is err ErrNoRows then (Inl (sentinelf ErrNotFound ''saga''), w1)
          else (Inl (errorf ''get saga by order id'' err), w1)
      | (Inr r, w1) \<Rightarrow> (Inr (saga_of_row r), w1))"

definition update_sagas :: "uuid \<Rightarrow> (SagaRow \<Rightarrow> SagaRow) \<Rightarrow> ord_db \<Rightarrow> ord_db" where
  "update_sagas orderID f d = d\<lparr>sagas := map (\<lambda>r. if srow_order_id r = orderID then f r else r) (sagas d)\<rparr>"

definition stmt_UpdateSagaStatus ::
  "int \<Rightarrow> uuid \<Rightarrow> string \<Rightarrow> string \<Rightarrow> string \<Rightarrow> (ord_db, int) stmt" where
  "stmt_UpdateSagaStatus now orderID status step errMsg d =
     (let n = length (filter (\<lambda>r. srow_order_id r = orderID) (sagas d)) in
      if n > 0 \<and> (length status > 50 \<or> length step > 50)
      then Inl (StdErr ''value too long for type character varying(50)'')
      else Inr (int n, update_sagas orderID (\<lambda>r. r\<lparr>srow_status := status, srow_current_step := step,
             srow_error_message := errMsg, srow_updated_at := pg_timestamp now\<rparr>) d))"

definition SagaPostgres_UpdateStatus ::
  "uuid \<Rightarrow> string \<Rightarrow> string \<Rightarrow> string \<Rightarrow> ('c, 'r, 'x) ow \<Rightarrow> unit result \<times> ('c, 'r, 'x) ow" where
  "SagaPostgres_UpdateStatus orderID status step errMsg w =
     (case sql (stmt_UpdateSagaStatus (clock w) orderID status step errMsg) w of
        (Inl err, w1) \<Rightarrow> (Inl (errorf ''update saga status'' err), w1)
      | (Inr n, w1) \<Rightarrow>
          if n = 0 then (Inl (sentinelf ErrNotFound ''saga''), w1) else (Inr (), w1))"

definition stmt_SaveSaga :: "int \<Rightarrow> Saga \<Rightarrow> (ord_db, int) stmt" where
  "stmt_SaveSaga now s d =
     (let n = length (filter (\<lambda>r. srow_order_id r = Saga_OrderID s) (sagas d)) in
      if n > 0 \<and> (length (Saga_Status s) > 50 \<or> length (Saga_CurrentStep s) > 50)
      then Inl (StdErr ''value too long for type character varying(50)'')
      else Inr (int n, update_sagas (Saga_OrderID s)
             (\<lambda>r. r\<lparr>srow_status := Saga_Status s, srow_current_step := Saga_CurrentStep s,
                    srow_error_message := Saga_ErrorMessage s, srow_payment_id := Saga_PaymentID s,
                    srow_reserved_items := marshalReservedItems (Saga_ReservedItems s),
                    srow_updated_at := pg_timestamp now\<rparr>) d))"

definition SagaPostgres_Save :: "Saga \<Rightarrow> ('c, 'r, 'x) ow \<Rightarrow> unit result \<times> ('c, 'r, 'x) ow" where
  "SagaPostgres_Save s w =
     (case sql (stmt_SaveSaga (clock w) s) w of
        (Inl err, w1) \<Rightarrow> (Inl (errorf ''save saga'' err), w1)
      | (Inr n, w1) \<Rightarrow>
          if n = 0 then (Inl (sentinelf ErrNotFound ''saga''), w1) else (Inr (), w1))"

definition stmt_ListIncomplete :: "int \<Rightarrow> (ord_db, SagaRow list) stmt" where
  "stmt_ListIncomplete limit =
     query_rows (\<lambda>d. take (nat limit) (sort_key srow_created_at
       (filter (\<lambda>r. srow_status r \<notin> {''confirmed'', ''cancelled'', ''failed''}) (sagas d))))"

definition SagaPostgres_ListIncomplete :: "int \<Rightarrow> ('c, 'r, 'x) ow \<Rightarrow> Saga list result \<times> ('c, 'r, 'x) ow" where
  "SagaPostgres_ListIncomplete limit w =
     (case sql (stmt_ListIncomplete limit) w of
        (Inl err, w1) \<Rightarrow> (Inl (errorf ''list incomplete sagas'' err), w1)
      | (Inr rows, w1) \<Rightarrow>
          (case rows_Err w1 of
             (Inl err, w2) \<Rightarrow> (Inl (errorf ''iterate sagas'' err), w2)
           | (Inr _, w2) \<Rightarrow> (Inr (map saga_of_row rows), w2)))"

end
