(* ===== verification/Order_Saga.thy ===== *)
theory Order_Saga
  imports Order_Model
begin

text \<open>
  The order saga (src/services/order-service/internal/saga): its steps, the orchestrator that
  runs, compensates, recovers and cancels them, and the recovery worker. The inventory and
  payment clients are parameters; the composed system supplies them.
\<close>

section \<open>Statuses\<close>

definition SagaStatusPending :: string where "SagaStatusPending = ''pending''"
definition SagaStatusReserving :: string where "SagaStatusReserving = ''reserving''"
definition SagaStatusReserved :: string where "SagaStatusReserved = ''reserved''"
definition SagaStatusPaying :: string where "SagaStatusPaying = ''paying''"
definition SagaStatusPaid :: string where "SagaStatusPaid = ''paid''"
definition SagaStatusConfirming :: string where "SagaStatusConfirming = ''confirming''"
definition SagaStatusConfirmed :: string where "SagaStatusConfirmed = ''confirmed''"
definition SagaStatusCompensating :: string where "SagaStatusCompensating = ''compensating''"
definition SagaStatusCancelled :: string where "SagaStatusCancelled = ''cancelled''"
definition SagaStatusFailed :: string where "SagaStatusFailed = ''failed''"

lemmas saga_status_defs = SagaStatusPending_def SagaStatusReserving_def SagaStatusReserved_def
  SagaStatusPaying_def SagaStatusPaid_def SagaStatusConfirming_def SagaStatusConfirmed_def
  SagaStatusCompensating_def SagaStatusCancelled_def SagaStatusFailed_def

section \<open>Steps\<close>

text \<open>The two clients the saga calls. An error result is \<open>Some\<close>.\<close>

record 'w saga_clients =
  InventoryClient_Reserve :: "string \<Rightarrow> int \<Rightarrow> string \<Rightarrow> string \<Rightarrow> 'w \<Rightarrow> go_error option \<times> 'w"
  InventoryClient_Release :: "string \<Rightarrow> int \<Rightarrow> string \<Rightarrow> string \<Rightarrow> 'w \<Rightarrow> go_error option \<times> 'w"
  PaymentClient_ProcessPayment :: "string \<Rightarrow> int \<Rightarrow> string \<Rightarrow> 'w \<Rightarrow> string result \<times> 'w"
  PaymentClient_Refund :: "string \<Rightarrow> string \<Rightarrow> 'w \<Rightarrow> go_error option \<times> 'w"

datatype Step = startStep | reserveInventoryStep | processPaymentStep | confirmOrderStep

fun Step_Name :: "Step \<Rightarrow> string" where
  "Step_Name startStep = ''start''"
| "Step_Name reserveInventoryStep = ''inventory''"
| "Step_Name processPaymentStep = ''payment''"
| "Step_Name confirmOrderStep = ''confirm''"

definition reserveKey :: "string \<Rightarrow> string \<Rightarrow> string" where
  "reserveKey base productID = ''reserve:'' @ base @ '':'' @ productID"

definition releaseKey :: "string \<Rightarrow> string \<Rightarrow> string" where
  "releaseKey orderID productID = ''release:'' @ orderID @ '':'' @ productID"

definition paymentKey :: "string \<Rightarrow> string" where
  "paymentKey base = ''payment:'' @ base"

definition refundKey :: "string \<Rightarrow> string \<Rightarrow> string" where
  "refundKey base paymentID = ''refund:'' @ base @ '':'' @ paymentID"

text \<open>
  \<open>Prepare\<close>: whether the saga has to be persisted before the step runs, and the saga. Steps that
  are not \<^verbatim>\<open>Preparable\<close> leave it alone.
\<close>

fun Step_Prepare :: "Step \<Rightarrow> Saga \<Rightarrow> bool \<times> Saga" where
  "Step_Prepare processPaymentStep saga =
     (if Saga_Status saga = SagaStatusPaying then (False, saga)
      else (True, saga\<lparr>Saga_Status := SagaStatusPaying, Saga_CurrentStep := ''payment''\<rparr>))"
| "Step_Prepare confirmOrderStep saga =
     (if Saga_Status saga = SagaStatusConfirming then (False, saga)
      else (True, saga\<lparr>Saga_Status := SagaStatusConfirming, Saga_CurrentStep := ''confirm''\<rparr>))"
| "Step_Prepare _ saga = (False, saga)"

fun Step_Execute ::
  "uuid_lib \<Rightarrow> ('c, 'r, 'x) ow saga_clients \<Rightarrow> Step \<Rightarrow> Order \<Rightarrow> string \<Rightarrow> Saga \<Rightarrow> ('c, 'r, 'x) ow \<Rightarrow>
   go_error option \<times> Saga \<times> ('c, 'r, 'x) ow" where
  "Step_Execute L C startStep order key saga w =
     (case OrderPostgres_UpdateStatus (Order_ID order) OrderStatusAwaitingPayment w of
        (Inl err, w1) \<Rightarrow> (Some err, saga, w1)
      | (Inr _, w1) \<Rightarrow>
          (None, saga\<lparr>Saga_Status := SagaStatusReserving, Saga_CurrentStep := ''reserve''\<rparr>, w1))"
| "Step_Execute L C reserveInventoryStep order key saga w =
     (let idx = length (Saga_ReservedItems saga) in
      if idx \<ge> length (Order_Items order) then
        (None, saga\<lparr>Saga_Status := SagaStatusReserved, Saga_CurrentStep := ''reserved''\<rparr>, w)
      else
        (let item = Order_Items order ! idx; productID = uuid_String L (Item_ProductID item) in
         case InventoryClient_Reserve C productID (i32 (Item_Quantity item)) (uuid_String L (Order_ID order))
                (reserveKey key productID) w of
           (Some err, w1) \<Rightarrow> (Some err, saga, w1)
         | (None, w1) \<Rightarrow>
             (None, saga\<lparr>Saga_ReservedItems := Saga_ReservedItems saga @
                [\<lparr>Reserved_ProductID = productID, Reserved_Quantity = i32 (Item_Quantity item)\<rparr>]\<rparr>, w1)))"
| "Step_Execute L C processPaymentStep order key saga w =
     (case PaymentClient_ProcessPayment C (uuid_String L (Order_ID order)) (Order_TotalAmount order)
             (paymentKey key) w of
        (Inl err, w1) \<Rightarrow> (Some err, saga, w1)
      | (Inr paymentID, w1) \<Rightarrow>
          (None, saga\<lparr>Saga_PaymentID := paymentID, Saga_Status := SagaStatusPaid,
                      Saga_CurrentStep := ''paid''\<rparr>, w1))"
| "Step_Execute L C confirmOrderStep order key saga w =
     (case OrderPostgres_UpdateStatus (Order_ID order) OrderStatusPaid w of
        (Inl err, w1) \<Rightarrow> (Some err, saga, w1)
      | (Inr _, w1) \<Rightarrow>
          (None, saga\<lparr>Saga_Status := SagaStatusConfirmed, Saga_CurrentStep := ''confirmed''\<rparr>, w1))"

fun release_items ::
  "('c, 'r, 'x) ow saga_clients \<Rightarrow> string \<Rightarrow> SagaReservedItem list \<Rightarrow> go_error list \<Rightarrow> ('c, 'r, 'x) ow \<Rightarrow>
   go_error list \<times> ('c, 'r, 'x) ow" where
  "release_items C orderID [] errs w = (errs, w)"
| "release_items C orderID (item # items) errs w =
     (case InventoryClient_Release C (Reserved_ProductID item) (Reserved_Quantity item) orderID
             (releaseKey orderID (Reserved_ProductID item)) w of
        (Some err, w1) \<Rightarrow> release_items C orderID items (errs @ [err]) w1
      | (None, w1) \<Rightarrow> release_items C orderID items errs w1)"

fun Step_Compensate ::
  "uuid_lib \<Rightarrow> ('c, 'r, 'x) ow saga_clients \<Rightarrow> Step \<Rightarrow> Order \<Rightarrow> string \<Rightarrow> Saga \<Rightarrow> ('c, 'r, 'x) ow \<Rightarrow>
   go_error option \<times> Saga \<times> ('c, 'r, 'x) ow" where
  "Step_Compensate L C startStep order key saga w = (None, saga, w)"
| "Step_Compensate L C reserveInventoryStep order key saga w =
     (case release_items C (uuid_String L (Order_ID order)) (Saga_ReservedItems saga) [] w of
        (errs, w1) \<Rightarrow> (errors_Join errs, saga, w1))"
| "Step_Compensate L C processPaymentStep order key saga w =
     (if Saga_PaymentID saga = '''' then (None, saga, w)
      else (case PaymentClient_Refund C (Saga_PaymentID saga) (refundKey key (Saga_PaymentID saga)) w of
              (err, w1) \<Rightarrow> (err, saga, w1)))"
| "Step_Compensate L C confirmOrderStep order key saga w = (None, saga, w)"

section \<open>The orchestrator\<close>

definition maxRetries :: nat where "maxRetries = 3"
definition baseDelay :: int where "baseDelay = 200 * millisecond"

text \<open>\<open>retry_loop n i last\<close>: \<open>n\<close> attempts are left, \<open>i\<close> have been made, \<open>last\<close> is the last error.\<close>

fun retry_loop ::
  "nat \<Rightarrow> nat \<Rightarrow> go_error option \<Rightarrow>
   ('s \<Rightarrow> ('db, 'x) world_scheme \<Rightarrow> go_error option \<times> 's \<times> ('db, 'x) world_scheme) \<Rightarrow>
   's \<Rightarrow> ('db, 'x) world_scheme \<Rightarrow> go_error option \<times> 's \<times> ('db, 'x) world_scheme" where
  "retry_loop 0 i lastErr fn s w = (lastErr, s, w)"
| "retry_loop (Suc n) i lastErr fn s w =
     (case (if i > 0 then ctx_wait (baseDelay * 2 ^ (i - 1)) w else (None, w)) of
        (Some err, w1) \<Rightarrow> (Some err, s, w1)
      | (None, w1) \<Rightarrow>
          (case fn s w1 of
             (None, s1, w2) \<Rightarrow> (None, s1, w2)
           | (Some err, s1, w2) \<Rightarrow> retry_loop n (Suc i) (Some err) fn s1 w2))"

definition retry ::
  "('s \<Rightarrow> ('db, 'x) world_scheme \<Rightarrow> go_error option \<times> 's \<times> ('db, 'x) world_scheme) \<Rightarrow>
   's \<Rightarrow> ('db, 'x) world_scheme \<Rightarrow> go_error option \<times> 's \<times> ('db, 'x) world_scheme" where
  "retry fn s w = retry_loop maxRetries 0 None fn s w"

definition executeWithRetry ::
  "uuid_lib \<Rightarrow> ('c, 'r, 'x) ow saga_clients \<Rightarrow> Step \<Rightarrow> Order \<Rightarrow> string \<Rightarrow> Saga \<Rightarrow> ('c, 'r, 'x) ow \<Rightarrow>
   go_error option \<times> Saga \<times> ('c, 'r, 'x) ow" where
  "executeWithRetry L C step order key saga w = retry (Step_Execute L C step order key) saga w"

definition compensateWithRetry ::
  "uuid_lib \<Rightarrow> ('c, 'r, 'x) ow saga_clients \<Rightarrow> Step \<Rightarrow> Order \<Rightarrow> string \<Rightarrow> Saga \<Rightarrow> ('c, 'r, 'x) ow \<Rightarrow>
   go_error option \<times> Saga \<times> ('c, 'r, 'x) ow" where
  "compensateWithRetry L C step order key saga w = retry (Step_Compensate L C step order key) saga w"

definition persistSaga :: "Saga \<Rightarrow> ('c, 'r, 'x) ow \<Rightarrow> go_error option \<times> Saga \<times> ('c, 'r, 'x) ow" where
  "persistSaga saga w =
     (let saga1 = saga\<lparr>Saga_UpdatedAt := clock w\<rparr> in
      case SagaPostgres_Save saga1 w of
        (Inl err, w1) \<Rightarrow> (Some err, saga1, w1)
      | (Inr _, w1) \<Rightarrow> (None, saga1, w1))"

definition saveSaga ::
  "Saga \<Rightarrow> string \<Rightarrow> string \<Rightarrow> string \<Rightarrow> ('c, 'r, 'x) ow \<Rightarrow> go_error option \<times> Saga \<times> ('c, 'r, 'x) ow" where
  "saveSaga saga status step errMsg w =
     persistSaga (saga\<lparr>Saga_Status := status, Saga_CurrentStep := step, Saga_ErrorMessage := errMsg\<rparr>) w"

definition nextStep :: "Saga \<Rightarrow> Step option" where
  "nextStep saga =
     (let s = Saga_Status saga in
      if s = SagaStatusPending then Some startStep
      else if s = SagaStatusReserving then Some reserveInventoryStep
      else if s = SagaStatusReserved \<or> s = SagaStatusPaying then Some processPaymentStep
      else if s = SagaStatusPaid \<or> s = SagaStatusConfirming then Some confirmOrderStep
      else None)"

definition isTerminal :: "Saga \<Rightarrow> bool" where
  "isTerminal saga \<longleftrightarrow> Saga_Status saga \<in> {SagaStatusConfirmed, SagaStatusCancelled, SagaStatusFailed}"

definition compensationPlan :: "Step \<Rightarrow> Step list" where
  "compensationPlan failed =
     (if Step_Name failed = ''confirm'' then [processPaymentStep, reserveInventoryStep]
      else [reserveInventoryStep])"

definition joinStepNames :: "Step list \<Rightarrow> string" where
  "joinStepNames plan = strings_Join (map Step_Name plan) ''+''"

text \<open>Failed compensations are logged and skipped.\<close>

fun run_plan ::
  "uuid_lib \<Rightarrow> ('c, 'r, 'x) ow saga_clients \<Rightarrow> Step list \<Rightarrow> Order \<Rightarrow> string \<Rightarrow> Saga \<Rightarrow> ('c, 'r, 'x) ow \<Rightarrow>
   Saga \<times> ('c, 'r, 'x) ow" where
  "run_plan L C [] order key saga w = (saga, w)"
| "run_plan L C (s # ss) order key saga w =
     (case compensateWithRetry L C s order key saga w of
        (_, saga1, w1) \<Rightarrow> run_plan L C ss order key saga1 w1)"

definition handleStepFailure ::
  "uuid_lib \<Rightarrow> ('c, 'r, 'x) ow saga_clients \<Rightarrow> Saga \<Rightarrow> Order \<Rightarrow> Step \<Rightarrow> string \<Rightarrow> go_error \<Rightarrow> ('c, 'r, 'x) ow \<Rightarrow>
   go_error option \<times> ('c, 'r, 'x) ow" where
  "handleStepFailure L C saga order step key execErr w =
     (if Saga_Status saga = SagaStatusPending then
        (case saveSaga saga SagaStatusFailed (Step_Name step) (err_Error execErr) w of
           (_, _, w1) \<Rightarrow> (Some (errorf ''start step failed'' execErr), w1))
      else
        (let plan = compensationPlan step; currentStep = ''compensate_'' @ joinStepNames plan in
         case saveSaga saga SagaStatusCompensating currentStep (err_Error execErr) w of
           (_, saga1, w1) \<Rightarrow>
             (case run_plan L C plan order key saga1 w1 of
                (saga2, w2) \<Rightarrow>
                  (case OrderPostgres_UpdateStatus (Order_ID order) OrderStatusCancelled w2 of
                     (_, w3) \<Rightarrow>
                       (case saveSaga saga2 SagaStatusCancelled ''cancelled'' '''' w3 of
                          (_, _, w4) \<Rightarrow> (None, w4))))))"

section \<open>The loop of a saga\<close>

text \<open>How far a saga is from its end, for an order with \<open>n\<close> items.\<close>

definition saga_rank :: "nat \<Rightarrow> Saga \<Rightarrow> nat" where
  "saga_rank n saga =
     (let s = Saga_Status saga; left = n - length (Saga_ReservedItems saga) in
      if s = SagaStatusPending then 7 + left
      else if s = SagaStatusReserving then 6 + left
      else if s = SagaStatusReserved then 5
      else if s = SagaStatusPaying then 4
      else if s = SagaStatusPaid then 3
      else if s = SagaStatusConfirming then 2
      else 0)"

lemma Step_Execute_error: "Step_Execute L C step order key saga w = (Some e, saga', w') \<Longrightarrow> saga' = saga"
  by (cases step) (auto simp: Let_def split: prod.splits sum.splits option.splits if_splits)

lemma retry_loop_success:
  assumes "retry_loop n i le fn s w = (None, s', w')" and "le \<noteq> None \<or> n > 0"
    and err: "\<And>w e s1 w1. fn s w = (Some e, s1, w1) \<Longrightarrow> s1 = s"
  shows "\<exists>w0. fn s w0 = (None, s', w')"
  using assms(1,2)
proof (induction n arbitrary: i le w)
  case (Suc n)
  obtain r w1 where r: "(if i > 0 then ctx_wait (baseDelay * 2 ^ (i - 1)) w else (None, w)) = (r, w1)"
    by fastforce
  obtain e s1 w2 where f: "fn s w1 = (e, s1, w2)" using prod_cases3 by blast
  have r0: "r = None" using Suc.prems(1) by (cases r) (simp_all add: r)
  show ?case
  proof (cases e)
    case None
    then have "fn s w1 = (None, s', w')" using Suc.prems(1) f r0 by (simp add: r)
    then show ?thesis by blast
  next
    case (Some x)
    with f have "fn s w1 = (Some x, s, w2)" using err by blast
    then have "retry_loop n (Suc i) (Some x) fn s w2 = (None, s', w')"
      using Suc.prems(1) r0 by (simp add: r)
    then show ?thesis by (rule Suc.IH) simp
  qed
qed simp

lemma executeWithRetry_success:
  assumes "executeWithRetry L C step order key saga w = (None, saga', w')"
  shows "\<exists>w0. Step_Execute L C step order key saga w0 = (None, saga', w')"
  using assms unfolding executeWithRetry_def retry_def
  by (rule retry_loop_success) (auto simp: maxRetries_def dest: Step_Execute_error)

text \<open>Every step that succeeds brings the saga closer to its end.\<close>

lemma step_decreases:
  assumes step: "nextStep saga = Some step" and prep: "Step_Prepare step saga = (b, saga1)"
    and upd: "Saga_Status saga2 = Saga_Status saga1" "Saga_ReservedItems saga2 = Saga_ReservedItems saga1"
    and exec: "Step_Execute L C step order key saga2 w = (None, saga', w')"
  shows "saga_rank (length (Order_Items order)) saga' < saga_rank (length (Order_Items order)) saga"
  using assms
  by (cases step)
    (auto simp: nextStep_def saga_rank_def Let_def saga_status_defs
      split: prod.splits sum.splits option.splits if_splits)

lemma persistSaga_saga: "persistSaga saga w = (e, saga', w') \<Longrightarrow> saga' = saga\<lparr>Saga_UpdatedAt := clock w\<rparr>"
  by (auto simp: persistSaga_def Let_def split: prod.splits sum.splits)

lemma saga_rank_UpdatedAt [simp]: "saga_rank n (saga\<lparr>Saga_UpdatedAt := t\<rparr>) = saga_rank n saga"
  by (simp add: saga_rank_def Let_def)

lemma iteration_decreases:
  assumes "nextStep saga = Some step" and "Step_Prepare step saga = (b, saga1)"
    and "(if b then persistSaga saga1 w else (None, saga1, w)) = (e, saga2, w1)"
    and "executeWithRetry L C step order key saga2 w1 = (None, saga3, w2)"
    and "persistSaga saga3 w2 = (e', saga4, w3)"
  shows "saga_rank (length (Order_Items order)) saga4 < saga_rank (length (Order_Items order)) saga"
proof -
  have "Saga_Status saga2 = Saga_Status saga1" "Saga_ReservedItems saga2 = Saga_ReservedItems saga1"
    using assms(3) by (auto split: if_splits dest!: persistSaga_saga)
  moreover obtain w0 where "Step_Execute L C step order key saga2 w0 = (None, saga3, w2)"
    using executeWithRetry_success [OF assms(4)] by blast
  ultimately have "saga_rank (length (Order_Items order)) saga3 < saga_rank (length (Order_Items order)) saga"
    using step_decreases [OF assms(1,2)] by blast
  then show ?thesis using persistSaga_saga [OF assms(5)] by simp
qed

function process_loop ::
  "uuid_lib \<Rightarrow> ('c, 'r, 'x) ow saga_clients \<Rightarrow> Order \<Rightarrow> string \<Rightarrow> Saga \<Rightarrow> ('c, 'r, 'x) ow \<Rightarrow>
   go_error option \<times> ('c, 'r, 'x) ow" where
  "process_loop L C order key saga w =
     (case nextStep saga of
        None \<Rightarrow> (None, w)
      | Some step \<Rightarrow>
          (case Step_Prepare step saga of
             (b, saga1) \<Rightarrow>
               (case (if b then persistSaga saga1 w else (None, saga1, w)) of
                  (Some err, saga2, w1) \<Rightarrow> (Some err, w1)
                | (None, saga2, w1) \<Rightarrow>
                    (case executeWithRetry L C step order key saga2 w1 of
                       (Some err, saga3, w2) \<Rightarrow> handleStepFailure L C saga3 order step key err w2
                     | (None, saga3, w2) \<Rightarrow>
                         (case persistSaga saga3 w2 of
                            (Some err, saga4, w3) \<Rightarrow> (Some err, w3)
                          | (None, saga4, w3) \<Rightarrow> process_loop L C order key saga4 w3)))))"
  by pat_completeness auto
termination
proof (relation "measure (\<lambda>(L, C, order, key, saga, w). saga_rank (length (Order_Items order)) saga)", goal_cases)
  case 1
  show ?case by (rule wf_measure)
next
  case (2 L C order key saga w step b saga1 _ p1 saga2 w1 _ p2 saga3 w2 _ p3 saga4 w3)
  have "(if b then persistSaga saga1 w else (None, saga1, w)) = (None, saga2, w1)"
    using 2(3) unfolding 2(4) 2(5) [symmetric] by (rule sym)
  moreover have "executeWithRetry L C step order key saga2 w1 = (None, saga3, w2)"
    using 2(6) unfolding 2(7) 2(8) [symmetric] by (rule sym)
  moreover have "persistSaga saga3 w2 = (None, saga4, w3)"
    using 2(9) unfolding 2(10) 2(11) [symmetric] by (rule sym)
  ultimately have "saga_rank (length (Order_Items order)) saga4 < saga_rank (length (Order_Items order)) saga"
    by (rule iteration_decreases [OF 2(1) 2(2) [symmetric]])
  then show ?case unfolding in_measure prod.case .
qed

declare process_loop.simps [simp del]

definition ProcessOrder ::
  "uuid_lib \<Rightarrow> ('c, 'r, 'x) ow saga_clients \<Rightarrow> Order \<Rightarrow> string \<Rightarrow> ('c, 'r, 'x) ow \<Rightarrow>
   go_error option \<times> ('c, 'r, 'x) ow" where
  "ProcessOrder L C order key w =
     (case SagaPostgres_GetByOrderID (Order_ID order) w of
        (Inr saga, w1) \<Rightarrow> if isTerminal saga then (None, w1) else process_loop L C order key saga w1
      | (Inl err, w1) \<Rightarrow>
          if \<not> errors_Is err ErrNotFound then (Some (errorf ''get saga'' err), w1)
          else
            (case uuid_New w1 of
               (newID, w2) \<Rightarrow>
                 (let saga = \<lparr>Saga_ID = newID, Saga_OrderID = Order_ID order, Saga_Status = SagaStatusPending,
                              Saga_CurrentStep = '''', Saga_ErrorMessage = '''', Saga_PaymentID = '''',
                              Saga_ReservedItems = [], Saga_CreatedAt = clock w2, Saga_UpdatedAt = clock w2\<rparr> in
                  case SagaPostgres_Create saga w2 of
                    (Inl err, w3) \<Rightarrow> (Some (errorf ''create saga'' err), w3)
                  | (Inr _, w3) \<Rightarrow>
                      if isTerminal saga then (None, w3) else process_loop L C order key saga w3)))"

section \<open>Recovery and cancellation\<close>

definition recoveryIdempotencyKey :: "string \<Rightarrow> string" where
  "recoveryIdempotencyKey orderID = ''recovery:'' @ orderID"

fun recover_sagas ::
  "uuid_lib \<Rightarrow> ('c, 'r, 'x) ow saga_clients \<Rightarrow> Saga list \<Rightarrow> ('c, 'r, 'x) ow \<Rightarrow> ('c, 'r, 'x) ow" where
  "recover_sagas L C [] w = w"
| "recover_sagas L C (s # ss) w =
     (case OrderPostgres_GetByID (Saga_OrderID s) w of
        (Inl err, w1) \<Rightarrow> recover_sagas L C ss w1
      | (Inr order, w1) \<Rightarrow>
          recover_sagas L C ss
            (snd (ProcessOrder L C order (recoveryIdempotencyKey (uuid_String L (Saga_OrderID s))) w1)))"

definition Recover ::
  "uuid_lib \<Rightarrow> ('c, 'r, 'x) ow saga_clients \<Rightarrow> ('c, 'r, 'x) ow \<Rightarrow> go_error option \<times> ('c, 'r, 'x) ow" where
  "Recover L C w =
     (case SagaPostgres_ListIncomplete 100 w of
        (Inl err, w1) \<Rightarrow> (Some (errorf ''list incomplete sagas'' err), w1)
      | (Inr ss, w1) \<Rightarrow> (None, recover_sagas L C ss w1))"

definition Orchestrator_CancelOrder ::
  "uuid_lib \<Rightarrow> ('c, 'r, 'x) ow saga_clients \<Rightarrow> Order \<Rightarrow> ('c, 'r, 'x) ow \<Rightarrow> go_error option \<times> ('c, 'r, 'x) ow" where
  "Orchestrator_CancelOrder L C order w =
     (case SagaPostgres_GetByOrderID (Order_ID order) w of
        (Inl err, w1) \<Rightarrow>
          (Some (sentinelf ErrFailedPrecondition (''saga not found for refund: '' @ err_Error err)), w1)
      | (Inr s, w1) \<Rightarrow>
          (case (if Saga_PaymentID s \<noteq> ''''
                 then retry (\<lambda>u w. case PaymentClient_Refund C (Saga_PaymentID s)
                               (refundKey (uuid_String L (Order_ID order)) (Saga_PaymentID s)) w of
                               (err, w') \<Rightarrow> (err, u, w')) () w1
                 else (None, (), w1)) of
             (Some err, _, w2) \<Rightarrow>
               (Some (errorf (''refund payment '' @ Saga_PaymentID s) err), w2)
           | (None, _, w2) \<Rightarrow>
               (case compensateWithRetry L C reserveInventoryStep order '''' s w2 of
                  (Some err, _, w3) \<Rightarrow> (Some (errorf ''release inventory'' err), w3)
                | (None, s1, w3) \<Rightarrow>
                    (case OrderPostgres_UpdateStatus (Order_ID order) OrderStatusCancelled w3 of
                       (Inl err, w4) \<Rightarrow> (Some (errorf ''cancel order'' err), w4)
                     | (Inr _, w4) \<Rightarrow>
                         (case persistSaga (s1\<lparr>Saga_Status := SagaStatusCancelled,
                                                Saga_CurrentStep := ''cancelled''\<rparr>) w4 of
                            (_, _, w5) \<Rightarrow> (None, w5))))))"

section \<open>The recovery worker\<close>

text \<open>The lock key of PostgreSQL: the 64-bit FNV-1a hash, read as a signed integer.\<close>

definition fnv64a :: "string \<Rightarrow> 64 word" where
  "fnv64a key = foldl (\<lambda>h c. xor h (of_nat (of_char c)) * 1099511628211) 14695981039346656037 key"

definition advisoryLockID :: "string \<Rightarrow> int" where
  "advisoryLockID key = sint (fnv64a key)"

text \<open>A locker, if one is configured, and the recovery function are parameters of the worker.\<close>

record 'w locker =
  Locker_TryLock :: "string \<Rightarrow> 'w \<Rightarrow> bool result \<times> 'w"
  Locker_Unlock :: "string \<Rightarrow> 'w \<Rightarrow> go_error option \<times> 'w"

definition recoverOnce ::
  "'w locker option \<Rightarrow> string \<Rightarrow> ('w \<Rightarrow> go_error option \<times> 'w) \<Rightarrow> 'w \<Rightarrow> 'w" where
  "recoverOnce lock lockKey recover w =
     (case lock of
        None \<Rightarrow> snd (recover w)
      | Some l \<Rightarrow>
          (case Locker_TryLock l lockKey w of
             (Inl err, w1) \<Rightarrow> w1
           | (Inr locked, w1) \<Rightarrow>
               if \<not> locked then w1
               else snd (Locker_Unlock l lockKey (snd (recover w1)))))"

end
