(* ===== verification/Saga_Rules.thy ===== *)
theory Saga_Rules
  imports Order_Saga
begin

text \<open>
  Proof rules for the orchestrator. The locale \<open>saga_relation\<close> is the contract between the saga
  and what it calls: a reflexive and transitive relation on worlds that every repository and client
  call respects is respected by whole runs, recoveries and cancellations. It is interpreted on the
  relation that nothing but statuses and saga rows changes.
\<close>

section \<open>Rules of the loops\<close>

lemma retry_loop_rel:
  assumes refl: "\<And>w. R w w" and trans: "\<And>w1 w2 w3. R w1 w2 \<Longrightarrow> R w2 w3 \<Longrightarrow> R w1 w3"
    and wait: "\<And>d w. R w (snd (ctx_wait d w))" and fn: "\<And>s w. R w (snd (snd (fn s w)))"
  shows "R w (snd (snd (retry_loop n i le fn s w)))"
proof (induction n arbitrary: i le s w)
  case (Suc n)
  obtain r w1 where r: "(if i > 0 then ctx_wait (baseDelay * 2 ^ (i - 1)) w else (None, w)) = (r, w1)"
    by fastforce
  have w1: "R w w1"
    using r wait [of w "baseDelay * 2 ^ (i - 1)"] refl [of w] by (cases "i > 0") simp_all
  obtain e s1 w2 where f: "fn s w1 = (e, s1, w2)" using prod_cases3 by blast
  have w2: "R w1 w2" using fn [of w1 s] f by simp
  have "R w w2" using w1 w2 by (rule trans)
  moreover have "R w2 (snd (snd (retry_loop n (Suc i) x fn s1 w2)))" for x by (rule Suc.IH)
  ultimately have rest: "R w (snd (snd (retry_loop n (Suc i) x fn s1 w2)))" for x using trans by blast
  show ?case
    using r f w1 \<open>R w w2\<close> rest by (cases r; cases e) simp_all
qed (simp add: refl)

text \<open>One iteration of the loop of a saga.\<close>

lemma process_loop_cases:
  assumes "process_loop L C order key saga w = (e, w')"
  obtains (finished) "nextStep saga = None" "e = None" "w' = w"
    | (prepare_failed) step saga1 saga2 err where "nextStep saga = Some step" "Step_Prepare step saga = (True, saga1)"
        "persistSaga saga1 w = (Some err, saga2, w')" "e = Some err"
    | (step) step b saga1 saga2 w1 x saga3 w2 where "nextStep saga = Some step" "Step_Prepare step saga = (b, saga1)"
        "(if b then persistSaga saga1 w else (None, saga1, w)) = (None, saga2, w1)"
        "executeWithRetry L C step order key saga2 w1 = (x, saga3, w2)"
        "case x of Some err \<Rightarrow> handleStepFailure L C saga3 order step key err w2 = (e, w')
         | None \<Rightarrow> (case persistSaga saga3 w2 of
             (Some err, saga4, w3) \<Rightarrow> e = Some err \<and> w' = w3
           | (None, saga4, w3) \<Rightarrow> process_loop L C order key saga4 w3 = (e, w'))"
proof (cases "nextStep saga")
  case None
  with assms finished show thesis by (simp add: process_loop.simps [of L C order key saga w])
next
  case (Some st)
  obtain b saga1 where p: "Step_Prepare st saga = (b, saga1)" by fastforce
  obtain q saga2 w1 where q: "(if b then persistSaga saga1 w else (None, saga1, w)) = (q, saga2, w1)"
    using prod_cases3 by blast
  obtain x saga3 w2 where x: "executeWithRetry L C st order key saga2 w1 = (x, saga3, w2)"
    using prod_cases3 by blast
  obtain y saga4 w3 where y: "persistSaga saga3 w2 = (y, saga4, w3)" using prod_cases3 by blast
  show thesis
  proof (cases q)
    case (Some err)
    with q have "b" by (cases b) simp_all
    with assms \<open>nextStep saga = Some st\<close> p q Some have "persistSaga saga1 w = (Some err, saga2, w')" "e = Some err"
      by (simp_all add: process_loop.simps [of L C order key saga w])
    with \<open>nextStep saga = Some st\<close> p \<open>b\<close> prepare_failed [of st saga1 err saga2] show thesis by simp
  next
    case None
    have "case x of Some err \<Rightarrow> handleStepFailure L C saga3 order st key err w2 = (e, w')
         | None \<Rightarrow> (case persistSaga saga3 w2 of
             (Some err, saga4, w3) \<Rightarrow> e = Some err \<and> w' = w3
           | (None, saga4, w3) \<Rightarrow> process_loop L C order key saga4 w3 = (e, w'))"
      using assms \<open>nextStep saga = Some st\<close> p q x y None
      by (cases x; cases y) (auto simp: process_loop.simps [of L C order key saga w])
    with \<open>nextStep saga = Some st\<close> p q x None step show thesis by blast
  qed
qed

section \<open>The contract of the saga\<close>

locale saga_relation =
  fixes L :: uuid_lib and C :: "('c, 'r, 'x) ow saga_clients"
    and R :: "('c, 'r, 'x) ow \<Rightarrow> ('c, 'r, 'x) ow \<Rightarrow> bool"
  assumes R_refl: "R w w" and R_trans: "R w1 w2 \<Longrightarrow> R w2 w3 \<Longrightarrow> R w1 w3"
    and R_wait: "R w (snd (ctx_wait d w))" and R_uuid: "R w (snd (uuid_New w))"
    and R_order_status: "R w (snd (OrderPostgres_UpdateStatus i st w))"
    and R_order_get: "R w (snd (OrderPostgres_GetByID i w))"
    and R_saga_create: "R w (snd (SagaPostgres_Create s w))"
    and R_saga_get: "R w (snd (SagaPostgres_GetByOrderID i w))"
    and R_saga_save: "R w (snd (SagaPostgres_Save s w))"
    and R_saga_list: "R w (snd (SagaPostgres_ListIncomplete n w))"
    and R_reserve: "R w (snd (InventoryClient_Reserve C p q j k w))"
    and R_release: "R w (snd (InventoryClient_Release C p q j k w))"
    and R_pay: "R w (snd (PaymentClient_ProcessPayment C p a k w))"
    and R_refund: "R w (snd (PaymentClient_Refund C p k w))"
begin

lemma R_execute: "R w (snd (snd (Step_Execute L C step order key saga w)))"
proof (cases step)
  case startStep
  then show ?thesis
    using R_order_status [of w "Order_ID order" OrderStatusAwaitingPayment] by (auto split: prod.splits sum.splits)
next
  case reserveInventoryStep
  show ?thesis
  proof (cases "length (Saga_ReservedItems saga) \<ge> length (Order_Items order)")
    case True
    then show ?thesis using reserveInventoryStep R_refl by simp
  next
    case False
    let ?item = "Order_Items order ! length (Saga_ReservedItems saga)"
    let ?p = "uuid_String L (Item_ProductID ?item)"
    obtain e w1 where c: "InventoryClient_Reserve C ?p (i32 (Item_Quantity ?item)) (uuid_String L (Order_ID order))
        (reserveKey key ?p) w = (e, w1)" by fastforce
    have "R w w1" using R_reserve [of w ?p "i32 (Item_Quantity ?item)" "uuid_String L (Order_ID order)" "reserveKey key ?p"] c
      by simp
    then show ?thesis using False reserveInventoryStep c by (cases e) (simp_all add: Let_def)
  qed
next
  case processPaymentStep
  then show ?thesis
    using R_pay [of w "uuid_String L (Order_ID order)" "Order_TotalAmount order" "paymentKey key"]
    by (auto split: prod.splits sum.splits)
next
  case confirmOrderStep
  then show ?thesis
    using R_order_status [of w "Order_ID order" OrderStatusPaid] by (auto split: prod.splits sum.splits)
qed

lemma R_release_items: "R w (snd (release_items C i items errs w))"
proof (induction items arbitrary: errs w)
  case (Cons item items)
  obtain e w1 where c: "InventoryClient_Release C (Reserved_ProductID item) (Reserved_Quantity item) i
      (releaseKey i (Reserved_ProductID item)) w = (e, w1)" by fastforce
  have "R w w1" using R_release c by (metis snd_conv)
  moreover have "R w1 (snd (release_items C i items es w1))" for es by (rule Cons.IH)
  ultimately have "R w (snd (release_items C i items es w1))" for es using R_trans by blast
  then show ?case using c by (cases e) simp_all
qed (simp add: R_refl)

lemma R_compensate: "R w (snd (snd (Step_Compensate L C step order key saga w)))"
proof (cases step)
  case reserveInventoryStep
  then show ?thesis
    using R_release_items [of w "uuid_String L (Order_ID order)" "Saga_ReservedItems saga" "[]"]
    by (simp add: split_def)
next
  case processPaymentStep
  then show ?thesis
    using R_refund [of w "Saga_PaymentID saga" "refundKey key (Saga_PaymentID saga)"] R_refl
    by (simp add: split_def)
qed (simp_all add: R_refl)

lemma R_retry: "(\<And>s w. R w (snd (snd (fn s w)))) \<Longrightarrow> R w (snd (snd (retry fn s w)))"
  unfolding retry_def by (rule retry_loop_rel [where R = R, OF R_refl R_trans R_wait])

lemma R_executeWithRetry: "R w (snd (snd (executeWithRetry L C step order key saga w)))"
  unfolding executeWithRetry_def by (rule R_retry) (rule R_execute)

lemma R_compensateWithRetry: "R w (snd (snd (compensateWithRetry L C step order key saga w)))"
  unfolding compensateWithRetry_def by (rule R_retry) (rule R_compensate)

lemma R_persistSaga: "R w (snd (snd (persistSaga saga w)))"
proof -
  obtain r w1 where "SagaPostgres_Save (saga\<lparr>Saga_UpdatedAt := clock w\<rparr>) w = (r, w1)" by fastforce
  then show ?thesis
    using R_saga_save [of w "saga\<lparr>Saga_UpdatedAt := clock w\<rparr>"] by (cases r) (simp_all add: persistSaga_def Let_def)
qed

lemma R_saveSaga: "R w (snd (snd (saveSaga saga st step msg w)))"
  unfolding saveSaga_def by (rule R_persistSaga)

lemma R_run_plan: "R w (snd (run_plan L C plan order key saga w))"
proof (induction plan arbitrary: saga w)
  case (Cons s plan)
  obtain e saga1 w1 where c: "compensateWithRetry L C s order key saga w = (e, saga1, w1)"
    using prod_cases3 by blast
  have "R w w1" using R_compensateWithRetry [of w s order key saga] c by simp
  moreover have "R w1 (snd (run_plan L C plan order key saga1 w1))" by (rule Cons.IH)
  ultimately show ?case using c R_trans by simp
qed (simp add: R_refl)

lemma R_handleStepFailure: "R w (snd (handleStepFailure L C saga order step key err w))"
proof (cases "Saga_Status saga = SagaStatusPending")
  case True
  then show ?thesis
    using R_saveSaga [of w saga SagaStatusFailed "Step_Name step" "err_Error err"]
    by (simp add: handleStepFailure_def split_def)
next
  case False
  let ?plan = "compensationPlan step"
  obtain e1 saga1 w1 where s1: "saveSaga saga SagaStatusCompensating (''compensate_'' @ joinStepNames ?plan)
      (err_Error err) w = (e1, saga1, w1)" using prod_cases3 by blast
  obtain saga2 w2 where s2: "run_plan L C ?plan order key saga1 w1 = (saga2, w2)" by fastforce
  obtain e3 w3 where s3: "OrderPostgres_UpdateStatus (Order_ID order) OrderStatusCancelled w2 = (e3, w3)" by fastforce
  obtain e4 saga4 w4 where s4: "saveSaga saga2 SagaStatusCancelled ''cancelled'' '''' w3 = (e4, saga4, w4)"
    using prod_cases3 by blast
  have "R w w1" "R w1 w2" "R w2 w3" "R w3 w4"
    using s1 s2 s3 s4 R_saveSaga R_run_plan R_order_status by (metis snd_conv)+
  then have "R w w4" using R_trans by blast
  then show ?thesis
    using False s1 s2 s3 s4 by (simp add: handleStepFailure_def Let_def)
qed

lemma R_process_loop: "R w (snd (process_loop L C order key saga w))"
proof (induction "saga_rank (length (Order_Items order)) saga" arbitrary: saga w rule: less_induct)
  case less
  obtain e w' where run: "process_loop L C order key saga w = (e, w')" by fastforce
  then have "R w w'"
  proof (cases rule: process_loop_cases)
    case finished
    then show ?thesis by (simp add: R_refl)
  next
    case (prepare_failed step saga1 saga2 err)
    then show ?thesis using R_persistSaga [of w saga1] by simp
  next
    case (step step b saga1 saga2 w1 x saga3 w2)
    have "R w w1" using step(3) R_persistSaga [of w saga1] R_refl [of w] by (cases b) simp_all
    moreover have "R w1 w2" using step(4) R_executeWithRetry [of w1 step order key saga2] by simp
    ultimately have w2: "R w w2" by (rule R_trans)
    have "R w2 w'"
    proof (cases x)
      case (Some err)
      then show ?thesis using step(5) R_handleStepFailure [of w2 saga3 order step key err] by simp
    next
      case None
      obtain y saga4 w3 where y: "persistSaga saga3 w2 = (y, saga4, w3)" using prod_cases3 by blast
      have w3: "R w2 w3" using y R_persistSaga [of w2 saga3] by simp
      show ?thesis
      proof (cases y)
        case (Some err)
        then show ?thesis using step(5) None y w3 by simp
      next
        case y0: None
        have "saga_rank (length (Order_Items order)) saga4 < saga_rank (length (Order_Items order)) saga"
          using iteration_decreases [OF step(1,2,3) step(4) [unfolded None] y] .
        then have "R w3 (snd (process_loop L C order key saga4 w3))" by (rule less)
        with w3 have "R w2 (snd (process_loop L C order key saga4 w3))" by (rule R_trans)
        then show ?thesis using step(5) None y y0 by simp
      qed
    qed
    with w2 show ?thesis by (rule R_trans)
  qed
  then show ?case using run by simp
qed

lemma R_ProcessOrder: "R w (snd (ProcessOrder L C order key w))"
proof -
  obtain r w1 where g: "SagaPostgres_GetByOrderID (Order_ID order) w = (r, w1)" by fastforce
  have w1: "R w w1" using R_saga_get g by (metis snd_conv)
  show ?thesis
  proof (cases r)
    case (Inr saga)
    from w1 R_process_loop have "R w (snd (process_loop L C order key saga w1))" by (rule R_trans)
    then show ?thesis using g Inr w1 by (simp add: ProcessOrder_def)
  next
    case (Inl err)
    obtain i w2 where u: "uuid_New w1 = (i, w2)" by fastforce
    have "R w1 w2" using R_uuid [of w1] u by simp
    with w1 have w2: "R w w2" by (rule R_trans)
    let ?saga = "\<lparr>Saga_ID = i, Saga_OrderID = Order_ID order, Saga_Status = SagaStatusPending,
       Saga_CurrentStep = '''', Saga_ErrorMessage = '''', Saga_PaymentID = '''',
       Saga_ReservedItems = [], Saga_CreatedAt = clock w2, Saga_UpdatedAt = clock w2\<rparr>"
    obtain q w3 where c: "SagaPostgres_Create ?saga w2 = (q, w3)" by fastforce
    have "R w2 w3" using R_saga_create [of w2 ?saga] c by simp
    with w2 have w3: "R w w3" by (rule R_trans)
    from w3 R_process_loop have "R w (snd (process_loop L C order key ?saga w3))" by (rule R_trans)
    then show ?thesis
      using g Inl u c w1 w3 by (cases q) (simp_all add: ProcessOrder_def Let_def)
  qed
qed

lemma R_recover_sagas: "R w (recover_sagas L C ss w)"
proof (induction ss arbitrary: w)
  case (Cons s ss)
  obtain r w1 where g: "OrderPostgres_GetByID (Saga_OrderID s) w = (r, w1)" by fastforce
  have w1: "R w w1" using R_order_get g by (metis snd_conv)
  have "R w (snd (ProcessOrder L C od k w1))" for od k using w1 R_ProcessOrder by (rule R_trans)
  moreover have "R v (recover_sagas L C ss v)" for v by (rule Cons.IH)
  ultimately have "R w (recover_sagas L C ss w1)" "R w (recover_sagas L C ss (snd (ProcessOrder L C od k w1)))" for od k
    using w1 R_trans by blast+
  then show ?case using g by (cases r) simp_all
qed (simp add: R_refl)

lemma R_Recover: "R w (snd (Recover L C w))"
proof -
  obtain r w1 where g: "SagaPostgres_ListIncomplete 100 w = (r, w1)" by fastforce
  have "R w w1" using R_saga_list g by (metis snd_conv)
  moreover from this R_recover_sagas have "R w (recover_sagas L C ss w1)" for ss by (rule R_trans)
  ultimately show ?thesis using g by (cases r) (simp_all add: Recover_def)
qed

lemma R_CancelOrder: "R w (snd (Orchestrator_CancelOrder L C order w))"
proof -
  obtain r w1 where g: "SagaPostgres_GetByOrderID (Order_ID order) w = (r, w1)" by fastforce
  have w1: "R w w1" using R_saga_get g by (metis snd_conv)
  show ?thesis
  proof (cases r)
    case (Inl err)
    then show ?thesis using g w1 by (simp add: Orchestrator_CancelOrder_def)
  next
    case (Inr s)
    define fn where "fn = (\<lambda>(u :: unit) w. case PaymentClient_Refund C (Saga_PaymentID s)
        (refundKey (uuid_String L (Order_ID order)) (Saga_PaymentID s)) w of (err, w') \<Rightarrow> (err, u, w'))"
    have "R v (snd (snd (fn u v)))" for u v
      using R_refund [of v "Saga_PaymentID s" "refundKey (uuid_String L (Order_ID order)) (Saga_PaymentID s)"]
      by (simp add: fn_def split_def)
    then have fn: "R v (snd (snd (retry fn () v)))" for v by (rule R_retry)
    obtain e2 u2 w2 where s2: "(if Saga_PaymentID s \<noteq> '''' then retry fn () w1 else (None, (), w1)) = (e2, u2, w2)"
      using prod_cases3 by blast
    have "R w1 w2" using s2 fn [of w1] R_refl [of w1] by (cases "Saga_PaymentID s = ''''") simp_all
    with w1 have w2: "R w w2" by (rule R_trans)
    obtain e3 s3 w3 where c3: "compensateWithRetry L C reserveInventoryStep order '''' s w2 = (e3, s3, w3)"
      using prod_cases3 by blast
    have "R w2 w3" using c3 R_compensateWithRetry [of w2 reserveInventoryStep order "''''" s] by simp
    with w2 have w3: "R w w3" by (rule R_trans)
    obtain q w4 where c4: "OrderPostgres_UpdateStatus (Order_ID order) OrderStatusCancelled w3 = (q, w4)" by fastforce
    have "R w3 w4" using c4 R_order_status [of w3 "Order_ID order" OrderStatusCancelled] by simp
    with w3 have w4: "R w w4" by (rule R_trans)
    let ?s = "s3\<lparr>Saga_Status := SagaStatusCancelled, Saga_CurrentStep := ''cancelled''\<rparr>"
    obtain e5 s5 w5 where c5: "persistSaga ?s w4 = (e5, s5, w5)" using prod_cases3 by blast
    have "R w4 w5" using c5 R_persistSaga [of w4 ?s] by simp
    with w4 have w5: "R w w5" by (rule R_trans)
    show ?thesis
      unfolding Orchestrator_CancelOrder_def g Inr prod.case sum.case fn_def [symmetric] s2
      using w2 w3 w4 w5 c3 c4 c5 by (cases e2; cases e3; cases q) simp_all
  qed
qed

end

section \<open>What a saga leaves alone\<close>

text \<open>
  Of an order only its status and the time of its update change; its items, the outbox and the
  dead letters stay.
\<close>

definition order_key :: "OrderRow \<Rightarrow> uuid \<times> uuid \<times> int \<times> int" where
  "order_key ro = (orow_id ro, orow_user_id ro, orow_total_amount ro, orow_created_at ro)"

definition order_frame :: "ord_db \<Rightarrow> ord_db \<Rightarrow> bool" where
  "order_frame d d' \<longleftrightarrow> map order_key (orders d') = map order_key (orders d)
     \<and> order_items d' = order_items d \<and> outbox d' = outbox d \<and> outbox_dlq d' = outbox_dlq d"

lemma order_frame_refl [simp]: "order_frame d d"
  by (simp add: order_frame_def)

lemma order_frame_trans: "order_frame d1 d2 \<Longrightarrow> order_frame d2 d3 \<Longrightarrow> order_frame d1 d3"
  by (simp add: order_frame_def)

lemma sql_order_frame:
  assumes "\<And>x d'. stmt (db w) = Inr (x, d') \<Longrightarrow> order_frame (db w) d'"
  shows "order_frame (db w) (db (snd (sql stmt w)))"
proof -
  obtain r w' where s: "sql stmt w = (r, w')" by fastforce
  then have "order_frame (db w) (db w')" by (cases rule: sql_cases) (use assms in simp_all)
  with s show ?thesis by simp
qed

lemma stmt_UpdateOrderStatus_frame: "stmt_UpdateOrderStatus now i st d = Inr (x, d') \<Longrightarrow> order_frame d d'"
  by (auto simp: stmt_UpdateOrderStatus_def Let_def order_frame_def order_key_def split: if_splits)

lemma update_sagas_frame [simp]: "order_frame d (update_sagas i f d)"
  by (simp add: update_sagas_def order_frame_def)

lemma stmt_CreateSaga_frame: "stmt_CreateSaga s d = Inr (x, d') \<Longrightarrow> order_frame d d'"
  by (auto simp: stmt_CreateSaga_def order_frame_def split: if_splits)

lemma stmt_SaveSaga_frame: "stmt_SaveSaga now s d = Inr (x, d') \<Longrightarrow> order_frame d d'"
  by (auto simp: stmt_SaveSaga_def Let_def split: if_splits)

text \<open>A call that wraps one statement, possibly followed by reading the rows.\<close>

lemma repo_frames:
  "order_frame (db w) (db (snd (OrderPostgres_UpdateStatus i st w)))"
  "order_frame (db w) (db (snd (SagaPostgres_Create s w)))"
  "order_frame (db w) (db (snd (SagaPostgres_Save s w)))"
  "db (snd (SagaPostgres_GetByOrderID i w)) = db w"
  "db (snd (OrderPostgres_GetByID i w)) = db w"
  "db (snd (SagaPostgres_ListIncomplete n w)) = db w"
  for w :: "('c, 'r, 'x) ow"
proof -
  show "order_frame (db w) (db (snd (OrderPostgres_UpdateStatus i st w)))"
    using sql_order_frame [of "stmt_UpdateOrderStatus (clock w) i st" w] stmt_UpdateOrderStatus_frame
    by (cases "sql (stmt_UpdateOrderStatus (clock w) i st) w"; cases "fst (sql (stmt_UpdateOrderStatus (clock w) i st) w)")
      (simp_all add: OrderPostgres_UpdateStatus_def)
  show "order_frame (db w) (db (snd (SagaPostgres_Create s w)))"
    using sql_order_frame [of "stmt_CreateSaga s" w] stmt_CreateSaga_frame
    by (cases "sql (stmt_CreateSaga s) w"; cases "fst (sql (stmt_CreateSaga s) w)")
      (simp_all add: SagaPostgres_Create_def)
  show "order_frame (db w) (db (snd (SagaPostgres_Save s w)))"
    using sql_order_frame [of "stmt_SaveSaga (clock w) s" w] stmt_SaveSaga_frame
    by (cases "sql (stmt_SaveSaga (clock w) s) w"; cases "fst (sql (stmt_SaveSaga (clock w) s) w)")
      (simp_all add: SagaPostgres_Save_def)
  show "db (snd (SagaPostgres_GetByOrderID i w)) = db w"
    using sql_query_row_db [of "\<lambda>d. find (\<lambda>r. srow_order_id r = i) (sagas d)" w]
    by (cases "sql (stmt_GetSaga i) w"; cases "fst (sql (stmt_GetSaga i) w)")
      (simp_all add: SagaPostgres_GetByOrderID_def stmt_GetSaga_def)
  obtain r w1 where g: "sql (stmt_GetOrder i) w = (r, w1)" by fastforce
  obtain q w2 where e: "rows_Err w1 = (q, w2)" by fastforce
  have "db w1 = db w" "db w2 = db w1"
    using g rows_Err_db [OF e] unfolding stmt_GetOrder_def by (simp_all add: query_rows_db)
  then show "db (snd (OrderPostgres_GetByID i w)) = db w"
    using g e by (cases r; cases q) (simp_all add: OrderPostgres_GetByID_def split: option.splits)
  obtain r w1 where g: "sql (stmt_ListIncomplete n) w = (r, w1)" by fastforce
  obtain q w2 where e: "rows_Err w1 = (q, w2)" by fastforce
  have "db w1 = db w" "db w2 = db w1"
    using g rows_Err_db [OF e] unfolding stmt_ListIncomplete_def by (simp_all add: query_rows_db)
  then show "db (snd (SagaPostgres_ListIncomplete n w)) = db w"
    using g e by (cases r; cases q) (simp_all add: SagaPostgres_ListIncomplete_def)
qed

text \<open>
  Seen from the whole world of the service, a saga draws fresh UUIDs and sends nothing to Kafka.
\<close>

definition ow_frame :: "('c, 'r, 'x) ow \<Rightarrow> ('c, 'r, 'x) ow \<Rightarrow> bool" where
  "ow_frame w w' \<longleftrightarrow> order_frame (db w) (db w') \<and> uuid_src w' = uuid_src w \<and> uuid_ctr w \<le> uuid_ctr w'
     \<and> ord_kafka w' = ord_kafka w"

lemma ow_frame_refl [simp]: "ow_frame w w"
  by (simp add: ow_frame_def)

lemma ow_frame_trans: "ow_frame w1 w2 \<Longrightarrow> ow_frame w2 w3 \<Longrightarrow> ow_frame w1 w3"
  by (auto simp: ow_frame_def intro: order_frame_trans)

definition same_rest :: "('c, 'r, 'x) ow \<Rightarrow> ('c, 'r, 'x) ow \<Rightarrow> bool" where
  "same_rest w w' \<longleftrightarrow> uuid_src w' = uuid_src w \<and> uuid_ctr w' = uuid_ctr w \<and> ord_kafka w' = ord_kafka w"

lemma same_rest_sql: "sql stmt w = (r, w1) \<Longrightarrow> same_rest w w1"
  by (auto simp: same_rest_def dest!: sql_world)

lemma same_rest_rows_Err: "rows_Err w = (r, w1) \<Longrightarrow> same_rest w w1"
  by (auto simp: same_rest_def dest!: rows_Err_world)

lemma same_rest_trans: "same_rest w1 w2 \<Longrightarrow> same_rest w2 w3 \<Longrightarrow> same_rest w1 w3"
  by (simp add: same_rest_def)

lemma ow_frameI: "order_frame (db w) (db w') \<Longrightarrow> same_rest w w' \<Longrightarrow> ow_frame w w'"
  by (simp add: ow_frame_def same_rest_def)

lemma repo_rest:
  "same_rest w (snd (OrderPostgres_UpdateStatus i st w))" "same_rest w (snd (SagaPostgres_Create s w))"
  "same_rest w (snd (SagaPostgres_Save s w))" "same_rest w (snd (SagaPostgres_GetByOrderID i w))"
  "same_rest w (snd (OrderPostgres_GetByID i w))" "same_rest w (snd (SagaPostgres_ListIncomplete n w))"
proof -
  obtain r w1 where c: "sql (stmt_UpdateOrderStatus (clock w) i st) w = (r, w1)" by fastforce
  show "same_rest w (snd (OrderPostgres_UpdateStatus i st w))"
    using c same_rest_sql [OF c] by (cases r) (simp_all add: OrderPostgres_UpdateStatus_def)
  obtain r w1 where c: "sql (stmt_CreateSaga s) w = (r, w1)" by fastforce
  show "same_rest w (snd (SagaPostgres_Create s w))"
    using c same_rest_sql [OF c] by (cases r) (simp_all add: SagaPostgres_Create_def)
  obtain r w1 where c: "sql (stmt_SaveSaga (clock w) s) w = (r, w1)" by fastforce
  show "same_rest w (snd (SagaPostgres_Save s w))"
    using c same_rest_sql [OF c] by (cases r) (simp_all add: SagaPostgres_Save_def)
  obtain r w1 where c: "sql (stmt_GetSaga i) w = (r, w1)" by fastforce
  show "same_rest w (snd (SagaPostgres_GetByOrderID i w))"
    using c same_rest_sql [OF c] by (cases r) (simp_all add: SagaPostgres_GetByOrderID_def)
  obtain r w1 where c: "sql (stmt_GetOrder i) w = (r, w1)" by fastforce
  obtain q w2 where e: "rows_Err w1 = (q, w2)" by fastforce
  show "same_rest w (snd (OrderPostgres_GetByID i w))"
    using c e same_rest_sql [OF c] same_rest_trans [OF same_rest_sql [OF c] same_rest_rows_Err [OF e]]
    by (cases r; cases q) (simp_all add: OrderPostgres_GetByID_def split: option.splits)
  obtain r w1 where c: "sql (stmt_ListIncomplete n) w = (r, w1)" by fastforce
  obtain q w2 where e: "rows_Err w1 = (q, w2)" by fastforce
  show "same_rest w (snd (SagaPostgres_ListIncomplete n w))"
    using c e same_rest_sql [OF c] same_rest_trans [OF same_rest_sql [OF c] same_rest_rows_Err [OF e]]
    by (cases r; cases q) (simp_all add: SagaPostgres_ListIncomplete_def)
qed

lemma ctx_wait_frame: "ow_frame w (snd (ctx_wait d w))"
proof -
  obtain f w1 where tf: "take_fault w = (f, w1)" by fastforce
  obtain fs where w1: "w1 = w\<lparr>faults := fs\<rparr>" using take_fault_world [OF tf] by blast
  show ?thesis using tf unfolding w1 by (cases f) (simp_all add: ctx_wait_def sleep_def ow_frame_def)
qed

text \<open>
  The clients work on the other services: they leave the database of the order service, its UUIDs
  and its Kafka topics alone.
\<close>

definition clients_local :: "('c, 'r, 'x) ow saga_clients \<Rightarrow> bool" where
  "clients_local C \<longleftrightarrow> (\<forall>p q i k w. ow_frame w (snd (InventoryClient_Reserve C p q i k w)))
     \<and> (\<forall>p q i k w. ow_frame w (snd (InventoryClient_Release C p q i k w)))
     \<and> (\<forall>p a k w. ow_frame w (snd (PaymentClient_ProcessPayment C p a k w)))
     \<and> (\<forall>p k w. ow_frame w (snd (PaymentClient_Refund C p k w)))"

lemmas ow_frame_repo =
  ow_frameI [OF repo_frames(1) repo_rest(1)] ow_frameI [OF repo_frames(2) repo_rest(2)]
  ow_frameI [OF repo_frames(3) repo_rest(3)]

lemma ow_frame_reads:
  "ow_frame w (snd (SagaPostgres_GetByOrderID i w))" "ow_frame w (snd (OrderPostgres_GetByID i w))"
  "ow_frame w (snd (SagaPostgres_ListIncomplete n w))"
  by (rule ow_frameI; simp add: repo_frames repo_rest)+

lemma uuid_New_frame: "ow_frame w (snd (uuid_New w))"
  by (simp add: uuid_New_def ow_frame_def)

interpretation framed: saga_relation L C "\<lambda>w w'. clients_local C \<longrightarrow> ow_frame w w'" for L C
proof (unfold_locales, goal_cases)
  case (2 w1 w2 w3)
  then show ?case using ow_frame_trans by blast
qed (simp_all add: ow_frame_repo ow_frame_reads ctx_wait_frame uuid_New_frame clients_local_def)

lemmas saga_frame = framed.R_ProcessOrder [rule_format] framed.R_Recover [rule_format] framed.R_CancelOrder [rule_format]

end
