(* ===== verification/Order_Outbox.thy ===== *)
theory Order_Outbox
  imports Order_Model
begin

text \<open>
  The transactional outbox of the order service: the repository of
  src/services/order-service/internal/repository/postgres/outbox_postgres.go, with the explicit
  transaction it keeps between calls, and the relay of src/services/order-service/internal/outbox
  that publishes the events to Kafka.
\<close>

section \<open>Explicit transactions\<close>

text \<open>
  The field \<^verbatim>\<open>tx\<close> of the repository. An open transaction keeps the database it started from and
  whether a statement of it has failed: PostgreSQL then refuses every further statement and
  turns the commit into a rollback. While it is open, the database of the world is the one the
  transaction sees.
\<close>

datatype 'db tx = NoTx | InTx 'db bool

definition tx_exec ::
  "('db, 'a) stmt \<Rightarrow> 'db tx \<Rightarrow> ('db, 'x) world_scheme \<Rightarrow> 'a result \<times> 'db tx \<times> ('db, 'x) world_scheme" where
  "tx_exec stmt t w =
     (case t of
        NoTx \<Rightarrow> (case sql stmt w of (r, w1) \<Rightarrow> (r, NoTx, w1))
      | InTx d aborted \<Rightarrow>
          if aborted then (Inl (StdErr ''current transaction is aborted''), t, w)
          else (case sql stmt w of
                  (Inl err, w1) \<Rightarrow> (Inl err, InTx d True, w1)
                | (Inr x, w1) \<Rightarrow> (Inr x, t, w1)))"

definition tx_commit :: "'db \<Rightarrow> bool \<Rightarrow> ('db, 'x) world_scheme \<Rightarrow> go_error option \<times> ('db, 'x) world_scheme" where
  "tx_commit d aborted w =
     (case take_fault w of
        (FailBefore err, w1) \<Rightarrow> (Some err, w1\<lparr>db := d\<rparr>)
      | (FailAfter err, w1) \<Rightarrow> (Some err, if aborted then w1\<lparr>db := d\<rparr> else w1)
      | (NoFault, w1) \<Rightarrow>
          if aborted then (Some (StdErr ''commit unexpectedly resulted in rollback''), w1\<lparr>db := d\<rparr>)
          else (None, w1))"

text \<open>A rollback that fails closes the connection, which rolls back too.\<close>

definition tx_rollback :: "'db \<Rightarrow> ('db, 'x) world_scheme \<Rightarrow> go_error option \<times> ('db, 'x) world_scheme" where
  "tx_rollback d w =
     (case take_fault w of
        (NoFault, w1) \<Rightarrow> (None, w1\<lparr>db := d\<rparr>)
      | (FailBefore err, w1) \<Rightarrow> (Some err, w1\<lparr>db := d\<rparr>)
      | (FailAfter err, w1) \<Rightarrow> (Some err, w1\<lparr>db := d\<rparr>))"

section \<open>The repository\<close>

type_synonym otx = "ord_db tx"

definition OutboxPostgres_Begin :: "otx \<Rightarrow> ('c, 'r, 'x) ow \<Rightarrow> go_error option \<times> otx \<times> ('c, 'r, 'x) ow" where
  "OutboxPostgres_Begin t w =
     (if t \<noteq> NoTx then (None, t, w)
      else (case take_fault w of
              (NoFault, w1) \<Rightarrow> (None, InTx (db w1) False, w1)
            | (FailBefore err, w1) \<Rightarrow> (Some (errorf ''begin outbox tx'' err), t, w1)
            | (FailAfter err, w1) \<Rightarrow> (Some (errorf ''begin outbox tx'' err), t, w1)))"

definition OutboxPostgres_Commit :: "otx \<Rightarrow> ('c, 'r, 'x) ow \<Rightarrow> go_error option \<times> otx \<times> ('c, 'r, 'x) ow" where
  "OutboxPostgres_Commit t w =
     (case t of
        NoTx \<Rightarrow> (Some (StdErr ''no active outbox transaction''), t, w)
      | InTx d aborted \<Rightarrow> (case tx_commit d aborted w of (err, w1) \<Rightarrow> (err, NoTx, w1)))"

definition OutboxPostgres_Rollback :: "otx \<Rightarrow> ('c, 'r, 'x) ow \<Rightarrow> go_error option \<times> otx \<times> ('c, 'r, 'x) ow" where
  "OutboxPostgres_Rollback t w =
     (case t of
        NoTx \<Rightarrow> (None, t, w)
      | InTx d aborted \<Rightarrow> (case tx_rollback d w of (err, w1) \<Rightarrow> (err, NoTx, w1)))"

definition varchar100_ok :: "OutboxEvent \<Rightarrow> bool" where
  "varchar100_ok event \<longleftrightarrow> length (Outbox_AggregateType event) \<le> 100 \<and>
     length (Outbox_AggregateID event) \<le> 100 \<and> length (Outbox_EventType event) \<le> 100"

definition stmt_InsertOutbox :: "OutboxEvent \<Rightarrow> (ord_db, unit) stmt" where
  "stmt_InsertOutbox event d =
     (if \<not> varchar100_ok event then Inl (StdErr ''value too long for type character varying(100)'')
      else if \<not> int4_ok (Outbox_RetryCount event) then Inl (StdErr ''value is out of range for int4'')
      else if list_ex (\<lambda>e. Outbox_ID e = Outbox_ID event) (outbox d)
        then Inl (StdErr ''duplicate key value violates unique constraint outbox_pkey'')
      else Inr ((), d\<lparr>outbox := outbox d @
             [event\<lparr>Outbox_CreatedAt := pg_timestamp (Outbox_CreatedAt event), Outbox_ProcessedAt := None, Outbox_LastError := None,
                    Outbox_NextRetryAt := map_option pg_timestamp (Outbox_NextRetryAt event)\<rparr>]\<rparr>))"

definition OutboxPostgres_Create ::
  "OutboxEvent \<Rightarrow> otx \<Rightarrow> ('c, 'r, 'x) ow \<Rightarrow> unit result \<times> otx \<times> ('c, 'r, 'x) ow" where
  "OutboxPostgres_Create event t w =
     (let event1 = (if Outbox_NextRetryAt event = None then event\<lparr>Outbox_NextRetryAt := Some (clock w)\<rparr> else event) in
      case tx_exec (stmt_InsertOutbox event1) t w of
        (Inl err, t1, w1) \<Rightarrow> (Inl (errorf ''insert outbox event'' err), t1, w1)
      | (Inr _, t1, w1) \<Rightarrow> (Inr (), t1, w1))"

text \<open>
  \<open>locked\<close> are the rows other transactions hold, which \<^verbatim>\<open>SKIP LOCKED\<close> leaves out. The column
  \<open>next_retry_at\<close> is not null.
\<close>

definition due :: "int \<Rightarrow> OutboxEvent \<Rightarrow> bool" where
  "due now e \<longleftrightarrow> Outbox_ProcessedAt e = None \<and>
     (case Outbox_NextRetryAt e of Some t \<Rightarrow> t \<le> now | None \<Rightarrow> True)"

definition stmt_GetUnprocessed :: "(uuid \<Rightarrow> bool) \<Rightarrow> int \<Rightarrow> int \<Rightarrow> (ord_db, OutboxEvent list) stmt" where
  "stmt_GetUnprocessed locked now limit =
     query_rows (\<lambda>d. take (nat limit) (sort_key Outbox_CreatedAt
       (filter (\<lambda>e. due now e \<and> \<not> locked (Outbox_ID e)) (outbox d))))"

definition OutboxPostgres_GetUnprocessed ::
  "(uuid \<Rightarrow> bool) \<Rightarrow> int \<Rightarrow> otx \<Rightarrow> ('c, 'r, 'x) ow \<Rightarrow> OutboxEvent list result \<times> otx \<times> ('c, 'r, 'x) ow" where
  "OutboxPostgres_GetUnprocessed locked limit t w =
     (case tx_exec (stmt_GetUnprocessed locked (clock w) limit) t w of
        (Inl err, t1, w1) \<Rightarrow> (Inl (errorf ''get unprocessed outbox'' err), t1, w1)
      | (Inr events, t1, w1) \<Rightarrow>
          (case rows_Err w1 of
             (Inl err, w2) \<Rightarrow> (Inl (errorf ''iterate outbox events'' err), t1, w2)
           | (Inr _, w2) \<Rightarrow> (Inr events, t1, w2)))"

definition update_outbox :: "(OutboxEvent \<Rightarrow> bool) \<Rightarrow> (OutboxEvent \<Rightarrow> OutboxEvent) \<Rightarrow> ord_db \<Rightarrow> ord_db" where
  "update_outbox P f d = d\<lparr>outbox := map (\<lambda>e. if P e then f e else e) (outbox d)\<rparr>"

definition stmt_MarkProcessed :: "int \<Rightarrow> uuid list \<Rightarrow> (ord_db, unit) stmt" where
  "stmt_MarkProcessed now ids d =
     Inr ((), update_outbox (\<lambda>e. Outbox_ID e \<in> set ids) (\<lambda>e. e\<lparr>Outbox_ProcessedAt := Some (pg_timestamp now)\<rparr>) d)"

definition OutboxPostgres_MarkProcessed ::
  "uuid \<Rightarrow> otx \<Rightarrow> ('c, 'r, 'x) ow \<Rightarrow> unit result \<times> otx \<times> ('c, 'r, 'x) ow" where
  "OutboxPostgres_MarkProcessed i t w =
     (case tx_exec (stmt_MarkProcessed (clock w) [i]) t w of
        (Inl err, t1, w1) \<Rightarrow> (Inl (errorf ''mark outbox processed'' err), t1, w1)
      | (Inr _, t1, w1) \<Rightarrow> (Inr (), t1, w1))"

definition OutboxPostgres_BatchMarkProcessed ::
  "uuid list \<Rightarrow> otx \<Rightarrow> ('c, 'r, 'x) ow \<Rightarrow> unit result \<times> otx \<times> ('c, 'r, 'x) ow" where
  "OutboxPostgres_BatchMarkProcessed ids t w =
     (case tx_exec (stmt_MarkProcessed (clock w) ids) t w of
        (Inl err, t1, w1) \<Rightarrow> (Inl (errorf ''batch mark outbox processed'' err), t1, w1)
      | (Inr _, t1, w1) \<Rightarrow> (Inr (), t1, w1))"

definition stmt_IncrementRetry :: "uuid \<Rightarrow> string \<Rightarrow> int \<Rightarrow> (ord_db, unit) stmt" where
  "stmt_IncrementRetry i lastError nextRetryAt d =
     (if list_ex (\<lambda>e. Outbox_ID e = i \<and> \<not> int4_ok (Outbox_RetryCount e + 1)) (outbox d)
      then Inl (StdErr ''integer out of range'')
      else Inr ((), update_outbox (\<lambda>e. Outbox_ID e = i)
             (\<lambda>e. e\<lparr>Outbox_RetryCount := Outbox_RetryCount e + 1, Outbox_LastError := Some lastError,
                    Outbox_NextRetryAt := Some (pg_timestamp nextRetryAt)\<rparr>) d))"

definition OutboxPostgres_IncrementRetryAndSetError ::
  "uuid \<Rightarrow> string \<Rightarrow> int \<Rightarrow> otx \<Rightarrow> ('c, 'r, 'x) ow \<Rightarrow> unit result \<times> otx \<times> ('c, 'r, 'x) ow" where
  "OutboxPostgres_IncrementRetryAndSetError i lastError nextRetryAt t w =
     (case tx_exec (stmt_IncrementRetry i lastError nextRetryAt) t w of
        (Inl err, t1, w1) \<Rightarrow> (Inl (errorf ''increment outbox retry'' err), t1, w1)
      | (Inr _, t1, w1) \<Rightarrow> (Inr (), t1, w1))"

definition dlq_event :: "OutboxEvent \<Rightarrow> int \<Rightarrow> string \<Rightarrow> OutboxDLQEvent" where
  "dlq_event event failedAt lastError =
     \<lparr>DLQ_ID = Outbox_ID event, DLQ_AggregateType = Outbox_AggregateType event,
      DLQ_AggregateID = Outbox_AggregateID event, DLQ_EventType = Outbox_EventType event,
      DLQ_Payload = Outbox_Payload event, DLQ_CreatedAt = Outbox_CreatedAt event,
      DLQ_FailedAt = failedAt, DLQ_LastError = Some lastError,
      DLQ_RetryCount = i64 (Outbox_RetryCount event + 1)\<rparr>"

text \<open>The time of creation comes from a row of the outbox, which has it in microseconds.\<close>

definition stmt_InsertDLQ :: "OutboxDLQEvent \<Rightarrow> (ord_db, unit) stmt" where
  "stmt_InsertDLQ event d =
     (if \<not> int4_ok (DLQ_RetryCount event) then Inl (StdErr ''value is out of range for int4'')
      else if list_ex (\<lambda>e. DLQ_ID e = DLQ_ID event) (outbox_dlq d) then Inr ((), d)
      else Inr ((), d\<lparr>outbox_dlq := outbox_dlq d @ [event\<lparr>DLQ_FailedAt := pg_timestamp (DLQ_FailedAt event)\<rparr>]\<rparr>))"

definition stmt_DeleteOutbox :: "uuid \<Rightarrow> (ord_db, unit) stmt" where
  "stmt_DeleteOutbox i d = Inr ((), d\<lparr>outbox := filter (\<lambda>e. Outbox_ID e \<noteq> i) (outbox d)\<rparr>)"

definition OutboxPostgres_MoveToDLQ ::
  "OutboxEvent \<Rightarrow> int \<Rightarrow> string \<Rightarrow> otx \<Rightarrow> ('c, 'r, 'x) ow \<Rightarrow> unit result \<times> otx \<times> ('c, 'r, 'x) ow" where
  "OutboxPostgres_MoveToDLQ event failedAt lastError t w =
     (case tx_exec (stmt_InsertDLQ (dlq_event event failedAt lastError)) t w of
        (Inl err, t1, w1) \<Rightarrow> (Inl (errorf ''insert outbox dlq'' err), t1, w1)
      | (Inr _, t1, w1) \<Rightarrow>
          (case tx_exec (stmt_DeleteOutbox (Outbox_ID event)) t1 w1 of
             (Inl err, t2, w2) \<Rightarrow> (Inl (errorf ''delete outbox event'' err), t2, w2)
           | (Inr _, t2, w2) \<Rightarrow> (Inr (), t2, w2)))"

section \<open>The relay\<close>

text \<open>
  Sending to Kafka: the broker may refuse the message, or store it although the producer
  reports an error.
\<close>

definition SyncProducer_SendMessage ::
  "string \<Rightarrow> string \<Rightarrow> json \<Rightarrow> ('c, 'r, 'x) ow \<Rightarrow> go_error option \<times> ('c, 'r, 'x) ow" where
  "SyncProducer_SendMessage topic key payload w =
     (case take_fault w of
        (NoFault, w1) \<Rightarrow> (None, w1\<lparr>ord_kafka := ord_kafka w1 @ [(topic, key, payload)]\<rparr>)
      | (FailBefore err, w1) \<Rightarrow> (Some err, w1)
      | (FailAfter err, w1) \<Rightarrow> (Some err, w1\<lparr>ord_kafka := ord_kafka w1 @ [(topic, key, payload)]\<rparr>))"

definition relay_maxRetries :: int where "relay_maxRetries = 5"
definition baseBackoff :: int where "baseBackoff = 500 * millisecond"
definition maxBackoff :: int where "maxBackoff = 30 * second"

text \<open>Go's shift panics for a negative count; no row of the table has one.\<close>

definition calculateNextRetry :: "int \<Rightarrow> ('c, 'r, 'x) ow \<Rightarrow> int" where
  "calculateNextRetry retryCount w =
     (let factor = i64 (2 ^ nat (min retryCount 10));
          backoff = i64 (baseBackoff * factor)
      in clock w + (if backoff > maxBackoff then maxBackoff else backoff))"

fun relay_events ::
  "string \<Rightarrow> int \<Rightarrow> OutboxEvent list \<Rightarrow> uuid list \<Rightarrow> otx \<Rightarrow> ('c, 'r, 'x) ow \<Rightarrow> uuid list \<times> otx \<times> ('c, 'r, 'x) ow" where
  "relay_events topic now [] processed t w = (processed, t, w)"
| "relay_events topic now (event # events) processed t w =
     (case SyncProducer_SendMessage topic (Outbox_AggregateID event) (Outbox_Payload event) w of
        (None, w1) \<Rightarrow> relay_events topic now events (processed @ [Outbox_ID event]) t w1
      | (Some err, w1) \<Rightarrow>
          (let nextRetry = calculateNextRetry (Outbox_RetryCount event) w1 in
           if i64 (Outbox_RetryCount event + 1) \<ge> relay_maxRetries
           then (case OutboxPostgres_MoveToDLQ event now (err_Error err) t w1 of
                   (_, t1, w2) \<Rightarrow> relay_events topic now events processed t1 w2)
           else (case OutboxPostgres_IncrementRetryAndSetError (Outbox_ID event) (err_Error err) nextRetry t w1 of
                   (_, t1, w2) \<Rightarrow> relay_events topic now events processed t1 w2)))"

definition Relay_poll ::
  "(uuid \<Rightarrow> bool) \<Rightarrow> string \<Rightarrow> otx \<Rightarrow> ('c, 'r, 'x) ow \<Rightarrow> otx \<times> ('c, 'r, 'x) ow" where
  "Relay_poll locked topic t w =
     (case OutboxPostgres_Begin t w of
        (Some err, t1, w1) \<Rightarrow> (t1, w1)
      | (None, t1, w1) \<Rightarrow>
          (case OutboxPostgres_GetUnprocessed locked 100 t1 w1 of
             (Inl err, t2, w2) \<Rightarrow> snd (OutboxPostgres_Rollback t2 w2)
           | (Inr events, t2, w2) \<Rightarrow>
               (case relay_events topic (clock w2) events [] t2 w2 of
                  (processed, t3, w3) \<Rightarrow>
                    (case (if processed \<noteq> [] then OutboxPostgres_BatchMarkProcessed processed t3 w3
                           else (Inr (), t3, w3)) of
                       (Inl err, t4, w4) \<Rightarrow> snd (OutboxPostgres_Rollback t4 w4)
                     | (Inr _, t4, w4) \<Rightarrow>
                         (case OutboxPostgres_Commit t4 w4 of
                            (Some err, t5, w5) \<Rightarrow> snd (OutboxPostgres_Rollback t5 w5)
                          | (None, t5, w5) \<Rightarrow> (t5, w5))))))"

end
