(* ===== verification/Order_Relay.thy ===== *)
theory Order_Relay
  imports Order_Outbox "HOL-Library.Sublist"
begin

text \<open>
  What the outbox relay promises: no event is lost, an event is marked processed only after
  Kafka has it, retries are bounded and backed off, and polling empties the outbox.
\<close>

section \<open>Transactions\<close>

lemma tx_exec_InTx:
  assumes "tx_exec stmt (InTx d0 ab) w = (r, t', w')"
  obtains (ok) x d where "r = Inr x" "\<not> ab" "t' = InTx d0 False" "stmt (db w) = Inr (x, d)" "db w' = d"
        | (aborted) e where "r = Inl e" "t' = InTx d0 True"
proof (cases ab)
  case True
  with assms aborted show thesis by (auto simp: tx_exec_def)
next
  case False
  obtain r1 w1 where s: "sql stmt w = (r1, w1)" by fastforce
  show thesis
  proof (cases r1)
    case (Inl e)
    with assms False s aborted show thesis by (auto simp: tx_exec_def)
  next
    case (Inr x)
    with assms False s ok sql_Inr [of stmt w x w1] show thesis by (auto simp: tx_exec_def)
  qed
qed

lemma ord_kafka_take_fault [simp]: "take_fault w = (f, w1) \<Longrightarrow> ord_kafka w1 = ord_kafka w"
  by (auto simp: take_fault_def split: list.splits)

lemma ord_kafka_sql: "sql stmt w = (r, w1) \<Longrightarrow> ord_kafka w1 = ord_kafka w"
proof -
  assume s: "sql stmt w = (r, w1)"
  obtain f w0 where tf: "take_fault w = (f, w0)" by fastforce
  with s show "ord_kafka w1 = ord_kafka w"
    by (cases f) (auto simp: sql_def split: sum.splits prod.splits)
qed

lemma ord_kafka_tx_exec: "tx_exec stmt t w = (r, t', w1) \<Longrightarrow> ord_kafka w1 = ord_kafka w"
  by (auto simp: tx_exec_def dest!: ord_kafka_sql split: tx.splits prod.splits sum.splits if_splits)

section \<open>The events of an outbox\<close>

definition content :: "OutboxEvent \<Rightarrow> uuid \<times> string \<times> string \<times> string \<times> json \<times> int" where
  "content e = (Outbox_ID e, Outbox_AggregateType e, Outbox_AggregateID e, Outbox_EventType e,
     Outbox_Payload e, Outbox_CreatedAt e)"

definition dlq_content :: "OutboxDLQEvent \<Rightarrow> uuid \<times> string \<times> string \<times> string \<times> json \<times> int" where
  "dlq_content e = (DLQ_ID e, DLQ_AggregateType e, DLQ_AggregateID e, DLQ_EventType e,
     DLQ_Payload e, DLQ_CreatedAt e)"

text \<open>All events the service still answers for, pending, processed or given up on.\<close>

definition events_of :: "ord_db \<Rightarrow> (uuid \<times> string \<times> string \<times> string \<times> json \<times> int) set" where
  "events_of d = content ` set (outbox d) \<union> dlq_content ` set (outbox_dlq d)"

definition outbox_ids :: "ord_db \<Rightarrow> uuid list" where
  "outbox_ids d = map Outbox_ID (outbox d) @ map DLQ_ID (outbox_dlq d)"

definition message :: "string \<Rightarrow> OutboxEvent \<Rightarrow> string \<times> string \<times> json" where
  "message topic e = (topic, Outbox_AggregateID e, Outbox_Payload e)"

definition relay_wf :: "string \<Rightarrow> ord_db \<Rightarrow> (string \<times> string \<times> json) list \<Rightarrow> bool" where
  "relay_wf topic d ks \<longleftrightarrow> distinct (outbox_ids d)
     \<and> (\<forall>e\<in>set (outbox d). 0 \<le> Outbox_RetryCount e \<and> Outbox_RetryCount e < relay_maxRetries)
     \<and> (\<forall>e\<in>set (outbox d). Outbox_ProcessedAt e \<noteq> None \<longrightarrow> message topic e \<in> set ks)
     \<and> (\<forall>e\<in>set (outbox_dlq d). DLQ_RetryCount e = relay_maxRetries)"

lemma relay_wf_mono: "relay_wf topic d ks \<Longrightarrow> relay_wf topic d (ks @ ms)"
  by (auto simp: relay_wf_def)

lemma outbox_row_unique:
  "relay_wf topic d ks \<Longrightarrow> e \<in> set (outbox d) \<Longrightarrow> e' \<in> set (outbox d) \<Longrightarrow> Outbox_ID e = Outbox_ID e' \<Longrightarrow> e = e'"
  unfolding relay_wf_def outbox_ids_def distinct_append distinct_map inj_on_def by blast

lemma update_outbox_simps [simp]:
  "outbox (update_outbox P f d) = map (\<lambda>e. if P e then f e else e) (outbox d)"
  "outbox_dlq (update_outbox P f d) = outbox_dlq d"
  "update_outbox (\<lambda>e. False) f d = d"
  by (simp_all add: update_outbox_def)

lemma update_outbox_ids:
  assumes "\<And>e. Outbox_ID (f e) = Outbox_ID e"
  shows "outbox_ids (update_outbox P f d) = outbox_ids d"
  using assms by (simp add: outbox_ids_def)

lemma update_outbox_events:
  assumes "\<And>e. content (f e) = content e"
  shows "events_of (update_outbox P f d) = events_of d"
proof -
  have "map content (outbox (update_outbox P f d)) = map content (outbox d)"
    by (simp add: assms)
  from arg_cong [OF this, of set] show ?thesis
    unfolding events_of_def update_outbox_simps(2) set_map by simp
qed

text \<open>A batch that is marked processed has been published before.\<close>

lemma stmt_MarkProcessed_wf:
  assumes wf: "relay_wf topic d ks" and stmt: "stmt_MarkProcessed now ids d = Inr (u, d')"
    and sent: "\<forall>e\<in>set (outbox d). Outbox_ID e \<in> set ids \<longrightarrow> message topic e \<in> set ks"
  shows "relay_wf topic d' ks" "events_of d' = events_of d"
proof -
  have d': "d' = update_outbox (\<lambda>e. Outbox_ID e \<in> set ids) (\<lambda>e. e\<lparr>Outbox_ProcessedAt := Some (pg_timestamp now)\<rparr>) d"
    using stmt by (simp add: stmt_MarkProcessed_def)
  have "outbox_ids d' = outbox_ids d" unfolding d' by (rule update_outbox_ids) simp
  then show "relay_wf topic d' ks"
    using wf sent unfolding relay_wf_def d' by (auto simp: message_def)
  show "events_of d' = events_of d"
    unfolding d' by (rule update_outbox_events) (simp add: content_def)
qed

lemma stmt_IncrementRetry_wf:
  assumes wf: "relay_wf topic d ks" and stmt: "stmt_IncrementRetry i err nxt d = Inr (u, d')"
    and left: "\<forall>e\<in>set (outbox d). Outbox_ID e = i \<longrightarrow> Outbox_RetryCount e + 1 < relay_maxRetries"
  shows "relay_wf topic d' ks" "events_of d' = events_of d"
    "\<forall>e\<in>set (outbox d). Outbox_ID e \<noteq> i \<longrightarrow> e \<in> set (outbox d')"
    "\<forall>e\<in>set (outbox d'). \<exists>e0\<in>set (outbox d). Outbox_ID e0 = Outbox_ID e \<and> message topic e0 = message topic e"
proof -
  have d': "d' = update_outbox (\<lambda>e. Outbox_ID e = i)
      (\<lambda>e. e\<lparr>Outbox_RetryCount := Outbox_RetryCount e + 1, Outbox_LastError := Some err,
             Outbox_NextRetryAt := Some (pg_timestamp nxt)\<rparr>) d"
    using stmt by (simp add: stmt_IncrementRetry_def split: if_splits)
  have "outbox_ids d' = outbox_ids d" unfolding d' by (rule update_outbox_ids) simp
  then show "relay_wf topic d' ks"
    using wf left unfolding relay_wf_def d' by (auto simp: message_def)
  show "events_of d' = events_of d"
    unfolding d' by (rule update_outbox_events) (simp add: content_def)
  show "\<forall>e\<in>set (outbox d). Outbox_ID e \<noteq> i \<longrightarrow> e \<in> set (outbox d')"
    unfolding d' by auto
  show "\<forall>e\<in>set (outbox d'). \<exists>e0\<in>set (outbox d). Outbox_ID e0 = Outbox_ID e \<and> message topic e0 = message topic e"
    unfolding d' by (auto simp: message_def)
qed

lemma move_to_dlq_wf:
  assumes wf: "relay_wf topic d ks" and e: "event \<in> set (outbox d)"
    and lim: "Outbox_RetryCount event + 1 \<ge> relay_maxRetries"
    and ins: "stmt_InsertDLQ (dlq_event event failedAt err) d = Inr (u, d1)"
    and del: "stmt_DeleteOutbox (Outbox_ID event) d1 = Inr (v, d')"
  shows "relay_wf topic d' ks" "events_of d' = events_of d"
    "\<forall>e\<in>set (outbox d). Outbox_ID e \<noteq> Outbox_ID event \<longrightarrow> e \<in> set (outbox d')"
    "set (outbox d') \<subseteq> set (outbox d)"
proof -
  let ?q = "dlq_event event (pg_timestamp failedAt) err"
  have fresh: "\<not> list_ex (\<lambda>q. DLQ_ID q = DLQ_ID ?q) (outbox_dlq d)"
    using wf e by (auto simp: relay_wf_def outbox_ids_def dlq_event_def list_ex_iff)
  have d': "outbox d' = filter (\<lambda>e. Outbox_ID e \<noteq> Outbox_ID event) (outbox d)"
    "outbox_dlq d' = outbox_dlq d @ [?q]"
    using ins del fresh by (auto simp: stmt_InsertDLQ_def stmt_DeleteOutbox_def dlq_event_def split: if_splits)
  have cnt: "Outbox_RetryCount event + 1 = relay_maxRetries"
    using wf e lim by (auto simp: relay_wf_def)
  have "distinct (outbox_ids d')"
    using wf e by (auto simp: relay_wf_def outbox_ids_def d' dlq_event_def distinct_map_filter)
  moreover have "DLQ_RetryCount ?q = relay_maxRetries"
    using cnt by (simp add: dlq_event_def relay_maxRetries_def i64_id int8_ok_def)
  ultimately show "relay_wf topic d' ks"
    using wf by (auto simp: relay_wf_def d')
  have "content ` set (outbox d) = insert (content event) (content ` {e \<in> set (outbox d). Outbox_ID e \<noteq> Outbox_ID event})"
    using e outbox_row_unique [OF wf _ e] by blast
  moreover have "dlq_content ?q = content event"
    by (simp add: dlq_content_def content_def dlq_event_def)
  ultimately show "events_of d' = events_of d"
    by (simp add: events_of_def d')
  show "\<forall>e\<in>set (outbox d). Outbox_ID e \<noteq> Outbox_ID event \<longrightarrow> e \<in> set (outbox d')"
    "set (outbox d') \<subseteq> set (outbox d)" by (auto simp: d')
qed

section \<open>One poll\<close>

lemma SendMessage_effect:
  assumes "SyncProducer_SendMessage topic key v w = (r, w1)"
  shows "db w1 = db w"
    "\<exists>ms. ord_kafka w1 = ord_kafka w @ ms \<and> (r = None \<longrightarrow> ms = [(topic, key, v)])"
proof -
  obtain f w0 where tf: "take_fault w = (f, w0)" by fastforce
  with assms show "db w1 = db w"
    "\<exists>ms. ord_kafka w1 = ord_kafka w @ ms \<and> (r = None \<longrightarrow> ms = [(topic, key, v)])"
    using db_take_fault [OF tf] ord_kafka_take_fault [OF tf]
    by (cases f; force simp: SyncProducer_SendMessage_def)+
qed

lemma IncrementRetry_effect:
  assumes "OutboxPostgres_IncrementRetryAndSetError i err nxt (InTx d0 ab) w = (r, t', w')"
  shows "ord_kafka w' = ord_kafka w"
    "t' = InTx d0 True \<or> \<not> ab \<and> t' = InTx d0 False \<and> (\<exists>u. stmt_IncrementRetry i err nxt (db w) = Inr (u, db w'))"
proof -
  obtain q t1 w1 where x: "tx_exec (stmt_IncrementRetry i err nxt) (InTx d0 ab) w = (q, t1, w1)"
    using prod_cases3 by blast
  then have eq: "t' = t1" "w' = w1"
    using assms by (auto simp: OutboxPostgres_IncrementRetryAndSetError_def split: sum.splits)
  show "ord_kafka w' = ord_kafka w" using ord_kafka_tx_exec [OF x] eq by simp
  show "t' = InTx d0 True \<or> \<not> ab \<and> t' = InTx d0 False \<and> (\<exists>u. stmt_IncrementRetry i err nxt (db w) = Inr (u, db w'))"
    using x unfolding eq by (cases rule: tx_exec_InTx) auto
qed

lemma MoveToDLQ_effect:
  assumes "OutboxPostgres_MoveToDLQ event failedAt err (InTx d0 ab) w = (r, t', w')"
  shows "ord_kafka w' = ord_kafka w"
    "t' = InTx d0 True \<or> \<not> ab \<and> t' = InTx d0 False \<and>
       (\<exists>u v d1. stmt_InsertDLQ (dlq_event event failedAt err) (db w) = Inr (u, d1)
          \<and> stmt_DeleteOutbox (Outbox_ID event) d1 = Inr (v, db w'))"
proof -
  obtain q t1 w1 where x: "tx_exec (stmt_InsertDLQ (dlq_event event failedAt err)) (InTx d0 ab) w = (q, t1, w1)"
    using prod_cases3 by blast
  obtain q2 t2 w2 where y: "tx_exec (stmt_DeleteOutbox (Outbox_ID event)) t1 w1 = (q2, t2, w2)"
    using prod_cases3 by blast
  from assms x y consider e where "q = Inl e" "t' = t1" "w' = w1" | u where "q = Inr u" "t' = t2" "w' = w2"
    by (cases q; cases q2) (auto simp: OutboxPostgres_MoveToDLQ_def)
  note c = this
  show "ord_kafka w' = ord_kafka w"
    using c ord_kafka_tx_exec [OF x] ord_kafka_tx_exec [OF y] by cases simp_all
  from x show "t' = InTx d0 True \<or> \<not> ab \<and> t' = InTx d0 False \<and>
       (\<exists>u v d1. stmt_InsertDLQ (dlq_event event failedAt err) (db w) = Inr (u, d1)
          \<and> stmt_DeleteOutbox (Outbox_ID event) d1 = Inr (v, db w'))"
  proof (cases rule: tx_exec_InTx)
    case (ok u d)
    with c have eq: "t' = t2" "w' = w2" by auto
    from y show ?thesis unfolding ok(3) eq using ok by (cases rule: tx_exec_InTx) auto
  next
    case (aborted e)
    with c show ?thesis by auto
  qed
qed

text \<open>The invariant of the loop over the batch; it is void once the transaction is aborted.\<close>

definition loop_inv :: "string \<Rightarrow> OutboxEvent list \<Rightarrow> uuid list \<Rightarrow> ord_db \<Rightarrow> (string \<times> string \<times> json) list \<Rightarrow> bool" where
  "loop_inv topic events processed d ks \<longleftrightarrow> relay_wf topic d ks
     \<and> set events \<subseteq> set (outbox d) \<and> distinct (map Outbox_ID events)
     \<and> (\<forall>e\<in>set (outbox d). Outbox_ID e \<in> set processed \<longrightarrow> message topic e \<in> set ks)"

lemma loop_inv_sent:
  assumes "loop_inv topic (event # events) processed d ks"
  shows "loop_inv topic events (processed @ [Outbox_ID event]) d (ks @ [message topic event])"
proof -
  have wf: "relay_wf topic d ks" and ev: "event \<in> set (outbox d)"
    and rest: "set events \<subseteq> set (outbox d)" "distinct (map Outbox_ID events)"
    and sent: "\<And>e. e \<in> set (outbox d) \<Longrightarrow> Outbox_ID e \<in> set processed \<Longrightarrow> message topic e \<in> set ks"
    using assms by (simp_all add: loop_inv_def)
  have "message topic e \<in> set (ks @ [message topic event])"
    if e: "e \<in> set (outbox d)" and i: "Outbox_ID e \<in> set (processed @ [Outbox_ID event])" for e
  proof (cases "Outbox_ID e = Outbox_ID event")
    case True
    from outbox_row_unique [OF wf e ev True] show ?thesis by simp
  next
    case False
    with sent [OF e] i show ?thesis by simp
  qed
  then show ?thesis
    using relay_wf_mono [OF wf] rest unfolding loop_inv_def by blast
qed

lemma loop_inv_kafka: "loop_inv topic events processed d ks \<Longrightarrow> loop_inv topic events processed d (ks @ ms)"
  by (auto simp: loop_inv_def relay_wf_mono)

lemma loop_inv_rest:
  assumes "loop_inv topic (event # events) processed d ks"
    and "\<forall>e\<in>set (outbox d). Outbox_ID e \<noteq> Outbox_ID event \<longrightarrow> e \<in> set (outbox d')"
  shows "set events \<subseteq> set (outbox d')"
proof
  fix e
  assume "e \<in> set events"
  moreover have "set events \<subseteq> set (outbox d)" "Outbox_ID event \<notin> Outbox_ID ` set events"
    using assms(1) by (simp_all add: loop_inv_def)
  ultimately have "e \<in> set (outbox d)" "Outbox_ID e \<noteq> Outbox_ID event" by (blast, metis imageI)
  with assms(2) show "e \<in> set (outbox d')" by blast
qed

lemma loop_inv_retry:
  assumes inv: "loop_inv topic (event # events) processed d ks"
    and lim: "Outbox_RetryCount event + 1 < relay_maxRetries"
    and stmt: "stmt_IncrementRetry (Outbox_ID event) err nxt d = Inr (u, d')"
  shows "loop_inv topic events processed d' ks" "events_of d' = events_of d"
proof -
  have wf: "relay_wf topic d ks" using inv by (simp add: loop_inv_def)
  have left: "\<forall>e\<in>set (outbox d). Outbox_ID e = Outbox_ID event \<longrightarrow> Outbox_RetryCount e + 1 < relay_maxRetries"
    using inv lim outbox_row_unique [OF wf, of _ event] by (auto simp: loop_inv_def)
  note st = stmt_IncrementRetry_wf [OF wf stmt left]
  have "set events \<subseteq> set (outbox d')" using inv st(3) by (rule loop_inv_rest)
  moreover have "message topic e \<in> set ks" if "e \<in> set (outbox d')" "Outbox_ID e \<in> set processed" for e
    using bspec [OF st(4) that(1)] that(2) inv by (auto simp: loop_inv_def)
  ultimately show "loop_inv topic events processed d' ks"
    using inv st(1) by (simp add: loop_inv_def)
  show "events_of d' = events_of d" by (rule st(2))
qed

lemma loop_inv_dlq:
  assumes inv: "loop_inv topic (event # events) processed d ks"
    and lim: "Outbox_RetryCount event + 1 \<ge> relay_maxRetries"
    and ins: "stmt_InsertDLQ (dlq_event event failedAt err) d = Inr (u, d1)"
    and del: "stmt_DeleteOutbox (Outbox_ID event) d1 = Inr (v, d')"
  shows "loop_inv topic events processed d' ks" "events_of d' = events_of d"
proof -
  have wf: "relay_wf topic d ks" and e: "event \<in> set (outbox d)" using inv by (simp_all add: loop_inv_def)
  note mv = move_to_dlq_wf [OF wf e lim ins del]
  have "set events \<subseteq> set (outbox d')" using inv mv(3) by (rule loop_inv_rest)
  then show "loop_inv topic events processed d' ks"
    using inv mv(1,4) by (auto simp: loop_inv_def)
  show "events_of d' = events_of d" by (rule mv(2))
qed

lemma loop_inv_i64:
  assumes "loop_inv topic (event # events) processed d ks"
  shows "i64 (Outbox_RetryCount event + 1) = Outbox_RetryCount event + 1"
  using assms by (intro i64_id) (auto simp: loop_inv_def relay_wf_def int8_ok_def relay_maxRetries_def)

lemma relay_events_spec:
  assumes "relay_events topic now events processed (InTx d0 ab) w = (processed', t', w')"
    and "\<not> ab \<longrightarrow> loop_inv topic events processed (db w) (ord_kafka w)"
  shows "\<exists>ab' ms. t' = InTx d0 ab' \<and> ord_kafka w' = ord_kafka w @ ms \<and>
     (\<not> ab' \<longrightarrow> \<not> ab \<and> loop_inv topic [] processed' (db w') (ord_kafka w') \<and> events_of (db w') = events_of (db w))"
  using assms
proof (induction events arbitrary: processed ab w)
  case Nil
  then show ?case by auto
next
  case (Cons event events)
  obtain r w1 where send: "SyncProducer_SendMessage topic (Outbox_AggregateID event) (Outbox_Payload event) w = (r, w1)"
    by fastforce
  obtain ms where ms: "ord_kafka w1 = ord_kafka w @ ms"
    "r = None \<Longrightarrow> ms = [message topic event]" and d1: "db w1 = db w"
    using SendMessage_effect [OF send] by (auto simp: message_def)
  show ?case
  proof (cases r)
    case None
    have "\<not> ab \<longrightarrow> loop_inv topic events (processed @ [Outbox_ID event]) (db w1) (ord_kafka w1)"
      using Cons.prems(2) loop_inv_sent d1 ms None by metis
    moreover have "relay_events topic now events (processed @ [Outbox_ID event]) (InTx d0 ab) w1 = (processed', t', w')"
      using Cons.prems(1) send None by simp
    ultimately obtain ab' ms' where "t' = InTx d0 ab'" "ord_kafka w' = ord_kafka w1 @ ms'"
      "\<not> ab' \<longrightarrow> \<not> ab \<and> loop_inv topic [] processed' (db w') (ord_kafka w') \<and> events_of (db w') = events_of (db w1)"
      using Cons.IH by blast
    then show ?thesis using d1 ms(1) by (intro exI [of _ ab'] exI [of _ "ms @ ms'"]) simp
  next
    case (Some err)
    have kept: "\<not> ab \<longrightarrow> loop_inv topic (event # events) processed (db w1) (ord_kafka w1)"
      using Cons.prems(2) loop_inv_kafka d1 ms(1) by metis
    obtain t1 w2 where run: "relay_events topic now events processed t1 w2 = (processed', t', w')"
      and k2: "ord_kafka w2 = ord_kafka w1"
      and t1: "t1 = InTx d0 True \<or> \<not> ab \<and> t1 = InTx d0 False \<and>
        loop_inv topic events processed (db w2) (ord_kafka w1) \<and> events_of (db w2) = events_of (db w1)"
    proof (cases "i64 (Outbox_RetryCount event + 1) \<ge> relay_maxRetries")
      case True
      obtain q t1 w2 where mv: "OutboxPostgres_MoveToDLQ event now (err_Error err) (InTx d0 ab) w1 = (q, t1, w2)"
        using prod_cases3 by blast
      have run: "relay_events topic now events processed t1 w2 = (processed', t', w')"
        using Cons.prems(1) send Some True mv by simp
      have "t1 = InTx d0 True \<or> \<not> ab \<and> t1 = InTx d0 False \<and>
        loop_inv topic events processed (db w2) (ord_kafka w1) \<and> events_of (db w2) = events_of (db w1)"
        using MoveToDLQ_effect(2) [OF mv] kept loop_inv_dlq loop_inv_i64 True by metis
      with run MoveToDLQ_effect(1) [OF mv] that show thesis by blast
    next
      case False
      obtain q t1 w2 where inc: "OutboxPostgres_IncrementRetryAndSetError (Outbox_ID event) (err_Error err)
          (calculateNextRetry (Outbox_RetryCount event) w1) (InTx d0 ab) w1 = (q, t1, w2)"
        using prod_cases3 by blast
      have run: "relay_events topic now events processed t1 w2 = (processed', t', w')"
        using Cons.prems(1) send Some False inc by simp
      have "t1 = InTx d0 True \<or> \<not> ab \<and> t1 = InTx d0 False \<and>
        loop_inv topic events processed (db w2) (ord_kafka w1) \<and> events_of (db w2) = events_of (db w1)"
        using IncrementRetry_effect(2) [OF inc] kept loop_inv_retry loop_inv_i64 False
        by (metis linorder_not_le)
      with run IncrementRetry_effect(1) [OF inc] that show thesis by blast
    qed
    obtain ab1 where ab1: "t1 = InTx d0 ab1"
      "\<not> ab1 \<longrightarrow> \<not> ab \<and> loop_inv topic events processed (db w2) (ord_kafka w2) \<and> events_of (db w2) = events_of (db w1)"
      using t1 k2 by auto
    then obtain ab' ms' where "t' = InTx d0 ab'" "ord_kafka w' = ord_kafka w2 @ ms'"
      "\<not> ab' \<longrightarrow> \<not> ab1 \<and> loop_inv topic [] processed' (db w') (ord_kafka w') \<and> events_of (db w') = events_of (db w2)"
      using Cons.IH [of processed ab1 w2] run by blast
    then show ?thesis using d1 ms(1) k2 ab1(2) by (intro exI [of _ ab'] exI [of _ "ms @ ms'"]) simp
  qed
qed

lemma tx_end:
  "tx_commit d ab w = (r, w') \<Longrightarrow> ord_kafka w' = ord_kafka w \<and> (db w' = d \<or> \<not> ab \<and> db w' = db w)"
  "tx_rollback d w = (r, w') \<Longrightarrow> ord_kafka w' = ord_kafka w \<and> db w' = d"
  for w w' :: "('c, 'r, 'x) ow"
proof -
  obtain f w1 where tf: "take_fault w = (f, w1)" by fastforce
  show "tx_commit d ab w = (r, w') \<Longrightarrow> ord_kafka w' = ord_kafka w \<and> (db w' = d \<or> \<not> ab \<and> db w' = db w)"
    using db_take_fault [OF tf] ord_kafka_take_fault [OF tf] tf
    by (cases f) (auto simp: tx_commit_def split: if_splits)
  show "tx_rollback d w = (r, w') \<Longrightarrow> ord_kafka w' = ord_kafka w \<and> db w' = d"
    using ord_kafka_take_fault [OF tf] tf by (cases f) (auto simp: tx_rollback_def)
qed

lemma outbox_Rollback_effect:
  "snd (OutboxPostgres_Rollback (InTx d0 ab) w) = (t', w') \<Longrightarrow>
     t' = NoTx \<and> ord_kafka w' = ord_kafka w \<and> db w' = d0"
proof -
  obtain r w1 where "tx_rollback d0 w = (r, w1)" by fastforce
  with tx_end(2) [OF this] show "snd (OutboxPostgres_Rollback (InTx d0 ab) w) = (t', w') \<Longrightarrow>
     t' = NoTx \<and> ord_kafka w' = ord_kafka w \<and> db w' = d0"
    by (auto simp: OutboxPostgres_Rollback_def)
qed

text \<open>The batch: what it reads, and the end of the poll.\<close>

lemma GetUnprocessed_effect:
  assumes "OutboxPostgres_GetUnprocessed locked n (InTx d0 False) w = (r, t', w')"
  shows "ord_kafka w' = ord_kafka w" "\<exists>ab. t' = InTx d0 ab"
    "r = Inr events \<Longrightarrow> t' = InTx d0 False \<and> db w' = db w \<and>
       events = take (nat n) (sort_key Outbox_CreatedAt (filter (\<lambda>e. due (clock w) e \<and> \<not> locked (Outbox_ID e)) (outbox (db w))))"
proof -
  obtain q t1 w1 where x: "tx_exec (stmt_GetUnprocessed locked (clock w) n) (InTx d0 False) w = (q, t1, w1)"
    using prod_cases3 by blast
  obtain s w2 where y: "rows_Err w1 = (s, w2)" by fastforce
  have k: "ord_kafka w2 = ord_kafka w1"
    using y by (auto simp: rows_Err_def split: prod.splits fault.splits)
  from assms x y have res: "t' = t1" "w' = w1 \<or> w' = w2"
    "r = Inr events \<Longrightarrow> q = Inr events \<and> w' = w2"
    by (cases q; cases s; force simp: OutboxPostgres_GetUnprocessed_def)+
  show "ord_kafka w' = ord_kafka w" using res(2) k ord_kafka_tx_exec [OF x] by auto
  show "\<exists>ab. t' = InTx d0 ab" using x unfolding res(1) by (cases rule: tx_exec_InTx) auto
  show "r = Inr events \<Longrightarrow> t' = InTx d0 False \<and> db w' = db w \<and>
       events = take (nat n) (sort_key Outbox_CreatedAt (filter (\<lambda>e. due (clock w) e \<and> \<not> locked (Outbox_ID e)) (outbox (db w))))"
    using x res rows_Err_db [OF y]
    by (cases rule: tx_exec_InTx) (auto simp: stmt_GetUnprocessed_def query_rows_def)
qed

lemma loop_inv_batch:
  assumes "relay_wf topic d ks"
  shows "loop_inv topic (take n (sort_key Outbox_CreatedAt (filter P (outbox d)))) [] d ks"
proof -
  let ?b = "sort_key Outbox_CreatedAt (filter P (outbox d))"
  have "distinct (map Outbox_ID (outbox d))" using assms by (simp add: relay_wf_def outbox_ids_def)
  then have "distinct (map Outbox_ID ?b)"
    by (simp add: distinct_map distinct_map_filter inj_on_def)
  then have "distinct (map Outbox_ID (take n ?b))" by (simp add: take_map [symmetric])
  moreover have "set (take n ?b) \<subseteq> set (outbox d)" using set_take_subset by fastforce
  ultimately show ?thesis using assms by (simp add: loop_inv_def)
qed

lemma poll_end:
  assumes commit: "(case OutboxPostgres_Commit (InTx d0 ab) w of
      (Some err, t5, w5) \<Rightarrow> snd (OutboxPostgres_Rollback t5 w5) | (None, t5, w5) \<Rightarrow> (t5, w5)) = (t', w')"
  shows "t' = NoTx \<and> ord_kafka w' = ord_kafka w \<and> (db w' = d0 \<or> \<not> ab \<and> db w' = db w)"
proof -
  obtain r w1 where c: "tx_commit d0 ab w = (r, w1)" by fastforce
  have "t' = NoTx" "w' = w1"
    using commit c by (cases r; simp add: OutboxPostgres_Commit_def OutboxPostgres_Rollback_def)+
  then show ?thesis using tx_end(1) [OF c] by simp
qed

lemma poll_mark:
  assumes inv: "\<not> ab \<longrightarrow> loop_inv topic [] processed (db w) (ord_kafka w)"
    and mark: "(if processed \<noteq> [] then OutboxPostgres_BatchMarkProcessed processed (InTx d0 ab) w
           else (Inr (), InTx d0 ab, w)) = (r, t1, w1)"
  shows "ord_kafka w1 = ord_kafka w"
    "\<exists>ab1. t1 = InTx d0 ab1 \<and>
       (\<not> ab1 \<longrightarrow> \<not> ab \<and> relay_wf topic (db w1) (ord_kafka w) \<and> events_of (db w1) = events_of (db w))"
proof -
  obtain q t2 w2 where x: "tx_exec (stmt_MarkProcessed (clock w) processed) (InTx d0 ab) w = (q, t2, w2)"
    using prod_cases3 by blast
  have res: "processed = [] \<and> t1 = InTx d0 ab \<and> w1 = w \<or> t1 = t2 \<and> w1 = w2"
    using mark x by (cases q) (auto simp: OutboxPostgres_BatchMarkProcessed_def split: if_splits)
  then show "ord_kafka w1 = ord_kafka w" using ord_kafka_tx_exec [OF x] by auto
  have wf: "\<not> ab \<Longrightarrow> relay_wf topic (db w) (ord_kafka w)"
    and sent: "\<not> ab \<Longrightarrow> \<forall>e\<in>set (outbox (db w)). Outbox_ID e \<in> set processed \<longrightarrow> message topic e \<in> set (ord_kafka w)"
    using inv by (simp_all add: loop_inv_def)
  from x have "\<exists>ab1. t2 = InTx d0 ab1 \<and>
       (\<not> ab1 \<longrightarrow> \<not> ab \<and> relay_wf topic (db w2) (ord_kafka w) \<and> events_of (db w2) = events_of (db w))"
  proof (cases rule: tx_exec_InTx)
    case (ok u d)
    then show ?thesis using stmt_MarkProcessed_wf [OF wf ok(4) sent] by (intro exI [of _ False]) simp
  next
    case (aborted e)
    then show ?thesis by (intro exI [of _ True]) simp
  qed
  with res wf show "\<exists>ab1. t1 = InTx d0 ab1 \<and>
       (\<not> ab1 \<longrightarrow> \<not> ab \<and> relay_wf topic (db w1) (ord_kafka w) \<and> events_of (db w1) = events_of (db w))"
    by auto
qed

lemma poll_keeps:
  assumes wf: "relay_wf topic (db w) (ord_kafka w)" and poll: "Relay_poll locked topic NoTx w = (t', w')"
  shows "t' = NoTx \<and> relay_wf topic (db w') (ord_kafka w') \<and> events_of (db w') = events_of (db w)
     \<and> prefix (ord_kafka w) (ord_kafka w')"
proof -
  obtain f w1 where tf: "take_fault w = (f, w1)" by fastforce
  have w1: "db w1 = db w" "ord_kafka w1 = ord_kafka w" using tf by simp_all
  obtain r t2 w2 where g: "OutboxPostgres_GetUnprocessed locked 100 (InTx (db w1) False) w1 = (r, t2, w2)"
    using prod_cases3 by blast
  note ge = GetUnprocessed_effect [OF g]
  consider "f \<noteq> NoFault" | e where "f = NoFault" "r = Inl e" | events where "f = NoFault" "r = Inr events"
    by (cases r) auto
  then show ?thesis
  proof cases
    case 1
    then have "t' = NoTx" "w' = w1"
      using poll tf by (cases f; simp add: Relay_poll_def OutboxPostgres_Begin_def)+
    then show ?thesis using w1 wf by simp
  next
    case 2
    then have "snd (OutboxPostgres_Rollback t2 w2) = (t', w')"
      using poll tf g by (simp add: Relay_poll_def OutboxPostgres_Begin_def)
    moreover obtain ab2 where "t2 = InTx (db w1) ab2" using ge(2) by blast
    ultimately have "t' = NoTx \<and> ord_kafka w' = ord_kafka w2 \<and> db w' = db w1"
      using outbox_Rollback_effect by metis
    then show ?thesis using ge(1) w1 wf by simp
  next
    case 3
    have t2: "t2 = InTx (db w) False" and d2: "db w2 = db w"
      and ev: "events = take (nat 100) (sort_key Outbox_CreatedAt
        (filter (\<lambda>e. due (clock w1) e \<and> \<not> locked (Outbox_ID e)) (outbox (db w))))"
      using ge(3) [OF 3(2)] w1 by simp_all
    have k2: "ord_kafka w2 = ord_kafka w" using ge(1) w1 by simp
    obtain processed t3 w3 where l: "relay_events topic (clock w2) events [] t2 w2 = (processed, t3, w3)"
      using prod_cases3 by blast
    have "loop_inv topic events [] (db w2) (ord_kafka w2)"
      unfolding ev d2 k2 by (rule loop_inv_batch [OF wf])
    then obtain ab3 ms where t3: "t3 = InTx (db w) ab3" "ord_kafka w3 = ord_kafka w @ ms"
      "\<not> ab3 \<longrightarrow> loop_inv topic [] processed (db w3) (ord_kafka w3) \<and> events_of (db w3) = events_of (db w)"
      using relay_events_spec [OF l [unfolded t2]] d2 k2 by auto
    obtain q t4 w4 where m: "(if processed \<noteq> [] then OutboxPostgres_BatchMarkProcessed processed t3 w3
        else (Inr (), t3, w3)) = (q, t4, w4)" using prod_cases3 by blast
    have k4: "ord_kafka w4 = ord_kafka w3"
      and "\<exists>ab4. t4 = InTx (db w) ab4 \<and>
       (\<not> ab4 \<longrightarrow> \<not> ab3 \<and> relay_wf topic (db w4) (ord_kafka w3) \<and> events_of (db w4) = events_of (db w3))"
      using poll_mark [OF _ m [unfolded t3(1)]] t3(3) by blast+
    then obtain ab4 where t4: "t4 = InTx (db w) ab4"
      "\<not> ab4 \<longrightarrow> \<not> ab3 \<and> relay_wf topic (db w4) (ord_kafka w3) \<and> events_of (db w4) = events_of (db w3)"
      by blast
    have "Relay_poll locked topic NoTx w =
        (case q of Inl e \<Rightarrow> snd (OutboxPostgres_Rollback t4 w4)
         | Inr _ \<Rightarrow> (case OutboxPostgres_Commit t4 w4 of
             (Some err, t5, w5) \<Rightarrow> snd (OutboxPostgres_Rollback t5 w5) | (None, t5, w5) \<Rightarrow> (t5, w5)))"
      using tf g 3 l m by (cases q) (simp_all add: Relay_poll_def OutboxPostgres_Begin_def)
    then have "t' = NoTx \<and> ord_kafka w' = ord_kafka w4 \<and> (db w' = db w \<or> \<not> ab4 \<and> db w' = db w4)"
      using poll outbox_Rollback_effect [of "db w" ab4 w4 t' w'] poll_end [of "db w" ab4 w4 t' w']
      unfolding t4(1) by (cases q) simp_all
    moreover have "relay_wf topic (db w) (ord_kafka w @ ms)" using wf by (rule relay_wf_mono)
    ultimately show ?thesis using t4(2) t3(2,3) k4 by (elim conjE disjE) simp_all
  qed
qed

section \<open>Polling without failures\<close>

definition batch :: "(uuid \<Rightarrow> bool) \<Rightarrow> int \<Rightarrow> ord_db \<Rightarrow> OutboxEvent list" where
  "batch locked now d = take 100 (sort_key Outbox_CreatedAt (filter (\<lambda>e. due now e \<and> \<not> locked (Outbox_ID e)) (outbox d)))"

definition mark :: "int \<Rightarrow> uuid list \<Rightarrow> ord_db \<Rightarrow> ord_db" where
  "mark now ids d = update_outbox (\<lambda>e. Outbox_ID e \<in> set ids) (\<lambda>e. e\<lparr>Outbox_ProcessedAt := Some (pg_timestamp now)\<rparr>) d"

lemma mark_Nil [simp]: "mark now [] d = d"
  by (simp add: mark_def update_outbox_def)

lemma relay_events_no_faults:
  "faults w = [] \<Longrightarrow> relay_events topic now events processed t w =
     (processed @ map Outbox_ID events, t, w\<lparr>ord_kafka := ord_kafka w @ map (message topic) events\<rparr>)"
  by (induction events arbitrary: processed w)
    (simp_all add: SyncProducer_SendMessage_def take_fault_no_faults message_def)

lemma poll_no_faults:
  assumes "faults w = []"
  shows "Relay_poll locked topic NoTx w =
    (NoTx, w\<lparr>ord_kafka := ord_kafka w @ map (message topic) (batch locked (clock w) (db w)),
             db := mark (clock w) (map Outbox_ID (batch locked (clock w) (db w))) (db w)\<rparr>)"
proof -
  let ?b = "batch locked (clock w) (db w)"
  have g: "OutboxPostgres_GetUnprocessed locked 100 (InTx (db w) False) w = (Inr ?b, InTx (db w) False, w)"
    using assms by (simp add: OutboxPostgres_GetUnprocessed_def tx_exec_def sql_no_faults stmt_GetUnprocessed_def
        query_rows_def rows_Err_no_faults batch_def)
  show ?thesis
    using assms g relay_events_no_faults [OF assms, of topic "clock w" ?b "[]" "InTx (db w) False"]
    by (cases "?b = []")
      (simp_all add: Relay_poll_def OutboxPostgres_Begin_def take_fault_no_faults OutboxPostgres_BatchMarkProcessed_def
        tx_exec_def sql_no_faults stmt_MarkProcessed_def OutboxPostgres_Commit_def tx_commit_def mark_def)
qed

definition due_events :: "('c, 'r, 'x) ow \<Rightarrow> OutboxEvent list" where
  "due_events w = filter (due (clock w)) (outbox (db w))"

definition poll_once :: "string \<Rightarrow> ('c, 'r, 'x) ow \<Rightarrow> ('c, 'r, 'x) ow" where
  "poll_once topic w = snd (Relay_poll (\<lambda>_. False) topic NoTx w)"

lemma filter_due_mark:
  "filter (due now) (map (\<lambda>e. if P e then e\<lparr>Outbox_ProcessedAt := Some n\<rparr> else e) es) = filter (\<lambda>e. due now e \<and> \<not> P e) es"
  by (induction es) (auto simp: due_def)

text \<open>A poll publishes the first hundred due events in the order of their creation and leaves the rest.\<close>

lemma filter_not_prefix: "distinct (xs @ ys) \<Longrightarrow> filter (\<lambda>x. x \<notin> set xs) (xs @ ys) = ys"
  by (auto simp: filter_empty_conv filter_id_conv)

lemma filter_not_taken: "distinct xs \<Longrightarrow> filter (\<lambda>x. x \<notin> set (take n xs)) xs = drop n xs"
  using filter_not_prefix [of "take n xs" "drop n xs"] by (simp only: append_take_drop_id)

definition due_in_order :: "('c, 'r, 'x) ow \<Rightarrow> OutboxEvent list" where
  "due_in_order w = sort_key Outbox_CreatedAt (due_events w)"

lemma poll_progress:
  assumes "faults w = []" "distinct (map Outbox_ID (outbox (db w)))"
  shows "due_in_order (poll_once topic w) = drop 100 (due_in_order w)"
    "ord_kafka (poll_once topic w) = ord_kafka w @ map (message topic) (take 100 (due_in_order w))"
    "faults (poll_once topic w) = []" "map Outbox_ID (outbox (db (poll_once topic w))) = map Outbox_ID (outbox (db w))"
proof -
  let ?ds = "due_events w" and ?b = "take 100 (due_in_order w)"
  have b: "batch (\<lambda>_. False) (clock w) (db w) = ?b" by (simp add: batch_def due_events_def due_in_order_def)
  have p: "poll_once topic w = w\<lparr>ord_kafka := ord_kafka w @ map (message topic) ?b,
      db := mark (clock w) (map Outbox_ID ?b) (db w)\<rparr>"
    using poll_no_faults [OF assms(1), of "\<lambda>_. False" topic] unfolding b by (simp add: poll_once_def)
  show "faults (poll_once topic w) = []" using assms(1) by (simp add: p)
  show "map Outbox_ID (outbox (db (poll_once topic w))) = map Outbox_ID (outbox (db w))"
    by (simp add: p mark_def)
  show "ord_kafka (poll_once topic w) = ord_kafka w @ map (message topic) ?b" by (simp add: p)
  have inj: "inj_on Outbox_ID (set (outbox (db w)))" and dist: "distinct (outbox (db w))"
    using assms(2) by (simp_all add: distinct_map)
  have sub: "set ?b \<subseteq> set ?ds" using set_take_subset by (fastforce simp: due_in_order_def)
  have "due_events (poll_once topic w) = filter (\<lambda>e. Outbox_ID e \<notin> Outbox_ID ` set ?b) ?ds"
    unfolding due_events_def by (simp add: p mark_def filter_due_mark conj_commute)
  also have "\<dots> = filter (\<lambda>e. e \<notin> set ?b) ?ds"
    using sub by (intro filter_cong refl) (auto simp: due_events_def dest: inj_onD [OF inj])
  finally have "due_in_order (poll_once topic w) = filter (\<lambda>e. e \<notin> set ?b) (due_in_order w)"
    unfolding due_in_order_def by (simp add: filter_sort)
  moreover have "distinct (due_in_order w)" using dist by (simp add: due_in_order_def due_events_def)
  ultimately show "due_in_order (poll_once topic w) = drop 100 (due_in_order w)"
    by (simp add: filter_not_taken)
qed

lemma polls_publish:
  assumes "faults w = []" "distinct (map Outbox_ID (outbox (db w)))"
  shows "due_in_order ((poll_once topic ^^ n) w) = drop (100 * n) (due_in_order w)
    \<and> ord_kafka ((poll_once topic ^^ n) w) = ord_kafka w @ map (message topic) (take (100 * n) (due_in_order w))"
  using assms
proof (induction n arbitrary: w)
  case (Suc n)
  note pp = poll_progress [OF Suc.prems, of topic]
  have "due_in_order ((poll_once topic ^^ n) (poll_once topic w)) = drop (100 * n) (due_in_order (poll_once topic w))
    \<and> ord_kafka ((poll_once topic ^^ n) (poll_once topic w)) =
        ord_kafka (poll_once topic w) @ map (message topic) (take (100 * n) (due_in_order (poll_once topic w)))"
    by (rule Suc.IH) (use pp Suc.prems in simp_all)
  then show ?case unfolding funpow_Suc_right o_apply pp(1,2)
    by (simp add: take_add add.commute flip: map_append)
qed simp

section \<open>Properties of the relay\<close>

text \<open>
  C22. Whatever fails while the relay polls (the database, Kafka, the commit), no event is lost or
  altered: the events in the outbox and in its dead-letter table stay the same, only Kafka grows,
  an event is marked processed only once its message is on Kafka, the retry counter of an event in
  the outbox stays below 5 and dead letters have used up exactly 5 attempts.
\<close>

theorem relay_loses_no_event:
  assumes "relay_wf topic (db w) (ord_kafka w)" and "Relay_poll locked topic NoTx w = (t', w')"
  shows "t' = NoTx \<and> relay_wf topic (db w') (ord_kafka w') \<and> events_of (db w') = events_of (db w)
     \<and> prefix (ord_kafka w) (ord_kafka w')"
  by (rule poll_keeps [OF assms])

text \<open>
  A poll without failures publishes the oldest due events, at most 100 and in the order of their
  creation, and marks exactly these as processed.
\<close>

theorem relay_publishes_batch:
  assumes "faults w = []"
  shows "Relay_poll locked topic NoTx w =
    (NoTx, w\<lparr>ord_kafka := ord_kafka w @ map (message topic) (batch locked (clock w) (db w)),
             db := mark (clock w) (map Outbox_ID (batch locked (clock w) (db w))) (db w)\<rparr>)"
  by (rule poll_no_faults [OF assms])

text \<open>
  C23. The outbox drains: when nothing fails and no other relay holds rows, \<open>n\<close> polls put the
  messages of all events that are due on Kafka, each once and in the order of their creation, and
  leave none due, as soon as no more than \<open>100 n\<close> events are.
\<close>

theorem relay_drains:
  assumes "faults w = []" "distinct (map Outbox_ID (outbox (db w)))" "length (due_events w) \<le> 100 * n"
  shows "ord_kafka ((poll_once topic ^^ n) w) = ord_kafka w @ map (message topic) (sort_key Outbox_CreatedAt (due_events w))
    \<and> due_events ((poll_once topic ^^ n) w) = []"
proof -
  have "length (due_in_order w) \<le> 100 * n" using assms(3) by (simp add: due_in_order_def)
  then have "due_in_order ((poll_once topic ^^ n) w) = []"
    "ord_kafka ((poll_once topic ^^ n) w) = ord_kafka w @ map (message topic) (due_in_order w)"
    using polls_publish [OF assms(1,2), of n topic] by simp_all
  moreover have "due_events v = [] \<longleftrightarrow> due_in_order v = []" for v :: "('a, 'b, 'c) ow"
    by (metis due_in_order_def length_0_conv length_sort)
  ultimately show ?thesis by (simp add: due_in_order_def)
qed

text \<open>
  The pause before the next attempt starts at half a second, doubles with every failure and is
  never more than thirty seconds.
\<close>

theorem backoff_bounds:
  assumes "0 \<le> n"
  shows "calculateNextRetry n w = clock w + min maxBackoff (baseBackoff * 2 ^ nat (min n 10))
     \<and> clock w + baseBackoff \<le> calculateNextRetry n w \<and> calculateNextRetry n w \<le> clock w + maxBackoff"
proof -
  define factor :: int where "factor = 2 ^ nat (min n 10)"
  have "nat (min n 10) \<le> 10" by simp
  then have "factor \<le> 2 ^ 10" unfolding factor_def by (rule power_increasing) simp
  then have le: "factor \<le> 1024" by simp
  have ge: "1 \<le> factor" by (simp add: factor_def)
  have f: "i64 factor = factor" "i64 (baseBackoff * factor) = baseBackoff * factor"
    using le ge by (simp_all add: i64_id int8_ok_def baseBackoff_def millisecond_def)
  show ?thesis
    unfolding calculateNextRetry_def Let_def factor_def [symmetric] f
    using le ge by (simp add: min_def baseBackoff_def maxBackoff_def millisecond_def second_def)
qed

section \<open>Witnesses of the relay\<close>

definition relay_event :: "uuid \<Rightarrow> int \<Rightarrow> int \<Rightarrow> OutboxEvent" where
  "relay_event i t n = \<lparr>Outbox_ID = i, Outbox_AggregateType = ''order'', Outbox_AggregateID = ''x'',
     Outbox_EventType = ''OrderCreated'', Outbox_Payload = JNull, Outbox_CreatedAt = t,
     Outbox_ProcessedAt = None, Outbox_RetryCount = n, Outbox_LastError = None, Outbox_NextRetryAt = Some 0\<rparr>"

definition relay_db :: ord_db where
  "relay_db = \<lparr>orders = [], order_items = [], sagas = [], outbox = [relay_event 1 2 4, relay_event 2 1 0], outbox_dlq = []\<rparr>"

definition relay_world :: "fault list \<Rightarrow> (unit, unit) ord_world" where
  "relay_world fs = \<lparr>faults = fs, clock = 5, uuid_src = (\<lambda>n. 3), uuid_ctr = 0, db = relay_db,
     ord_redis = None, ord_cache = (), ord_kafka = [], remote = ()\<rparr>"

lemma relay_db_wf: "relay_wf topic relay_db []"
  by (simp add: relay_wf_def relay_db_def relay_event_def outbox_ids_def relay_maxRetries_def)

lemma relay_world_simps [simp]:
  "faults (relay_world fs) = fs" "db (relay_world fs) = relay_db" "ord_kafka (relay_world fs) = []"
  "clock (relay_world fs) = 5"
  by (simp_all add: relay_world_def)

theorem relay_loses_no_event_witness:
  "relay_wf ''orders'' relay_db [] \<and>
   (let r = Relay_poll (\<lambda>_. False) ''orders'' NoTx
              (relay_world [NoFault, NoFault, NoFault, FailAfter (StdErr ''ack''), NoFault, FailBefore (StdErr ''net'')])
    in fst r = NoTx \<and> events_of (db (snd r)) = events_of relay_db)"
  using relay_loses_no_event [of "''orders''" "relay_world [NoFault, NoFault, NoFault, FailAfter (StdErr ''ack''),
      NoFault, FailBefore (StdErr ''net'')]", OF _ surjective_pairing]
  by (simp add: relay_db_wf Let_def)

theorem relay_publishes_batch_witness:
  "ord_kafka (snd (Relay_poll (\<lambda>_. False) ''orders'' NoTx (relay_world []))) =
     [message ''orders'' (relay_event 2 1 0), message ''orders'' (relay_event 1 2 4)]"
  using relay_publishes_batch [of "relay_world []" "\<lambda>_. False" "''orders''"]
  by (simp add: batch_def relay_db_def relay_event_def due_def)

theorem relay_drains_witness:
  "ord_kafka ((poll_once ''orders'' ^^ 1) (relay_world [])) =
     [message ''orders'' (relay_event 2 1 0), message ''orders'' (relay_event 1 2 4)]
   \<and> due_events ((poll_once ''orders'' ^^ 1) (relay_world [])) = []"
  using relay_drains [of "relay_world []" 1 "''orders''"]
  by (simp add: relay_db_def relay_event_def due_events_def due_def)

theorem backoff_bounds_witness: "calculateNextRetry 3 (relay_world []) = 5 + 4000000000"
  using backoff_bounds [of 3 "relay_world []"]
  by (simp add: baseBackoff_def maxBackoff_def millisecond_def second_def)

end
