(* ===== verification/Go_Time.thy ===== *)
theory Go_Time
  imports Go_Std "HOL-Library.Monad_Syntax"
begin

text \<open>
  The parser of \<^verbatim>\<open>time.Parse\<close> for the RFC 3339 format, which \<^verbatim>\<open>time.Time\<close> also uses to read itself from
  JSON, and the proof that it reads back every instant of the years 0 to 9999 that the formatter
  writes. The calendar arithmetic is justified year by year within one cycle of 400 years.
\<close>

section \<open>The parser\<close>

definition digit :: "char \<Rightarrow> bool" where
  "digit c \<longleftrightarrow> 48 \<le> (of_char c :: nat) \<and> (of_char c :: nat) \<le> 57"

definition num :: "string \<Rightarrow> int" where
  "num s = foldl (\<lambda>a c. 10 * a + (int (of_char c) - 48)) 0 s"

definition digits :: "nat \<Rightarrow> string \<Rightarrow> (int \<times> string) option" where
  "digits n s = (if n \<le> length s \<and> list_all digit (take n s) then Some (num (take n s), drop n s) else None)"

definition expect :: "char \<Rightarrow> string \<Rightarrow> string option" where
  "expect c s = (case s of [] \<Rightarrow> None | x # xs \<Rightarrow> if x = c then Some xs else None)"

text \<open>Outside JSON, an hour of one digit and a comma before the fraction are accepted.\<close>

definition hour :: "bool \<Rightarrow> string \<Rightarrow> (int \<times> string) option" where
  "hour strict s = (case digits 2 s of Some r \<Rightarrow> Some r | None \<Rightarrow> if strict then None else digits 1 s)"

definition fraction :: "bool \<Rightarrow> string \<Rightarrow> (int \<times> string) option" where
  "fraction strict s =
     (case s of
        [] \<Rightarrow> Some (0, s)
      | x # xs \<Rightarrow>
          let ds = takeWhile digit xs; ns = take 9 ds in
          if (x = CHR ''.'' \<or> x = CHR '','' \<and> \<not> strict) \<and> ds \<noteq> []
          then Some (num ns * 10 ^ (9 - length ns), dropWhile digit xs)
          else Some (0, s))"

definition zone :: "bool \<Rightarrow> string \<Rightarrow> int option" where
  "zone strict s =
     (if s = ''Z'' then Some 0
      else do {
        sign \<leftarrow> (case s of CHR ''+'' # _ \<Rightarrow> Some 1 | CHR ''-'' # _ \<Rightarrow> Some (- 1) | _ \<Rightarrow> None);
        (h, s1) \<leftarrow> digits 2 (tl s);
        s2 \<leftarrow> expect (CHR '':'') s1;
        (m, s3) \<leftarrow> digits 2 s2;
        if s3 = [] \<and> (if strict then h < 24 \<and> m < 60 else h \<le> 24 \<and> m \<le> 60)
        then Some (sign * (h * 3600 + m * 60)) else None
      })"

definition leap :: "int \<Rightarrow> bool" where
  "leap y \<longleftrightarrow> y mod 4 = 0 \<and> (y mod 100 \<noteq> 0 \<or> y mod 400 = 0)"

definition days_in :: "int \<Rightarrow> int \<Rightarrow> int" where
  "days_in y m = (if m = 2 then (if leap y then 29 else 28) else if m \<in> {4, 6, 9, 11} then 30 else 31)"

definition days_of_civil :: "int \<Rightarrow> int \<Rightarrow> int \<Rightarrow> int" where
  "days_of_civil y m d =
     (let y' = (if m \<le> 2 then y - 1 else y);
          yoe = y' mod 400;
          mp = (if m > 2 then m - 3 else m + 9);
          doy = (153 * mp + 2) div 5 + d - 1
      in y' div 400 * 146097 + 365 * yoe + yoe div 4 - yoe div 100 + doy - 719468)"

definition time_Parse :: "bool \<Rightarrow> string \<Rightarrow> int option" where
  "time_Parse strict s = do {
     (y, s) \<leftarrow> digits 4 s; s \<leftarrow> expect (CHR ''-'') s;
     (mo, s) \<leftarrow> digits 2 s; s \<leftarrow> expect (CHR ''-'') s;
     (d, s) \<leftarrow> digits 2 s; s \<leftarrow> expect (CHR ''T'') s;
     (h, s) \<leftarrow> hour strict s; s \<leftarrow> expect (CHR '':'') s;
     (mi, s) \<leftarrow> digits 2 s; s \<leftarrow> expect (CHR '':'') s;
     (sec, s) \<leftarrow> digits 2 s;
     (ns, s) \<leftarrow> fraction strict s;
     off \<leftarrow> zone strict s;
     if 1 \<le> mo \<and> mo \<le> 12 \<and> 1 \<le> d \<and> d \<le> days_in y mo \<and> h < 24 \<and> mi < 60 \<and> sec < 60
     then Some ((days_of_civil y mo d * 86400 + h * 3600 + mi * 60 + sec - off) * 1000000000 + ns)
     else None
   }"

lemma time_Parse_example: "time_Parse True ''2023-11-14T23:13:20.25+01:00'' = Some (1700000000250000000)"
  by code_simp

section \<open>The calendar\<close>

text \<open>The first day of a year within the cycle; a year starts in March.\<close>

definition year_start :: "int \<Rightarrow> int" where
  "year_start y = 365 * y + y div 4 - y div 100"

definition year_of :: "int \<Rightarrow> int" where
  "year_of doe = (doe - doe div 1460 + doe div 36524 - doe div 146096) div 365"

definition year_last :: "int \<Rightarrow> int" where
  "year_last y = (if y = 399 then 146096 else year_start (y + 1) - 1)"

lemma year_endpoints:
  "list_all (\<lambda>y. year_of (year_start y) = y \<and> year_of (year_last y) = y
     \<and> year_last y - year_start y = (if leap (y + 1) then 365 else 364)) (map int [0..<400])"
  by code_simp

lemma div_step:
  fixes x n :: int
  assumes "0 < n"
  shows "(x + 1) div n = x div n + (if (x + 1) mod n = 0 then 1 else 0)"
proof -
  have y: "x + 1 = n * ((x + 1) div n) + (x + 1) mod n" by simp
  have b: "0 \<le> (x + 1) mod n" "(x + 1) mod n < n" using assms by simp_all
  show ?thesis
  proof (cases "(x + 1) mod n = 0")
    case True
    have "n * ((x + 1) div n - 1) = n * ((x + 1) div n) - n" by (rule right_diff_distrib [of n _ 1, unfolded mult_1_right])
    then have "x = n * ((x + 1) div n - 1) + (n - 1)" using y True by linarith
    then have "x div n = (x + 1) div n - 1" by (rule int_div_pos_eq) (use assms in simp_all)
    with True show ?thesis by simp
  next
    case False
    have "x = n * ((x + 1) div n) + ((x + 1) mod n - 1)" using y by linarith
    then have "x div n = (x + 1) div n" by (rule int_div_pos_eq) (use b False in simp_all)
    with False show ?thesis by simp
  qed
qed

lemma year_of_step: "year_of x \<le> year_of (x + 1)"
proof -
  have "(x + 1) mod 36524 = 0" if "(x + 1) mod 146096 = 0"
    using that dvd_trans [of 36524 146096 "x + 1"] by (simp add: mod_eq_0_iff_dvd)
  then have "x - x div 1460 + x div 36524 - x div 146096 \<le> (x + 1) - (x + 1) div 1460 + (x + 1) div 36524 - (x + 1) div 146096"
    by (simp add: div_step)
  then show ?thesis unfolding year_of_def by (rule zdiv_mono1) simp
qed

lemma year_of_mono: "x \<le> y \<Longrightarrow> year_of x \<le> year_of y"
proof (induction y rule: int_ge_induct)
  case (step y)
  then show ?case using year_of_step [of y] by linarith
qed simp

lemma year_facts:
  assumes "0 \<le> y" "y < 400"
  shows "year_of (year_start y) = y" "year_of (year_last y) = y"
    "year_last y - year_start y = (if leap (y + 1) then 365 else 364)"
proof -
  have "y = int (nat y)" "nat y \<in> set [0..<400]" using assms by auto
  then show "year_of (year_start y) = y" "year_of (year_last y) = y"
    "year_last y - year_start y = (if leap (y + 1) then 365 else 364)"
    using year_endpoints unfolding list_all_iff by (metis (no_types, lifting) image_eqI list.set_map)+
qed

lemma year_exists:
  assumes "0 \<le> n" "n < 400" "0 \<le> doe" "doe \<le> year_last n"
  shows "\<exists>y\<ge>0. y < 400 \<and> year_start y \<le> doe \<and> doe \<le> year_last y"
  using assms
proof (induction n rule: int_ge_induct)
  case base
  then show ?case by (intro exI [of _ 0]) (simp add: year_start_def)
next
  case (step n)
  show ?case
  proof (cases "doe \<le> year_last n")
    case False
    then have "year_start (n + 1) \<le> doe" using step.prems by (simp add: year_last_def)
    then show ?thesis using step by (intro exI [of _ "n + 1"]) simp
  qed (use step in simp)
qed

lemma day_of_year:
  assumes "0 \<le> doe" "doe < 146097"
  shows "0 \<le> year_of doe" "year_of doe < 400" "0 \<le> doe - year_start (year_of doe)"
    "doe - year_start (year_of doe) \<le> (if leap (year_of doe + 1) then 365 else 364)"
proof -
  obtain y where y: "0 \<le> y" "y < 400" "year_start y \<le> doe" "doe \<le> year_last y"
    using year_exists [of 399 doe] assms by (auto simp: year_last_def)
  have "year_of doe = y"
    using year_of_mono [OF y(3)] year_of_mono [OF y(4)] year_facts [OF y(1,2)] by simp
  with y year_facts(3) [OF y(1,2)]
  show "0 \<le> year_of doe" "year_of doe < 400" "0 \<le> doe - year_start (year_of doe)"
    "doe - year_start (year_of doe) \<le> (if leap (year_of doe + 1) then 365 else 364)" by auto
qed

text \<open>Months and days of the days of a year, from March to February.\<close>

lemma month_days:
  "list_all (\<lambda>doy. let mp = (5 * doy + 2) div 153; d = doy - (153 * mp + 2) div 5 + 1 in
     0 \<le> mp \<and> mp \<le> 11 \<and> 1 \<le> d \<and> d \<le> (if mp = 11 then (if doy = 365 then 29 else 28) else if mp \<in> {1, 3, 6, 8} then 30 else 31))
     (map int [0..<366])"
  by code_simp

lemma month_facts:
  fixes doy :: int
  assumes "0 \<le> doy" "doy < 366"
  defines "mp \<equiv> (5 * doy + 2) div 153"
  defines "d \<equiv> doy - (153 * mp + 2) div 5 + 1"
  shows "0 \<le> mp" "mp \<le> 11" "1 \<le> d" "d \<le> (if mp = 11 then (if doy = 365 then 29 else 28) else if mp \<in> {1, 3, 6, 8} then 30 else 31)"
proof -
  have "doy = int (nat doy)" "nat doy \<in> set [0..<366]" using assms by auto
  then have "let mp = (5 * doy + 2) div 153; d = doy - (153 * mp + 2) div 5 + 1 in
     0 \<le> mp \<and> mp \<le> 11 \<and> 1 \<le> d \<and> d \<le> (if mp = 11 then (if doy = 365 then 29 else 28) else if mp \<in> {1, 3, 6, 8} then 30 else 31)"
    using month_days unfolding list_all_iff by (metis (no_types, lifting) image_eqI list.set_map)
  then show "0 \<le> mp" "mp \<le> 11" "1 \<le> d" "d \<le> (if mp = 11 then (if doy = 365 then 29 else 28) else if mp \<in> {1, 3, 6, 8} then 30 else 31)"
    unfolding mp_def d_def Let_def by simp_all
qed


text \<open>The date of a day is a valid one, and the day is computed back from it.\<close>

lemma civil_valid:
  assumes "civil z = (y, m, d)"
  shows "1 \<le> m" "m \<le> 12" "1 \<le> d" "d \<le> days_in y m" "days_of_civil y m d = z"
proof -
  define era where "era = (z + 719468) div 146097"
  define doe where "doe = (z + 719468) mod 146097"
  define yoe where "yoe = year_of doe"
  define doy where "doy = doe - year_start yoe"
  define mp where "mp = (5 * doy + 2) div 153"
  have doe: "0 \<le> doe" "doe < 146097" by (simp_all add: doe_def)
  note dy = day_of_year [OF doe, folded yoe_def, folded doy_def]
  have doy: "0 \<le> doy" "doy < 366" using dy by (auto split: if_splits)
  note mf = month_facts [OF doy, folded mp_def]
  have ymd: "m = (if mp < 10 then mp + 3 else mp - 9)" "d = doy - (153 * mp + 2) div 5 + 1"
    "y = yoe + era * 400 + (if m \<le> 2 then 1 else 0)"
  proof -
    have "civil z = (let m = (if mp < 10 then mp + 3 else mp - 9)
        in (yoe + era * 400 + (if m \<le> 2 then 1 else 0), m, doy - (153 * mp + 2) div 5 + 1))"
      unfolding civil_def mp_def doy_def yoe_def era_def doe_def year_of_def year_start_def Let_def by (rule refl)
    then show "m = (if mp < 10 then mp + 3 else mp - 9)" "d = doy - (153 * mp + 2) div 5 + 1"
      "y = yoe + era * 400 + (if m \<le> 2 then 1 else 0)"
      unfolding assms Let_def prod.inject by blast+
  qed
  show "1 \<le> m" "m \<le> 12" using mf(1,2) by (auto simp: ymd(1))
  show "1 \<le> d" using mf(3) by (simp add: ymd(2))
  have m2: "m \<le> 2 \<longleftrightarrow> 10 \<le> mp" using mf(1,2) by (auto simp: ymd(1))
  have "leap (yoe + 1 + 400 * era) = leap (yoe + 1)"
  proof -
    have "(yoe + 1 + 4 * (100 * era)) mod 4 = (yoe + 1) mod 4" "(yoe + 1 + 100 * (4 * era)) mod 100 = (yoe + 1) mod 100"
      by (rule mod_mult_self2)+
    then have "(yoe + 1 + 400 * era) mod 4 = (yoe + 1) mod 4" "(yoe + 1 + 400 * era) mod 100 = (yoe + 1) mod 100"
      by simp_all
    then show ?thesis unfolding leap_def by (simp only: mod_mult_self2)
  qed
  then have l: "leap y = leap (yoe + 1)" if "mp = 11" using that by (simp add: ymd(3) m2 ac_simps)
  note dmax = mf(4) [folded ymd(2)]
  consider "mp = 11" | "mp = 10" | "mp < 10" using mf(2) by linarith
  then show "d \<le> days_in y m"
  proof cases
    case 1
    then show ?thesis using dmax dy(4) l by (cases "leap y") (auto simp: ymd(1) days_in_def split: if_splits)
  next
    case 2
    then show ?thesis using dmax by (simp add: ymd(1) days_in_def)
  next
    case 3
    then have "m = mp + 3" "m \<noteq> 2" "mp \<noteq> 11" using mf(1) by (simp_all add: ymd(1))
    moreover have "m \<in> {4, 6, 9, 11} \<longleftrightarrow> mp \<in> {1, 3, 6, 8}" unfolding \<open>m = mp + 3\<close> by auto
    ultimately show ?thesis using dmax unfolding days_in_def by (simp only: if_False)
  qed
  have "y - (if m \<le> 2 then 1 else 0) = yoe + 400 * era" by (simp add: ymd(3))
  then have ym: "(if m \<le> 2 then y - 1 else y) = yoe + 400 * era" by (simp split: if_splits)
  have "(if m > 2 then m - 3 else m + 9) = mp" using mf(1,2) by (auto simp: ymd(1))
  moreover have "(yoe + 400 * era) mod 400 = yoe" "(yoe + 400 * era) div 400 = era" using dy(1,2) by simp_all
  moreover have "era * 146097 + doe = z + 719468" by (simp add: era_def doe_def)
  moreover have "365 * yoe + yoe div 4 - yoe div 100 = doe - doy" by (simp add: doy_def year_start_def)
  ultimately show "days_of_civil y m d = z"
    unfolding days_of_civil_def Let_def ym by (simp add: ymd(2))
qed


section \<open>Digits\<close>

lemma digit_char [simp]: "n < 10 \<Longrightarrow> digit (char_of (48 + n))" for n :: nat
  by (simp add: digit_def)

lemma num_snoc: "num (s @ [c]) = 10 * num s + (int (of_char c) - 48)"
  by (simp add: num_def)

lemma num_Nil [simp]: "num [] = 0"
  by (simp add: num_def)

lemma nat_str_digits: "list_all digit (nat_str n) \<and> num (nat_str n) = int n \<and> nat_str n \<noteq> []"
proof (induction n rule: nat_str.induct)
  case (1 n)
  show ?case
  proof (cases "n < 10")
    case True
    then show ?thesis by (simp add: nat_str.simps [of n] num_snoc [of "[]", simplified])
  next
    case False
    have "digit (char_of (48 + n mod 10))" by (rule digit_char) simp
    moreover have "10 * int (n div 10) + int (n mod 10) = int n" by (metis mult_div_mod_eq of_nat_add of_nat_mult of_nat_numeral)
    ultimately show ?thesis using 1 [OF False] False by (simp add: nat_str.simps [of n] num_snoc zmod_int)
  qed
qed

lemma nat_str_length: "0 < k \<Longrightarrow> n < 10 ^ k \<Longrightarrow> length (nat_str n) \<le> k"
proof (induction n arbitrary: k rule: nat_str.induct)
  case (1 n)
  show ?case
  proof (cases "n < 10")
    case True
    then show ?thesis using 1 by (simp add: nat_str.simps [of n])
  next
    case False
    then obtain j where j: "k = Suc j" "0 < j" using 1(2,3) by (cases k; cases "k - 1") auto
    have "n div 10 < 10 ^ j" using 1(3) by (simp add: j(1) less_mult_imp_div_less mult.commute)
    then show ?thesis using 1(1) [OF False j(2)] False by (simp add: nat_str.simps [of n] j(1))
  qed
qed

lemma num_append_zeros: "num (s @ replicate j (CHR ''0'')) = num s * 10 ^ j"
proof (induction j)
  case (Suc j)
  have "num (s @ replicate (Suc j) (CHR ''0'')) = num ((s @ replicate j (CHR ''0'')) @ [CHR ''0''])"
    by (simp add: replicate_append_same)
  also have "\<dots> = 10 * num (s @ replicate j (CHR ''0''))" unfolding num_snoc by simp
  finally show ?case by (simp add: Suc)
qed simp

lemma num_zeros_append: "num (replicate j (CHR ''0'') @ s) = num s"
proof (induction s rule: rev_induct)
  case Nil
  show ?case using num_append_zeros [of "[]" j] by simp
next
  case (snoc c s)
  then show ?case by (simp only: append_assoc [symmetric] num_snoc)
qed

lemma pad_digits:
  assumes "0 \<le> k" "k < 10 ^ n" "0 < n"
  shows "length (pad n k) = n" "list_all digit (pad n k)" "num (pad n k) = k"
proof -
  have s: "int_str k = nat_str (nat k)" using assms(1) by (simp add: int_str_def)
  have "nat k < 10 ^ n" using assms by (simp add: nat_less_iff)
  with nat_str_length [OF assms(3)] have l: "length (nat_str (nat k)) \<le> n" by blast
  then show "length (pad n k) = n" by (simp add: pad_def s Let_def)
  have "digit (CHR ''0'')" by (simp add: digit_def)
  then show "list_all digit (pad n k)" using nat_str_digits [of "nat k"]
    by (auto simp: pad_def s list_all_iff Let_def)
  show "num (pad n k) = k" using nat_str_digits [of "nat k"] assms(1)
    by (simp add: pad_def s Let_def num_zeros_append)
qed

lemma digits_pad:
  assumes "0 \<le> k" "k < 10 ^ n" "0 < n"
  shows "digits n (pad n k @ s) = Some (k, s)"
  using pad_digits [OF assms] by (simp add: digits_def)

lemma fraction_strip:
  assumes "0 < ns" "ns < 1000000000"
  defines "f \<equiv> rev (dropWhile (\<lambda>c. c = CHR ''0'') (rev (pad 9 ns)))"
  shows "fraction b (CHR ''.'' # f @ ''Z'') = Some (ns, ''Z'')"
proof -
  have p: "length (pad 9 ns) = 9" "list_all digit (pad 9 ns)" "num (pad 9 ns) = ns"
    using pad_digits [of ns 9] assms by simp_all
  have z: "takeWhile (\<lambda>c. c = CHR ''0'') xs = replicate (length (takeWhile (\<lambda>c. c = CHR ''0'') xs)) (CHR ''0'')" for xs
    by (induction xs) simp_all
  have split: "pad 9 ns = f @ replicate (9 - length f) (CHR ''0'')"
  proof -
    have "rev (pad 9 ns) = takeWhile (\<lambda>c. c = CHR ''0'') (rev (pad 9 ns)) @ rev f" by (simp add: f_def)
    then have "pad 9 ns = f @ rev (takeWhile (\<lambda>c. c = CHR ''0'') (rev (pad 9 ns)))" by (simp add: rev_swap)
    moreover from this have "length (takeWhile (\<lambda>c. c = CHR ''0'') (rev (pad 9 ns))) = 9 - length f"
      using p(1) by (metis add_diff_cancel_left' length_append length_rev)
    ultimately show ?thesis using z [of "rev (pad 9 ns)"] by (metis rev_replicate)
  qed
  have d: "list_all digit f" using p(2) split by (metis list_all_append)
  have len: "length f \<le> 9" using p(1) split by (metis length_append le_add1)
  have "num f * 10 ^ (9 - length f) = ns" using p(3) split num_append_zeros by metis
  moreover from this have "f \<noteq> []" using assms(1) by auto
  moreover have "takeWhile digit (f @ ''Z'') = f" "dropWhile digit (f @ ''Z'') = ''Z''"
    using d by (simp_all add: list_all_iff takeWhile_append2 dropWhile_append2 digit_def)
  ultimately show ?thesis using len by (simp add: fraction_def Let_def)
qed

section \<open>The round trip\<close>

definition time_ok :: "int \<Rightarrow> bool" where
  "time_ok t \<longleftrightarrow> (case civil (t div 1000000000 div 86400) of (y, m, d) \<Rightarrow> 0 \<le> y \<and> y < 10000)"

lemma time_Parse_parts:
  assumes t: "time_ok t" and fr: "fraction b z = Some (ns, ''Z'')"
  shows "time_Parse b (butlast (time_RFC3339 t) @ z) = Some (t div 1000000000 * 1000000000 + ns)"
proof -
  define secs where "secs = t div 1000000000"
  define sod where "sod = secs mod 86400"
  obtain y m d where c: "civil (secs div 86400) = (y, m, d)" by (cases "civil (secs div 86400)")
  note v = civil_valid [OF c]
  have y: "0 \<le> y" "y < 10000" using t by (simp_all add: time_ok_def secs_def [symmetric] c)
  have d: "d \<le> 31" using v(4) by (simp add: days_in_def split: if_splits)
  have sod: "0 \<le> sod" "sod < 86400" by (simp_all add: sod_def)
  have h: "0 \<le> sod div 3600" "sod div 3600 < 24" using sod by auto
  have s: "butlast (time_RFC3339 t) @ z = pad 4 y @ ''-'' @ pad 2 m @ ''-'' @ pad 2 d @ ''T'' @ pad 2 (sod div 3600) @ '':'' @
      pad 2 (sod div 60 mod 60) @ '':'' @ pad 2 (sod mod 60) @ z"
    by (simp add: time_RFC3339_def secs_def [symmetric] sod_def [symmetric] c butlast_append Let_def)
  have p: "digits 4 (pad 4 y @ r) = Some (y, r)" "digits 2 (pad 2 m @ r) = Some (m, r)" "digits 2 (pad 2 d @ r) = Some (d, r)"
    "digits 2 (pad 2 (sod div 3600) @ r) = Some (sod div 3600, r)" "digits 2 (pad 2 (sod div 60 mod 60) @ r) = Some (sod div 60 mod 60, r)"
    "digits 2 (pad 2 (sod mod 60) @ r) = Some (sod mod 60, r)" for r
    by (rule digits_pad; use y v d h in simp; fail)+
  have "sod div 3600 = sod div 60 div 60" using zdiv_zmult2_eq [of 60 sod 60] by simp
  then have e: "sod div 3600 * 3600 + sod div 60 mod 60 * 60 + sod mod 60 = sod"
    using div_mult_mod_eq [of "sod div 60" 60] div_mult_mod_eq [of sod 60] by linarith
  have st: "secs div 86400 * 86400 + sod = secs" by (simp add: sod_def)
  have "time_Parse b (butlast (time_RFC3339 t) @ z) =
      Some ((days_of_civil y m d * 86400 + sod div 3600 * 3600 + sod div 60 mod 60 * 60 + sod mod 60 - 0) * 1000000000 + ns)"
    unfolding s time_Parse_def using v h by (simp add: p expect_def hour_def zone_def fr)
  also have "days_of_civil y m d * 86400 + sod div 3600 * 3600 + sod div 60 mod 60 * 60 + sod mod 60 - 0 = t div 1000000000"
    using e st v(5) unfolding secs_def by linarith
  finally show ?thesis .
qed

lemma time_Parse_RFC3339Nano:
  assumes "time_ok t"
  shows "time_Parse b (time_RFC3339Nano t) = Some t"
proof (cases "t mod 1000000000 = 0")
  case True
  have "fraction b ''Z'' = Some (0, ''Z'')" by (simp add: fraction_def)
  from time_Parse_parts [OF assms this] show ?thesis
    using True div_mult_mod_eq [of t 1000000000] by (simp add: time_RFC3339Nano_def Let_def)
next
  case False
  have "0 \<le> t mod 1000000000" and lt: "t mod 1000000000 < 1000000000" by simp_all
  with False have gt: "0 < t mod 1000000000" by linarith
  from time_Parse_parts [OF assms fraction_strip [OF gt lt]] show ?thesis
    using False by (simp add: time_RFC3339Nano_def Let_def)
qed

lemma time_Parse_RFC3339:
  assumes "time_ok t"
  shows "time_Parse b (time_RFC3339 t) = Some (t div 1000000000 * 1000000000)"
proof -
  have "fraction b ''Z'' = Some (0, ''Z'')" by (simp add: fraction_def)
  moreover have "butlast (time_RFC3339 t) @ ''Z'' = time_RFC3339 t"
    by (simp add: time_RFC3339_def Let_def butlast_append split: prod.splits)
  ultimately show ?thesis using time_Parse_parts [OF assms, of b "''Z''" 0] by simp
qed

end
