(* ===== verification/Catalog_Model.thy ===== *)
theory Catalog_Model
  imports Auth_Context Go_Time
begin

text \<open>
  The catalog service (src/services/catalog-service): products and outbox events, their
  PostgreSQL repositories, the use case that writes a product and its event in one transaction,
  and the gRPC handlers. The search index and the relay that feeds it are in the theory
  \<^verbatim>\<open>Catalog_Search\<close>.
\<close>

section \<open>Data\<close>

record Product =
  Product_ID :: uuid
  Product_Name :: string
  Product_Description :: string
  Product_Price :: int
  Product_Categories :: "string list"
  Product_IdempotencyKey :: string
  Product_CreatedAt :: int

record CatalogEvent =
  CEvent_ID :: uuid
  CEvent_AggregateType :: string
  CEvent_AggregateID :: string
  CEvent_EventType :: string
  CEvent_Payload :: json
  CEvent_CreatedAt :: int
  CEvent_ProcessedAt :: "int option"
  CEvent_RetryCount :: int
  CEvent_LastError :: "string option"
  CEvent_NextRetryAt :: "int option"

record CatalogDLQEvent =
  CDLQ_ID :: uuid
  CDLQ_AggregateType :: string
  CDLQ_AggregateID :: string
  CDLQ_EventType :: string
  CDLQ_Payload :: json
  CDLQ_CreatedAt :: int
  CDLQ_FailedAt :: int
  CDLQ_LastError :: "string option"
  CDLQ_RetryCount :: int

record cat_db =
  products :: "Product list"
  cat_outbox :: "CatalogEvent list"
  cat_dlq :: "CatalogDLQEvent list"

text \<open>The state of the search index is that of an external service; its type is a parameter.\<close>

record 'e cat_world = "cat_db world" +
  es :: 'e

type_synonym ('e, 'x) cw = "('e, 'x) cat_world_scheme"

section \<open>The product repository\<close>

definition product_checks :: "Product \<Rightarrow> go_error option" where
  "product_checks p =
     (if utf8_length (Product_Name p) > 255 then Some (StdErr ''value too long for type character varying(255)'')
      else if Product_Price p < 0 then Some (StdErr ''new row violates check constraint chk_products_price'')
      else None)"

text \<open>
  The insert finds a row with the same idempotency key and returns its id, or adds the product;
  the price is checked before, the primary key last.
\<close>

definition stmt_InsertProduct :: "Product \<Rightarrow> (cat_db, uuid) stmt" where
  "stmt_InsertProduct product d =
     (case product_checks product of
        Some err \<Rightarrow> Inl err
      | None \<Rightarrow>
          if utf8_length (Product_IdempotencyKey product) > 255
          then Inl (StdErr ''value too long for type character varying(255)'')
          else (case find (\<lambda>p. Product_IdempotencyKey p = Product_IdempotencyKey product) (products d) of
                  Some p \<Rightarrow> Inr (Product_ID p, d)
                | None \<Rightarrow>
                    if list_ex (\<lambda>p. Product_ID p = Product_ID product) (products d)
                    then Inl (StdErr ''duplicate key value violates unique constraint products_pkey'')
                    else Inr (Product_ID product, d\<lparr>products := products d @
                           [product\<lparr>Product_CreatedAt := pg_timestamp (Product_CreatedAt product)\<rparr>]\<rparr>)))"

definition ProductPostgres_Create :: "Product \<Rightarrow> ('e, 'x) cw \<Rightarrow> uuid result \<times> ('e, 'x) cw" where
  "ProductPostgres_Create product w =
     (case sql (stmt_InsertProduct product) w of
        (Inl err, w1) \<Rightarrow> (Inl (errorf ''insert product'' err), w1)
      | (Inr i, w1) \<Rightarrow>
          if i \<noteq> Product_ID product then (Inl (Sentinel ErrAlreadyExists), w1) else (Inr i, w1))"

definition stmt_GetProduct :: "uuid \<Rightarrow> (cat_db, Product) stmt" where
  "stmt_GetProduct i = query_row (\<lambda>d. find (\<lambda>p. Product_ID p = i) (products d))"

definition ProductPostgres_GetByID :: "uuid \<Rightarrow> ('e, 'x) cw \<Rightarrow> Product result \<times> ('e, 'x) cw" where
  "ProductPostgres_GetByID i w =
     (case sql (stmt_GetProduct i) w of
        (Inl err, w1) \<Rightarrow>
          if errors_Is err ErrNoRows then (Inl (sentinelf ErrNotFound ''product''), w1)
          else (Inl (errorf ''get product by id'' err), w1)
      | (Inr p, w1) \<Rightarrow> (Inr p, w1))"

definition set_product :: "Product \<Rightarrow> Product \<Rightarrow> Product" where
  "set_product product p =
     p\<lparr>Product_Name := Product_Name product, Product_Description := Product_Description product,
       Product_Price := Product_Price product, Product_Categories := Product_Categories product\<rparr>"

text \<open>The statement returns the number of rows it updated.\<close>

definition stmt_UpdateProduct :: "Product \<Rightarrow> (cat_db, int) stmt" where
  "stmt_UpdateProduct product d =
     (let n = length (filter (\<lambda>p. Product_ID p = Product_ID product) (products d)) in
      if n = 0 then Inr (0, d)
      else (case product_checks product of
              Some err \<Rightarrow> Inl err
            | None \<Rightarrow> Inr (int n, d\<lparr>products := map (\<lambda>p. if Product_ID p = Product_ID product then set_product product p else p)
                                       (products d)\<rparr>)))"

definition ProductPostgres_Update :: "Product \<Rightarrow> ('e, 'x) cw \<Rightarrow> unit result \<times> ('e, 'x) cw" where
  "ProductPostgres_Update product w =
     (case sql (stmt_UpdateProduct product) w of
        (Inl err, w1) \<Rightarrow> (Inl (errorf ''update product'' err), w1)
      | (Inr n, w1) \<Rightarrow> if n = 0 then (Inl (sentinelf ErrNotFound ''product''), w1) else (Inr (), w1))"

definition stmt_DeleteProduct :: "uuid \<Rightarrow> (cat_db, int) stmt" where
  "stmt_DeleteProduct i d =
     Inr (int (length (filter (\<lambda>p. Product_ID p = i) (products d))),
          d\<lparr>products := filter (\<lambda>p. Product_ID p \<noteq> i) (products d)\<rparr>)"

definition ProductPostgres_Delete :: "uuid \<Rightarrow> ('e, 'x) cw \<Rightarrow> unit result \<times> ('e, 'x) cw" where
  "ProductPostgres_Delete i w =
     (case sql (stmt_DeleteProduct i) w of
        (Inl err, w1) \<Rightarrow> (Inl (errorf ''delete product'' err), w1)
      | (Inr n, w1) \<Rightarrow> if n = 0 then (Inl (sentinelf ErrNotFound ''product''), w1) else (Inr (), w1))"

definition stmt_CountProducts :: "(cat_db, int) stmt" where
  "stmt_CountProducts = query_rows (\<lambda>d. int (length (products d)))"

definition stmt_ListProducts :: "int \<Rightarrow> int \<Rightarrow> (cat_db, Product list) stmt" where
  "stmt_ListProducts limit offset d =
     (if offset < 0 then Inl (StdErr ''OFFSET must not be negative'')
      else query_rows (\<lambda>d. take (nat limit) (drop (nat offset) (sort_key (\<lambda>p. - Product_CreatedAt p) (products d)))) d)"

definition ProductPostgres_List :: "int \<Rightarrow> int \<Rightarrow> ('e, 'x) cw \<Rightarrow> (Product list \<times> int) result \<times> ('e, 'x) cw" where
  "ProductPostgres_List page pageSize w =
     (let page = (if page < 1 then 1 else page);
          pageSize = (if pageSize < 1 then 10 else pageSize);
          offset = i64 ((page - 1) * pageSize) in
      case sql stmt_CountProducts w of
        (Inl err, w1) \<Rightarrow> (Inl (errorf ''count products'' err), w1)
      | (Inr cnt, w1) \<Rightarrow>
          (case sql (stmt_ListProducts pageSize offset) w1 of
             (Inl err, w2) \<Rightarrow> (Inl (errorf ''list products'' err), w2)
           | (Inr ps, w2) \<Rightarrow>
               (case rows_Err w2 of
                  (Inl err, w3) \<Rightarrow> (Inl (errorf ''iterate products'' err), w3)
                | (Inr _, w3) \<Rightarrow> (Inr (ps, cnt), w3))))"

section \<open>The outbox repository\<close>

definition stmt_InsertCatalogEvent :: "CatalogEvent \<Rightarrow> (cat_db, unit) stmt" where
  "stmt_InsertCatalogEvent event d =
     (if length (CEvent_AggregateType event) > 100 \<or> length (CEvent_AggregateID event) > 100
          \<or> length (CEvent_EventType event) > 100
      then Inl (StdErr ''value too long for type character varying(100)'')
      else if \<not> int4_ok (CEvent_RetryCount event) then Inl (StdErr ''value is out of range for int4'')
      else if list_ex (\<lambda>e. CEvent_ID e = CEvent_ID event) (cat_outbox d)
        then Inl (StdErr ''duplicate key value violates unique constraint outbox_pkey'')
      else Inr ((), d\<lparr>cat_outbox := cat_outbox d @
             [event\<lparr>CEvent_CreatedAt := pg_timestamp (CEvent_CreatedAt event), CEvent_ProcessedAt := None,
                    CEvent_LastError := None, CEvent_NextRetryAt := map_option pg_timestamp (CEvent_NextRetryAt event)\<rparr>]\<rparr>))"

definition CatalogOutbox_Create :: "CatalogEvent \<Rightarrow> ('e, 'x) cw \<Rightarrow> unit result \<times> ('e, 'x) cw" where
  "CatalogOutbox_Create event w =
     (let event1 = (if CEvent_NextRetryAt event = None then event\<lparr>CEvent_NextRetryAt := Some (clock w)\<rparr> else event) in
      case sql (stmt_InsertCatalogEvent event1) w of
        (Inl err, w1) \<Rightarrow> (Inl (errorf ''insert outbox event'' err), w1)
      | (Inr _, w1) \<Rightarrow> (Inr (), w1))"

text \<open>\<open>locked\<close> are the rows other transactions hold, which \<^verbatim>\<open>SKIP LOCKED\<close> leaves out.\<close>

definition cat_due :: "int \<Rightarrow> CatalogEvent \<Rightarrow> bool" where
  "cat_due now e \<longleftrightarrow> CEvent_ProcessedAt e = None \<and>
     (case CEvent_NextRetryAt e of Some t \<Rightarrow> t \<le> now | None \<Rightarrow> True)"

definition stmt_UnprocessedCatalog :: "(uuid \<Rightarrow> bool) \<Rightarrow> int \<Rightarrow> int \<Rightarrow> (cat_db, CatalogEvent list) stmt" where
  "stmt_UnprocessedCatalog locked now limit =
     query_rows (\<lambda>d. take (nat limit) (sort_key CEvent_CreatedAt
       (filter (\<lambda>e. cat_due now e \<and> \<not> locked (CEvent_ID e)) (cat_outbox d))))"

definition CatalogOutbox_GetUnprocessed ::
  "(uuid \<Rightarrow> bool) \<Rightarrow> int \<Rightarrow> ('e, 'x) cw \<Rightarrow> CatalogEvent list result \<times> ('e, 'x) cw" where
  "CatalogOutbox_GetUnprocessed locked limit w =
     (case sql (stmt_UnprocessedCatalog locked (clock w) limit) w of
        (Inl err, w1) \<Rightarrow> (Inl (errorf ''get unprocessed outbox'' err), w1)
      | (Inr events, w1) \<Rightarrow>
          (case rows_Err w1 of
             (Inl err, w2) \<Rightarrow> (Inl (errorf ''iterate outbox events'' err), w2)
           | (Inr _, w2) \<Rightarrow> (Inr events, w2)))"

definition update_events :: "(CatalogEvent \<Rightarrow> bool) \<Rightarrow> (CatalogEvent \<Rightarrow> CatalogEvent) \<Rightarrow> cat_db \<Rightarrow> cat_db" where
  "update_events P f d = d\<lparr>cat_outbox := map (\<lambda>e. if P e then f e else e) (cat_outbox d)\<rparr>"

definition stmt_MarkCatalog :: "int \<Rightarrow> uuid list \<Rightarrow> (cat_db, unit) stmt" where
  "stmt_MarkCatalog now ids d =
     Inr ((), update_events (\<lambda>e. CEvent_ID e \<in> set ids) (\<lambda>e. e\<lparr>CEvent_ProcessedAt := Some now\<rparr>) d)"

definition CatalogOutbox_MarkProcessed :: "uuid \<Rightarrow> ('e, 'x) cw \<Rightarrow> unit result \<times> ('e, 'x) cw" where
  "CatalogOutbox_MarkProcessed i w =
     (case sql (stmt_MarkCatalog (clock w) [i]) w of
        (Inl err, w1) \<Rightarrow> (Inl (errorf ''mark outbox processed'' err), w1)
      | (Inr _, w1) \<Rightarrow> (Inr (), w1))"

definition CatalogOutbox_BatchMarkProcessed :: "uuid list \<Rightarrow> ('e, 'x) cw \<Rightarrow> unit result \<times> ('e, 'x) cw" where
  "CatalogOutbox_BatchMarkProcessed ids w =
     (case sql (stmt_MarkCatalog (clock w) ids) w of
        (Inl err, w1) \<Rightarrow> (Inl (errorf ''batch mark outbox processed'' err), w1)
      | (Inr _, w1) \<Rightarrow> (Inr (), w1))"

definition stmt_RetryCatalog :: "uuid \<Rightarrow> string \<Rightarrow> int \<Rightarrow> (cat_db, unit) stmt" where
  "stmt_RetryCatalog i lastError nextRetryAt d =
     (if list_ex (\<lambda>e. CEvent_ID e = i \<and> \<not> int4_ok (CEvent_RetryCount e + 1)) (cat_outbox d)
      then Inl (StdErr ''integer out of range'')
      else Inr ((), update_events (\<lambda>e. CEvent_ID e = i)
             (\<lambda>e. e\<lparr>CEvent_RetryCount := CEvent_RetryCount e + 1, CEvent_LastError := Some lastError,
                    CEvent_NextRetryAt := Some (pg_timestamp nextRetryAt)\<rparr>) d))"

definition CatalogOutbox_IncrementRetryAndSetError ::
  "uuid \<Rightarrow> string \<Rightarrow> int \<Rightarrow> ('e, 'x) cw \<Rightarrow> unit result \<times> ('e, 'x) cw" where
  "CatalogOutbox_IncrementRetryAndSetError i lastError nextRetryAt w =
     (case sql (stmt_RetryCatalog i lastError nextRetryAt) w of
        (Inl err, w1) \<Rightarrow> (Inl (errorf ''increment outbox retry'' err), w1)
      | (Inr _, w1) \<Rightarrow> (Inr (), w1))"

definition catalog_dlq_event :: "CatalogEvent \<Rightarrow> int \<Rightarrow> string \<Rightarrow> CatalogDLQEvent" where
  "catalog_dlq_event event failedAt lastError =
     \<lparr>CDLQ_ID = CEvent_ID event, CDLQ_AggregateType = CEvent_AggregateType event,
      CDLQ_AggregateID = CEvent_AggregateID event, CDLQ_EventType = CEvent_EventType event,
      CDLQ_Payload = CEvent_Payload event, CDLQ_CreatedAt = pg_timestamp (CEvent_CreatedAt event),
      CDLQ_FailedAt = pg_timestamp failedAt, CDLQ_LastError = Some lastError,
      CDLQ_RetryCount = i64 (CEvent_RetryCount event + 1)\<rparr>"

definition stmt_InsertCatalogDLQ :: "CatalogDLQEvent \<Rightarrow> (cat_db, unit) stmt" where
  "stmt_InsertCatalogDLQ event d =
     (if \<not> int4_ok (CDLQ_RetryCount event) then Inl (StdErr ''value is out of range for int4'')
      else if list_ex (\<lambda>e. CDLQ_ID e = CDLQ_ID event) (cat_dlq d) then Inr ((), d)
      else Inr ((), d\<lparr>cat_dlq := cat_dlq d @ [event]\<rparr>))"

definition stmt_DeleteCatalogEvent :: "uuid \<Rightarrow> (cat_db, unit) stmt" where
  "stmt_DeleteCatalogEvent i d = Inr ((), d\<lparr>cat_outbox := filter (\<lambda>e. CEvent_ID e \<noteq> i) (cat_outbox d)\<rparr>)"

definition CatalogOutbox_MoveToDLQ ::
  "CatalogEvent \<Rightarrow> int \<Rightarrow> string \<Rightarrow> ('e, 'x) cw \<Rightarrow> unit result \<times> ('e, 'x) cw" where
  "CatalogOutbox_MoveToDLQ event failedAt lastError w =
     (case sql (stmt_InsertCatalogDLQ (catalog_dlq_event event failedAt lastError)) w of
        (Inl err, w1) \<Rightarrow> (Inl (errorf ''insert outbox dlq'' err), w1)
      | (Inr _, w1) \<Rightarrow>
          (case sql (stmt_DeleteCatalogEvent (CEvent_ID event)) w1 of
             (Inl err, w2) \<Rightarrow> (Inl (errorf ''delete outbox event'' err), w2)
           | (Inr _, w2) \<Rightarrow> (Inr (), w2)))"

section \<open>The use case\<close>

text \<open>
  A product as JSON. A nil slice of categories is \<open>null\<close>, and a time outside the years 0 to 9999
  cannot be written.
\<close>

definition product_json :: "uuid_lib \<Rightarrow> Product \<Rightarrow> json" where
  "product_json L p = JObj [(''ID'', JStr (uuid_String L (Product_ID p))), (''Name'', JStr (Product_Name p)),
     (''Description'', JStr (Product_Description p)), (''Price'', JNum (Product_Price p)),
     (''Categories'', if Product_Categories p = [] then JNull else JArr (map JStr (Product_Categories p))),
     (''IdempotencyKey'', JStr (Product_IdempotencyKey p)),
     (''CreatedAt'', JStr (time_RFC3339Nano (Product_CreatedAt p)))]"

definition marshal_product :: "uuid_lib \<Rightarrow> Product \<Rightarrow> json result" where
  "marshal_product L p =
     (if time_ok (Product_CreatedAt p) then Inr (product_json L p)
      else Inl (StdErr ''Time.MarshalJSON: year outside of range [0,9999]''))"

definition product_event :: "uuid \<Rightarrow> string \<Rightarrow> string \<Rightarrow> json \<Rightarrow> int \<Rightarrow> CatalogEvent" where
  "product_event i aggregateID eventType payload now =
     \<lparr>CEvent_ID = i, CEvent_AggregateType = ''product'', CEvent_AggregateID = aggregateID,
      CEvent_EventType = eventType, CEvent_Payload = payload, CEvent_CreatedAt = now,
      CEvent_ProcessedAt = None, CEvent_RetryCount = 0, CEvent_LastError = None, CEvent_NextRetryAt = None\<rparr>"

text \<open>No caller looks at the id that accompanies an error.\<close>

definition create_product_tx :: "Product \<Rightarrow> CatalogEvent \<Rightarrow> ('e, 'x) cw \<Rightarrow> uuid result \<times> ('e, 'x) cw" where
  "create_product_tx product event w =
     (case ProductPostgres_Create product w of
        (Inl err, w1) \<Rightarrow> (Inl (errorf ''create product'' err), w1)
      | (Inr i, w1) \<Rightarrow>
          (case CatalogOutbox_Create event w1 of
             (Inl err, w2) \<Rightarrow> (Inl (errorf ''create outbox event'' err), w2)
           | (Inr _, w2) \<Rightarrow> (Inr i, w2)))"

definition CatalogUsecase_CreateProduct ::
  "uuid_lib \<Rightarrow> string \<Rightarrow> string \<Rightarrow> int \<Rightarrow> string list \<Rightarrow> string \<Rightarrow> ('e, 'x) cw \<Rightarrow> uuid result \<times> ('e, 'x) cw" where
  "CatalogUsecase_CreateProduct L name description price categories idempotencyKey w =
     (case uuid_New w of
        (i, w1) \<Rightarrow>
          (let product = \<lparr>Product_ID = i, Product_Name = name, Product_Description = description, Product_Price = price,
                 Product_Categories = categories, Product_IdempotencyKey = idempotencyKey, Product_CreatedAt = clock w1\<rparr> in
           case marshal_product L product of
             Inl err \<Rightarrow> (Inl (errorf ''marshal product payload'' err), w1)
           | Inr payload \<Rightarrow>
               (case uuid_New w1 of
                  (eid, w2) \<Rightarrow>
                    RunTx (create_product_tx product
                      (product_event eid (uuid_String L i) ''ProductCreated'' payload (clock w2))) w2)))"

definition CatalogUsecase_GetProduct :: "uuid \<Rightarrow> ('e, 'x) cw \<Rightarrow> Product result \<times> ('e, 'x) cw" where
  "CatalogUsecase_GetProduct i w = ProductPostgres_GetByID i w"

definition merge_product :: "string option \<Rightarrow> string option \<Rightarrow> int option \<Rightarrow> string list \<Rightarrow> Product \<Rightarrow> Product" where
  "merge_product name description price categories p =
     p\<lparr>Product_Name := case_option (Product_Name p) id name,
       Product_Description := case_option (Product_Description p) id description,
       Product_Price := case_option (Product_Price p) id price,
       Product_Categories := (if categories = [] then Product_Categories p else categories)\<rparr>"

definition update_product_tx ::
  "uuid_lib \<Rightarrow> uuid \<Rightarrow> string option \<Rightarrow> string option \<Rightarrow> int option \<Rightarrow> string list \<Rightarrow> ('e, 'x) cw \<Rightarrow> unit result \<times> ('e, 'x) cw" where
  "update_product_tx L i name description price categories w =
     (case ProductPostgres_GetByID i w of
        (Inl err, w1) \<Rightarrow> (Inl (errorf ''get product'' err), w1)
      | (Inr p, w1) \<Rightarrow>
          (let existing = merge_product name description price categories p in
           case ProductPostgres_Update existing w1 of
             (Inl err, w2) \<Rightarrow> (Inl (errorf ''update product'' err), w2)
           | (Inr _, w2) \<Rightarrow>
               (case marshal_product L existing of
                  Inl err \<Rightarrow> (Inl (errorf ''marshal product payload'' err), w2)
                | Inr payload \<Rightarrow>
                    (case uuid_New w2 of
                       (eid, w3) \<Rightarrow>
                         (case CatalogOutbox_Create (product_event eid (uuid_String L (Product_ID existing)) ''ProductUpdated''
                                 payload (clock w3)) w3 of
                            (Inl err, w4) \<Rightarrow> (Inl (errorf ''create outbox event'' err), w4)
                          | (Inr _, w4) \<Rightarrow> (Inr (), w4))))))"

definition CatalogUsecase_UpdateProduct ::
  "uuid_lib \<Rightarrow> uuid \<Rightarrow> string option \<Rightarrow> string option \<Rightarrow> int option \<Rightarrow> string list \<Rightarrow> ('e, 'x) cw \<Rightarrow> unit result \<times> ('e, 'x) cw" where
  "CatalogUsecase_UpdateProduct L i name description price categories w =
     RunTx (update_product_tx L i name description price categories) w"

definition delete_product_tx :: "uuid_lib \<Rightarrow> uuid \<Rightarrow> ('e, 'x) cw \<Rightarrow> unit result \<times> ('e, 'x) cw" where
  "delete_product_tx L i w =
     (case ProductPostgres_Delete i w of
        (Inl err, w1) \<Rightarrow> (Inl (errorf ''delete product'' err), w1)
      | (Inr _, w1) \<Rightarrow>
          (case uuid_New w1 of
             (eid, w2) \<Rightarrow>
               (case CatalogOutbox_Create (product_event eid (uuid_String L i) ''ProductDeleted''
                       (JObj [(''product_id'', JStr (uuid_String L i))]) (clock w2)) w2 of
                  (Inl err, w3) \<Rightarrow> (Inl (errorf ''create outbox event'' err), w3)
                | (Inr _, w3) \<Rightarrow> (Inr (), w3))))"

definition CatalogUsecase_DeleteProduct :: "uuid_lib \<Rightarrow> uuid \<Rightarrow> ('e, 'x) cw \<Rightarrow> unit result \<times> ('e, 'x) cw" where
  "CatalogUsecase_DeleteProduct L i w = RunTx (delete_product_tx L i) w"

definition CatalogUsecase_ListProducts :: "int \<Rightarrow> int \<Rightarrow> ('e, 'x) cw \<Rightarrow> (Product list \<times> int) result \<times> ('e, 'x) cw" where
  "CatalogUsecase_ListProducts page pageSize w = ProductPostgres_List page pageSize w"

section \<open>Messages and handlers\<close>

record ProductProto =
  ProductProto_ProductId :: string
  ProductProto_Name :: string
  ProductProto_Description :: string
  ProductProto_PriceCents :: int
  ProductProto_Categories :: "string list"
  ProductProto_CreatedAt :: string

record CreateProductRequest =
  CreateProductRequest_Name :: string
  CreateProductRequest_Description :: string
  CreateProductRequest_PriceCents :: int
  CreateProductRequest_Categories :: "string list"
  CreateProductRequest_IdempotencyKey :: string

record UpdateProductRequest =
  UpdateProductRequest_ProductId :: string
  UpdateProductRequest_Name :: "string option"
  UpdateProductRequest_Description :: "string option"
  UpdateProductRequest_PriceCents :: "int option"
  UpdateProductRequest_Categories :: "string list"

definition toProtoProduct :: "uuid_lib \<Rightarrow> Product \<Rightarrow> ProductProto" where
  "toProtoProduct L p =
     \<lparr>ProductProto_ProductId = uuid_String L (Product_ID p), ProductProto_Name = Product_Name p,
      ProductProto_Description = Product_Description p, ProductProto_PriceCents = Product_Price p,
      ProductProto_Categories = Product_Categories p, ProductProto_CreatedAt = time_RFC3339 (Product_CreatedAt p)\<rparr>"

definition toProtoProducts :: "uuid_lib \<Rightarrow> Product list \<Rightarrow> ProductProto list" where
  "toProtoProducts L ps = map (toProtoProduct L) ps"

text \<open>Responses are the product id, the product, the products with their number, and success.\<close>

definition CatalogHandler_CreateProduct :: "uuid_lib \<Rightarrow> (CreateProductRequest, string, ('e, 'x) cw) handler" where
  "CatalogHandler_CreateProduct L c req w =
     (case CatalogUsecase_CreateProduct L (CreateProductRequest_Name req) (CreateProductRequest_Description req)
             (CreateProductRequest_PriceCents req) (CreateProductRequest_Categories req)
             (CreateProductRequest_IdempotencyKey req) w of
        (Inl err, w1) \<Rightarrow>
          if errors_Is err ErrAlreadyExists then (Inl (StatusErr codes_AlreadyExists (err_Error err)), w1)
          else (Inl err, w1)
      | (Inr i, w1) \<Rightarrow> (Inr (uuid_String L i), w1))"

definition CatalogHandler_GetProduct :: "uuid_lib \<Rightarrow> (string, ProductProto, ('e, 'x) cw) handler" where
  "CatalogHandler_GetProduct L c req w =
     (case uuid_Parse L req of
        Inl err \<Rightarrow> (Inl err, w)
      | Inr i \<Rightarrow>
          (case CatalogUsecase_GetProduct i w of
             (Inl err, w1) \<Rightarrow>
               if errors_Is err ErrNotFound then (Inl (StatusErr codes_NotFound (err_Error err)), w1)
               else (Inl (StatusErr codes_Internal (''get product: '' @ err_Error err)), w1)
           | (Inr p, w1) \<Rightarrow> (Inr (toProtoProduct L p), w1)))"

definition CatalogHandler_ListProducts :: "uuid_lib \<Rightarrow> (int \<times> int, ProductProto list \<times> int, ('e, 'x) cw) handler" where
  "CatalogHandler_ListProducts L c req w =
     (case CatalogUsecase_ListProducts (fst req) (snd req) w of
        (Inl err, w1) \<Rightarrow> (Inl err, w1)
      | (Inr (ps, cnt), w1) \<Rightarrow> (Inr (toProtoProducts L ps, i32 cnt), w1))"

definition CatalogHandler_UpdateProduct :: "uuid_lib \<Rightarrow> (UpdateProductRequest, bool, ('e, 'x) cw) handler" where
  "CatalogHandler_UpdateProduct L c req w =
     (case RequireRole c [RoleAdmin] of
        Some err \<Rightarrow> (Inl err, w)
      | None \<Rightarrow>
          (case uuid_Parse L (UpdateProductRequest_ProductId req) of
             Inl err \<Rightarrow> (Inl (StatusErr codes_InvalidArgument ''invalid product_id''), w)
           | Inr i \<Rightarrow>
               (case CatalogUsecase_UpdateProduct L i (UpdateProductRequest_Name req) (UpdateProductRequest_Description req)
                       (UpdateProductRequest_PriceCents req) (UpdateProductRequest_Categories req) w of
                  (Inl err, w1) \<Rightarrow>
                    if errors_Is err ErrNotFound then (Inl (StatusErr codes_NotFound (err_Error err)), w1)
                    else (Inl (StatusErr codes_Internal (''update product: '' @ err_Error err)), w1)
                | (Inr _, w1) \<Rightarrow> (Inr True, w1))))"

definition CatalogHandler_DeleteProduct :: "uuid_lib \<Rightarrow> (string, bool, ('e, 'x) cw) handler" where
  "CatalogHandler_DeleteProduct L c req w =
     (case RequireRole c [RoleAdmin] of
        Some err \<Rightarrow> (Inl err, w)
      | None \<Rightarrow>
          (case uuid_Parse L req of
             Inl err \<Rightarrow> (Inl (StatusErr codes_InvalidArgument ''invalid product_id''), w)
           | Inr i \<Rightarrow>
               (case CatalogUsecase_DeleteProduct L i w of
                  (Inl err, w1) \<Rightarrow>
                    if errors_Is err ErrNotFound then (Inl (StatusErr codes_NotFound (err_Error err)), w1)
                    else (Inl (StatusErr codes_Internal (''delete product: '' @ err_Error err)), w1)
                | (Inr _, w1) \<Rightarrow> (Inr True, w1))))"

end
