(* ===== verification/Order_Usecase.thy ===== *)
theory Order_Usecase
  imports Order_Saga Order_Outbox Inventory_Model Payment_Model Catalog_Model
begin

text \<open>
  The rest of the order service: the gRPC clients of the other services
  (internal/infrastructure/grpcclient), the use case (internal/usecase) and the gRPC handlers
  (internal/delivery/grpc).
\<close>

section \<open>The clients of the other services\<close>

text \<open>
  The generated client stubs, with the interceptors configured for them, are parameters. A
  stub sends a request and returns the response or a gRPC status.
\<close>

record 'w grpc_stubs =
  stub_Reserve :: "ReserveRequest \<Rightarrow> 'w \<Rightarrow> bool result \<times> 'w"
  stub_Release :: "ReleaseRequest \<Rightarrow> 'w \<Rightarrow> bool result \<times> 'w"
  stub_ProcessPayment :: "ProcessPaymentRequest \<Rightarrow> 'w \<Rightarrow> ProcessPaymentResponse result \<times> 'w"
  stub_Refund :: "RefundRequest \<Rightarrow> 'w \<Rightarrow> int result \<times> 'w"
  stub_GetProduct :: "string \<Rightarrow> 'w \<Rightarrow> ProductProto option result \<times> 'w"

definition err_of :: "'a result \<times> 'w \<Rightarrow> go_error option \<times> 'w" where
  "err_of r = (case r of (Inl err, w) \<Rightarrow> (Some err, w) | (Inr _, w) \<Rightarrow> (None, w))"

definition inventoryClient_Reserve ::
  "'w grpc_stubs \<Rightarrow> string \<Rightarrow> int \<Rightarrow> string \<Rightarrow> string \<Rightarrow> 'w \<Rightarrow> go_error option \<times> 'w" where
  "inventoryClient_Reserve S productID quantity orderID idempotencyKey w =
     err_of (stub_Reserve S \<lparr>ReserveRequest_ProductId = productID, ReserveRequest_Quantity = quantity,
       ReserveRequest_OrderId = orderID, ReserveRequest_IdempotencyKey = idempotencyKey\<rparr> w)"

definition inventoryClient_Release ::
  "'w grpc_stubs \<Rightarrow> string \<Rightarrow> int \<Rightarrow> string \<Rightarrow> string \<Rightarrow> 'w \<Rightarrow> go_error option \<times> 'w" where
  "inventoryClient_Release S productID quantity orderID idempotencyKey w =
     err_of (stub_Release S \<lparr>ReleaseRequest_ProductId = productID, ReleaseRequest_Quantity = quantity,
       ReleaseRequest_OrderId = orderID, ReleaseRequest_IdempotencyKey = idempotencyKey\<rparr> w)"

definition paymentClient_ProcessPayment ::
  "'w grpc_stubs \<Rightarrow> string \<Rightarrow> int \<Rightarrow> string \<Rightarrow> 'w \<Rightarrow> string result \<times> 'w" where
  "paymentClient_ProcessPayment S orderID amountCents idempotencyKey w =
     (case stub_ProcessPayment S \<lparr>ProcessPaymentRequest_OrderId = orderID,
        ProcessPaymentRequest_AmountCents = amountCents,
        ProcessPaymentRequest_IdempotencyKey = idempotencyKey\<rparr> w of
        (Inl err, w1) \<Rightarrow> (Inl err, w1)
      | (Inr resp, w1) \<Rightarrow> (Inr (ProcessPaymentResponse_PaymentId resp), w1))"

definition paymentClient_Refund :: "'w grpc_stubs \<Rightarrow> string \<Rightarrow> string \<Rightarrow> 'w \<Rightarrow> go_error option \<times> 'w" where
  "paymentClient_Refund S paymentID idempotencyKey w =
     err_of (stub_Refund S \<lparr>RefundRequest_PaymentId = paymentID, RefundRequest_AmountCents = 0,
       RefundRequest_IdempotencyKey = idempotencyKey\<rparr> w)"

definition catalogClient_GetProduct :: "'w grpc_stubs \<Rightarrow> string \<Rightarrow> 'w \<Rightarrow> ProductProto option result \<times> 'w" where
  "catalogClient_GetProduct S productID w =
     (case stub_GetProduct S productID w of
        (Inl err, w1) \<Rightarrow> (Inl err, w1)
      | (Inr product, w1) \<Rightarrow> (Inr product, w1))"

text \<open>The clients the orchestrator is built with.\<close>

definition saga_clients_of :: "'w grpc_stubs \<Rightarrow> 'w saga_clients" where
  "saga_clients_of S =
     \<lparr>InventoryClient_Reserve = inventoryClient_Reserve S, InventoryClient_Release = inventoryClient_Release S,
      PaymentClient_ProcessPayment = paymentClient_ProcessPayment S, PaymentClient_Refund = paymentClient_Refund S\<rparr>"

section \<open>Helpers of the use case\<close>

definition publishOrderEvent :: "string \<Rightarrow> string \<Rightarrow> string \<Rightarrow> ('c, 'r, 'x) ow \<Rightarrow> ('c, 'r, 'x) ow" where
  "publishOrderEvent orderID status userID w =
     (case ord_redis w of
        None \<Rightarrow> w
      | Some redis \<Rightarrow>
          w\<lparr>ord_cache := redis_Publish redis ''order-events''
             (JObj [(''payload'', JObj [(''order_id'', JStr orderID), (''status'', JStr status),
                                       (''user_id'', JStr userID)]),
                    (''topic'', JStr ''orders''), (''user_id'', JStr userID)]) (ord_cache w)\<rparr>)"

definition item_json :: "uuid_lib \<Rightarrow> OrderItem \<Rightarrow> json" where
  "item_json L i = JObj [(''ID'', JStr (uuid_String L (Item_ID i))),
     (''OrderID'', JStr (uuid_String L (Item_OrderID i))), (''ProductID'', JStr (uuid_String L (Item_ProductID i))),
     (''Quantity'', JNum (Item_Quantity i)), (''Price'', JNum (Item_Price i))]"

definition order_json :: "uuid_lib \<Rightarrow> Order \<Rightarrow> json" where
  "order_json L order = JObj [(''ID'', JStr (uuid_String L (Order_ID order))),
     (''UserID'', JStr (uuid_String L (Order_UserID order))), (''Items'', JArr (map (item_json L) (Order_Items order))),
     (''TotalAmount'', JNum (Order_TotalAmount order)), (''Status'', JStr (Order_Status order)),
     (''CreatedAt'', JStr (time_RFC3339Nano (Order_CreatedAt order))),
     (''UpdatedAt'', JStr (time_RFC3339Nano (Order_UpdatedAt order)))]"

text \<open>Marshalling an order cannot fail.\<close>

definition outboxEventFromOrder ::
  "uuid_lib \<Rightarrow> Order \<Rightarrow> ('c, 'r, 'x) ow \<Rightarrow> OutboxEvent \<times> ('c, 'r, 'x) ow" where
  "outboxEventFromOrder L order w =
     (case uuid_New w of
        (newID, w1) \<Rightarrow>
          (\<lparr>Outbox_ID = newID, Outbox_AggregateType = ''order'', Outbox_AggregateID = uuid_String L (Order_ID order),
            Outbox_EventType = ''OrderCreated'', Outbox_Payload = order_json L order,
            Outbox_CreatedAt = Order_CreatedAt order, Outbox_ProcessedAt = None, Outbox_RetryCount = 0,
            Outbox_LastError = None, Outbox_NextRetryAt = None\<rparr>, w1))"

section \<open>The use case\<close>

definition order_total :: "OrderItem list \<Rightarrow> int" where
  "order_total items = foldl (\<lambda>t i. i64 (t + i64 (Item_Price i * Item_Quantity i))) 0 items"

fun check_prices ::
  "uuid_lib \<Rightarrow> ('c, 'r, 'x) ow grpc_stubs \<Rightarrow> OrderItem list \<Rightarrow> ('c, 'r, 'x) ow \<Rightarrow> go_error option \<times> ('c, 'r, 'x) ow" where
  "check_prices L S [] w = (None, w)"
| "check_prices L S (item # items) w =
     (case catalogClient_GetProduct S (uuid_String L (Item_ProductID item)) w of
        (Inl err, w1) \<Rightarrow> (Some (errorf (''get product '' @ uuid_String L (Item_ProductID item)) err), w1)
      | (Inr product, w1) \<Rightarrow>
          (case product of
             Some p \<Rightarrow>
               if ProductProto_PriceCents p \<noteq> Item_Price item
               then (Some (sentinelf ErrInvalidArgument
                       (''price mismatch for product '' @ uuid_String L (Item_ProductID item))), w1)
               else check_prices L S items w1
           | None \<Rightarrow>
               (Some (sentinelf ErrInvalidArgument
                  (''price mismatch for product '' @ uuid_String L (Item_ProductID item))), w1)))"

fun assign_ids :: "uuid \<Rightarrow> OrderItem list \<Rightarrow> ('c, 'r, 'x) ow \<Rightarrow> OrderItem list \<times> ('c, 'r, 'x) ow" where
  "assign_ids orderID [] w = ([], w)"
| "assign_ids orderID (item # items) w =
     (case uuid_New w of
        (newID, w1) \<Rightarrow>
          (case assign_ids orderID items w1 of
             (items', w2) \<Rightarrow> (item\<lparr>Item_ID := newID, Item_OrderID := orderID\<rparr> # items', w2)))"

text \<open>The body of the transaction: both repositories of the unit of work share it.\<close>

definition create_order_tx :: "uuid_lib \<Rightarrow> Order \<Rightarrow> ('c, 'r, 'x) ow \<Rightarrow> uuid result \<times> ('c, 'r, 'x) ow" where
  "create_order_tx L order w =
     (case OrderPostgres_Create order w of
        (Inl err, w1) \<Rightarrow> (Inl (errorf ''create order'' err), w1)
      | (Inr _, w1) \<Rightarrow>
          (case outboxEventFromOrder L order w1 of
             (event, w2) \<Rightarrow>
               (case OutboxPostgres_Create event NoTx w2 of
                  (Inl err, _, w3) \<Rightarrow> (Inl (errorf ''create outbox event'' err), w3)
                | (Inr _, _, w3) \<Rightarrow> (Inr (Order_ID order), w3))))"

definition new_order :: "uuid \<Rightarrow> OrderItem list \<Rightarrow> ('c, 'r, 'x) ow \<Rightarrow> Order \<times> ('c, 'r, 'x) ow" where
  "new_order userID items w =
     (case uuid_New w of
        (newID, w1) \<Rightarrow>
          (case assign_ids newID items w1 of
             (items', w2) \<Rightarrow>
               (\<lparr>Order_ID = newID, Order_UserID = userID, Order_Items = items', Order_TotalAmount = order_total items,
                 Order_Status = OrderStatusPending, Order_CreatedAt = clock w1, Order_UpdatedAt = clock w1\<rparr>, w2)))"

definition OrderUsecase_CreateOrder ::
  "uuid_lib \<Rightarrow> ('c, 'r, 'x) ow grpc_stubs \<Rightarrow> uuid \<Rightarrow> OrderItem list \<Rightarrow> string \<Rightarrow> ('c, 'r, 'x) ow \<Rightarrow>
   uuid result \<times> ('c, 'r, 'x) ow" where
  "OrderUsecase_CreateOrder L S userID items idempotencyKey w =
     (case check_prices L S items w of
        (Some err, w1) \<Rightarrow> (Inl err, w1)
      | (None, w1) \<Rightarrow>
          (case new_order userID items w1 of
             (order, w2) \<Rightarrow>
               (case txm_Run (create_order_tx L order) w2 of
                  (Inl err, w3) \<Rightarrow> (Inl err, w3)
                | (Inr createdID, w3) \<Rightarrow>
                    (let w4 = publishOrderEvent (uuid_String L (Order_ID order)) (Order_Status order)
                                (uuid_String L (Order_UserID order)) w3 in
                     case ProcessOrder L (saga_clients_of S) order idempotencyKey w4 of
                       (Some err, w5) \<Rightarrow> (Inl (errorf ''saga process order'' err), w5)
                     | (None, w5) \<Rightarrow> (Inr createdID, w5)))))"

definition OrderUsecase_GetOrder :: "uuid \<Rightarrow> ('c, 'r, 'x) ow \<Rightarrow> Order result \<times> ('c, 'r, 'x) ow" where
  "OrderUsecase_GetOrder i w = OrderPostgres_GetByID i w"

definition OrderUsecase_ListOrders ::
  "uuid \<Rightarrow> int \<Rightarrow> int \<Rightarrow> ('c, 'r, 'x) ow \<Rightarrow> (Order list \<times> int) result \<times> ('c, 'r, 'x) ow" where
  "OrderUsecase_ListOrders userID page pageSize w = OrderPostgres_ListByUser userID page pageSize w"

definition OrderUsecase_CancelOrder ::
  "uuid_lib \<Rightarrow> ('c, 'r, 'x) ow grpc_stubs \<Rightarrow> uuid \<Rightarrow> ('c, 'r, 'x) ow \<Rightarrow> unit result \<times> ('c, 'r, 'x) ow" where
  "OrderUsecase_CancelOrder L S i w =
     (case OrderPostgres_GetByID i w of
        (Inl err, w1) \<Rightarrow> (Inl (errorf ''get order'' err), w1)
      | (Inr order, w1) \<Rightarrow>
          if Order_Status order = OrderStatusCancelled
          then (Inl (sentinelf ErrInvalidArgument ''order already cancelled''), w1)
          else if CancellableDirectly (Order_Status order) then
            (case OrderPostgres_UpdateStatus i OrderStatusCancelled w1 of
               (Inl err, w2) \<Rightarrow> (Inl (errorf ''update order status'' err), w2)
             | (Inr _, w2) \<Rightarrow>
                 (Inr (), publishOrderEvent (uuid_String L (Order_ID order)) OrderStatusCancelled
                            (uuid_String L (Order_UserID order)) w2))
          else if Order_Status order = OrderStatusPaid \<or> Order_Status order = OrderStatusProcessing
                  \<or> Order_Status order = OrderStatusShipped then
            (case Orchestrator_CancelOrder L (saga_clients_of S) order w1 of
               (Some err, w2) \<Rightarrow> (Inl (errorf ''cancel order'' err), w2)
             | (None, w2) \<Rightarrow>
                 (Inr (), publishOrderEvent (uuid_String L (Order_ID order)) OrderStatusCancelled
                            (uuid_String L (Order_UserID order)) w2))
          else (Inl (sentinelf ErrFailedPrecondition
                  (''order with status '' @ Order_Status order @ '' cannot be cancelled'')), w1))"

definition OrderUsecase_UpdateOrderStatus ::
  "uuid_lib \<Rightarrow> uuid \<Rightarrow> OrderStatus \<Rightarrow> ('c, 'r, 'x) ow \<Rightarrow> unit result \<times> ('c, 'r, 'x) ow" where
  "OrderUsecase_UpdateOrderStatus L i status w =
     (case OrderPostgres_GetByID i w of
        (Inl err, w1) \<Rightarrow> (Inl (errorf ''get order'' err), w1)
      | (Inr order, w1) \<Rightarrow>
          (case ValidateTransition (Order_Status order) status of
             Some err \<Rightarrow> (Inl (sentinelf ErrInvalidArgument (err_Error err)), w1)
           | None \<Rightarrow>
               (case OrderPostgres_UpdateStatus i status w1 of
                  (Inl err, w2) \<Rightarrow> (Inl (errorf ''update order status'' err), w2)
                | (Inr _, w2) \<Rightarrow>
                    (Inr (), publishOrderEvent (uuid_String L (Order_ID order)) status
                               (uuid_String L (Order_UserID order)) w2))))"

end
