(* ===== verification/Order_Handler.thy ===== *)
theory Order_Handler
  imports Order_Usecase
begin

text \<open>
  The gRPC handlers of the order service
  (src/services/order-service/internal/delivery/grpc/handler.go).
\<close>

section \<open>Messages\<close>

record OrderItemProto =
  ItemProto_ProductId :: string
  ItemProto_Quantity :: int
  ItemProto_PriceCents :: int

record OrderProto =
  OrderProto_OrderId :: string
  OrderProto_UserId :: string
  OrderProto_Items :: "OrderItemProto list"
  OrderProto_TotalAmountCents :: int
  OrderProto_Status :: int
  OrderProto_CreatedAt :: string
  OrderProto_UpdatedAt :: string

record CreateOrderRequest =
  CreateOrderRequest_Items :: "OrderItemProto list"
  CreateOrderRequest_IdempotencyKey :: string

text \<open>The values of the generated enum \<^verbatim>\<open>OrderStatus\<close>.\<close>

definition domainStatusToProtoMap :: "OrderStatus \<Rightarrow> int option" where
  "domainStatusToProtoMap =
     map_of [(OrderStatusPending, 1), (OrderStatusAwaitingPayment, 2), (OrderStatusPaid, 3),
             (OrderStatusProcessing, 4), (OrderStatusShipped, 5), (OrderStatusDelivered, 6),
             (OrderStatusCancelled, 7), (OrderStatusRefunded, 8)]"

definition domainStatusToProto :: "OrderStatus \<Rightarrow> int" where
  "domainStatusToProto s = (case domainStatusToProtoMap s of Some ps \<Rightarrow> ps | None \<Rightarrow> 0)"

definition protoStatusToDomainMap :: "int \<Rightarrow> OrderStatus option" where
  "protoStatusToDomainMap =
     map_of [(0, OrderStatusUnspecified), (1, OrderStatusPending), (2, OrderStatusAwaitingPayment),
             (3, OrderStatusPaid), (4, OrderStatusProcessing), (5, OrderStatusShipped),
             (6, OrderStatusDelivered), (7, OrderStatusCancelled), (8, OrderStatusRefunded)]"

definition protoStatusToDomain :: "int \<Rightarrow> OrderStatus" where
  "protoStatusToDomain s = (case protoStatusToDomainMap s of Some ds \<Rightarrow> ds | None \<Rightarrow> OrderStatusUnspecified)"

definition item_toProto :: "uuid_lib \<Rightarrow> OrderItem \<Rightarrow> OrderItemProto" where
  "item_toProto L i =
     \<lparr>ItemProto_ProductId = uuid_String L (Item_ProductID i), ItemProto_Quantity = i32 (Item_Quantity i),
      ItemProto_PriceCents = Item_Price i\<rparr>"

definition mapOrderToProto :: "uuid_lib \<Rightarrow> Order \<Rightarrow> OrderProto" where
  "mapOrderToProto L order =
     \<lparr>OrderProto_OrderId = uuid_String L (Order_ID order), OrderProto_UserId = uuid_String L (Order_UserID order),
      OrderProto_Items = map (item_toProto L) (Order_Items order),
      OrderProto_TotalAmountCents = Order_TotalAmount order,
      OrderProto_Status = domainStatusToProto (Order_Status order),
      OrderProto_CreatedAt = time_RFC3339 (Order_CreatedAt order),
      OrderProto_UpdatedAt = time_RFC3339 (Order_UpdatedAt order)\<rparr>"

section \<open>Handlers\<close>

text \<open>An item of a request; its ids are the zero UUID until the use case assigns them.\<close>

definition item_of_proto :: "uuid \<Rightarrow> OrderItemProto \<Rightarrow> OrderItem" where
  "item_of_proto productID item =
     \<lparr>Item_ID = 0, Item_OrderID = 0, Item_ProductID = productID, Item_Quantity = ItemProto_Quantity item,
      Item_Price = ItemProto_PriceCents item\<rparr>"

fun parse_items :: "uuid_lib \<Rightarrow> OrderItemProto list \<Rightarrow> OrderItem list option" where
  "parse_items L [] = Some []"
| "parse_items L (item # items) =
     (case uuid_Parse L (ItemProto_ProductId item) of
        Inl _ \<Rightarrow> None
      | Inr productID \<Rightarrow>
          (case parse_items L items of
             None \<Rightarrow> None
           | Some is \<Rightarrow> Some (item_of_proto productID item # is)))"

text \<open>The response of \<^verbatim>\<open>CreateOrder\<close> is the order id and the status.\<close>

definition OrderHandler_CreateOrder ::
  "uuid_lib \<Rightarrow> ('c, 'r, 'x) ow grpc_stubs \<Rightarrow> (CreateOrderRequest, string \<times> int, ('c, 'r, 'x) ow) handler" where
  "OrderHandler_CreateOrder L S c req w =
     (case GetUserID c of
        (authUserID, ok) \<Rightarrow>
          if \<not> ok then (Inl (StatusErr codes_Unauthenticated ''missing user_id in context''), w)
          else
            (case uuid_Parse L authUserID of
               Inl err \<Rightarrow> (Inl (StatusErr codes_Internal (''invalid user_id in token: '' @ err_Error err)), w)
             | Inr userID \<Rightarrow>
                 (case parse_items L (CreateOrderRequest_Items req) of
                    None \<Rightarrow> (Inl (StatusErr codes_InvalidArgument ''invalid product_id''), w)
                  | Some items \<Rightarrow>
                      (case OrderUsecase_CreateOrder L S userID items (CreateOrderRequest_IdempotencyKey req) w of
                         (Inl err, w1) \<Rightarrow>
                           if errors_Is err ErrInvalidArgument
                           then (Inl (StatusErr codes_InvalidArgument (err_Error err)), w1)
                           else (Inl (to_status err), w1)
                       | (Inr orderID, w1) \<Rightarrow> (Inr (uuid_String L orderID, 1), w1)))))"

text \<open>The checks \<^verbatim>\<open>GetOrder\<close> and \<^verbatim>\<open>CancelOrder\<close> begin with: the order, read on behalf of its owner.\<close>

definition read_owned_order :: "uuid_lib \<Rightarrow> (string, uuid \<times> Order, ('c, 'r, 'x) ow) handler" where
  "read_owned_order L c req w =
     (case GetUserID c of
        (authUserID, ok) \<Rightarrow>
          if \<not> ok then (Inl (StatusErr codes_Unauthenticated ''missing user_id in context''), w)
          else
            (case uuid_Parse L req of
               Inl err \<Rightarrow> (Inl (StatusErr codes_InvalidArgument ''invalid order_id''), w)
             | Inr orderID \<Rightarrow>
                 (case OrderUsecase_GetOrder orderID w of
                    (Inl err, w1) \<Rightarrow>
                      if errors_Is err ErrNotFound then (Inl (StatusErr codes_NotFound (err_Error err)), w1)
                      else (Inl (StatusErr codes_Internal (''get order: '' @ err_Error err)), w1)
                  | (Inr order, w1) \<Rightarrow>
                      if uuid_String L (Order_UserID order) \<noteq> authUserID \<and> fst (GetRole c) \<noteq> RoleAdmin
                      then (Inl (StatusErr codes_PermissionDenied ''order does not belong to user''), w1)
                      else (Inr (orderID, order), w1))))"

definition OrderHandler_GetOrder :: "uuid_lib \<Rightarrow> (string, OrderProto, ('c, 'r, 'x) ow) handler" where
  "OrderHandler_GetOrder L c req w =
     (case read_owned_order L c req w of
        (Inl err, w1) \<Rightarrow> (Inl err, w1)
      | (Inr (orderID, order), w1) \<Rightarrow> (Inr (mapOrderToProto L order), w1))"

text \<open>The request is page and page size; the response is the orders and the total.\<close>

definition OrderHandler_ListOrders ::
  "uuid_lib \<Rightarrow> (int \<times> int, OrderProto list \<times> int, ('c, 'r, 'x) ow) handler" where
  "OrderHandler_ListOrders L c req w =
     (case GetUserID c of
        (authUserID, ok) \<Rightarrow>
          if \<not> ok then (Inl (StatusErr codes_Unauthenticated ''missing user_id in context''), w)
          else
            (case uuid_Parse L authUserID of
               Inl err \<Rightarrow> (Inl (StatusErr codes_Internal (''invalid user_id in token: '' @ err_Error err)), w)
             | Inr userID \<Rightarrow>
                 (case OrderUsecase_ListOrders userID (fst req) (snd req) w of
                    (Inl err, w1) \<Rightarrow> (Inl (to_status err), w1)
                  | (Inr (os, cnt), w1) \<Rightarrow> (Inr (map (mapOrderToProto L) os, i32 cnt), w1))))"

text \<open>How \<^verbatim>\<open>CancelOrder\<close> and \<^verbatim>\<open>UpdateOrderStatus\<close> report an error of the use case.\<close>

definition order_mapError :: "string \<Rightarrow> go_error \<Rightarrow> go_error" where
  "order_mapError what err =
     (if errors_Is err ErrInvalidArgument then StatusErr codes_InvalidArgument (err_Error err)
      else if errors_Is err ErrFailedPrecondition then StatusErr codes_FailedPrecondition (err_Error err)
      else StatusErr codes_Internal (what @ '': '' @ err_Error err))"

definition OrderHandler_CancelOrder ::
  "uuid_lib \<Rightarrow> ('c, 'r, 'x) ow grpc_stubs \<Rightarrow> (string, bool, ('c, 'r, 'x) ow) handler" where
  "OrderHandler_CancelOrder L S c req w =
     (case read_owned_order L c req w of
        (Inl err, w1) \<Rightarrow> (Inl err, w1)
      | (Inr (orderID, order), w1) \<Rightarrow>
          (case OrderUsecase_CancelOrder L S orderID w1 of
             (Inl err, w2) \<Rightarrow> (Inl (order_mapError ''cancel order'' err), w2)
           | (Inr _, w2) \<Rightarrow> (Inr True, w2)))"

text \<open>The request and the response are the order id and the status.\<close>

definition OrderHandler_UpdateOrderStatus ::
  "uuid_lib \<Rightarrow> (string \<times> int, string \<times> int, ('c, 'r, 'x) ow) handler" where
  "OrderHandler_UpdateOrderStatus L c req w =
     (if \<not> snd (GetUserID c) then (Inl (StatusErr codes_Unauthenticated ''missing user_id in context''), w)
      else if fst (GetRole c) \<noteq> RoleAdmin \<and> fst (GetRole c) \<noteq> RoleService
      then (Inl (StatusErr codes_PermissionDenied ''only admin or service can update order status''), w)
      else
        (case uuid_Parse L (fst req) of
           Inl err \<Rightarrow> (Inl (StatusErr codes_InvalidArgument ''invalid order_id''), w)
         | Inr orderID \<Rightarrow>
             (case OrderUsecase_UpdateOrderStatus L orderID (protoStatusToDomain (snd req)) w of
                (Inl err, w1) \<Rightarrow> (Inl (order_mapError ''update order status'' err), w1)
              | (Inr _, w1) \<Rightarrow> (Inr req, w1))))"

end
