(* ===== verification/Order_Invariant.thy ===== *)
theory Order_Invariant
  imports Saga_Rules Order_Relay Order_Handler
begin

text \<open>
  The invariant of the order service as a whole: its handlers, the recovery of sagas and the outbox
  relay run in any order, and every call they make may fail.
\<close>

section \<open>The invariant\<close>

text \<open>
  Every order has an event in the outbox or among its dead letters; the events are well-formed for
  the relay; and the UUIDs in use are ones the source has handed out. The source repeats no UUID
  among its first \<open>N\<close> ones; the invariant says nothing about later ones.
\<close>

definition announced :: "uuid_lib \<Rightarrow> ord_db \<Rightarrow> bool" where
  "announced L d \<longleftrightarrow> (\<forall>ro\<in>set (orders d). \<exists>e\<in>events_of d. fst (snd (snd e)) = uuid_String L (orow_id ro))"

definition fresh_ids :: "nat \<Rightarrow> ('c, 'r, 'x) ow \<Rightarrow> bool" where
  "fresh_ids N w \<longleftrightarrow> inj_on (uuid_src w) {..< N} \<and> set (outbox_ids (db w)) \<subseteq> uuid_src w ` {..< uuid_ctr w}"

definition order_inv :: "uuid_lib \<Rightarrow> string \<Rightarrow> nat \<Rightarrow> ('c, 'r, 'x) ow \<Rightarrow> bool" where
  "order_inv L topic N w \<longleftrightarrow>
     (uuid_ctr w \<le> N \<longrightarrow> announced L (db w) \<and> relay_wf topic (db w) (ord_kafka w) \<and> fresh_ids N w)"

lemma order_invD:
  assumes "order_inv L topic N w" "uuid_ctr w \<le> N"
  shows "announced L (db w)" "relay_wf topic (db w) (ord_kafka w)" "fresh_ids N w"
  using assms by (simp_all add: order_inv_def)

lemma outbox_ids_events: "set (outbox_ids d) = fst ` events_of d"
  unfolding outbox_ids_def events_of_def image_Un image_image content_def dlq_content_def by simp

lemma order_frame_same:
  assumes "order_frame d d'"
  shows "events_of d' = events_of d" "outbox_ids d' = outbox_ids d" "orow_id ` set (orders d') = orow_id ` set (orders d)"
    "relay_wf topic d' ks = relay_wf topic d ks"
proof -
  have "map fst (map order_key (orders d')) = map fst (map order_key (orders d))"
    using assms by (simp only: order_frame_def)
  then have "map orow_id (orders d') = map orow_id (orders d)" by (simp add: comp_def order_key_def)
  from arg_cong [OF this, of set] show "orow_id ` set (orders d') = orow_id ` set (orders d)" by simp
qed (use assms in \<open>simp_all add: order_frame_def events_of_def outbox_ids_def relay_wf_def\<close>)

lemma announced_iff: "announced L d \<longleftrightarrow> (\<forall>i\<in>orow_id ` set (orders d). \<exists>e\<in>events_of d. fst (snd (snd e)) = uuid_String L i)"
  by (simp add: announced_def)

lemma fresh_ids_mono:
  assumes "fresh_ids N w" "uuid_src w' = uuid_src w" "uuid_ctr w \<le> uuid_ctr w'"
    "set (outbox_ids (db w')) \<subseteq> set (outbox_ids (db w))"
  shows "fresh_ids N w'"
proof -
  have "uuid_src w ` {..< uuid_ctr w} \<subseteq> uuid_src w ` {..< uuid_ctr w'}" using assms(3) by auto
  then show ?thesis using assms(1,4) unfolding fresh_ids_def assms(2) by blast
qed

lemma order_inv_frame:
  assumes "order_inv L topic N w" "ow_frame w w'"
  shows "order_inv L topic N w'"
proof -
  have f: "order_frame (db w) (db w')" "uuid_src w' = uuid_src w" "uuid_ctr w \<le> uuid_ctr w'" "ord_kafka w' = ord_kafka w"
    using assms(2) by (simp_all add: ow_frame_def)
  show ?thesis unfolding order_inv_def
  proof
    assume "uuid_ctr w' \<le> N"
    then have inv: "announced L (db w)" "relay_wf topic (db w) (ord_kafka w)" "fresh_ids N w"
      using order_invD [OF assms(1)] f(3) by simp_all
    have "fresh_ids N w'" by (rule fresh_ids_mono [OF inv(3) f(2,3)]) (simp add: order_frame_same(2) [OF f(1)])
    moreover have "announced L (db w')"
      using inv(1) unfolding announced_iff order_frame_same(1,3) [OF f(1)] .
    moreover have "relay_wf topic (db w') (ord_kafka w')"
      using inv(2) unfolding f(4) order_frame_same(4) [OF f(1)] .
    ultimately show "announced L (db w') \<and> relay_wf topic (db w') (ord_kafka w') \<and> fresh_ids N w'" by blast
  qed
qed

section \<open>Creating an order\<close>

lemma stmt_InsertItems_tables:
  "stmt_InsertItems items d = Inr (u, d') \<Longrightarrow> orders d' = orders d \<and> outbox d' = outbox d \<and> outbox_dlq d' = outbox_dlq d"
proof (induction items arbitrary: d)
  case (Cons i items)
  then obtain d1 where "stmt_InsertOrderItem i d = Inr ((), d1)" "stmt_InsertItems items d1 = Inr (u, d')"
    by (auto split: sum.splits prod.splits)
  then show ?case using Cons.IH [of d1] by (auto simp: stmt_InsertOrderItem_def split: if_splits)
qed simp

lemma stmt_InsertOrder_tables:
  "stmt_InsertOrder order d = Inr (u, d') \<Longrightarrow> (\<exists>ro. orow_id ro = Order_ID order \<and> orders d' = orders d @ [ro])
     \<and> outbox d' = outbox d \<and> outbox_dlq d' = outbox_dlq d"
  by (auto simp: stmt_InsertOrder_def split: if_splits)

lemma order_Create_effect:
  assumes "OrderPostgres_Create order w = (r, w')"
  shows "same_rest w w'"
    "r = Inr u \<Longrightarrow> (\<exists>ro. orow_id ro = Order_ID order \<and> orders (db w') = orders (db w) @ [ro])
       \<and> outbox (db w') = outbox (db w) \<and> outbox_dlq (db w') = outbox_dlq (db w)"
proof -
  obtain r1 w1 where c1: "sql (stmt_InsertOrder order) w = (r1, w1)" by fastforce
  obtain r2 w2 where c2: "sql (stmt_InsertItems (Order_Items order)) w1 = (r2, w2)" by fastforce
  obtain r3 w3 where c3: "rows_Err w2 = (r3, w3)" by fastforce
  have rest: "same_rest w w1" "same_rest w1 w2" "same_rest w2 w3"
    using same_rest_sql [OF c1] same_rest_sql [OF c2] same_rest_rows_Err [OF c3] .
  then have rest': "same_rest w w2" "same_rest w w3" using same_rest_trans by blast+
  show "same_rest w w'"
    using assms c1 c2 c3 rest(1) rest' by (cases r1; cases r2; cases r3) (auto simp: OrderPostgres_Create_def)
  assume "r = Inr u"
  then have ok: "r1 = Inr ()" "r2 = Inr ()" "w' = w3"
    using assms c1 c2 c3 by (cases r1; cases r2; cases r3; simp add: OrderPostgres_Create_def)+
  have "(\<exists>ro. orow_id ro = Order_ID order \<and> orders (db w1) = orders (db w) @ [ro])
     \<and> outbox (db w1) = outbox (db w) \<and> outbox_dlq (db w1) = outbox_dlq (db w)"
    using stmt_InsertOrder_tables [OF sql_Inr [OF c1 [unfolded ok]]] .
  moreover have "orders (db w2) = orders (db w1) \<and> outbox (db w2) = outbox (db w1) \<and> outbox_dlq (db w2) = outbox_dlq (db w1)"
    using stmt_InsertItems_tables [OF sql_Inr [OF c2 [unfolded ok]]] .
  moreover have "db w3 = db w2" by (rule rows_Err_db [OF c3])
  ultimately show "(\<exists>ro. orow_id ro = Order_ID order \<and> orders (db w') = orders (db w) @ [ro])
       \<and> outbox (db w') = outbox (db w) \<and> outbox_dlq (db w') = outbox_dlq (db w)"
    unfolding ok by simp
qed

lemma outbox_Create_effect:
  assumes "OutboxPostgres_Create event NoTx w = (r, t, w')"
  shows "same_rest w w'"
    "r = Inr u \<Longrightarrow> \<exists>e. Outbox_ID e = Outbox_ID event \<and> Outbox_AggregateID e = Outbox_AggregateID event \<and> Outbox_ProcessedAt e = None \<and> Outbox_RetryCount e = Outbox_RetryCount event
       \<and> outbox (db w') = outbox (db w) @ [e] \<and> outbox_dlq (db w') = outbox_dlq (db w) \<and> orders (db w') = orders (db w)"
proof -
  define event1 where "event1 = (if Outbox_NextRetryAt event = None then event\<lparr>Outbox_NextRetryAt := Some (clock w)\<rparr> else event)"
  have e1: "Outbox_ID event1 = Outbox_ID event" "Outbox_AggregateID event1 = Outbox_AggregateID event" "Outbox_RetryCount event1 = Outbox_RetryCount event"
    by (simp_all add: event1_def)
  obtain q w1 where c: "sql (stmt_InsertOutbox event1) w = (q, w1)" by fastforce
  have res: "w' = w1" "r = Inr u \<Longrightarrow> q = Inr ()"
    using assms c unfolding OutboxPostgres_Create_def event1_def [symmetric] Let_def
    by (cases q; simp add: tx_exec_def)+
  show "same_rest w w'" using same_rest_sql [OF c] res(1) by simp
  assume "r = Inr u"
  from sql_Inr [OF c [unfolded res(2) [OF this]]]
  have "stmt_InsertOutbox event1 (db w) = Inr ((), db w1)" .
  then have "db w1 = (db w)\<lparr>outbox := outbox (db w) @ [event1\<lparr>Outbox_CreatedAt := pg_timestamp (Outbox_CreatedAt event1),
      Outbox_ProcessedAt := None, Outbox_LastError := None, Outbox_NextRetryAt := map_option pg_timestamp (Outbox_NextRetryAt event1)\<rparr>]\<rparr>"
    by (simp add: stmt_InsertOutbox_def split: if_splits)
  then show "\<exists>e. Outbox_ID e = Outbox_ID event \<and> Outbox_AggregateID e = Outbox_AggregateID event \<and> Outbox_ProcessedAt e = None \<and> Outbox_RetryCount e = Outbox_RetryCount event
       \<and> outbox (db w') = outbox (db w) @ [e] \<and> outbox_dlq (db w') = outbox_dlq (db w) \<and> orders (db w') = orders (db w)"
    unfolding res(1)
    by (intro exI [of _ "event1\<lparr>Outbox_CreatedAt := pg_timestamp (Outbox_CreatedAt event1),
      Outbox_ProcessedAt := None, Outbox_LastError := None, Outbox_NextRetryAt := map_option pg_timestamp (Outbox_NextRetryAt event1)\<rparr>"])
      (use e1 in simp)
qed

text \<open>The body of the transaction writes the order and its event, or reports an error.\<close>

lemma create_order_tx_effect:
  assumes "create_order_tx L order w = (r, w')"
  shows "uuid_src w' = uuid_src w" "ord_kafka w' = ord_kafka w" "uuid_ctr w \<le> uuid_ctr w'"
    "r = Inr x \<Longrightarrow> \<exists>ro e. orow_id ro = Order_ID order \<and> orders (db w') = orders (db w) @ [ro]
       \<and> outbox (db w') = outbox (db w) @ [e] \<and> outbox_dlq (db w') = outbox_dlq (db w)
       \<and> Outbox_ID e = uuid_src w (uuid_ctr w) \<and> Outbox_AggregateID e = uuid_String L (Order_ID order)
       \<and> Outbox_ProcessedAt e = None \<and> Outbox_RetryCount e = 0 \<and> uuid_ctr w' = Suc (uuid_ctr w)"
proof -
  obtain r1 w1 where c1: "OrderPostgres_Create order w = (r1, w1)" by fastforce
  obtain event w2 where c2: "outboxEventFromOrder L order w1 = (event, w2)" by fastforce
  obtain r3 t w3 where c3: "OutboxPostgres_Create event NoTx w2 = (r3, t, w3)" using prod_cases3 by blast
  note o1 = order_Create_effect [OF c1] and o3 = outbox_Create_effect [OF c3]
  have w2: "uuid_src w2 = uuid_src w1" "uuid_ctr w2 = Suc (uuid_ctr w1)" "ord_kafka w2 = ord_kafka w1" "db w2 = db w1"
    and ev: "Outbox_ID event = uuid_src w1 (uuid_ctr w1)" "Outbox_AggregateID event = uuid_String L (Order_ID order)"
      "Outbox_RetryCount event = 0"
    using c2 by (auto simp: outboxEventFromOrder_def uuid_New_def)
  have res: "w' = w1 \<or> w' = w3" "r = Inr x \<Longrightarrow> r1 = Inr () \<and> r3 = Inr () \<and> w' = w3"
    using assms c1 c2 c3 by (cases r1; cases r3; force simp: create_order_tx_def)+
  show "uuid_src w' = uuid_src w" "ord_kafka w' = ord_kafka w" "uuid_ctr w \<le> uuid_ctr w'"
    using res(1) o1(1) o3(1) w2 by (auto simp: same_rest_def)
  assume "r = Inr x"
  with res(2) have ok: "r1 = Inr ()" "r3 = Inr ()" "w' = w3" by auto
  obtain ro where ro: "orow_id ro = Order_ID order" "orders (db w1) = orders (db w) @ [ro]"
    "outbox (db w1) = outbox (db w)" "outbox_dlq (db w1) = outbox_dlq (db w)"
    using o1(2) [OF ok(1)] by blast
  obtain e where e: "Outbox_ID e = Outbox_ID event \<and> Outbox_AggregateID e = Outbox_AggregateID event" "Outbox_ProcessedAt e = None" "Outbox_RetryCount e = 0"
    "outbox (db w3) = outbox (db w) @ [e]" "outbox_dlq (db w3) = outbox_dlq (db w)" "orders (db w3) = orders (db w) @ [ro]"
    using o3(2) [OF ok(2)] w2(4) ev(3) ro by auto
  have "uuid_ctr w3 = Suc (uuid_ctr w)" "Outbox_ID e = uuid_src w (uuid_ctr w)" "Outbox_AggregateID e = uuid_String L (Order_ID order)"
    using o1(1) o3(1) w2 ev e(1) by (auto simp: same_rest_def)
  with ro(1) e ok(3) show "\<exists>ro e. orow_id ro = Order_ID order \<and> orders (db w') = orders (db w) @ [ro]
       \<and> outbox (db w') = outbox (db w) @ [e] \<and> outbox_dlq (db w') = outbox_dlq (db w)
       \<and> Outbox_ID e = uuid_src w (uuid_ctr w) \<and> Outbox_AggregateID e = uuid_String L (Order_ID order)
       \<and> Outbox_ProcessedAt e = None \<and> Outbox_RetryCount e = 0 \<and> uuid_ctr w' = Suc (uuid_ctr w)"
    by (intro exI [of _ ro] exI [of _ e]) simp
qed

lemma order_inv_extend:
  assumes inv: "order_inv L topic N w" and ids: "uuid_src w' = uuid_src w" "uuid_ctr w' = Suc (uuid_ctr w)"
    and k: "ord_kafka w' = ord_kafka w"
    and o1: "orow_id ro = Order_ID order" "orders (db w') = orders (db w) @ [ro]"
    and e: "outbox (db w') = outbox (db w) @ [e]" "outbox_dlq (db w') = outbox_dlq (db w)"
      "Outbox_ID e = uuid_src w (uuid_ctr w)" "Outbox_AggregateID e = uuid_String L (Order_ID order)"
      "Outbox_ProcessedAt e = None" "Outbox_RetryCount e = 0"
  shows "order_inv L topic N w'"
proof -
  show ?thesis unfolding order_inv_def
  proof
    assume le: "uuid_ctr w' \<le> N"
    then have lt: "uuid_ctr w < N" using ids(2) by simp
    note inv0 = order_invD [OF inv less_imp_le [OF lt]]
    have evs: "events_of (db w') = insert (content e) (events_of (db w))"
      by (simp add: events_of_def e(1,2))
    have agg: "fst (snd (snd (content e))) = uuid_String L (orow_id ro)" by (simp add: content_def e(4) o1)
    have ann: "announced L (db w')"
      using inv0(1) agg unfolding announced_def evs o1(2) by auto
    have idset: "set (outbox_ids (db w')) = insert (uuid_src w (uuid_ctr w)) (set (outbox_ids (db w)))"
      by (simp add: outbox_ids_def e(1,2,3))
    have sub: "set (outbox_ids (db w)) \<subseteq> uuid_src w ` {..< uuid_ctr w}" and inj: "inj_on (uuid_src w) {..< N}"
      using inv0(3) by (simp_all add: fresh_ids_def)
    have "uuid_src w (uuid_ctr w) \<notin> uuid_src w ` {..< uuid_ctr w}"
      using lt by (auto dest!: inj_onD [OF inj])
    with sub have new: "uuid_src w (uuid_ctr w) \<notin> set (outbox_ids (db w))" by blast
    have "fresh_ids N w'"
      using inj sub unfolding fresh_ids_def ids idset by (auto simp: lessThan_Suc)
    moreover have "relay_wf topic (db w') (ord_kafka w')"
      using inv0(2) new unfolding relay_wf_def k outbox_ids_def e(1,2)
      by (auto simp: e(3,5,6) relay_maxRetries_def)
    ultimately show "announced L (db w') \<and> relay_wf topic (db w') (ord_kafka w') \<and> fresh_ids N w'"
      using ann by blast
  qed
qed

lemma create_order_inv:
  assumes inv: "order_inv L topic N w" and run: "txm_Run (create_order_tx L order) w = (r, w')"
  shows "order_inv L topic N w'"
proof -
  obtain f w1 where f: "take_fault w = (f, w1)" by fastforce
  obtain q w2 where q: "create_order_tx L order w1 = (q, w2)" by fastforce
  obtain g w3 where g: "take_fault w2 = (g, w3)" by fastforce
  obtain fs where w1: "w1 = w\<lparr>faults := fs\<rparr>" using take_fault_world [OF f] ..
  obtain gs where w3: "w3 = w2\<lparr>faults := gs\<rparr>" using take_fault_world [OF g] ..
  note tx = create_order_tx_effect [OF q]
  have fr: "ow_frame w w1" by (simp add: w1 ow_frame_def)
  have undone: "ow_frame w (v\<lparr>db := db w\<rparr>)" if "uuid_src v = uuid_src w" "uuid_ctr w \<le> uuid_ctr v" "ord_kafka v = ord_kafka w" for v
    using that by (simp add: ow_frame_def)
  have v2: "uuid_src w2 = uuid_src w" "uuid_ctr w \<le> uuid_ctr w2" "ord_kafka w2 = ord_kafka w"
    using tx(1-3) by (simp_all add: w1)
  have "w' = w1 \<or> w' = w2\<lparr>db := db w\<rparr> \<or> w' = w3\<lparr>db := db w\<rparr> \<or> (\<exists>x. q = Inr x) \<and> w' = w3"
    by (rule txm_Run_worlds [OF run f q g])
  then consider "w' = w1" | "w' = w2\<lparr>db := db w\<rparr>" | "w' = w3\<lparr>db := db w\<rparr>" | x where "q = Inr x" "w' = w3"
    by (elim disjE conjE exE)
  then show ?thesis
  proof cases
    case 1
    with fr show ?thesis using order_inv_frame [OF inv] by simp
  next
    case 2
    then show ?thesis using order_inv_frame [OF inv undone [of w2]] v2 by simp
  next
    case 3
    then show ?thesis using order_inv_frame [OF inv undone [of w3]] v2 by (simp add: w3)
  next
    case (4 x)
    obtain ro e where "orow_id ro = Order_ID order" "orders (db w2) = orders (db w1) @ [ro]"
      "outbox (db w2) = outbox (db w1) @ [e]" "outbox_dlq (db w2) = outbox_dlq (db w1)"
      "Outbox_ID e = uuid_src w1 (uuid_ctr w1)" "Outbox_AggregateID e = uuid_String L (Order_ID order)"
      "Outbox_ProcessedAt e = None" "Outbox_RetryCount e = 0" "uuid_ctr w2 = Suc (uuid_ctr w1)"
      using tx(4) [OF 4(1)] by blast
    then show ?thesis
      by (intro order_inv_extend [OF inv, of w' ro order e]) (use tx(1,2) in \<open>simp_all add: w1 w3 4(2)\<close>)
  qed
qed

section \<open>The operations of the service\<close>

text \<open>A stub talks to another service; the state it changes is on the other side.\<close>

definition stubs_local :: "('c, 'r, 'x) ow grpc_stubs \<Rightarrow> bool" where
  "stubs_local S \<longleftrightarrow> (\<forall>req w. ow_frame w (snd (stub_Reserve S req w))) \<and> (\<forall>req w. ow_frame w (snd (stub_Release S req w)))
     \<and> (\<forall>req w. ow_frame w (snd (stub_ProcessPayment S req w))) \<and> (\<forall>req w. ow_frame w (snd (stub_Refund S req w)))
     \<and> (\<forall>req w. ow_frame w (snd (stub_GetProduct S req w)))"

lemma snd_err_of [simp]: "snd (err_of r) = snd r"
  by (simp add: err_of_def split: prod.splits sum.splits)

lemma snd_paymentClient_ProcessPayment:
  "\<exists>req. snd (paymentClient_ProcessPayment S i a k w) = snd (stub_ProcessPayment S req w)"
  by (rule exI [of _ "\<lparr>ProcessPaymentRequest_OrderId = i, ProcessPaymentRequest_AmountCents = a,
        ProcessPaymentRequest_IdempotencyKey = k\<rparr>"])
    (simp add: paymentClient_ProcessPayment_def split_def split: sum.splits)

lemma clients_of_local: "stubs_local S \<Longrightarrow> clients_local (saga_clients_of S)"
  unfolding clients_local_def stubs_local_def saga_clients_of_def
  by (auto simp: inventoryClient_Reserve_def inventoryClient_Release_def paymentClient_Refund_def)
    (metis snd_paymentClient_ProcessPayment)

lemma check_prices_frame: "stubs_local S \<Longrightarrow> ow_frame w (snd (check_prices L S items w))"
proof (induction items arbitrary: w)
  case (Cons item items)
  obtain r w1 where c: "stub_GetProduct S (uuid_String L (Item_ProductID item)) w = (r, w1)" by fastforce
  have w1: "ow_frame w w1" using Cons.prems c unfolding stubs_local_def by (metis snd_conv)
  have "ow_frame w (snd (check_prices L S items w1))"
    using w1 Cons.IH [OF Cons.prems] by (rule ow_frame_trans)
  then show ?case
    using c w1 by (cases r) (simp_all add: catalogClient_GetProduct_def split: option.splits)
qed simp

lemma assign_ids_frame: "ow_frame w (snd (assign_ids i items w))"
proof (induction items arbitrary: w)
  case (Cons item items)
  obtain j w1 where u: "uuid_New w = (j, w1)" by fastforce
  have "ow_frame w w1" using uuid_New_frame [of w] u by simp
  then have "ow_frame w (snd (assign_ids i items w1))" using Cons.IH by (rule ow_frame_trans)
  then show ?case using u by (simp add: split_def)
qed simp

lemma new_order_frame: "ow_frame w (snd (new_order u items w))"
proof -
  obtain j w1 where n: "uuid_New w = (j, w1)" by fastforce
  have "ow_frame w w1" using uuid_New_frame [of w] n by simp
  then have "ow_frame w (snd (assign_ids j items w1))" using assign_ids_frame by (rule ow_frame_trans)
  then show ?thesis using n by (simp add: new_order_def split_def)
qed

lemma publishOrderEvent_frame [simp]: "ow_frame w (publishOrderEvent i st u w)"
  by (simp add: publishOrderEvent_def ow_frame_def split: option.splits)

lemma CreateOrder_inv:
  assumes inv: "order_inv L topic N w" and S: "stubs_local S"
  shows "order_inv L topic N (snd (OrderUsecase_CreateOrder L S u items key w))"
proof -
  obtain e1 w1 where c1: "check_prices L S items w = (e1, w1)" by fastforce
  have i1: "order_inv L topic N w1"
    using order_inv_frame [OF inv] check_prices_frame [OF S, of w L items] c1 by simp
  obtain order w2 where c2: "new_order u items w1 = (order, w2)" by fastforce
  have i2: "order_inv L topic N w2" using order_inv_frame [OF i1] new_order_frame [of w1 u items] c2 by simp
  obtain r w3 where c3: "txm_Run (create_order_tx L order) w2 = (r, w3)" by fastforce
  have i3: "order_inv L topic N w3" by (rule create_order_inv [OF i2 c3])
  let ?w4 = "publishOrderEvent (uuid_String L (Order_ID order)) (Order_Status order) (uuid_String L (Order_UserID order)) w3"
  have i4: "order_inv L topic N ?w4" by (rule order_inv_frame [OF i3]) simp
  obtain e5 w5 where c5: "ProcessOrder L (saga_clients_of S) order key ?w4 = (e5, w5)" by fastforce
  have "order_inv L topic N (snd (ProcessOrder L (saga_clients_of S) order key ?w4))"
    by (rule order_inv_frame [OF i4]) (rule saga_frame(1) [OF clients_of_local [OF S]])
  then have "order_inv L topic N w5" using c5 by simp
  then show ?thesis
    using c1 c2 c3 c5 i1 i3 by (cases e1; cases r; cases e5) (simp_all add: OrderUsecase_CreateOrder_def Let_def)
qed

lemma CancelOrder_frame:
  assumes S: "stubs_local S"
  shows "ow_frame w (snd (OrderUsecase_CancelOrder L S i w))"
proof -
  obtain r w1 where c1: "OrderPostgres_GetByID i w = (r, w1)" by fastforce
  have f1: "ow_frame w w1" using ow_frame_reads(2) [of w i] c1 by simp
  show ?thesis
  proof (cases r)
    case (Inl err)
    then show ?thesis using c1 f1 by (simp add: OrderUsecase_CancelOrder_def)
  next
    case (Inr order)
    let ?pub = "publishOrderEvent (uuid_String L (Order_ID order)) OrderStatusCancelled (uuid_String L (Order_UserID order))"
    obtain q w2 where c2: "OrderPostgres_UpdateStatus i OrderStatusCancelled w1 = (q, w2)" by fastforce
    obtain e w3 where c3: "Orchestrator_CancelOrder L (saga_clients_of S) order w1 = (e, w3)" by fastforce
    have "ow_frame w1 w2" using ow_frame_repo(1) [of w1 i OrderStatusCancelled] c2 by simp
    with f1 have f2: "ow_frame w w2" by (rule ow_frame_trans)
    have "ow_frame w1 w3" using saga_frame(3) [OF clients_of_local [OF S], of w1 L order] c3 by simp
    with f1 have f3: "ow_frame w w3" by (rule ow_frame_trans)
    have "ow_frame w (?pub w2)" "ow_frame w (?pub w3)"
      using ow_frame_trans [OF f2 publishOrderEvent_frame] ow_frame_trans [OF f3 publishOrderEvent_frame] by blast+
    then show ?thesis
      using c1 Inr c2 c3 f1 f2 f3 by (cases q; cases e) (simp_all add: OrderUsecase_CancelOrder_def)
  qed
qed

lemma UpdateOrderStatus_frame: "ow_frame w (snd (OrderUsecase_UpdateOrderStatus L i st w))"
proof -
  obtain r w1 where c1: "OrderPostgres_GetByID i w = (r, w1)" by fastforce
  have f1: "ow_frame w w1" using ow_frame_reads(2) [of w i] c1 by simp
  obtain q w2 where c2: "OrderPostgres_UpdateStatus i st w1 = (q, w2)" by fastforce
  have "ow_frame w1 w2" using ow_frame_repo(1) [of w1 i st] c2 by simp
  with f1 have f2: "ow_frame w w2" by (rule ow_frame_trans)
  then have "ow_frame w (publishOrderEvent a b c w2)" for a b c using publishOrderEvent_frame by (rule ow_frame_trans)
  then show ?thesis
    using c1 c2 f1 f2 by (cases r; cases q) (simp_all add: OrderUsecase_UpdateOrderStatus_def split: option.splits)
qed

lemma ListByUser_frame: "ow_frame w (snd (OrderPostgres_ListByUser u page n w))"
proof -
  define offset where "offset = (if i64 (i64 (page - 1) * n) < 0 then 0 else i64 (i64 (page - 1) * n))"
  obtain r w1 where c1: "sql (stmt_CountOrders u) w = (r, w1)" by fastforce
  obtain q w2 where c2: "sql (stmt_ListOrders u n offset) w1 = (q, w2)" by fastforce
  obtain s w3 where c3: "rows_Err w2 = (s, w3)" by fastforce
  have d: "db w1 = db w" "db w2 = db w1" "db w3 = db w2"
  proof -
    show "db w1 = db w" using c1 unfolding stmt_CountOrders_def by (rule query_rows_db)
    show "db w2 = db w1"
      using c2 by (cases rule: sql_cases) (auto simp: stmt_ListOrders_def query_rows_def split: if_splits)
    show "db w3 = db w2" by (rule rows_Err_db [OF c3])
  qed
  have "ow_frame w w1" "ow_frame w1 w2" "ow_frame w2 w3"
    using d same_rest_sql [OF c1] same_rest_sql [OF c2] same_rest_rows_Err [OF c3] by (auto intro!: ow_frameI)
  moreover from this have "ow_frame w w2" "ow_frame w w3" using ow_frame_trans by blast+
  ultimately show ?thesis
    using c1 c2 c3 unfolding OrderPostgres_ListByUser_def Let_def offset_def [symmetric]
    by (cases r; cases q; cases s) simp_all
qed

lemma read_owned_order_frame: "ow_frame w (snd (read_owned_order L c req w))"
proof -
  have "ow_frame w (snd (OrderPostgres_GetByID i w))" for i by (rule ow_frame_reads)
  then show ?thesis
    by (auto simp: read_owned_order_def OrderUsecase_GetOrder_def split: prod.splits sum.splits) (metis snd_conv)+
qed

section \<open>The relay\<close>

text \<open>What a poll does not touch: the orders and the source of UUIDs.\<close>

definition relay_rest :: "OrderRow list \<Rightarrow> (nat \<Rightarrow> uuid) \<Rightarrow> nat \<Rightarrow> otx \<Rightarrow> ('c, 'r, 'x) ow \<Rightarrow> bool" where
  "relay_rest os us uc t w \<longleftrightarrow> orders (db w) = os \<and> uuid_src w = us \<and> uuid_ctr w = uc
     \<and> (\<forall>d ab. t = InTx d ab \<longrightarrow> orders d = os)"

lemma tx_exec_rest:
  assumes "tx_exec stmt t w = (r, t', w')" and "relay_rest os us uc t w"
    and stmt: "\<And>x d'. stmt (db w) = Inr (x, d') \<Longrightarrow> orders d' = orders (db w)"
  shows "relay_rest os us uc t' w'"
proof -
  obtain q w1 where s: "sql stmt w = (q, w1)" by fastforce
  have "orders (db w1) = orders (db w)" using s stmt by (cases rule: sql_cases) auto
  moreover have "uuid_src w1 = uuid_src w" "uuid_ctr w1 = uuid_ctr w"
    using same_rest_sql [OF s] by (simp_all add: same_rest_def)
  ultimately have w1: "relay_rest os us uc t w1" using assms(2) by (simp add: relay_rest_def)
  show ?thesis
  proof (cases t)
    case NoTx
    then show ?thesis using assms(1) s w1 by (simp add: tx_exec_def)
  next
    case (InTx d ab)
    then show ?thesis
      using assms(1,2) s w1 by (cases ab; cases q) (auto simp: tx_exec_def relay_rest_def)
  qed
qed

lemma outbox_stmts_orders:
  "stmt_IncrementRetry i err nxt d = Inr (x, d') \<Longrightarrow> orders d' = orders d"
  "stmt_InsertDLQ q d = Inr (x, d') \<Longrightarrow> orders d' = orders d"
  "stmt_DeleteOutbox i d = Inr (x, d') \<Longrightarrow> orders d' = orders d"
  "stmt_MarkProcessed now ids d = Inr (x, d') \<Longrightarrow> orders d' = orders d"
  "stmt_GetUnprocessed locked now n d = Inr (y, d') \<Longrightarrow> orders d' = orders d"
  by (auto simp: stmt_IncrementRetry_def stmt_InsertDLQ_def stmt_DeleteOutbox_def stmt_MarkProcessed_def
      stmt_GetUnprocessed_def query_rows_def update_outbox_def split: if_splits)

lemma SendMessage_rest:
  assumes "SyncProducer_SendMessage topic k v w = (r, w1)"
  shows "relay_rest os us uc t w1 = relay_rest os us uc t w"
proof -
  obtain f w0 where tf: "take_fault w = (f, w0)" by fastforce
  obtain fs where w0: "w0 = w\<lparr>faults := fs\<rparr>" using take_fault_world [OF tf] ..
  show ?thesis
    using assms tf unfolding w0 by (cases f) (auto simp: SyncProducer_SendMessage_def relay_rest_def)
qed

lemma relay_events_rest:
  "relay_events topic now events processed t w = (p, t', w') \<Longrightarrow> relay_rest os us uc t w \<Longrightarrow> relay_rest os us uc t' w'"
proof (induction events arbitrary: processed t w)
  case (Cons event events)
  obtain r w1 where s: "SyncProducer_SendMessage topic (Outbox_AggregateID event) (Outbox_Payload event) w = (r, w1)"
    by fastforce
  have r1: "relay_rest os us uc t w1" using Cons.prems(2) SendMessage_rest [OF s] by simp
  show ?case
  proof (cases r)
    case None
    then show ?thesis using Cons.IH [OF _ r1] Cons.prems(1) s by simp
  next
    case (Some err)
    let ?dlq = "dlq_event event now (err_Error err)"
    let ?inc = "stmt_IncrementRetry (Outbox_ID event) (err_Error err) (calculateNextRetry (Outbox_RetryCount event) w1)"
    obtain q2 t2 w2 where m1: "tx_exec (stmt_InsertDLQ ?dlq) t w1 = (q2, t2, w2)" using prod_cases3 by blast
    obtain q3 t3 w3 where m2: "tx_exec (stmt_DeleteOutbox (Outbox_ID event)) t2 w2 = (q3, t3, w3)"
      using prod_cases3 by blast
    obtain q4 t4 w4 where inc: "tx_exec ?inc t w1 = (q4, t4, w4)" using prod_cases3 by blast
    have r2: "relay_rest os us uc t2 w2" by (rule tx_exec_rest [OF m1 r1]) (rule outbox_stmts_orders)
    have r3: "relay_rest os us uc t3 w3" by (rule tx_exec_rest [OF m2 r2]) (rule outbox_stmts_orders)
    have r4: "relay_rest os us uc t4 w4" by (rule tx_exec_rest [OF inc r1]) (rule outbox_stmts_orders)
    show ?thesis
    proof (cases "i64 (Outbox_RetryCount event + 1) \<ge> relay_maxRetries")
      case True
      then have "relay_events topic now events processed t2 w2 = (p, t', w') \<or> relay_events topic now events processed t3 w3 = (p, t', w')"
        using Cons.prems(1) s Some m1 m2 by (cases q2; cases q3) (simp_all add: OutboxPostgres_MoveToDLQ_def)
      then show ?thesis using Cons.IH r2 r3 by blast
    next
      case False
      then have "relay_events topic now events processed t4 w4 = (p, t', w')"
        using Cons.prems(1) s Some inc by (cases q4) (simp_all add: OutboxPostgres_IncrementRetryAndSetError_def)
      then show ?thesis using Cons.IH r4 by blast
    qed
  qed
qed simp

lemma Rollback_rest: "relay_rest os us uc t w \<Longrightarrow> snd (OutboxPostgres_Rollback t w) = (t', w') \<Longrightarrow> relay_rest os us uc t' w'"
proof (cases t)
  case (InTx d ab)
  obtain f w1 where tf: "take_fault w = (f, w1)" by fastforce
  obtain fs where w1: "w1 = w\<lparr>faults := fs\<rparr>" using take_fault_world [OF tf] ..
  assume "relay_rest os us uc t w" "snd (OutboxPostgres_Rollback t w) = (t', w')"
  then show ?thesis
    using tf InTx unfolding w1 by (cases f) (auto simp: OutboxPostgres_Rollback_def tx_rollback_def relay_rest_def)
qed (simp add: OutboxPostgres_Rollback_def)

lemma Commit_rest: "relay_rest os us uc t w \<Longrightarrow> OutboxPostgres_Commit t w = (e, t', w') \<Longrightarrow> relay_rest os us uc t' w'"
proof (cases t)
  case (InTx d ab)
  obtain f w1 where tf: "take_fault w = (f, w1)" by fastforce
  obtain fs where w1: "w1 = w\<lparr>faults := fs\<rparr>" using take_fault_world [OF tf] ..
  assume "relay_rest os us uc t w" "OutboxPostgres_Commit t w = (e, t', w')"
  then show ?thesis
    using tf InTx unfolding w1 by (cases f; cases ab) (auto simp: OutboxPostgres_Commit_def tx_commit_def relay_rest_def)
qed (simp add: OutboxPostgres_Commit_def)

lemma poll_rest:
  assumes poll: "Relay_poll locked topic NoTx w = (t', w')" and "relay_rest os us uc NoTx w"
  shows "relay_rest os us uc t' w'"
proof -
  obtain f w1 where tf: "take_fault w = (f, w1)" by fastforce
  obtain fs where w1: "w1 = w\<lparr>faults := fs\<rparr>" using take_fault_world [OF tf] ..
  have r1: "relay_rest os us uc (InTx (db w1) False) w1" "relay_rest os us uc NoTx w1"
    using assms(2) by (auto simp: w1 relay_rest_def)
  obtain q t2 w2 where g: "tx_exec (stmt_GetUnprocessed locked (clock w1) 100) (InTx (db w1) False) w1 = (q, t2, w2)"
    using prod_cases3 by blast
  have r2: "relay_rest os us uc t2 w2" by (rule tx_exec_rest [OF g r1(1)]) (rule outbox_stmts_orders)
  obtain s w3 where e: "rows_Err w2 = (s, w3)" by fastforce
  have r3: "relay_rest os us uc t2 w3"
    using r2 rows_Err_world [OF e] by (auto simp: relay_rest_def)
  show ?thesis
  proof (cases "f = NoFault \<and> (\<exists>evs. q = Inr evs) \<and> s = Inr ()")
    case False
    then consider "f \<noteq> NoFault" | err where "f = NoFault" "q = Inl err" | evs err where "f = NoFault" "q = Inr evs" "s = Inl err"
      by (cases q; cases s) auto
    then show ?thesis
    proof cases
      case 1
      then show ?thesis
        using poll tf r1(2) by (cases f) (simp_all add: Relay_poll_def OutboxPostgres_Begin_def)
    next
      case 2
      then have "snd (OutboxPostgres_Rollback t2 w2) = (t', w')"
        using poll tf g by (simp add: Relay_poll_def OutboxPostgres_Begin_def OutboxPostgres_GetUnprocessed_def)
      with r2 show ?thesis by (rule Rollback_rest)
    next
      case 3
      then have "snd (OutboxPostgres_Rollback t2 w3) = (t', w')"
        using poll tf g e by (simp add: Relay_poll_def OutboxPostgres_Begin_def OutboxPostgres_GetUnprocessed_def)
      with r3 show ?thesis by (rule Rollback_rest)
    qed
  next
    case True
    then obtain evs where ok: "f = NoFault" "q = Inr evs" "s = Inr ()" by blast
    obtain ps t4 w4 where l: "relay_events topic (clock w3) evs [] t2 w3 = (ps, t4, w4)" using prod_cases3 by blast
    have r4: "relay_rest os us uc t4 w4" by (rule relay_events_rest [OF l r3])
    obtain q5 t5 w5 where m: "tx_exec (stmt_MarkProcessed (clock w4) ps) t4 w4 = (q5, t5, w5)" using prod_cases3 by blast
    have r5: "relay_rest os us uc t5 w5" by (rule tx_exec_rest [OF m r4]) (rule outbox_stmts_orders)
    obtain t6 w6 r6 where m6: "(if ps \<noteq> [] then OutboxPostgres_BatchMarkProcessed ps t4 w4 else (Inr (), t4, w4)) = (r6, t6, w6)"
      using prod_cases3 by blast
    have r6: "relay_rest os us uc t6 w6"
      using m6 m r4 r5 by (cases q5; cases "ps = []") (auto simp: OutboxPostgres_BatchMarkProcessed_def)
    obtain e7 t7 w7 where c: "OutboxPostgres_Commit t6 w6 = (e7, t7, w7)" using prod_cases3 by blast
    have r7: "relay_rest os us uc t7 w7" by (rule Commit_rest [OF r6 c])
    have "snd (OutboxPostgres_Rollback t6 w6) = (t', w') \<or> snd (OutboxPostgres_Rollback t7 w7) = (t', w') \<or> (t', w') = (t7, w7)"
      using poll tf g e l m6 c ok
      by (cases r6; cases e7)
        (simp_all add: Relay_poll_def OutboxPostgres_Begin_def OutboxPostgres_GetUnprocessed_def)
    then show ?thesis using Rollback_rest [OF r6] Rollback_rest [OF r7] r7 by auto
  qed
qed

lemma poll_inv:
  assumes inv: "order_inv L topic N w" and poll: "Relay_poll locked topic NoTx w = (t', w')"
  shows "order_inv L topic N w'"
  unfolding order_inv_def
proof
  assume le: "uuid_ctr w' \<le> N"
  have rr: "relay_rest (orders (db w)) (uuid_src w) (uuid_ctr w) t' w'"
    by (rule poll_rest [OF poll]) (simp add: relay_rest_def)
  then have r: "orders (db w') = orders (db w)" "uuid_src w' = uuid_src w" "uuid_ctr w' = uuid_ctr w"
    by (simp_all add: relay_rest_def)
  note inv0 = order_invD [OF inv le [unfolded r(3)]]
  have k: "relay_wf topic (db w') (ord_kafka w')" "events_of (db w') = events_of (db w)"
    using poll_keeps [OF inv0(2) poll] by simp_all
  have "fresh_ids N w'"
    by (rule fresh_ids_mono [OF inv0(3) r(2)]) (simp_all add: r(3) k(2) outbox_ids_events)
  then show "announced L (db w') \<and> relay_wf topic (db w') (ord_kafka w') \<and> fresh_ids N w'"
    using inv0(1) k by (simp add: announced_def r(1))
qed

section \<open>Runs of the service\<close>

inductive ord_step :: "uuid_lib \<Rightarrow> ('c, 'r, 'x) ow grpc_stubs \<Rightarrow> string \<Rightarrow> ('c, 'r, 'x) ow \<Rightarrow> ('c, 'r, 'x) ow \<Rightarrow> bool"
  for L S topic where
  create: "ord_step L S topic w (snd (OrderHandler_CreateOrder L S c req w))"
| get: "ord_step L S topic w (snd (OrderHandler_GetOrder L c i w))"
| list: "ord_step L S topic w (snd (OrderHandler_ListOrders L c pg w))"
| cancel: "ord_step L S topic w (snd (OrderHandler_CancelOrder L S c i w))"
| update: "ord_step L S topic w (snd (OrderHandler_UpdateOrderStatus L c upd w))"
| recover: "ord_step L S topic w (snd (Recover L (saga_clients_of S) w))"
| poll: "ord_step L S topic w (snd (Relay_poll locked topic NoTx w))"
| environment: "ow_frame w w' \<Longrightarrow> db w' = db w \<Longrightarrow> ord_step L S topic w w'"

lemma handler_inv:
  assumes inv: "order_inv L topic N w" and S: "stubs_local S"
  shows "order_inv L topic N (snd (OrderHandler_CreateOrder L S c req w))"
    "order_inv L topic N (snd (OrderHandler_GetOrder L c i w))"
    "order_inv L topic N (snd (OrderHandler_ListOrders L c pg w))"
    "order_inv L topic N (snd (OrderHandler_CancelOrder L S c i w))"
    "order_inv L topic N (snd (OrderHandler_UpdateOrderStatus L c upd w))"
proof -
  have "order_inv L topic N w'" if "OrderUsecase_CreateOrder L S u items key w = (r, w')" for u items key r w'
    using CreateOrder_inv [OF inv S, of u items key] that by simp
  then show "order_inv L topic N (snd (OrderHandler_CreateOrder L S c req w))"
    using inv by (auto simp: OrderHandler_CreateOrder_def split: prod.splits sum.splits option.splits)
  obtain r w1 where ro: "read_owned_order L c i w = (r, w1)" by fastforce
  have i1: "order_inv L topic N w1" using order_inv_frame [OF inv] read_owned_order_frame [of w L c i] ro by simp
  then show "order_inv L topic N (snd (OrderHandler_GetOrder L c i w))"
    using ro by (cases r) (simp_all add: OrderHandler_GetOrder_def split: prod.splits)
  have "order_inv L topic N w'" if "OrderUsecase_CancelOrder L S j w1 = (q, w')" for j q w'
    using order_inv_frame [OF i1] CancelOrder_frame [OF S, of w1 L j] that by simp
  then show "order_inv L topic N (snd (OrderHandler_CancelOrder L S c i w))"
    using ro i1 by (cases r) (auto simp: OrderHandler_CancelOrder_def split: prod.splits sum.splits)
  have "order_inv L topic N w'" if "OrderPostgres_ListByUser u p n w = (q, w')" for u p n q w'
    using order_inv_frame [OF inv] ListByUser_frame [of w u p n] that by simp
  then show "order_inv L topic N (snd (OrderHandler_ListOrders L c pg w))"
    using inv by (auto simp: OrderHandler_ListOrders_def OrderUsecase_ListOrders_def split: prod.splits sum.splits)
  have "order_inv L topic N w'" if "OrderUsecase_UpdateOrderStatus L j st w = (q, w')" for j st q w'
    using order_inv_frame [OF inv] UpdateOrderStatus_frame [of w L j st] that by simp
  then show "order_inv L topic N (snd (OrderHandler_UpdateOrderStatus L c upd w))"
    using inv by (auto simp: OrderHandler_UpdateOrderStatus_def split: prod.splits sum.splits)
qed

lemma ord_step_inv:
  assumes "ord_step L S topic w w'" "stubs_local S" "order_inv L topic N w"
  shows "order_inv L topic N w'"
  using assms
proof (cases rule: ord_step.cases)
  case (poll locked)
  then show ?thesis using poll_inv [OF assms(3) surjective_pairing] by simp
next
  case recover
  then show ?thesis
    using order_inv_frame [OF assms(3) saga_frame(2) [OF clients_of_local [OF assms(2)]]] by simp
next
  case environment
  then show ?thesis using order_inv_frame [OF assms(3)] by simp
qed (use handler_inv [OF assms(3,2)] in simp_all)

end
