(* ===== verification/Saga_Props.thy ===== *)
theory Saga_Props
  imports Saga_Rules
begin

text \<open>
  What a saga does: a run in which nothing fails, runs that find the saga at its end, the number of
  calls a step makes, and the persistence of a saga between two runs.
\<close>

section \<open>A run without failures\<close>

text \<open>
  The clients answer every call; \<open>rsv\<close> and \<open>pay\<close> are what the calls do to the other services.
\<close>

definition clients_succeed ::
  "('c, 'r, 'x) ow saga_clients \<Rightarrow> (string \<Rightarrow> int \<Rightarrow> string \<Rightarrow> string \<Rightarrow> 'r \<Rightarrow> 'r) \<Rightarrow>
   (string \<Rightarrow> int \<Rightarrow> string \<Rightarrow> 'r \<Rightarrow> string \<times> 'r) \<Rightarrow> bool" where
  "clients_succeed C rsv pay \<longleftrightarrow>
     (\<forall>p q i k w. InventoryClient_Reserve C p q i k w = (None, w\<lparr>remote := rsv p q i k (remote w)\<rparr>)) \<and>
     (\<forall>i a k w. PaymentClient_ProcessPayment C i a k w =
        (Inr (fst (pay i a k (remote w))), w\<lparr>remote := snd (pay i a k (remote w))\<rparr>))"

definition reserved_of :: "uuid_lib \<Rightarrow> OrderItem \<Rightarrow> SagaReservedItem" where
  "reserved_of L i = \<lparr>Reserved_ProductID = uuid_String L (Item_ProductID i), Reserved_Quantity = i32 (Item_Quantity i)\<rparr>"

text \<open>The reservations of a list of items, in order.\<close>

definition reserve_all ::
  "uuid_lib \<Rightarrow> (string \<Rightarrow> int \<Rightarrow> string \<Rightarrow> string \<Rightarrow> 'r \<Rightarrow> 'r) \<Rightarrow> Order \<Rightarrow> string \<Rightarrow> OrderItem list \<Rightarrow> 'r \<Rightarrow> 'r" where
  "reserve_all L rsv order key items r =
     foldl (\<lambda>r i. rsv (uuid_String L (Item_ProductID i)) (i32 (Item_Quantity i)) (uuid_String L (Order_ID order))
              (reserveKey key (uuid_String L (Item_ProductID i))) r) r items"

definition ready :: "Order \<Rightarrow> ('c, 'r, 'x) ow \<Rightarrow> bool" where
  "ready order w \<longleftrightarrow> faults w = [] \<and> Order_ID order \<in> set (map srow_order_id (sagas (db w)))
     \<and> Order_ID order \<in> set (map orow_id (orders (db w)))"

lemma readyI:
  assumes "ready order w" "faults w' = []" "map srow_order_id (sagas (db w')) = map srow_order_id (sagas (db w))"
    "map orow_id (orders (db w')) = map orow_id (orders (db w))"
  shows "ready order w'"
  using assms unfolding ready_def by (simp only:)

definition saga_stored :: "Saga \<Rightarrow> ('c, 'r, 'x) ow \<Rightarrow> bool" where
  "saga_stored saga w \<longleftrightarrow> (\<forall>r\<in>set (sagas (db w)). srow_order_id r = Saga_OrderID saga \<longrightarrow>
     srow_status r = Saga_Status saga \<and> srow_payment_id r = Saga_PaymentID saga
     \<and> srow_reserved_items r = marshalReservedItems (Saga_ReservedItems saga))"

definition order_has_status :: "Order \<Rightarrow> OrderStatus \<Rightarrow> ('c, 'r, 'x) ow \<Rightarrow> bool" where
  "order_has_status order st w \<longleftrightarrow> (\<forall>ro\<in>set (orders (db w)). orow_id ro = Order_ID order \<longrightarrow> orow_status ro = st)"

lemma length_filter_pos: "y \<in> set (map f xs) \<Longrightarrow> 0 < length (filter (\<lambda>x. f x = y) xs)"
  by (induction xs) auto

lemma persist_ready:
  assumes "ready order w" "Saga_OrderID saga = Order_ID order"
    and len: "length (Saga_Status saga) \<le> 50" "length (Saga_CurrentStep saga) \<le> 50"
  obtains w1 where "persistSaga saga w = (None, saga\<lparr>Saga_UpdatedAt := clock w\<rparr>, w1)" "ready order w1"
    "remote w1 = remote w" "orders (db w1) = orders (db w)" "saga_stored saga w1"
proof -
  let ?s = "saga\<lparr>Saga_UpdatedAt := clock w\<rparr>"
  let ?f = "\<lambda>r. r\<lparr>srow_status := Saga_Status ?s, srow_current_step := Saga_CurrentStep ?s,
                    srow_error_message := Saga_ErrorMessage ?s, srow_payment_id := Saga_PaymentID ?s,
                    srow_reserved_items := marshalReservedItems (Saga_ReservedItems ?s), srow_updated_at := pg_timestamp (clock w)\<rparr>"
  define d1 where "d1 = update_sagas (Order_ID order) ?f (db w)"
  have n: "0 < length (filter (\<lambda>r. srow_order_id r = Order_ID order) (sagas (db w)))"
    using assms(1) unfolding ready_def by (intro length_filter_pos) blast
  have fl: "faults w = []" using assms(1) by (simp add: ready_def)
  have "stmt_SaveSaga (clock w) ?s (db w) =
      Inr (int (length (filter (\<lambda>r. srow_order_id r = Order_ID order) (sagas (db w)))), d1)"
    using len assms(2) by (simp add: stmt_SaveSaga_def Let_def d1_def)
  then have p: "persistSaga saga w = (None, ?s, w\<lparr>db := d1\<rparr>)"
    using n fl by (simp add: persistSaga_def SagaPostgres_Save_def sql_no_faults Let_def)
  have rd: "ready order (w\<lparr>db := d1\<rparr>)"
    by (rule readyI [OF assms(1)]) (simp_all add: d1_def update_sagas_def fl)
  have st: "saga_stored saga (w\<lparr>db := d1\<rparr>)"
    using assms(2) by (auto simp: saga_stored_def d1_def update_sagas_def)
  show thesis by (rule that [OF p rd _ _ st]) (simp_all add: d1_def update_sagas_def)
qed

lemma status_ready:
  assumes "ready order w" "order_status_check st"
  obtains w1 where "OrderPostgres_UpdateStatus (Order_ID order) st w = (Inr (), w1)" "ready order w1"
    "remote w1 = remote w" "order_has_status order st w1"
proof -
  define d1 where "d1 = (db w)\<lparr>orders := map (\<lambda>ro. if orow_id ro = Order_ID order
             then ro\<lparr>orow_status := st, orow_updated_at := pg_timestamp (clock w)\<rparr> else ro) (orders (db w))\<rparr>"
  have n: "0 < length (filter (\<lambda>ro. orow_id ro = Order_ID order) (orders (db w)))"
    using assms(1) unfolding ready_def by (intro length_filter_pos) blast
  have p: "OrderPostgres_UpdateStatus (Order_ID order) st w = (Inr (), w\<lparr>db := d1\<rparr>)"
    using assms n by (simp add: OrderPostgres_UpdateStatus_def stmt_UpdateOrderStatus_def Let_def sql_no_faults
        ready_def d1_def)
  have fl: "faults w = []" using assms(1) by (simp add: ready_def)
  have rd: "ready order (w\<lparr>db := d1\<rparr>)" by (rule readyI [OF assms(1)]) (simp_all add: d1_def fl)
  have st: "order_has_status order st (w\<lparr>db := d1\<rparr>)" by (auto simp: order_has_status_def d1_def)
  show thesis by (rule that [OF p rd _ st]) simp
qed

lemma executeWithRetry_first:
  "Step_Execute L C step order key saga w = (None, saga', w') \<Longrightarrow>
   executeWithRetry L C step order key saga w = (None, saga', w')"
  by (simp add: executeWithRetry_def retry_def maxRetries_def numeral_3_eq_3)

text \<open>One iteration: the step of the saga succeeds and the saga is stored.\<close>

lemma iteration_ready:
  assumes rd: "ready order w" and id: "Saga_OrderID saga = Order_ID order"
    and nx: "nextStep saga = Some step" and pr: "Step_Prepare step saga = (b, saga1)"
    and id1: "Saga_OrderID saga1 = Order_ID order" "length (Saga_Status saga1) \<le> 50" "length (Saga_CurrentStep saga1) \<le> 50"
    and ex: "\<And>t w1. ready order w1 \<Longrightarrow> remote w1 = remote w \<Longrightarrow> \<exists>w2. ready order w2 \<and> Q w2
      \<and> Step_Execute L C step order key (if b then saga1\<lparr>Saga_UpdatedAt := t\<rparr> else saga1) w1 = (None, saga3 t, w2)"
    and id3: "\<And>t. Saga_OrderID (saga3 t) = Order_ID order" "\<And>t. length (Saga_Status (saga3 t)) \<le> 50"
      "\<And>t. length (Saga_CurrentStep (saga3 t)) \<le> 50"
    and Q: "\<And>w2 w3. Q w2 \<Longrightarrow> remote w3 = remote w2 \<Longrightarrow> orders (db w3) = orders (db w2) \<Longrightarrow> Q w3"
  shows "\<exists>t u w3. process_loop L C order key saga w = process_loop L C order key ((saga3 t)\<lparr>Saga_UpdatedAt := u\<rparr>) w3
     \<and> ready order w3 \<and> Q w3 \<and> saga_stored (saga3 t) w3"
proof -
  obtain w0 where p0: "(if b then persistSaga saga1 w else (None, saga1, w)) =
      (None, if b then saga1\<lparr>Saga_UpdatedAt := clock w\<rparr> else saga1, w0)"
    and rd0: "ready order w0" "remote w0 = remote w"
  proof (cases b)
    case True
    obtain w1 where "persistSaga saga1 w = (None, saga1\<lparr>Saga_UpdatedAt := clock w\<rparr>, w1)" "ready order w1"
      "remote w1 = remote w" by (rule persist_ready [OF rd id1])
    with True show thesis using that [of w1] by simp
  next
    case False
    then show thesis using that [of w] rd by simp
  qed
  obtain w2 where e: "ready order w2" "Q w2" "Step_Execute L C step order key
      (if b then saga1\<lparr>Saga_UpdatedAt := clock w\<rparr> else saga1) w0 = (None, saga3 (clock w), w2)"
    using ex [OF rd0] by blast
  obtain w3 where p3: "persistSaga (saga3 (clock w)) w2 = (None, (saga3 (clock w))\<lparr>Saga_UpdatedAt := clock w2\<rparr>, w3)"
    "ready order w3" "remote w3 = remote w2" "orders (db w3) = orders (db w2)" "saga_stored (saga3 (clock w)) w3"
    using persist_ready [OF e(1) id3] by blast
  have "process_loop L C order key saga w = process_loop L C order key ((saga3 (clock w))\<lparr>Saga_UpdatedAt := clock w2\<rparr>) w3"
    unfolding process_loop.simps [of L C order key saga w] nx option.case pr prod.case p0
      executeWithRetry_first [OF e(3)] p3(1) ..
  then show ?thesis using p3(2,5) Q [OF e(2) p3(3,4)] by blast
qed

lemma status_checks [simp]:
  "order_status_check OrderStatusAwaitingPayment" "order_status_check OrderStatusPaid" "order_status_check OrderStatusCancelled"
  by (simp_all add: order_status_check_def order_status_defs)

lemma saga_lengths [simp]:
  "length SagaStatusReserving \<le> 50" "length SagaStatusReserved \<le> 50" "length SagaStatusPaying \<le> 50"
  "length SagaStatusPaid \<le> 50" "length SagaStatusConfirming \<le> 50" "length SagaStatusConfirmed \<le> 50"
  by (simp_all add: saga_status_defs)

lemma nextSteps:
  "Saga_Status saga = SagaStatusPending \<Longrightarrow> nextStep saga = Some startStep"
  "Saga_Status saga = SagaStatusReserving \<Longrightarrow> nextStep saga = Some reserveInventoryStep"
  "Saga_Status saga = SagaStatusReserved \<Longrightarrow> nextStep saga = Some processPaymentStep"
  "Saga_Status saga = SagaStatusPaid \<Longrightarrow> nextStep saga = Some confirmOrderStep"
  "Saga_Status saga = SagaStatusConfirmed \<Longrightarrow> nextStep saga = None"
  by (simp_all add: nextStep_def Let_def saga_status_defs)

text \<open>The end of a successful saga, for the items and the payment it has recorded.\<close>

definition confirmed :: "Order \<Rightarrow> SagaReservedItem list \<Rightarrow> string \<Rightarrow> 'r \<Rightarrow> go_error option \<times> ('c, 'r, 'x) ow \<Rightarrow> bool" where
  "confirmed order items pid rm res \<longleftrightarrow> fst res = None \<and> ready order (snd res) \<and> remote (snd res) = rm
     \<and> order_has_status order OrderStatusPaid (snd res)
     \<and> (\<forall>r\<in>set (sagas (db (snd res))). srow_order_id r = Order_ID order \<longrightarrow>
          srow_status r = SagaStatusConfirmed \<and> srow_payment_id r = pid \<and> srow_reserved_items r = marshalReservedItems items)"

lemma run_confirm:
  assumes rd: "ready order w" and id: "Saga_OrderID saga = Order_ID order" and st: "Saga_Status saga = SagaStatusPaid"
  shows "confirmed order (Saga_ReservedItems saga) (Saga_PaymentID saga) (remote w) (process_loop L C order key saga w)"
proof -
  let ?s1 = "saga\<lparr>Saga_Status := SagaStatusConfirming, Saga_CurrentStep := ''confirm''\<rparr>"
  let ?s3 = "\<lambda>t. ?s1\<lparr>Saga_UpdatedAt := t, Saga_Status := SagaStatusConfirmed, Saga_CurrentStep := ''confirmed''\<rparr>"
  let ?Q = "\<lambda>v. remote v = remote w \<and> order_has_status order OrderStatusPaid v"
  have "\<exists>t u w3. process_loop L C order key saga w = process_loop L C order key ((?s3 t)\<lparr>Saga_UpdatedAt := u\<rparr>) w3
     \<and> ready order w3 \<and> ?Q w3 \<and> saga_stored (?s3 t) w3"
  proof (rule iteration_ready [OF rd id nextSteps(4) [OF st]])
    show "Step_Prepare confirmOrderStep saga = (True, ?s1)" by (simp add: st saga_status_defs)
    fix t and w1 :: "('a, 'b, 'c) ow"
    assume a: "ready order w1" "remote w1 = remote w"
    obtain w2 where "OrderPostgres_UpdateStatus (Order_ID order) OrderStatusPaid w1 = (Inr (), w2)" "ready order w2"
      "remote w2 = remote w1" "order_has_status order OrderStatusPaid w2"
      by (rule status_ready [OF a(1) status_checks(2)])
    then show "\<exists>w2. ready order w2 \<and> ?Q w2 \<and> Step_Execute L C confirmOrderStep order key
        (if True then ?s1\<lparr>Saga_UpdatedAt := t\<rparr> else ?s1) w1 = (None, ?s3 t, w2)"
      using a(2) by (intro exI [of _ w2]) simp
  qed (simp_all add: id order_has_status_def)
  then obtain t u w3 where run: "process_loop L C order key saga w = process_loop L C order key ((?s3 t)\<lparr>Saga_UpdatedAt := u\<rparr>) w3"
    and w3: "ready order w3" "?Q w3" "saga_stored (?s3 t) w3" by blast
  have "process_loop L C order key ((?s3 t)\<lparr>Saga_UpdatedAt := u\<rparr>) w3 = (None, w3)"
    by (subst process_loop.simps) (simp add: nextSteps(5))
  with run w3 id show ?thesis by (simp add: confirmed_def saga_stored_def)
qed

lemma run_pay:
  assumes C: "clients_succeed C rsv pay"
    and rd: "ready order w" and id: "Saga_OrderID saga = Order_ID order" and st: "Saga_Status saga = SagaStatusReserved"
  shows "confirmed order (Saga_ReservedItems saga)
     (fst (pay (uuid_String L (Order_ID order)) (Order_TotalAmount order) (paymentKey key) (remote w)))
     (snd (pay (uuid_String L (Order_ID order)) (Order_TotalAmount order) (paymentKey key) (remote w)))
     (process_loop L C order key saga w)"
proof -
  define pr where "pr = pay (uuid_String L (Order_ID order)) (Order_TotalAmount order) (paymentKey key) (remote w)"
  let ?s1 = "saga\<lparr>Saga_Status := SagaStatusPaying, Saga_CurrentStep := ''payment''\<rparr>"
  let ?s3 = "\<lambda>t. ?s1\<lparr>Saga_UpdatedAt := t, Saga_PaymentID := fst pr, Saga_Status := SagaStatusPaid, Saga_CurrentStep := ''paid''\<rparr>"
  let ?Q = "\<lambda>v. remote v = snd pr"
  have "\<exists>t u w3. process_loop L C order key saga w = process_loop L C order key ((?s3 t)\<lparr>Saga_UpdatedAt := u\<rparr>) w3
     \<and> ready order w3 \<and> ?Q w3 \<and> saga_stored (?s3 t) w3"
  proof (rule iteration_ready [OF rd id nextSteps(3) [OF st]])
    show "Step_Prepare processPaymentStep saga = (True, ?s1)" by (simp add: st saga_status_defs)
    fix t and w1 :: "('a, 'b, 'c) ow"
    assume a: "ready order w1" "remote w1 = remote w"
    then have "ready order (w1\<lparr>remote := snd pr\<rparr>)" by (simp add: ready_def)
    then show "\<exists>w2. ready order w2 \<and> ?Q w2 \<and> Step_Execute L C processPaymentStep order key
        (if True then ?s1\<lparr>Saga_UpdatedAt := t\<rparr> else ?s1) w1 = (None, ?s3 t, w2)"
      using C a(2) by (intro exI [of _ "w1\<lparr>remote := snd pr\<rparr>"]) (simp add: clients_succeed_def pr_def)
  qed (simp_all add: id)
  then obtain t u w3 where run: "process_loop L C order key saga w = process_loop L C order key ((?s3 t)\<lparr>Saga_UpdatedAt := u\<rparr>) w3"
    and w3: "ready order w3" "?Q w3" by blast
  have "confirmed order (Saga_ReservedItems saga) (fst pr) (snd pr)
      (process_loop L C order key ((?s3 t)\<lparr>Saga_UpdatedAt := u\<rparr>) w3)"
    using run_confirm [OF w3(1), of "(?s3 t)\<lparr>Saga_UpdatedAt := u\<rparr>" L C key] w3(2) id by simp
  then show ?thesis unfolding run pr_def [symmetric] .
qed

lemma run_reserve:
  assumes C: "clients_succeed C rsv pay"
    and "ready order w" "Saga_OrderID saga = Order_ID order" "Saga_Status saga = SagaStatusReserving"
    and "length (Saga_CurrentStep saga) \<le> 50" and "n = length (Saga_ReservedItems saga)" "n \<le> length (Order_Items order)"
  shows "let rm = reserve_all L rsv order key (drop n (Order_Items order)) (remote w);
             pr = pay (uuid_String L (Order_ID order)) (Order_TotalAmount order) (paymentKey key) rm
         in confirmed order (Saga_ReservedItems saga @ map (reserved_of L) (drop n (Order_Items order))) (fst pr) (snd pr)
              (process_loop L C order key saga w)"
  using assms(2-)
proof (induction "length (Order_Items order) - n" arbitrary: n saga w)
  case 0
  then have n: "n = length (Order_Items order)" by simp
  let ?s3 = "\<lambda>t :: int. saga\<lparr>Saga_Status := SagaStatusReserved, Saga_CurrentStep := ''reserved''\<rparr>"
  have "\<exists>t u w3. process_loop L C order key saga w = process_loop L C order key ((?s3 t)\<lparr>Saga_UpdatedAt := u\<rparr>) w3
     \<and> ready order w3 \<and> remote w3 = remote w \<and> saga_stored (?s3 t) w3"
  proof (rule iteration_ready [where b = False, OF 0(2,3) nextSteps(2) [OF 0(4)]])
    fix t and w1 :: "('a, 'b, 'c) ow"
    assume "ready order w1" "remote w1 = remote w"
    then show "\<exists>w2. ready order w2 \<and> remote w2 = remote w \<and> Step_Execute L C reserveInventoryStep order key
        (if False then saga\<lparr>Saga_UpdatedAt := t\<rparr> else saga) w1 = (None, ?s3 t, w2)"
      using n 0(6) by (intro exI [of _ w1]) simp
  qed (simp_all add: 0(3-5))
  then obtain u w3 where run: "process_loop L C order key saga w = process_loop L C order key ((?s3 0)\<lparr>Saga_UpdatedAt := u\<rparr>) w3"
    and w3: "ready order w3" "remote w3 = remote w" by blast
  show ?case
    using run_pay [OF C w3(1), of "(?s3 0)\<lparr>Saga_UpdatedAt := u\<rparr>" L key] 0(3) w3(2) n
    unfolding run by (simp add: reserve_all_def Let_def)
next
  case (Suc m)
  then have lt: "n < length (Order_Items order)" by simp
  let ?item = "Order_Items order ! n"
  let ?s3 = "\<lambda>t :: int. saga\<lparr>Saga_ReservedItems := Saga_ReservedItems saga @ [reserved_of L ?item]\<rparr>"
  let ?rm = "rsv (uuid_String L (Item_ProductID ?item)) (i32 (Item_Quantity ?item)) (uuid_String L (Order_ID order))
              (reserveKey key (uuid_String L (Item_ProductID ?item))) (remote w)"
  have "\<exists>t u w3. process_loop L C order key saga w = process_loop L C order key ((?s3 t)\<lparr>Saga_UpdatedAt := u\<rparr>) w3
     \<and> ready order w3 \<and> remote w3 = ?rm \<and> saga_stored (?s3 t) w3"
  proof (rule iteration_ready [where b = False, OF Suc.prems(1,2) nextSteps(2) [OF Suc.prems(3)]])
    fix t and w1 :: "('a, 'b, 'c) ow"
    assume a: "ready order w1" "remote w1 = remote w"
    then have "ready order (w1\<lparr>remote := ?rm\<rparr>)" by (simp add: ready_def)
    then show "\<exists>w2. ready order w2 \<and> remote w2 = ?rm \<and> Step_Execute L C reserveInventoryStep order key
        (if False then saga\<lparr>Saga_UpdatedAt := t\<rparr> else saga) w1 = (None, ?s3 t, w2)"
      using C a(2) lt Suc.prems(5)
      by (intro exI [of _ "w1\<lparr>remote := ?rm\<rparr>"]) (simp add: clients_succeed_def Let_def reserved_of_def)
  qed (simp_all add: Suc.prems)
  then obtain u w3 where run: "process_loop L C order key saga w = process_loop L C order key ((?s3 0)\<lparr>Saga_UpdatedAt := u\<rparr>) w3"
    and w3: "ready order w3" "remote w3 = ?rm" by blast
  have d: "drop n (Order_Items order) = ?item # drop (Suc n) (Order_Items order)"
    using lt by (rule Cons_nth_drop_Suc [symmetric])
  have "let rm = reserve_all L rsv order key (drop (Suc n) (Order_Items order)) (remote w3);
             pr = pay (uuid_String L (Order_ID order)) (Order_TotalAmount order) (paymentKey key) rm
         in confirmed order (Saga_ReservedItems (?s3 0) @ map (reserved_of L) (drop (Suc n) (Order_Items order))) (fst pr) (snd pr)
              (process_loop L C order key ((?s3 0)\<lparr>Saga_UpdatedAt := u\<rparr>) w3)"
    using Suc.hyps(1) [of "Suc n" w3 "(?s3 0)\<lparr>Saga_UpdatedAt := u\<rparr>"] Suc.hyps(2) Suc.prems lt w3(1) by simp
  then show ?case unfolding run d w3(2) by (simp add: reserve_all_def Let_def)
qed

lemma run_start:
  assumes C: "clients_succeed C rsv pay"
    and rd: "ready order w" and id: "Saga_OrderID saga = Order_ID order" and st: "Saga_Status saga = SagaStatusPending"
    and new: "Saga_ReservedItems saga = []" "Saga_CurrentStep saga = ''''"
  shows "let rm = reserve_all L rsv order key (Order_Items order) (remote w);
             pr = pay (uuid_String L (Order_ID order)) (Order_TotalAmount order) (paymentKey key) rm
         in confirmed order (map (reserved_of L) (Order_Items order)) (fst pr) (snd pr) (process_loop L C order key saga w)"
proof -
  let ?s3 = "\<lambda>t :: int. saga\<lparr>Saga_Status := SagaStatusReserving, Saga_CurrentStep := ''reserve''\<rparr>"
  have "\<exists>t u w3. process_loop L C order key saga w = process_loop L C order key ((?s3 t)\<lparr>Saga_UpdatedAt := u\<rparr>) w3
     \<and> ready order w3 \<and> remote w3 = remote w \<and> saga_stored (?s3 t) w3"
  proof (rule iteration_ready [where b = False, OF rd id nextSteps(1) [OF st]])
    fix t and w1 :: "('a, 'b, 'c) ow"
    assume a: "ready order w1" "remote w1 = remote w"
    obtain w2 where "OrderPostgres_UpdateStatus (Order_ID order) OrderStatusAwaitingPayment w1 = (Inr (), w2)" "ready order w2"
      "remote w2 = remote w1"
      by (rule status_ready [OF a(1) status_checks(1)])
    then show "\<exists>w2. ready order w2 \<and> remote w2 = remote w \<and> Step_Execute L C startStep order key
        (if False then saga\<lparr>Saga_UpdatedAt := t\<rparr> else saga) w1 = (None, ?s3 t, w2)"
      using a(2) by (intro exI [of _ w2]) simp
  qed (simp_all add: id new st, simp add: saga_status_defs)
  then obtain u w3 where run: "process_loop L C order key saga w = process_loop L C order key ((?s3 0)\<lparr>Saga_UpdatedAt := u\<rparr>) w3"
    and w3: "ready order w3" "remote w3 = remote w" by blast
  show ?thesis
    using run_reserve [OF C w3(1), of "(?s3 0)\<lparr>Saga_UpdatedAt := u\<rparr>" 0 L key] id new w3(2) unfolding run by simp
qed

section \<open>The row of a saga\<close>

lemma unmarshal_marshal_item:
  "int4_ok (Reserved_Quantity i) \<Longrightarrow> unmarshalReservedItem (marshalReservedItem i) = i"
  by (simp add: unmarshalReservedItem_def marshalReservedItem_def reserved_field_def EqualFold_def
      strings_ToLower_def)

lemma unmarshal_marshal_items:
  "\<forall>i\<in>set is. int4_ok (Reserved_Quantity i) \<Longrightarrow> unmarshalReservedItems (marshalReservedItems is) = is"
  by (simp add: unmarshalReservedItems_def marshalReservedItems_def unmarshal_marshal_item map_idI)

lemma reserved_of_int4 [simp]: "int4_ok (Reserved_Quantity (reserved_of L i))"
  by (simp add: reserved_of_def)

lemma stored_saga_found:
  "faults w = [] \<Longrightarrow> find (\<lambda>r. srow_order_id r = i) (sagas (db w)) = Some r \<Longrightarrow>
   SagaPostgres_GetByOrderID i w = (Inr (saga_of_row r), w)"
  by (simp add: SagaPostgres_GetByOrderID_def stmt_GetSaga_def sql_no_faults query_row_def)

lemma find_Some_id: "find P xs = Some x \<Longrightarrow> x \<in> set xs \<and> P x"
  by (auto simp: find_Some_iff)

section \<open>Properties of the saga\<close>

text \<open>
  C4. A saga in which no call fails: every item of the order is reserved once and in order, the
  payment is made once after all reservations, the order ends up paid and the stored saga is
  confirmed with all reservations and the payment recorded.
\<close>

theorem saga_happy_path:
  assumes "clients_succeed C rsv pay" "faults w = []"
    and "\<exists>ro\<in>set (orders (db w)). orow_id ro = Order_ID order"
    and "\<forall>r\<in>set (sagas (db w)). srow_order_id r \<noteq> Order_ID order \<and> srow_id r \<noteq> uuid_src w (uuid_ctr w)"
  shows "let rm = reserve_all L rsv order key (Order_Items order) (remote w);
             pr = pay (uuid_String L (Order_ID order)) (Order_TotalAmount order) (paymentKey key) rm
         in confirmed order (map (reserved_of L) (Order_Items order)) (fst pr) (snd pr) (ProcessOrder L C order key w)"
proof -
  define w1 where "w1 = w\<lparr>uuid_ctr := Suc (uuid_ctr w)\<rparr>"
  define saga where "saga = \<lparr>Saga_ID = uuid_src w (uuid_ctr w), Saga_OrderID = Order_ID order, Saga_Status = SagaStatusPending,
       Saga_CurrentStep = '''', Saga_ErrorMessage = '''', Saga_PaymentID = '''',
       Saga_ReservedItems = [], Saga_CreatedAt = clock w, Saga_UpdatedAt = clock w\<rparr>"
  define w2 where "w2 = w1\<lparr>db := (db w)\<lparr>sagas := sagas (db w) @ [saga_to_row saga]\<rparr>\<rparr>"
  have "find (\<lambda>r. srow_order_id r = Order_ID order) (sagas (db w)) = None"
    using assms(4) by (simp add: find_None_iff)
  then have get: "SagaPostgres_GetByOrderID (Order_ID order) w = (Inl (sentinelf ErrNotFound ''saga''), w)"
    using assms(2) by (simp add: SagaPostgres_GetByOrderID_def stmt_GetSaga_def sql_no_faults query_row_def)
  have "stmt_CreateSaga saga (db w) = Inr ((), (db w)\<lparr>sagas := sagas (db w) @ [saga_to_row saga]\<rparr>)"
    using assms(3,4) by (auto simp: stmt_CreateSaga_def saga_def saga_status_defs list_ex_iff)
  then have "SagaPostgres_Create saga w1 = (Inr (), w2)"
    using assms(2) by (simp add: SagaPostgres_Create_def sql_no_faults w1_def w2_def)
  then have run: "ProcessOrder L C order key w = process_loop L C order key saga w2"
    using get unfolding ProcessOrder_def
    by (simp add: uuid_New_def w1_def [symmetric] saga_def [symmetric] Let_def isTerminal_def)
      (simp add: w1_def saga_def saga_status_defs)
  have "ready order w2"
    using assms(2,3) by (force simp: ready_def w2_def w1_def saga_def saga_to_row_def)
  from run_start [OF assms(1) this, of saga L key] show ?thesis
    unfolding run by (simp add: saga_def w2_def w1_def)
qed

text \<open>
  C21. A saga that stopped while reserving resumes by position: with \<open>n\<close> reservations in its row,
  whatever they are for, it reserves the items of the order it is given from position \<open>n\<close> on, each
  once and in order, then pays once, and ends confirmed with the recorded reservations followed by
  the new ones. These are the reservations of all items exactly when the recorded ones belong to
  the first \<open>n\<close> items of the order it is given.
\<close>

theorem saga_resumes:
  assumes "clients_succeed C rsv pay" "faults w = []"
    and "\<exists>ro\<in>set (orders (db w)). orow_id ro = Order_ID order"
    and "find (\<lambda>r. srow_order_id r = Order_ID order) (sagas (db w)) = Some r" "srow_status r = SagaStatusReserving"
    and "unmarshalReservedItems (srow_reserved_items r) = recorded"
    and "length (srow_current_step r) \<le> 50" "n = length recorded" "n \<le> length (Order_Items order)"
  shows "let rm = reserve_all L rsv order key (drop n (Order_Items order)) (remote w);
             pr = pay (uuid_String L (Order_ID order)) (Order_TotalAmount order) (paymentKey key) rm;
             reserved = recorded @ map (reserved_of L) (drop n (Order_Items order))
         in confirmed order reserved (fst pr) (snd pr) (ProcessOrder L C order key w)
          \<and> (reserved = map (reserved_of L) (Order_Items order)
               \<longleftrightarrow> recorded = map (reserved_of L) (take n (Order_Items order)))"
proof -
  let ?s = "saga_of_row r"
  have row: "r \<in> set (sagas (db w))" "srow_order_id r = Order_ID order" using find_Some_id [OF assms(4)] by auto
  have items: "Saga_ReservedItems ?s = recorded" using assms(6) by (simp add: saga_of_row_def)
  have s: "Saga_OrderID ?s = Order_ID order" "Saga_Status ?s = SagaStatusReserving" "length (Saga_CurrentStep ?s) \<le> 50"
    using row assms(5,7) by (simp_all add: saga_of_row_def)
  have rd: "ready order w" using assms(2,3) row by (force simp: ready_def)
  have "ProcessOrder L C order key w = process_loop L C order key ?s w"
    using stored_saga_found [OF assms(2,4)] s(2) by (simp add: ProcessOrder_def isTerminal_def saga_status_defs)
  moreover have "map (reserved_of L) (Order_Items order)
      = map (reserved_of L) (take n (Order_Items order)) @ map (reserved_of L) (drop n (Order_Items order))"
    by (simp flip: map_append)
  ultimately show ?thesis
    using run_reserve [OF assms(1) rd s, of n L key] assms(8,9) items by simp
qed

text \<open>
  A saga at its end (confirmed, cancelled or failed) is left alone: processing its order again
  changes nothing and calls nobody.
\<close>

theorem finished_saga_untouched:
  assumes "faults w = []" "find (\<lambda>r. srow_order_id r = Order_ID order) (sagas (db w)) = Some r"
    and "srow_status r \<in> {SagaStatusConfirmed, SagaStatusCancelled, SagaStatusFailed}"
  shows "ProcessOrder L C order key w = (None, w)"
  using assms stored_saga_found [OF assms(1,2)] by (simp add: ProcessOrder_def isTerminal_def saga_of_row_def)

text \<open>
  C20. A saga that stopped while compensating stays there: recovery finds it among the incomplete
  sagas, but processing its order does nothing and reports success, so stock and money it still
  holds are not given back.
\<close>

theorem compensating_saga_stuck:
  assumes "faults w = []" "find (\<lambda>r. srow_order_id r = Order_ID order) (sagas (db w)) = Some r"
    and "srow_status r = SagaStatusCompensating"
  shows "\<not> isTerminal (saga_of_row r) \<and> r \<in> set (filter (\<lambda>r. srow_status r \<notin> {''confirmed'', ''cancelled'', ''failed''}) (sagas (db w)))
     \<and> ProcessOrder L C order key w = (None, w)"
proof -
  have st: "Saga_Status (saga_of_row r) = SagaStatusCompensating" using assms(3) by (simp add: saga_of_row_def)
  then have "nextStep (saga_of_row r) = None" "\<not> isTerminal (saga_of_row r)"
    by (simp_all add: nextStep_def isTerminal_def Let_def saga_status_defs)
  then have "ProcessOrder L C order key w = (None, w)"
    using stored_saga_found [OF assms(1,2)]
    by (simp add: ProcessOrder_def process_loop.simps [of L C order key "saga_of_row r" w])
  with \<open>\<not> isTerminal _\<close> find_Some_id [OF assms(2)] assms(3) show ?thesis by (simp add: saga_status_defs)
qed

text \<open>The number of calls a retried call makes, counted in the state it threads through.\<close>

definition counted ::
  "('s \<Rightarrow> ('db, 'x) world_scheme \<Rightarrow> go_error option \<times> 's \<times> ('db, 'x) world_scheme) \<Rightarrow>
   's \<times> nat \<Rightarrow> ('db, 'x) world_scheme \<Rightarrow> go_error option \<times> ('s \<times> nat) \<times> ('db, 'x) world_scheme" where
  "counted fn p w = (case fn (fst p) w of (e, s', w') \<Rightarrow> (e, (s', Suc (snd p)), w'))"

lemma counted_apply: "fn s w = (e, s', w') \<Longrightarrow> counted fn (s, k) w = (e, (s', Suc k), w')"
  by (simp add: counted_def)

lemma retry_loop_count_mono: "k \<le> snd (fst (snd (retry_loop n i le (counted fn) (s, k) w)))"
proof (induction n arbitrary: i le s k w)
  case (Suc n)
  obtain r w1 where r: "(if i > 0 then ctx_wait (baseDelay * 2 ^ (i - 1)) w else (None, w)) = (r, w1)"
    by fastforce
  obtain e s1 w2 where f: "fn s w1 = (e, s1, w2)" using prod_cases3 by blast
  have "Suc k \<le> snd (fst (snd (retry_loop n (Suc i) l (counted fn) (s1, Suc k) w2)))" for l by (rule Suc.IH)
  from Suc_leD [OF this] show ?case using r counted_apply [of fn, OF f] by (cases r; cases e) simp_all
qed simp

lemma retry_loop_counted:
  "case retry_loop n i le (counted fn) (s, k) w of (e, (s', k'), w') \<Rightarrow>
     k' \<le> k + n \<and> retry_loop n i le fn s w = (e, s', w') \<and> (0 < n \<and> i = 0 \<longrightarrow> k < k')"
proof (induction n arbitrary: i le s k w)
  case (Suc n)
  obtain r w1 where r: "(if i > 0 then ctx_wait (baseDelay * 2 ^ (i - 1)) w else (None, w)) = (r, w1)"
    by fastforce
  obtain e s1 w2 where f: "fn s w1 = (e, s1, w2)" using prod_cases3 by blast
  show ?case
  proof (cases "r = None \<and> e \<noteq> None")
    case True
    then obtain x where x: "e = Some x" by blast
    obtain e' p w' where l0: "retry_loop n (Suc i) (Some x) (counted fn) (s1, Suc k) w2 = (e', p, w')"
      using prod_cases3 by blast
    obtain s' k' where p: "p = (s', k')" by fastforce
    note l = l0 [unfolded p]
    have "Suc k \<le> k'" using retry_loop_count_mono [of "Suc k" n "Suc i" "Some x" fn s1 w2] l by simp
    moreover have "k' \<le> Suc k + n \<and> retry_loop n (Suc i) (Some x) fn s1 w2 = (e', s', w')"
      using Suc.IH [of "Suc k" "Suc i" "Some x" s1 w2] l by simp
    ultimately show ?thesis using r f counted_apply [of fn, OF f] True x l by simp
  next
    case False
    moreover have "r \<noteq> None \<Longrightarrow> 0 < i" using r by (cases "i = 0") simp_all
    ultimately show ?thesis using r f counted_apply [of fn, OF f] by (cases r; cases e) simp_all
  qed
qed simp

text \<open>
  A call with retries is made at least once and at most three times, and counting the calls does
  not change what they do.
\<close>

theorem retry_bounded:
  "case retry (counted fn) (s, 0) w of (e, (s', calls), w') \<Rightarrow>
     1 \<le> calls \<and> calls \<le> 3 \<and> retry fn s w = (e, s', w')"
proof -
  obtain e p w' where l: "retry_loop maxRetries 0 None (counted fn) (s, 0) w = (e, p, w')"
    using prod_cases3 by blast
  obtain s' n where "p = (s', n)" by fastforce
  with l show ?thesis
    using retry_loop_counted [where n = maxRetries and i = 0 and le = None and fn = fn and s = s and k = 0 and w = w]
    by (simp add: retry_def maxRetries_def)
qed

text \<open>
  A saga survives being stored: reading its row back yields the saga with its times cut to
  microseconds, as long as the reserved quantities fit the 32-bit field of the message they came
  from.
\<close>

theorem saga_row_roundtrip:
  assumes "\<forall>i\<in>set (Saga_ReservedItems s). int4_ok (Reserved_Quantity i)"
  shows "saga_of_row (saga_to_row s) =
    s\<lparr>Saga_CreatedAt := pg_timestamp (Saga_CreatedAt s), Saga_UpdatedAt := pg_timestamp (Saga_UpdatedAt s)\<rparr>"
  using unmarshal_marshal_items [OF assms] by (simp add: saga_of_row_def saga_to_row_def)

text \<open>
  The saga writes the status of its order without consulting the table of transitions: recovering
  the saga of an order that was cancelled in the meantime makes the order paid.
\<close>

lemma recovery_revives_cancelled_order:
  assumes "clients_succeed C rsv pay" "faults w = []"
    and "\<exists>ro\<in>set (orders (db w)). orow_id ro = Order_ID order" "order_has_status order OrderStatusCancelled w"
    and "find (\<lambda>r. srow_order_id r = Order_ID order) (sagas (db w)) = Some r" "srow_status r = SagaStatusReserved"
  shows "order_has_status order OrderStatusPaid (snd (ProcessOrder L C order key w))"
proof -
  let ?s = "saga_of_row r"
  have row: "r \<in> set (sagas (db w))" "srow_order_id r = Order_ID order" using find_Some_id [OF assms(5)] by auto
  have s: "Saga_OrderID ?s = Order_ID order" "Saga_Status ?s = SagaStatusReserved"
    using row assms(6) by (simp_all add: saga_of_row_def)
  have rd: "ready order w" using assms(2,3) row by (force simp: ready_def)
  have "ProcessOrder L C order key w = process_loop L C order key ?s w"
    using stored_saga_found [OF assms(2,5)] s(2) by (simp add: ProcessOrder_def isTerminal_def saga_status_defs)
  then show ?thesis using run_pay [OF assms(1) rd s, of L key] by (simp add: confirmed_def)
qed

section \<open>Witnesses of the saga\<close>

text \<open>Clients that log their calls in the remote state and always succeed.\<close>

definition logging_clients :: "(unit, string list, unit) ow saga_clients" where
  "logging_clients =
     \<lparr>InventoryClient_Reserve = \<lambda>p q i k w. (None, w\<lparr>remote := remote w @ [k]\<rparr>),
      InventoryClient_Release = \<lambda>p q i k w. (None, w\<lparr>remote := remote w @ [k]\<rparr>),
      PaymentClient_ProcessPayment = \<lambda>i a k w. (Inr ''pay'', w\<lparr>remote := remote w @ [k]\<rparr>),
      PaymentClient_Refund = \<lambda>p k w. (None, w\<lparr>remote := remote w @ [k]\<rparr>)\<rparr>"

lemma logging_clients_succeed:
  "clients_succeed logging_clients (\<lambda>p q i k r. r @ [k]) (\<lambda>i a k r. (''pay'', r @ [k]))"
  by (simp add: clients_succeed_def logging_clients_def)

definition two_items :: Order where
  "two_items = \<lparr>Order_ID = 1, Order_UserID = 2,
     Order_Items = [\<lparr>Item_ID = 1, Item_OrderID = 1, Item_ProductID = 2, Item_Quantity = 1, Item_Price = 5\<rparr>,
                    \<lparr>Item_ID = 2, Item_OrderID = 1, Item_ProductID = 3, Item_Quantity = 2, Item_Price = 7\<rparr>],
     Order_TotalAmount = 19, Order_Status = OrderStatusPending, Order_CreatedAt = 0, Order_UpdatedAt = 0\<rparr>"

definition saga_db :: "string \<Rightarrow> SagaRow list \<Rightarrow> ord_db" where
  "saga_db st rows = \<lparr>orders = [\<lparr>orow_id = 1, orow_user_id = 2, orow_total_amount = 19, orow_status = st,
       orow_created_at = 0, orow_updated_at = 0\<rparr>],
     order_items = Order_Items two_items, sagas = rows, outbox = [], outbox_dlq = []\<rparr>"

definition saga_world :: "string \<Rightarrow> SagaRow list \<Rightarrow> (unit, string list) ord_world" where
  "saga_world st rows = \<lparr>faults = [], clock = 5, uuid_src = (\<lambda>n. 3), uuid_ctr = 0, db = saga_db st rows,
     ord_redis = None, ord_cache = (), ord_kafka = [], remote = []\<rparr>"

definition saga_row :: "string \<Rightarrow> nat \<Rightarrow> SagaRow" where
  "saga_row st n = \<lparr>srow_id = 2, srow_order_id = 1, srow_status = st, srow_current_step = '''', srow_error_message = '''',
     srow_payment_id = '''', srow_reserved_items = marshalReservedItems (map (reserved_of unary_uuid) (take n (Order_Items two_items))),
     srow_created_at = 0, srow_updated_at = 0\<rparr>"

lemmas saga_example_defs = saga_world_def saga_db_def saga_row_def two_items_def

theorem saga_happy_path_witness:
  "remote (snd (ProcessOrder unary_uuid logging_clients two_items ''k'' (saga_world OrderStatusPending []))) =
     [''reserve:k:xx'', ''reserve:k:xxx'', ''payment:k'']"
  using saga_happy_path [OF logging_clients_succeed, of "saga_world OrderStatusPending []" two_items unary_uuid "''k''"]
  by (simp add: saga_example_defs confirmed_def reserve_all_def reserveKey_def paymentKey_def)

theorem saga_resumes_witness:
  "remote (snd (ProcessOrder unary_uuid logging_clients two_items ''k'' (saga_world OrderStatusPending [saga_row SagaStatusReserving 1]))) =
     [''reserve:k:xxx'', ''payment:k'']"
  using saga_resumes [OF logging_clients_succeed, of "saga_world OrderStatusPending [saga_row SagaStatusReserving 1]" two_items
      "saga_row SagaStatusReserving 1" "map (reserved_of unary_uuid) (take 1 (Order_Items two_items))" 1 unary_uuid "''k''"]
  by (simp add: saga_example_defs confirmed_def reserve_all_def reserveKey_def paymentKey_def unmarshal_marshal_items)

text \<open>
  Recovery reads the items in the order of their ids, the first run has them in the order of the
  request. Here the request named the second item first, and it was reserved when the saga stopped:
  resumed, the saga asks for that item again and never for the other one, and the order is paid.
\<close>

lemma recovery_skips_item:
  fixes w :: "(unit, string list) ord_world"
  defines "w \<equiv> saga_world OrderStatusPending [(saga_row SagaStatusReserving 0)\<lparr>srow_reserved_items :=
      marshalReservedItems [reserved_of unary_uuid (Order_Items two_items ! 1)]\<rparr>]"
  shows "remote (snd (ProcessOrder unary_uuid logging_clients two_items ''k'' w)) = [''reserve:k:xxx'', ''payment:k'']
    \<and> order_has_status two_items OrderStatusPaid (snd (ProcessOrder unary_uuid logging_clients two_items ''k'' w))"
proof -
  let ?row = "(saga_row SagaStatusReserving 0)\<lparr>srow_reserved_items :=
      marshalReservedItems [reserved_of unary_uuid (Order_Items two_items ! 1)]\<rparr>"
  let ?s = "saga_of_row ?row"
  have items: "length (Saga_ReservedItems ?s) = 1" by (simp add: saga_of_row_def unmarshal_marshal_items)
  have s: "Saga_OrderID ?s = Order_ID two_items" "Saga_Status ?s = SagaStatusReserving" "length (Saga_CurrentStep ?s) \<le> 50"
    by (simp_all add: saga_of_row_def saga_example_defs)
  have rd: "ready two_items w" by (simp add: ready_def w_def saga_example_defs)
  have "find (\<lambda>r. srow_order_id r = Order_ID two_items) (sagas (db w)) = Some ?row" "faults w = []"
    by (simp_all add: w_def saga_example_defs)
  then have "ProcessOrder unary_uuid logging_clients two_items ''k'' w = process_loop unary_uuid logging_clients two_items ''k'' ?s w"
    using stored_saga_found [of w "Order_ID two_items" ?row] s(2) by (simp add: ProcessOrder_def isTerminal_def saga_status_defs)
  then show ?thesis
    using run_reserve [OF logging_clients_succeed rd s items [symmetric], of unary_uuid "''k''"]
    by (simp add: w_def saga_example_defs confirmed_def reserve_all_def reserveKey_def paymentKey_def)
qed

theorem finished_saga_untouched_witness:
  "ProcessOrder unary_uuid logging_clients two_items ''k'' (saga_world OrderStatusPaid [saga_row SagaStatusConfirmed 2]) =
     (None, saga_world OrderStatusPaid [saga_row SagaStatusConfirmed 2])"
  by (rule finished_saga_untouched [where r = "saga_row SagaStatusConfirmed 2"]) (simp_all add: saga_example_defs)

theorem compensating_saga_stuck_witness:
  "ProcessOrder unary_uuid logging_clients two_items ''k'' (saga_world OrderStatusPending [saga_row SagaStatusCompensating 2]) =
     (None, saga_world OrderStatusPending [saga_row SagaStatusCompensating 2])"
  using compensating_saga_stuck [of "saga_world OrderStatusPending [saga_row SagaStatusCompensating 2]" two_items
      "saga_row SagaStatusCompensating 2" unary_uuid logging_clients "''k''"]
  by (simp add: saga_example_defs)

theorem saga_row_roundtrip_witness:
  "saga_of_row (saga_to_row (saga_of_row (saga_row SagaStatusReserved 2))) = saga_of_row (saga_row SagaStatusReserved 2)"
  using saga_row_roundtrip [of "saga_of_row (saga_row SagaStatusReserved 2)"]
  by (simp add: saga_row_def saga_of_row_def unmarshal_marshal_items pg_timestamp_def)

end
