(* ===== verification/Order_Props.thy ===== *)
theory Order_Props
  imports Order_Invariant Saga_Props
begin

text \<open>
  Properties of the order service: its invariant along every run, the life cycle of an order, who
  may see and change it, what is stored and what is reported.
\<close>

section \<open>Reading an order back\<close>

lemma scan_order_some:
  "scan_order (Some od) rows = Some (od\<lparr>Order_Items := Order_Items od @ concat (map (\<lambda>(ro, it). case it of None \<Rightarrow> [] | Some i \<Rightarrow> [i]) rows)\<rparr>)"
  by (induction rows arbitrary: od) (auto simp: append_item_def split: option.splits)

lemma scan_order_rows:
  "rows \<noteq> [] \<Longrightarrow> \<forall>(ro, it)\<in>set rows. ro = r \<Longrightarrow> scan_order None rows =
     Some ((order_of_row r)\<lparr>Order_Items := concat (map (\<lambda>(ro, it). case it of None \<Rightarrow> [] | Some i \<Rightarrow> [i]) rows)\<rparr>)"
  by (cases rows) (auto simp: scan_order_some append_item_def order_of_row_def split: option.splits)

definition item_key :: "OrderRow \<times> OrderItem option \<Rightarrow> uuid" where
  "item_key = (\<lambda>(ro, item). case item of None \<Rightarrow> 0 | Some it \<Rightarrow> Item_ID it)"

lemma sort_left_join:
  "sort_key item_key (left_join d ro) =
     (let is = filter (\<lambda>i. Item_OrderID i = orow_id ro) (order_items d) in
      if is = [] then [(ro, None)] else map (\<lambda>i. (ro, Some i)) (sort_key Item_ID is))"
proof -
  have *: "sort_key item_key (map (\<lambda>i. (ro, Some i)) is) = map (\<lambda>i. (ro, Some i)) (sort_key Item_ID is)" for "is"
  proof -
    have ins: "insort_key item_key (ro, Some i) (map (\<lambda>i. (ro, Some i)) xs) = map (\<lambda>i. (ro, Some i)) (insort_key Item_ID i xs)" for i xs
      by (induction xs) (simp_all add: item_key_def)
    show ?thesis by (induction "is") (simp_all add: ins)
  qed
  show ?thesis by (simp add: left_join_def Let_def *)
qed

lemma concat_items: "concat (map (\<lambda>(ro, it). case it of None \<Rightarrow> [] | Some i \<Rightarrow> [i]) (map (\<lambda>i. (ro, Some i)) is)) = is"
  by (induction "is") simp_all

text \<open>What \<^verbatim>\<open>GetByID\<close> returns for a row of the table.\<close>

definition stored_order :: "ord_db \<Rightarrow> OrderRow \<Rightarrow> Order" where
  "stored_order d ro = (order_of_row ro)\<lparr>Order_Items := sort_key Item_ID (filter (\<lambda>i. Item_OrderID i = orow_id ro) (order_items d))\<rparr>"

lemma scan_joined: "scan_order None (sort_key item_key (left_join d ro)) = Some (stored_order d ro)"
proof (cases "filter (\<lambda>i. Item_OrderID i = orow_id ro) (order_items d) = []")
  case True
  then show ?thesis by (simp add: sort_left_join stored_order_def append_item_def order_of_row_def)
next
  case False
  let ?is = "sort_key Item_ID (filter (\<lambda>i. Item_OrderID i = orow_id ro) (order_items d))"
  have "set ?is = set (filter (\<lambda>i. Item_OrderID i = orow_id ro) (order_items d))" by (rule set_sort)
  then have ne: "?is \<noteq> []" using False by (metis set_empty)
  have scan: "scan_order None (map (\<lambda>i. (ro, Some i)) xs) = Some ((order_of_row ro)\<lparr>Order_Items := xs\<rparr>)"
    if "xs \<noteq> []" for xs
    using that scan_order_rows [of "map (\<lambda>i. (ro, Some i)) xs" ro] concat_items [of ro xs] by simp
  have "scan_order None (map (\<lambda>i. (ro, Some i)) ?is) = Some ((order_of_row ro)\<lparr>Order_Items := ?is\<rparr>)"
    by (rule scan [OF ne])
  then show ?thesis using False by (simp add: sort_left_join Let_def stored_order_def)
qed

lemma GetByID_rows:
  assumes "filter (\<lambda>ro. orow_id ro = i) (orders d) = [ro]"
  shows "stmt_GetOrder i d = Inr (sort_key item_key (left_join d ro), d)"
  using assms by (simp add: stmt_GetOrder_def query_rows_def item_key_def)

text \<open>The table has one row per order id.\<close>

definition order_ids_distinct :: "ord_db \<Rightarrow> bool" where
  "order_ids_distinct d \<longleftrightarrow> distinct (map orow_id (orders d))"

lemma filter_distinct_key:
  "distinct (map f xs) \<Longrightarrow> x \<in> set xs \<Longrightarrow> filter (\<lambda>y. f y = f x) xs = [x]"
  by (induction xs) (auto simp: filter_empty_conv image_iff)

lemma order_GetByID_Inr:
  assumes get: "OrderPostgres_GetByID i w = (Inr order, w')" and dist: "order_ids_distinct (db w)"
  obtains ro where "ro \<in> set (orders (db w))" "orow_id ro = i" "order = stored_order (db w) ro"
proof -
  obtain r w1 where c: "sql (stmt_GetOrder i) w = (r, w1)" by fastforce
  obtain q w2 where e: "rows_Err w1 = (q, w2)" by fastforce
  obtain rows where rows: "r = Inr rows" "scan_order None rows = Some order"
    using get c e by (cases r; cases q) (auto simp: OrderPostgres_GetByID_def split: option.splits)
  have st: "stmt_GetOrder i (db w) = Inr (rows, db w1)" by (rule sql_Inr [OF c [unfolded rows(1)]])
  show thesis
  proof (cases "filter (\<lambda>ro. orow_id ro = i) (orders (db w))")
    case Nil
    then show thesis using st rows(2) by (simp add: stmt_GetOrder_def query_rows_def)
  next
    case (Cons ro rest)
    then have ro: "ro \<in> set (orders (db w))" "orow_id ro = i"
      using filter_set [of "\<lambda>ro. orow_id ro = i" "orders (db w)"] by auto
    then have "filter (\<lambda>ro. orow_id ro = i) (orders (db w)) = [ro]"
      using dist filter_distinct_key [of orow_id "orders (db w)" ro] by (simp add: order_ids_distinct_def)
    from GetByID_rows [OF this] st have "rows = sort_key item_key (left_join (db w) ro)" by simp
    then have "order = stored_order (db w) ro" using rows(2) scan_joined [of "db w" ro] by simp
    with ro show thesis by (rule that)
  qed
qed

section \<open>The life cycle of an order\<close>

text \<open>How far an order is on its way; a status outside the life cycle is at the start.\<close>

definition status_rank :: "OrderStatus \<Rightarrow> nat" where
  "status_rank s = (case map_of [(OrderStatusAwaitingPayment, 1), (OrderStatusPaid, 2), (OrderStatusProcessing, 3),
     (OrderStatusShipped, 4), (OrderStatusDelivered, 5), (OrderStatusCancelled, 6), (OrderStatusRefunded, 7)] s of
     Some n \<Rightarrow> n | None \<Rightarrow> 0)"

lemma allowed_increases: "t \<in> set (allowedTransitions s) \<Longrightarrow> status_rank s < status_rank t"
  by (auto simp: allowedTransitions_def status_rank_def order_status_defs split: if_splits)

text \<open>
  C35. The table of transitions has no cycle: a change of status that it allows moves the order
  forward, and a cancelled or refunded order stays as it is.
\<close>

theorem lifecycle_moves_forward:
  assumes "CanTransition s t"
  shows "s = t \<or> status_rank s < status_rank t \<and> s \<notin> {OrderStatusCancelled, OrderStatusRefunded}"
  using assms allowed_increases [of t s]
  by (auto simp: CanTransition_def list_ex_iff)
    (simp_all add: allowedTransitions_def order_status_defs)

lemma UpdateStatus_Inr:
  assumes "OrderPostgres_UpdateStatus i st w = (Inr u, w')"
  shows "orders (db w') = map (\<lambda>ro. if orow_id ro = i then ro\<lparr>orow_status := st, orow_updated_at := pg_timestamp (clock w)\<rparr> else ro) (orders (db w))"
    "sagas (db w') = sagas (db w)"
proof -
  obtain r w1 where c: "sql (stmt_UpdateOrderStatus (clock w) i st) w = (r, w1)" by fastforce
  obtain n where n: "r = Inr n" "w' = w1"
    using assms c by (cases r) (auto simp: OrderPostgres_UpdateStatus_def split: if_splits)
  have "stmt_UpdateOrderStatus (clock w) i st (db w) = Inr (n, db w1)" by (rule sql_Inr [OF c [unfolded n(1)]])
  then have "db w' = (db w)\<lparr>orders := map (\<lambda>ro. if orow_id ro = i then ro\<lparr>orow_status := st, orow_updated_at := pg_timestamp (clock w)\<rparr> else ro) (orders (db w))\<rparr>"
    unfolding n(2) by (simp add: stmt_UpdateOrderStatus_def Let_def split: if_splits)
  then show "orders (db w') = map (\<lambda>ro. if orow_id ro = i then ro\<lparr>orow_status := st, orow_updated_at := pg_timestamp (clock w)\<rparr> else ro) (orders (db w))"
    "sagas (db w') = sagas (db w)" by simp_all
qed

lemma status_map_all:
  "\<forall>ro\<in>set (map (\<lambda>ro. if orow_id ro = i then ro\<lparr>orow_status := st, orow_updated_at := t\<rparr> else ro) xs). orow_id ro = i \<longrightarrow> orow_status ro = st"
  unfolding set_map ball_simps(9) by simp

lemma publishOrderEvent_db [simp]: "db (publishOrderEvent i st u w) = db w"
  by (simp add: publishOrderEvent_def split: option.splits)

text \<open>
  C32. An administrator or a service changes the status of an order only along the table of
  transitions: a successful request found the order in a status that may move to the requested one,
  gave the order that status, and left every other order as it was.
\<close>

theorem status_update_follows_table:
  assumes "OrderHandler_UpdateOrderStatus L c (oid, st) w = (Inr resp, w')" "order_ids_distinct (db w)"
  shows "fst (GetRole c) \<in> {RoleAdmin, RoleService} \<and>
    (\<exists>i. uuid_Parse L oid = Inr i
     \<and> (\<exists>ro\<in>set (orders (db w)). orow_id ro = i \<and> CanTransition (orow_status ro) (protoStatusToDomain st))
     \<and> (\<forall>ro\<in>set (orders (db w')). orow_id ro = i \<longrightarrow> orow_status ro = protoStatusToDomain st)
     \<and> filter (\<lambda>ro. orow_id ro \<noteq> i) (orders (db w')) = filter (\<lambda>ro. orow_id ro \<noteq> i) (orders (db w)))"
proof -
  let ?st = "protoStatusToDomain st"
  obtain i where role: "fst (GetRole c) \<in> {RoleAdmin, RoleService}" and i: "uuid_Parse L oid = Inr i"
    and uc: "OrderUsecase_UpdateOrderStatus L i ?st w = (Inr (), w')"
    using assms(1)
    by (auto simp: OrderHandler_UpdateOrderStatus_def split: if_splits sum.splits prod.splits)
  obtain r w1 where g: "OrderPostgres_GetByID i w = (r, w1)" by fastforce
  then obtain order where r: "r = Inr order" using uc by (cases r) (simp_all add: OrderUsecase_UpdateOrderStatus_def)
  obtain q w2 where u: "OrderPostgres_UpdateStatus i ?st w1 = (q, w2)" by fastforce
  have ok: "ValidateTransition (Order_Status order) ?st = None" "q = Inr ()" "db w' = db w2"
  proof -
    note uc' = uc [unfolded OrderUsecase_UpdateOrderStatus_def g r prod.case sum.case u]
    show v: "ValidateTransition (Order_Status order) ?st = None"
      using uc' by (cases "ValidateTransition (Order_Status order) ?st") simp_all
    obtain x where q: "q = Inr x" using uc' v by (cases q) simp_all
    then show "q = Inr ()" by simp
    have "w' = publishOrderEvent (uuid_String L (Order_ID order)) ?st (uuid_String L (Order_UserID order)) w2"
      using uc' v q by simp
    then show "db w' = db w2" by simp
  qed
  have d1: "db w1 = db w" using repo_frames(5) [of i w] g by simp
  obtain ro where ro: "ro \<in> set (orders (db w))" "orow_id ro = i" "order = stored_order (db w) ro"
    by (rule order_GetByID_Inr [OF g [unfolded r] assms(2)])
  have can: "CanTransition (orow_status ro) ?st"
    using ok(1) ro(3) by (simp add: ValidateTransition_def stored_order_def order_of_row_def split: if_splits)
  have os: "orders (db w') = map (\<lambda>ro. if orow_id ro = i then ro\<lparr>orow_status := ?st, orow_updated_at := pg_timestamp (clock w1)\<rparr> else ro) (orders (db w))"
    unfolding ok(3) UpdateStatus_Inr(1) [OF u [unfolded ok(2)]] d1 ..
  have new: "\<forall>ro\<in>set (orders (db w')). orow_id ro = i \<longrightarrow> orow_status ro = ?st" unfolding os by (rule status_map_all)
  have "filter (\<lambda>ro. orow_id ro \<noteq> i) (map (\<lambda>ro. if orow_id ro = i then ro\<lparr>orow_status := ?st, orow_updated_at := t\<rparr> else ro) xs) =
      filter (\<lambda>ro. orow_id ro \<noteq> i) xs" for t xs
    by (induction xs) simp_all
  then have others: "filter (\<lambda>ro. orow_id ro \<noteq> i) (orders (db w')) = filter (\<lambda>ro. orow_id ro \<noteq> i) (orders (db w))"
    unfolding os .
  show ?thesis
    by (intro conjI role exI [of _ i] i new others bexI [OF _ ro(1)] ro(2) can)
qed

section \<open>Messages\<close>

text \<open>
  The status of an order and its number in the protocol determine each other: every status of
  the life cycle survives the way out and back, as does every number the protocol defines.
\<close>

theorem status_proto_roundtrip:
  "(order_status_check s \<longrightarrow> protoStatusToDomain (domainStatusToProto s) = s) \<and>
   (0 \<le> n \<and> n \<le> 8 \<longrightarrow> domainStatusToProto (protoStatusToDomain n) = n)"
proof
  show "order_status_check s \<longrightarrow> protoStatusToDomain (domainStatusToProto s) = s"
    by (auto simp: order_status_check_def protoStatusToDomain_def domainStatusToProto_def protoStatusToDomainMap_def
        domainStatusToProtoMap_def order_status_defs)
  have "n \<in> {0, 1, 2, 3, 4, 5, 6, 7, 8}" if "0 \<le> n" "n \<le> 8" using that by auto
  then show "0 \<le> n \<and> n \<le> 8 \<longrightarrow> domainStatusToProto (protoStatusToDomain n) = n"
    by (auto simp: protoStatusToDomain_def domainStatusToProto_def protoStatusToDomainMap_def
        domainStatusToProtoMap_def order_status_defs)
qed

lemma order_total_acc:
  assumes "\<forall>i\<in>set items. 0 \<le> Item_Price i \<and> 0 \<le> Item_Quantity i" "0 \<le> t"
    and "t + (\<Sum>i\<leftarrow>items. Item_Price i * Item_Quantity i) < 2 ^ 63"
  shows "foldl (\<lambda>t i. i64 (t + i64 (Item_Price i * Item_Quantity i))) t items = t + (\<Sum>i\<leftarrow>items. Item_Price i * Item_Quantity i)"
  using assms
proof (induction items arbitrary: t)
  case (Cons i items)
  let ?p = "Item_Price i * Item_Quantity i" and ?s = "\<Sum>i\<leftarrow>items. Item_Price i * Item_Quantity i"
  have nn: "0 \<le> ?p" "0 \<le> ?s" using Cons.prems(1) by (auto intro!: sum_list_nonneg)
  then have "i64 ?p = ?p" "i64 (t + ?p) = t + ?p"
    using Cons.prems(2,3) by (simp_all add: i64_id int8_ok_def)
  then show ?case using Cons.IH [of "t + ?p"] Cons.prems nn by simp
qed simp

text \<open>
  The total of an order is the exact sum of price times quantity over its items as long as that
  sum fits a signed 64-bit integer.
\<close>

theorem order_total_exact:
  assumes "\<forall>i\<in>set items. 0 \<le> Item_Price i \<and> 0 \<le> Item_Quantity i"
    and "(\<Sum>i\<leftarrow>items. Item_Price i * Item_Quantity i) < 2 ^ 63"
  shows "order_total items = (\<Sum>i\<leftarrow>items. Item_Price i * Item_Quantity i)"
  unfolding order_total_def using order_total_acc [of items 0] assms by simp

text \<open>Nothing guards the sum: two such units wrap around to a total of zero.\<close>

lemma order_total_wraps:
  "order_total [\<lparr>Item_ID = 0, Item_OrderID = 0, Item_ProductID = 0, Item_Quantity = 2, Item_Price = 2 ^ 63 - 1\<rparr>,
     \<lparr>Item_ID = 0, Item_OrderID = 0, Item_ProductID = 0, Item_Quantity = 2, Item_Price = 1\<rparr>] = 0"
  by (simp add: order_total_def i64_def)

section \<open>Access\<close>

lemma read_owned_order_refuses:
  assumes "ro \<in> set (orders (db w))" "uuid_Parse L oid = Inr (orow_id ro)" "order_ids_distinct (db w)"
    and "uuid_String L (orow_user_id ro) \<noteq> fst (GetUserID c)" "fst (GetRole c) \<noteq> RoleAdmin"
  shows "\<exists>err. read_owned_order L c oid w = (Inl err, snd (read_owned_order L c oid w))" "db (snd (read_owned_order L c oid w)) = db w"
proof -
  obtain r w1 where g: "OrderPostgres_GetByID (orow_id ro) w = (r, w1)" by fastforce
  have d: "db w1 = db w" using repo_frames(5) [of "orow_id ro" w] g by simp
  have other: "uuid_String L (Order_UserID order) \<noteq> fst (GetUserID c)" if r: "r = Inr order" for order
  proof -
    obtain ro' where ro': "ro' \<in> set (orders (db w))" "orow_id ro' = orow_id ro" "order = stored_order (db w) ro'"
      by (rule order_GetByID_Inr [OF g [unfolded r] assms(3)])
    then have "ro' = ro" using assms(1,3) unfolding order_ids_distinct_def distinct_map inj_on_def by blast
    then show ?thesis using assms(4) ro'(3) by (simp add: stored_order_def order_of_row_def)
  qed
  have w: "(\<exists>err. fst (read_owned_order L c oid w) = Inl err) \<and> snd (read_owned_order L c oid w) \<in> {w, w1}"
    using g assms(2,5) other
    by (cases r) (auto simp: read_owned_order_def OrderUsecase_GetOrder_def split: prod.splits)
  then show "db (snd (read_owned_order L c oid w)) = db w" using d by auto
  from w show "\<exists>err. read_owned_order L c oid w = (Inl err, snd (read_owned_order L c oid w))"
    by (metis prod.collapse)
qed

text \<open>
  C33. Whoever neither owns an order nor is an administrator neither reads nor cancels it: the
  request fails and the tables stay as they are.
\<close>

theorem foreign_order_protected:
  assumes "ro \<in> set (orders (db w))" "uuid_Parse L oid = Inr (orow_id ro)" "order_ids_distinct (db w)"
    and "uuid_String L (orow_user_id ro) \<noteq> fst (GetUserID c)" "fst (GetRole c) \<noteq> RoleAdmin"
  shows "(\<exists>err w'. OrderHandler_GetOrder L c oid w = (Inl err, w') \<and> db w' = db w) \<and>
    (\<exists>err w'. OrderHandler_CancelOrder L S c oid w = (Inl err, w') \<and> db w' = db w)"
proof -
  obtain err w1 where r: "read_owned_order L c oid w = (Inl err, w1)"
    using read_owned_order_refuses(1) [OF assms] by blast
  then have d: "db w1 = db w" using read_owned_order_refuses(2) [OF assms] by simp
  have "OrderHandler_GetOrder L c oid w = (Inl err, w1)" "OrderHandler_CancelOrder L S c oid w = (Inl err, w1)"
    by (simp_all add: OrderHandler_GetOrder_def OrderHandler_CancelOrder_def r)
  with d show ?thesis by blast
qed

section \<open>Runs of the service\<close>

lemma ord_steps_inv:
  "(ord_step L S topic)\<^sup>*\<^sup>* w w' \<Longrightarrow> stubs_local S \<Longrightarrow> order_inv L topic N w \<Longrightarrow> order_inv L topic N w'"
  by (induction rule: rtranclp_induct) (simp_all add: ord_step_inv)

lemma announced_where:
  assumes "announced L d" "relay_wf topic d ks" "ro \<in> set (orders d)"
  shows "(\<exists>p. (topic, uuid_String L (orow_id ro), p) \<in> set ks) \<or>
    (\<exists>e\<in>set (outbox d). Outbox_AggregateID e = uuid_String L (orow_id ro) \<and> Outbox_ProcessedAt e = None
       \<and> Outbox_RetryCount e < relay_maxRetries) \<or>
    (\<exists>e\<in>set (outbox_dlq d). DLQ_AggregateID e = uuid_String L (orow_id ro) \<and> DLQ_RetryCount e = relay_maxRetries)"
proof -
  obtain x where x: "x \<in> events_of d" "fst (snd (snd x)) = uuid_String L (orow_id ro)"
    using assms(1,3) by (auto simp: announced_def)
  then consider e where "e \<in> set (outbox d)" "Outbox_AggregateID e = uuid_String L (orow_id ro)"
    | e where "e \<in> set (outbox_dlq d)" "DLQ_AggregateID e = uuid_String L (orow_id ro)"
    unfolding events_of_def by (auto simp: content_def dlq_content_def)
  then show ?thesis
  proof cases
    case (1 e)
    have "message topic e = (topic, uuid_String L (orow_id ro), Outbox_Payload e)" by (simp add: message_def 1(2))
    with 1 assms(2) show ?thesis unfolding relay_wf_def by (cases "Outbox_ProcessedAt e") force+
  next
    case (2 e)
    with assms(2) show ?thesis unfolding relay_wf_def by blast
  qed
qed

text \<open>
  C2. No order goes unannounced. From empty tables on, whatever requests, recoveries and relay runs
  follow each other and wherever they fail, each order has its event published, or still waiting in
  the outbox with attempts left, or among the dead letters after the last attempt. The hypotheses:
  the UUID source repeats none of its first \<open>N\<close> UUIDs and the run draws no more; the other services
  leave the tables of this one alone.
\<close>

theorem orders_always_announced:
  assumes "(ord_step L S topic)\<^sup>*\<^sup>* w w'" "stubs_local S"
    and "orders (db w) = []" "outbox (db w) = []" "outbox_dlq (db w) = []"
    and "inj_on (uuid_src w) {..< N}" "uuid_ctr w' \<le> N" "ro \<in> set (orders (db w'))"
  shows "(\<exists>p. (topic, uuid_String L (orow_id ro), p) \<in> set (ord_kafka w')) \<or>
    (\<exists>e\<in>set (outbox (db w')). Outbox_AggregateID e = uuid_String L (orow_id ro) \<and> Outbox_ProcessedAt e = None
       \<and> Outbox_RetryCount e < relay_maxRetries) \<or>
    (\<exists>e\<in>set (outbox_dlq (db w')). DLQ_AggregateID e = uuid_String L (orow_id ro) \<and> DLQ_RetryCount e = relay_maxRetries)"
proof (rule announced_where [OF _ _ assms(8)])
  have "order_inv L topic N w"
    using assms(3-6) by (simp add: order_inv_def announced_def relay_wf_def fresh_ids_def outbox_ids_def)
  from order_invD [OF ord_steps_inv [OF assms(1,2) this] assms(7)]
  show "announced L (db w')" "relay_wf topic (db w') (ord_kafka w')" by blast+
qed

section \<open>Instances\<close>

text \<open>Services that leave the order service alone, an empty database, and the request of a customer.\<close>

definition silent_stubs :: "('c, 'r, 'x) ow grpc_stubs" where
  "silent_stubs = \<lparr>stub_Reserve = \<lambda>r w. (Inr True, w), stub_Release = \<lambda>r w. (Inr True, w),
     stub_ProcessPayment = \<lambda>r w. (Inl (StatusErr codes_Unavailable ''payment''), w), stub_Refund = \<lambda>r w. (Inr 0, w),
     stub_GetProduct = \<lambda>i w. (Inr (Some \<lparr>ProductProto_ProductId = i, ProductProto_Name = '''', ProductProto_Description = '''',
        ProductProto_PriceCents = 5, ProductProto_Categories = [], ProductProto_CreatedAt = ''''\<rparr>), w)\<rparr>"

lemma silent_stubs_local: "stubs_local silent_stubs"
  by (simp add: stubs_local_def silent_stubs_def ow_frame_refl)

definition empty_orders :: "fault list \<Rightarrow> (unit, unit) ord_world" where
  "empty_orders fs = \<lparr>faults = fs, clock = 5, uuid_src = of_nat, uuid_ctr = 1,
     db = \<lparr>orders = [], order_items = [], sagas = [], outbox = [], outbox_dlq = []\<rparr>,
     ord_redis = None, ord_cache = (), ord_kafka = [], remote = ()\<rparr>"

definition customer :: "string \<Rightarrow> ctx" where
  "customer i = WithIdentity ctx_Background \<lparr>Identity_UserID = i, Identity_Role = RoleUser, Identity_AuthorizationHeader = ''''\<rparr>"

definition one_item :: CreateOrderRequest where
  "one_item = \<lparr>CreateOrderRequest_Items = [\<lparr>ItemProto_ProductId = ''xx'', ItemProto_Quantity = 1, ItemProto_PriceCents = 5\<rparr>],
     CreateOrderRequest_IdempotencyKey = ''k''\<rparr>"

definition failing_saga :: "(unit, unit) ord_world" where
  "failing_saga = snd (OrderHandler_CreateOrder unary_uuid silent_stubs (customer ''x'') one_item
     (empty_orders [NoFault, NoFault, NoFault, NoFault, NoFault, NoFault, FailBefore (StdErr ''down'')]))"


lemma failing_saga_state: "(\<lambda>w. (map orow_id (orders (db w)), uuid_ctr w)) failing_saga = ([1], 4)"
  by code_simp

theorem orders_always_announced_witness:
  "(\<exists>p. (''orders'', ''x'', p) \<in> set (ord_kafka failing_saga)) \<or>
    (\<exists>e\<in>set (outbox (db failing_saga)). Outbox_AggregateID e = ''x'' \<and> Outbox_ProcessedAt e = None
       \<and> Outbox_RetryCount e < relay_maxRetries) \<or>
    (\<exists>e\<in>set (outbox_dlq (db failing_saga)). DLQ_AggregateID e = ''x'' \<and> DLQ_RetryCount e = relay_maxRetries)"
proof -
  have st: "map orow_id (orders (db failing_saga)) = [1]" "uuid_ctr failing_saga = 4" using failing_saga_state by simp_all
  then obtain ro where ro: "ro \<in> set (orders (db failing_saga))" "orow_id ro = 1"
    by (auto simp: map_eq_Cons_conv)
  have "(ord_step unary_uuid silent_stubs ''orders'')\<^sup>*\<^sup>* (empty_orders down) (snd (OrderHandler_CreateOrder unary_uuid silent_stubs (customer ''x'') one_item (empty_orders down)))" for down
    by (rule r_into_rtranclp) (rule ord_step.create)
  from this [of "[NoFault, NoFault, NoFault, NoFault, NoFault, NoFault, FailBefore (StdErr ''down'')]"]
  have steps: "(ord_step unary_uuid silent_stubs ''orders'')\<^sup>*\<^sup>* (empty_orders [NoFault, NoFault, NoFault, NoFault, NoFault, NoFault, FailBefore (StdErr ''down'')]) failing_saga"
    unfolding failing_saga_def .
  have inj: "inj_on (of_nat :: nat \<Rightarrow> uuid) {..<4}"
    by (auto simp: inj_on_def of_nat_eq_iff word_of_nat_eq_iff take_bit_eq_mod)
  show ?thesis
    using orders_always_announced [OF steps silent_stubs_local _ _ _ _ _ ro(1), of 4] inj st(2) ro(2)
    by (simp add: empty_orders_def unary_uuid_def)
qed

lemma replicate_2: "replicate 2 c = [c, c]"
  by (simp add: numeral_2_eq_2)

theorem foreign_order_protected_witness:
  "\<exists>err w'. OrderHandler_CancelOrder unary_uuid silent_stubs (customer ''xxx'') ''x'' (saga_world OrderStatusPending []) = (Inl err, w')
     \<and> db w' = saga_db OrderStatusPending []"
  using foreign_order_protected [of "hd (orders (saga_db OrderStatusPending []))" "saga_world OrderStatusPending []" unary_uuid "''x''"
      "customer ''xxx''" silent_stubs]
  by (simp add: saga_world_def saga_db_def order_ids_distinct_def unary_uuid_def customer_def role_defs replicate_2)

theorem lifecycle_moves_forward_witness:
  "status_rank OrderStatusPaid < status_rank OrderStatusProcessing"
  using lifecycle_moves_forward [of OrderStatusPaid OrderStatusProcessing]
  by (simp add: CanTransition_def allowedTransitions_def order_status_defs)

theorem status_proto_roundtrip_witness:
  "protoStatusToDomain (domainStatusToProto OrderStatusShipped) = OrderStatusShipped"
  using status_proto_roundtrip [of OrderStatusShipped 0]
  by (simp add: order_status_check_def order_status_defs)

theorem order_total_exact_witness:
  "order_total (Order_Items two_items) = 19"
  using order_total_exact [of "Order_Items two_items"] by (simp add: two_items_def)

text \<open>An administrator ships an order in processing.\<close>

definition admin :: ctx where
  "admin = WithIdentity ctx_Background \<lparr>Identity_UserID = ''xx'', Identity_Role = RoleAdmin, Identity_AuthorizationHeader = ''''\<rparr>"

definition shipping :: "(string \<times> int) result \<times> (unit, string list) ord_world" where
  "shipping = OrderHandler_UpdateOrderStatus unary_uuid admin (''x'', domainStatusToProto OrderStatusShipped) (saga_world OrderStatusProcessing [])"

lemma shipping_ok: "(\<lambda>r. \<not> isl (fst r) \<and> map orow_id (orders (db (snd r))) = [1]) shipping"
  by code_simp

theorem status_update_follows_table_witness:
  "map orow_status (orders (db (snd shipping))) = [OrderStatusShipped]"
proof -
  have "\<not> isl (fst shipping)" and ids: "map orow_id (orders (db (snd shipping))) = [1]" using shipping_ok by simp_all
  then have "shipping = (Inr (projr (fst shipping)), snd shipping)" by (simp add: prod_eq_iff)
  then obtain resp w' where r: "shipping = (Inr resp, w')" by (rule that)
  have u: "uuid_Parse unary_uuid ''x'' = Inr 1" by (simp add: unary_uuid_def)
  have d: "order_ids_distinct (db (saga_world OrderStatusProcessing []))"
    by (simp add: order_ids_distinct_def saga_world_def saga_db_def)
  have "protoStatusToDomain (domainStatusToProto OrderStatusShipped) = OrderStatusShipped" by code_simp
  with status_update_follows_table [OF r [unfolded shipping_def] d] ids
  show ?thesis unfolding r by (auto simp: u map_eq_Cons_conv)
qed

end
