(* ===== verification/Catalog_Search.thy ===== *)
theory Catalog_Search
  imports Catalog_Model "HOL-Library.Log_Nat"
begin

text \<open>
  The search side of the catalog service: the Elasticsearch repository
  (internal/repository/elasticsearch), the handler that projects outbox events into the index and
  the relay that calls it (internal/outbox). The Elasticsearch client, an external package, is a
  record of functions on the state of the server.
\<close>

section \<open>The Elasticsearch client\<close>

record 'e es_client =
  es_Index :: "string \<Rightarrow> string \<Rightarrow> json \<Rightarrow> 'e \<Rightarrow> go_error option \<times> 'e"
  es_Delete :: "string \<Rightarrow> string \<Rightarrow> 'e \<Rightarrow> go_error option \<times> 'e"
  es_IsNotFound :: "go_error \<Rightarrow> bool"
  es_IndexExists :: "string \<Rightarrow> 'e \<Rightarrow> bool result \<times> 'e"
  es_CreateIndex :: "string \<Rightarrow> json \<Rightarrow> 'e \<Rightarrow> go_error option \<times> 'e"
  es_Search :: "string \<Rightarrow> string \<Rightarrow> string list \<Rightarrow> string \<Rightarrow> int \<Rightarrow> int \<Rightarrow> 'e \<Rightarrow> (json list \<times> int) result \<times> 'e"

text \<open>
  What the client documents, of a server that is up: a document is stored under its id or
  removed, removing an absent one reports that it was not found, and a search changes nothing.
  \<open>docs\<close> reads the index.
\<close>

definition es_up :: "'e es_client \<Rightarrow> ('e \<Rightarrow> string \<rightharpoonup> json) \<Rightarrow> bool" where
  "es_up C docs \<longleftrightarrow>
     (\<forall>i doc e. fst (es_Index C ''products'' i doc e) = None \<and> docs (snd (es_Index C ''products'' i doc e)) = (docs e)(i \<mapsto> doc)) \<and>
     (\<forall>i e. (case fst (es_Delete C ''products'' i e) of None \<Rightarrow> True | Some err \<Rightarrow> es_IsNotFound C err)
        \<and> docs (snd (es_Delete C ''products'' i e)) = (docs e)(i := None)) \<and>
     (\<forall>q fields t from size e. docs (snd (es_Search C ''products'' q fields t from size e)) = docs e)"

section \<open>The repository\<close>

definition indexName :: string where "indexName = ''products''"

definition es_doc :: "uuid_lib \<Rightarrow> Product \<Rightarrow> json" where
  "es_doc L p = JObj [(''categories'', if Product_Categories p = [] then JNull else JArr (map JStr (Product_Categories p))),
     (''created_at'', JStr (time_RFC3339 (Product_CreatedAt p))), (''description'', JStr (Product_Description p)),
     (''id'', JStr (uuid_String L (Product_ID p))), (''name'', JStr (Product_Name p)),
     (''price_cents'', JNum (Product_Price p))]"

definition ProductES_Index :: "uuid_lib \<Rightarrow> 'e es_client \<Rightarrow> Product \<Rightarrow> ('e, 'x) cw \<Rightarrow> go_error option \<times> ('e, 'x) cw" where
  "ProductES_Index L C product w =
     (case es_Index C indexName (uuid_String L (Product_ID product)) (es_doc L product) (es w) of
        (Some err, e) \<Rightarrow> (Some (errorf ''index product'' err), w\<lparr>es := e\<rparr>)
      | (None, e) \<Rightarrow> (None, w\<lparr>es := e\<rparr>))"

definition ProductES_Delete :: "uuid_lib \<Rightarrow> 'e es_client \<Rightarrow> uuid \<Rightarrow> ('e, 'x) cw \<Rightarrow> go_error option \<times> ('e, 'x) cw" where
  "ProductES_Delete L C i w =
     (case es_Delete C indexName (uuid_String L i) (es w) of
        (Some err, e) \<Rightarrow>
          if \<not> es_IsNotFound C err then (Some (errorf ''delete product from index'' err), w\<lparr>es := e\<rparr>)
          else (None, w\<lparr>es := e\<rparr>)
      | (None, e) \<Rightarrow> (None, w\<lparr>es := e\<rparr>))"

definition index_mapping :: json where
  "index_mapping = JObj
     [(''mappings'', JObj [(''properties'', JObj
        [(''categories'', JObj [(''type'', JStr ''keyword'')]), (''created_at'', JObj [(''type'', JStr ''date'')]),
         (''description'', JObj [(''type'', JStr ''text'')]), (''id'', JObj [(''type'', JStr ''keyword'')]),
         (''name'', JObj [(''type'', JStr ''text'')]), (''price_cents'', JObj [(''type'', JStr ''long'')])])]),
      (''settings'', JObj [(''number_of_replicas'', JNum 0), (''number_of_shards'', JNum 1)])]"

definition ProductES_EnsureIndex :: "'e es_client \<Rightarrow> ('e, 'x) cw \<Rightarrow> go_error option \<times> ('e, 'x) cw" where
  "ProductES_EnsureIndex C w =
     (case es_IndexExists C indexName (es w) of
        (Inl err, e) \<Rightarrow> (Some (errorf ''check index exists'' err), w\<lparr>es := e\<rparr>)
      | (Inr exists, e) \<Rightarrow>
          if exists then (None, w\<lparr>es := e\<rparr>)
          else (case es_CreateIndex C indexName index_mapping e of
                  (Some err, e1) \<Rightarrow> (Some (errorf ''create index'' err), w\<lparr>es := e1\<rparr>)
                | (None, e1) \<Rightarrow> (None, w\<lparr>es := e1\<rparr>)))"

text \<open>
  A JSON number in a map of \<^verbatim>\<open>interface{}\<close> is a \<^verbatim>\<open>float64\<close>: an integer of more than 53 bits is
  rounded to the nearest multiple of a power of two, ties to the even one.
\<close>

definition float64_of_int :: "int \<Rightarrow> int" where
  "float64_of_int n =
     (let m = nat \<bar>n\<bar>; bits = floorlog 2 m in
      if bits \<le> 53 then n
      else let s = 2 ^ (bits - 53); q = m div s; r = m mod s;
               q1 = (if 2 * r > s \<or> 2 * r = s \<and> odd q then q + 1 else q)
           in sgn n * int (q1 * s))"

definition json_member :: "(string \<times> json) list \<Rightarrow> string \<Rightarrow> json option" where
  "json_member kvs k = map_of (rev kvs) k"

definition json_string :: "json option \<Rightarrow> string option" where
  "json_string j = (case j of Some (JStr s) \<Rightarrow> Some s | _ \<Rightarrow> None)"

text \<open>\<open>None\<close> is the nil map that \<open>null\<close> decodes to.\<close>

definition mapToProduct :: "uuid_lib \<Rightarrow> (string \<times> json) list option \<Rightarrow> Product result" where
  "mapToProduct L source =
     (case source of
        None \<Rightarrow> Inl (StdErr ''source is nil'')
      | Some kvs \<Rightarrow>
          (case json_string (json_member kvs ''id'') of
             None \<Rightarrow> Inl (StdErr ''missing or invalid id'')
           | Some idStr \<Rightarrow>
               if idStr = '''' then Inl (StdErr ''missing or invalid id'')
               else
                 (case uuid_Parse L idStr of
                    Inl err \<Rightarrow> Inl (errorf ''parse id'' err)
                  | Inr i \<Rightarrow>
                      Inr \<lparr>Product_ID = i,
                           Product_Name = case_option '''' id (json_string (json_member kvs ''name'')),
                           Product_Description = case_option '''' id (json_string (json_member kvs ''description'')),
                           Product_Price = (case json_member kvs ''price_cents'' of Some (JNum v) \<Rightarrow> i64 (float64_of_int v) | _ \<Rightarrow> 0),
                           Product_Categories = (case json_member kvs ''categories'' of
                             Some (JArr arr) \<Rightarrow> List.map_filter (\<lambda>c. json_string (Some c)) arr | _ \<Rightarrow> []),
                           Product_IdempotencyKey = '''',
                           Product_CreatedAt = (case json_string (json_member kvs ''created_at'') of
                             Some tStr \<Rightarrow> case_option time_zero id (time_Parse False tStr) | None \<Rightarrow> time_zero)\<rparr>)))"

fun hits_toProducts :: "uuid_lib \<Rightarrow> json list \<Rightarrow> Product list result" where
  "hits_toProducts L [] = Inr []"
| "hits_toProducts L (hit # hits) =
     (case (case hit of JObj kvs \<Rightarrow> Inr (Some kvs) | JNull \<Rightarrow> Inr None | _ \<Rightarrow> Inl (StdErr ''json: cannot unmarshal'')) of
        Inl err \<Rightarrow> Inl (errorf ''unmarshal hit'' err)
      | Inr source \<Rightarrow>
          (case mapToProduct L source of
             Inl err \<Rightarrow> Inl (errorf ''map hit to product'' err)
           | Inr p \<Rightarrow> (case hits_toProducts L hits of Inl err \<Rightarrow> Inl err | Inr ps \<Rightarrow> Inr (p # ps))))"

definition ProductES_Search ::
  "uuid_lib \<Rightarrow> 'e es_client \<Rightarrow> string \<Rightarrow> int \<Rightarrow> int \<Rightarrow> ('e, 'x) cw \<Rightarrow> (Product list \<times> int) result \<times> ('e, 'x) cw" where
  "ProductES_Search L C query page pageSize w =
     (let page = (if page < 1 then 1 else page);
          pageSize = (if pageSize < 1 then 10 else pageSize);
          from = i64 ((page - 1) * pageSize) in
      case es_Search C indexName query [''name'', ''description''] ''best_fields'' from pageSize (es w) of
        (Inl err, e) \<Rightarrow> (Inl (errorf ''search products'' err), w\<lparr>es := e\<rparr>)
      | (Inr (hits, cnt), e) \<Rightarrow>
          (case hits_toProducts L hits of
             Inl err \<Rightarrow> (Inl err, w\<lparr>es := e\<rparr>)
           | Inr ps \<Rightarrow> (Inr (ps, cnt), w\<lparr>es := e\<rparr>)))"

definition CatalogUsecase_SearchProducts ::
  "uuid_lib \<Rightarrow> 'e es_client \<Rightarrow> string \<Rightarrow> int \<Rightarrow> int \<Rightarrow> ('e, 'x) cw \<Rightarrow> (Product list \<times> int) result \<times> ('e, 'x) cw" where
  "CatalogUsecase_SearchProducts L C query page pageSize w = ProductES_Search L C query page pageSize w"

definition CatalogHandler_SearchProducts ::
  "uuid_lib \<Rightarrow> 'e es_client \<Rightarrow> (string \<times> int \<times> int, ProductProto list \<times> int, ('e, 'x) cw) handler" where
  "CatalogHandler_SearchProducts L C c req w =
     (case CatalogUsecase_SearchProducts L C (fst req) (fst (snd req)) (snd (snd req)) w of
        (Inl err, w1) \<Rightarrow> (Inl err, w1)
      | (Inr (ps, cnt), w1) \<Rightarrow> (Inr (toProtoProducts L ps, i32 cnt), w1))"

section \<open>The event handler\<close>

definition poisonf :: "string \<Rightarrow> go_error \<Rightarrow> go_error" where
  "poisonf m err = FmtErr (sentinel_msg ErrPoison @ '': '' @ m @ '': '' @ err_Error err) [Sentinel ErrPoison, err]"

text \<open>Decoding a product: times and UUIDs read themselves from strings.\<close>

fun json_strings :: "json list \<Rightarrow> string list option" where
  "json_strings [] = Some []"
| "json_strings (JStr s # js) = map_option ((#) s) (json_strings js)"
| "json_strings (JNull # js) = map_option ((#) '''') (json_strings js)"
| "json_strings (_ # js) = None"

definition put_product :: "uuid_lib \<Rightarrow> string \<Rightarrow> json \<Rightarrow> Product \<Rightarrow> Product result" where
  "put_product L k v p =
     (if EqualFold k ''ID'' then (case v of JStr s \<Rightarrow> (case uuid_Parse L s of Inl err \<Rightarrow> Inl err | Inr i \<Rightarrow> Inr (p\<lparr>Product_ID := i\<rparr>)) | _ \<Rightarrow> json_type_error)
      else if EqualFold k ''Name'' then (case v of JStr s \<Rightarrow> Inr (p\<lparr>Product_Name := s\<rparr>) | _ \<Rightarrow> json_type_error)
      else if EqualFold k ''Description'' then (case v of JStr s \<Rightarrow> Inr (p\<lparr>Product_Description := s\<rparr>) | _ \<Rightarrow> json_type_error)
      else if EqualFold k ''Price'' then (case v of JNum n \<Rightarrow> if int8_ok n then Inr (p\<lparr>Product_Price := n\<rparr>) else json_type_error | _ \<Rightarrow> json_type_error)
      else if EqualFold k ''Categories'' then (case v of JArr js \<Rightarrow> (case json_strings js of Some cs \<Rightarrow> Inr (p\<lparr>Product_Categories := cs\<rparr>) | None \<Rightarrow> json_type_error) | _ \<Rightarrow> json_type_error)
      else if EqualFold k ''IdempotencyKey'' then (case v of JStr s \<Rightarrow> Inr (p\<lparr>Product_IdempotencyKey := s\<rparr>) | _ \<Rightarrow> json_type_error)
      else if EqualFold k ''CreatedAt'' then
        (case v of JStr s \<Rightarrow> (case time_Parse True s of Some t \<Rightarrow> Inr (p\<lparr>Product_CreatedAt := t\<rparr>) | None \<Rightarrow> Inl (StdErr ''parsing time'')) | _ \<Rightarrow> json_type_error)
      else Inr p)"

definition product_zero :: Product where
  "product_zero = \<lparr>Product_ID = 0, Product_Name = '''', Product_Description = '''', Product_Price = 0,
     Product_Categories = [], Product_IdempotencyKey = '''', Product_CreatedAt = time_zero\<rparr>"

definition unmarshal_product :: "uuid_lib \<Rightarrow> json \<Rightarrow> Product result" where
  "unmarshal_product L j = json_object (put_product L) j product_zero"

definition unmarshal_delete :: "json \<Rightarrow> string result" where
  "unmarshal_delete j =
     json_object (\<lambda>k v s. if EqualFold k ''product_id'' then (case v of JStr t \<Rightarrow> Inr t | _ \<Rightarrow> json_type_error) else Inr s) j ''''"

definition ESHandler_Handle ::
  "uuid_lib \<Rightarrow> 'e es_client \<Rightarrow> CatalogEvent \<Rightarrow> ('e, 'x) cw \<Rightarrow> go_error option \<times> ('e, 'x) cw" where
  "ESHandler_Handle L C event w =
     (if CEvent_EventType event = ''ProductCreated'' \<or> CEvent_EventType event = ''ProductUpdated'' then
        (case unmarshal_product L (CEvent_Payload event) of
           Inl err \<Rightarrow> (Some (poisonf ''unmarshal product payload'' err), w)
         | Inr product \<Rightarrow>
             (case ProductES_Index L C product w of
                (Some err, w1) \<Rightarrow> (Some (errorf ''index product'' err), w1)
              | (None, w1) \<Rightarrow> (None, w1)))
      else if CEvent_EventType event = ''ProductDeleted'' then
        (case unmarshal_delete (CEvent_Payload event) of
           Inl err \<Rightarrow> (Some (poisonf ''unmarshal delete payload'' err), w)
         | Inr productID \<Rightarrow>
             (case uuid_Parse L productID of
                Inl err \<Rightarrow> (Some (poisonf ''invalid product id'' err), w)
              | Inr i \<Rightarrow>
                  (case ProductES_Delete L C i w of
                     (Some err, w1) \<Rightarrow> (Some (errorf ''delete product from index'' err), w1)
                   | (None, w1) \<Rightarrow> (None, w1))))
      else (Some (sentinelf ErrPoison (''unknown event type '' @ [CHR 0x22] @ CEvent_EventType event @ [CHR 0x22])), w))"

section \<open>The relay\<close>

definition catalog_maxRetries :: int where "catalog_maxRetries = 5"
definition catalog_baseBackoff :: int where "catalog_baseBackoff = 500 * millisecond"
definition catalog_maxBackoff :: int where "catalog_maxBackoff = 30 * second"

definition catalog_nextRetry :: "int \<Rightarrow> ('e, 'x) cw \<Rightarrow> int" where
  "catalog_nextRetry retryCount w =
     (let factor = i64 (2 ^ nat (min retryCount 10));
          backoff = i64 (catalog_baseBackoff * factor)
      in clock w + (if backoff > catalog_maxBackoff then catalog_maxBackoff else backoff))"

fun handle_events ::
  "uuid_lib \<Rightarrow> 'e es_client \<Rightarrow> CatalogEvent list \<Rightarrow> ('e, 'x) cw \<Rightarrow> (CatalogEvent \<times> go_error option) list \<times> ('e, 'x) cw" where
  "handle_events L C [] w = ([], w)"
| "handle_events L C (event # events) w =
     (case ESHandler_Handle L C event w of
        (err, w1) \<Rightarrow> (case handle_events L C events w1 of (results, w2) \<Rightarrow> ((event, err) # results, w2)))"

definition apply_result :: "int \<Rightarrow> CatalogEvent \<Rightarrow> go_error option \<Rightarrow> ('e, 'x) cw \<Rightarrow> unit result \<times> ('e, 'x) cw" where
  "apply_result now event res w =
     (case res of
        None \<Rightarrow>
          (case CatalogOutbox_BatchMarkProcessed [CEvent_ID event] w of
             (Inl err, w1) \<Rightarrow> (Inl (errorf ''mark outbox event processed'' err), w1)
           | (Inr _, w1) \<Rightarrow> (Inr (), w1))
      | Some e \<Rightarrow>
          if errors_Is e ErrPoison \<or> i64 (CEvent_RetryCount event + 1) \<ge> catalog_maxRetries then
            (case CatalogOutbox_MoveToDLQ event now (err_Error e) w of
               (Inl err, w1) \<Rightarrow> (Inl (errorf ''move outbox event to DLQ'' err), w1)
             | (Inr _, w1) \<Rightarrow> (Inr (), w1))
          else
            (case CatalogOutbox_IncrementRetryAndSetError (CEvent_ID event) (err_Error e)
                    (catalog_nextRetry (CEvent_RetryCount event) w) w of
               (Inl err, w1) \<Rightarrow> (Inl (errorf ''increment outbox retry'' err), w1)
             | (Inr _, w1) \<Rightarrow> (Inr (), w1)))"

fun apply_results :: "int \<Rightarrow> (CatalogEvent \<times> go_error option) list \<Rightarrow> ('e, 'x) cw \<Rightarrow> unit result \<times> ('e, 'x) cw" where
  "apply_results now [] w = (Inr (), w)"
| "apply_results now ((event, res) # results) w =
     (case apply_result now event res w of
        (Inl err, w1) \<Rightarrow> (Inl err, w1)
      | (Inr _, w1) \<Rightarrow> apply_results now results w1)"

definition CatalogRelay_poll :: "uuid_lib \<Rightarrow> 'e es_client \<Rightarrow> (uuid \<Rightarrow> bool) \<Rightarrow> ('e, 'x) cw \<Rightarrow> ('e, 'x) cw" where
  "CatalogRelay_poll L C locked w =
     (case RunTx (CatalogOutbox_GetUnprocessed locked 100) w of
        (Inl err, w1) \<Rightarrow> w1
      | (Inr events, w1) \<Rightarrow>
          if events = [] then w1
          else (case handle_events L C events w1 of
                  (results, w2) \<Rightarrow> snd (RunTx (apply_results (clock w2) results) w2)))"

end
