(* ===== verification/Catalog_Index.thy ===== *)
theory Catalog_Index
  imports Catalog_Search
begin

text \<open>
  How the search index follows the product table: what an outbox event does to the index, the
  invariant that replaying the pending events over the index gives the table, and its
  preservation by every write of the catalog service and every poll of its relay.
\<close>

section \<open>Documents and payloads\<close>

lemma pg_timestamp_le: "pg_timestamp t \<le> t"
  unfolding pg_timestamp_def using div_mult_mod_eq [of t 1000] pos_mod_sign [of 1000 t] by linarith

lemma pg_timestamp_mono: "s \<le> t \<Longrightarrow> pg_timestamp s \<le> pg_timestamp t"
  unfolding pg_timestamp_def by (simp add: zdiv_mono1)

lemma pg_timestamp_secs: "pg_timestamp t div 1000000000 = t div 1000000000"
proof -
  have "pg_timestamp t div (1000 * 1000000) = t div (1000 * 1000000)"
    unfolding pg_timestamp_def zdiv_zmult2_eq [of 1000000 _ 1000, simplified] by simp
  then show ?thesis by simp
qed

lemma time_RFC3339_pg [simp]: "time_RFC3339 (pg_timestamp t) = time_RFC3339 t"
  unfolding time_RFC3339_def pg_timestamp_secs ..

lemma time_ok_pg [simp]: "time_ok (pg_timestamp t) = time_ok t"
  unfolding time_ok_def pg_timestamp_secs ..

lemma es_doc_pg [simp]: "es_doc L (p\<lparr>Product_CreatedAt := pg_timestamp (Product_CreatedAt p)\<rparr>) = es_doc L p"
  by (simp add: es_doc_def)

lemma put_product_simps:
  "put_product L ''ID'' (JStr s) p = (case uuid_Parse L s of Inl err \<Rightarrow> Inl err | Inr i \<Rightarrow> Inr (p\<lparr>Product_ID := i\<rparr>))"
  "put_product L ''Name'' (JStr s) p = Inr (p\<lparr>Product_Name := s\<rparr>)"
  "put_product L ''Description'' (JStr s) p = Inr (p\<lparr>Product_Description := s\<rparr>)"
  "put_product L ''Price'' (JNum n) p = (if int8_ok n then Inr (p\<lparr>Product_Price := n\<rparr>) else json_type_error)"
  "put_product L ''Categories'' (JArr js) p =
     (case json_strings js of Some cs \<Rightarrow> Inr (p\<lparr>Product_Categories := cs\<rparr>) | None \<Rightarrow> json_type_error)"
  "put_product L ''IdempotencyKey'' (JStr s) p = Inr (p\<lparr>Product_IdempotencyKey := s\<rparr>)"
  "put_product L ''CreatedAt'' (JStr s) p =
     (case time_Parse True s of Some t \<Rightarrow> Inr (p\<lparr>Product_CreatedAt := t\<rparr>) | None \<Rightarrow> Inl (StdErr ''parsing time''))"
  by (simp_all add: put_product_def EqualFold_length)

lemma json_strings_JStr [simp]: "json_strings (map JStr cs) = Some cs"
  by (induction cs) simp_all

lemma unmarshal_product_json:
  assumes "uuid_lib_ok L" and "int8_ok (Product_Price p)" and "time_ok (Product_CreatedAt p)"
  shows "unmarshal_product L (product_json L p) = Inr p"
  using assms time_Parse_RFC3339Nano [OF assms(3), of True]
  by (simp add: unmarshal_product_def product_json_def json_object_def put_product_simps uuid_lib_ok_def product_zero_def)

lemma unmarshal_delete_json: "unmarshal_delete (JObj [(''product_id'', JStr s)]) = Inr s"
  by (simp add: unmarshal_delete_def json_object_def EqualFold_def)

lemma uuid_String_inject: "uuid_lib_ok L \<Longrightarrow> uuid_String L i = uuid_String L j \<longleftrightarrow> i = j"
  unfolding uuid_lib_ok_def by (metis sum.inject(2))

section \<open>What an event does to the index\<close>

definition event_effect :: "uuid_lib \<Rightarrow> CatalogEvent \<Rightarrow> (string \<times> json option) option" where
  "event_effect L e =
     (if CEvent_EventType e = ''ProductCreated'' \<or> CEvent_EventType e = ''ProductUpdated'' then
        (case unmarshal_product L (CEvent_Payload e) of
           Inl err \<Rightarrow> None | Inr p \<Rightarrow> Some (uuid_String L (Product_ID p), Some (es_doc L p)))
      else if CEvent_EventType e = ''ProductDeleted'' then
        (case unmarshal_delete (CEvent_Payload e) of
           Inl err \<Rightarrow> None
         | Inr s \<Rightarrow> (case uuid_Parse L s of Inl err \<Rightarrow> None | Inr i \<Rightarrow> Some (uuid_String L i, None)))
      else None)"

definition apply_event :: "uuid_lib \<Rightarrow> CatalogEvent \<Rightarrow> (string \<rightharpoonup> json) \<Rightarrow> (string \<rightharpoonup> json)" where
  "apply_event L e docs = (case event_effect L e of None \<Rightarrow> docs | Some (k, v) \<Rightarrow> docs(k := v))"

definition replay :: "uuid_lib \<Rightarrow> CatalogEvent list \<Rightarrow> (string \<rightharpoonup> json) \<Rightarrow> (string \<rightharpoonup> json)" where
  "replay L evs docs = fold (apply_event L) evs docs"

definition event_keys :: "uuid_lib \<Rightarrow> CatalogEvent list \<Rightarrow> string set" where
  "event_keys L evs = {k. \<exists>e\<in>set evs. \<exists>v. event_effect L e = Some (k, v)}"

definition pending :: "cat_db \<Rightarrow> CatalogEvent list" where
  "pending d = filter (\<lambda>e. CEvent_ProcessedAt e = None) (cat_outbox d)"

definition table_docs :: "uuid_lib \<Rightarrow> Product list \<Rightarrow> (string \<rightharpoonup> json)" where
  "table_docs L ps = map_of (map (\<lambda>p. (uuid_String L (Product_ID p), es_doc L p)) ps)"

lemma replay_simps [simp]:
  "replay L [] docs = docs" "replay L (e # evs) docs = replay L evs (apply_event L e docs)"
  "replay L (xs @ ys) docs = replay L ys (replay L xs docs)"
  by (simp_all add: replay_def)

lemma replay_outside: "k \<notin> event_keys L evs \<Longrightarrow> replay L evs docs k = docs k"
  by (induction evs arbitrary: docs) (auto simp: event_keys_def apply_event_def split: option.splits)

lemma replay_agree:
  "(\<And>k. k \<notin> event_keys L evs \<Longrightarrow> docs k = docs' k) \<Longrightarrow> replay L evs docs = replay L evs docs'"
proof (induction evs arbitrary: docs docs')
  case Nil
  then show ?case by (auto simp: event_keys_def)
next
  case (Cons e evs)
  have "replay L evs (apply_event L e docs) = replay L evs (apply_event L e docs')"
  proof (rule Cons.IH)
    fix k assume "k \<notin> event_keys L evs"
    then show "apply_event L e docs k = apply_event L e docs' k"
      using Cons.prems [of k] by (auto simp: apply_event_def event_keys_def split: option.splits)
  qed
  then show ?case by simp
qed

text \<open>Delivering some of the events twice changes nothing, as long as all are delivered again.\<close>

lemma replay_again:
  assumes "event_keys L zs \<subseteq> event_keys L xs"
  shows "replay L xs (replay L zs docs) = replay L xs docs"
  by (rule replay_agree) (use assms replay_outside in blast)

lemma event_keys_mono: "set zs \<subseteq> set xs \<Longrightarrow> event_keys L zs \<subseteq> event_keys L xs"
  by (auto simp: event_keys_def)

section \<open>The product table as documents\<close>

lemma map_of_insert:
  "k \<notin> f ` set xs \<Longrightarrow> map_of (map (\<lambda>x. (f x, g x)) xs @ [(k, v)]) = (map_of (map (\<lambda>x. (f x, g x)) xs))(k \<mapsto> v)"
  by (induction xs) (auto simp: fun_eq_iff)

lemma map_of_update:
  assumes "\<And>x. x \<in> set xs \<Longrightarrow> f (h x) = f x" and "\<And>x. x \<in> set xs \<Longrightarrow> f x \<noteq> k \<Longrightarrow> h x = x"
    and "\<And>x. x \<in> set xs \<Longrightarrow> f x = k \<Longrightarrow> g (h x) = v" and "k \<in> f ` set xs"
  shows "map_of (map (\<lambda>x. (f x, g x)) (map h xs)) = (map_of (map (\<lambda>x. (f x, g x)) xs))(k \<mapsto> v)"
proof
  fix q
  have "q \<noteq> k \<Longrightarrow> map_of (map (\<lambda>x. (f x, g x)) (map h xs)) q = map_of (map (\<lambda>x. (f x, g x)) xs) q"
    using assms(1,2) by (induction xs) auto
  moreover have "map_of (map (\<lambda>x. (f x, g x)) (map h xs)) k = Some v"
    using assms(1,3,4) by (induction xs) auto
  ultimately show "map_of (map (\<lambda>x. (f x, g x)) (map h xs)) q = ((map_of (map (\<lambda>x. (f x, g x)) xs))(k \<mapsto> v)) q"
    by (cases "q = k") auto
qed

lemma map_of_delete:
  "map_of (map (\<lambda>x. (f x, g x)) (filter (\<lambda>x. f x \<noteq> k) xs)) = (map_of (map (\<lambda>x. (f x, g x)) xs))(k := None)"
  by (induction xs) (auto simp: fun_eq_iff)

lemma table_docs_insert:
  assumes "uuid_lib_ok L" and "Product_ID p \<notin> Product_ID ` set ps"
  shows "table_docs L (ps @ [p]) = (table_docs L ps)(uuid_String L (Product_ID p) \<mapsto> es_doc L p)"
proof -
  have "uuid_String L (Product_ID p) \<notin> (\<lambda>p. uuid_String L (Product_ID p)) ` set ps"
    using assms by (auto simp: uuid_String_inject)
  from map_of_insert [OF this, of "es_doc L"] show ?thesis by (simp add: table_docs_def)
qed

lemma table_docs_update:
  assumes "uuid_lib_ok L" and "distinct (map Product_ID ps)" and "p \<in> set ps" and "Product_ID q = Product_ID p"
  shows "table_docs L (map (\<lambda>x. if Product_ID x = Product_ID p then q else x) ps) =
    (table_docs L ps)(uuid_String L (Product_ID p) \<mapsto> es_doc L q)"
  unfolding table_docs_def
  by (rule map_of_update) (use assms in \<open>auto simp: uuid_String_inject\<close>)

lemma table_docs_delete:
  assumes "uuid_lib_ok L"
  shows "table_docs L (filter (\<lambda>p. Product_ID p \<noteq> i) ps) = (table_docs L ps)(uuid_String L i := None)"
  using map_of_delete [of "\<lambda>p. uuid_String L (Product_ID p)" "es_doc L" "uuid_String L i" ps] assms
  by (simp add: table_docs_def uuid_String_inject)

section \<open>What the operations do\<close>

lemma sql_cat_frame:
  fixes w :: "('e, 'x) cw"
  shows "sql stmt w = (r, w1) \<Longrightarrow> clock w1 = clock w \<and> es w1 = es w \<and> uuid_src w1 = uuid_src w"
  by (auto dest!: sql_world)

lemma rows_Err_cat_frame:
  fixes w :: "('e, 'x) cw"
  shows "rows_Err w = (r, w1) \<Longrightarrow> clock w1 = clock w \<and> es w1 = es w \<and> db w1 = db w"
  by (auto dest!: rows_Err_world)

lemma RunTx_cat_frame:
  fixes w :: "('e, 'x) cw"
  assumes "RunTx fn w = (r, w')"
    and "\<And>w q w1. fn w = (q, w1) \<Longrightarrow> clock w1 = clock w \<and> es w1 = es w"
  shows "clock w' = clock w \<and> es w' = es w"
proof (rule txm_Run_inv [OF assms(1) [unfolded RunTx_txm_Run]])
  fix fs show "clock (w\<lparr>faults := fs\<rparr>) = clock w \<and> es (w\<lparr>faults := fs\<rparr>) = es w" by simp
next
  fix fs q w2 gs assume "fn (w\<lparr>faults := fs\<rparr>) = (q, w2)"
  from assms(2) [OF this]
  show "clock (w2\<lparr>faults := gs, db := db w\<rparr>) = clock w \<and> es (w2\<lparr>faults := gs, db := db w\<rparr>) = es w" by simp
next
  fix fs x w2 gs assume "fn (w\<lparr>faults := fs\<rparr>) = (Inr x, w2)"
  from assms(2) [OF this]
  show "clock (w2\<lparr>faults := gs\<rparr>) = clock w \<and> es (w2\<lparr>faults := gs\<rparr>) = es w" by simp
qed

definition stored_event :: "CatalogEvent \<Rightarrow> int \<Rightarrow> CatalogEvent" where
  "stored_event event now = event\<lparr>CEvent_CreatedAt := pg_timestamp (CEvent_CreatedAt event), CEvent_ProcessedAt := None,
     CEvent_LastError := None, CEvent_NextRetryAt := Some (pg_timestamp now)\<rparr>"

lemma stmt_InsertCatalogEvent_Inr:
  assumes "stmt_InsertCatalogEvent event d = Inr (x, d')"
  shows "d' = d\<lparr>cat_outbox := cat_outbox d @
      [event\<lparr>CEvent_CreatedAt := pg_timestamp (CEvent_CreatedAt event), CEvent_ProcessedAt := None,
        CEvent_LastError := None, CEvent_NextRetryAt := map_option pg_timestamp (CEvent_NextRetryAt event)\<rparr>]\<rparr>
    \<and> CEvent_ID event \<notin> CEvent_ID ` set (cat_outbox d)"
  using assms unfolding stmt_InsertCatalogEvent_def by (auto simp: list_ex_iff split: if_splits)

lemma stmt_UpdateProduct_Inr:
  assumes "stmt_UpdateProduct p d = Inr (n, d')" and "n \<noteq> 0"
  shows "d' = d\<lparr>products := map (\<lambda>q. if Product_ID q = Product_ID p then set_product p q else q) (products d)\<rparr>"
  using assms unfolding stmt_UpdateProduct_def by (simp add: Let_def split: option.splits if_splits)

lemma CatalogOutbox_Create_frame:
  "CatalogOutbox_Create event w = (r, w1) \<Longrightarrow> clock w1 = clock w \<and> es w1 = es w"
  unfolding CatalogOutbox_Create_def Let_def by (auto split: prod.splits sum.splits dest: sql_cat_frame)

lemma CatalogOutbox_Create_Inr:
  assumes "CatalogOutbox_Create event w = (Inr x, w1)" and "CEvent_NextRetryAt event = None"
  shows "db w1 = (db w)\<lparr>cat_outbox := cat_outbox (db w) @ [stored_event event (clock w)]\<rparr>
    \<and> CEvent_ID event \<notin> CEvent_ID ` set (cat_outbox (db w))"
proof -
  obtain y where "sql (stmt_InsertCatalogEvent (event\<lparr>CEvent_NextRetryAt := Some (clock w)\<rparr>)) w = (Inr y, w1)"
    using assms unfolding CatalogOutbox_Create_def Let_def by (auto split: prod.splits sum.splits)
  then have "stmt_InsertCatalogEvent (event\<lparr>CEvent_NextRetryAt := Some (clock w)\<rparr>) (db w) = Inr (y, db w1)"
    by (cases rule: sql_cases) auto
  from stmt_InsertCatalogEvent_Inr [OF this] show ?thesis by (simp add: stored_event_def)
qed

lemma ProductPostgres_frames:
  "ProductPostgres_Create p w = (r, w1) \<Longrightarrow> clock w1 = clock w \<and> es w1 = es w"
  "ProductPostgres_GetByID i w = (r2, w1) \<Longrightarrow> clock w1 = clock w \<and> es w1 = es w"
  "ProductPostgres_Update p w = (r3, w1) \<Longrightarrow> clock w1 = clock w \<and> es w1 = es w"
  "ProductPostgres_Delete i w = (r3, w1) \<Longrightarrow> clock w1 = clock w \<and> es w1 = es w"
  unfolding ProductPostgres_Create_def ProductPostgres_GetByID_def ProductPostgres_Update_def ProductPostgres_Delete_def
  by (auto split: prod.splits sum.splits if_splits dest: sql_cat_frame)

lemma find_SomeD: "find P xs = Some x \<Longrightarrow> x \<in> set xs \<and> P x"
  by (auto simp: find_Some_iff)

lemma ProductPostgres_Create_Inr:
  assumes "ProductPostgres_Create p w = (Inr i, w1)" and "Product_ID p \<notin> Product_ID ` set (products (db w))"
  shows "i = Product_ID p
    \<and> db w1 = (db w)\<lparr>products := products (db w) @ [p\<lparr>Product_CreatedAt := pg_timestamp (Product_CreatedAt p)\<rparr>]\<rparr>"
proof -
  have s: "sql (stmt_InsertProduct p) w = (Inr i, w1)" and i: "i = Product_ID p"
    using assms(1) unfolding ProductPostgres_Create_def by (auto split: prod.splits sum.splits if_splits)
  from s have "stmt_InsertProduct p (db w) = Inr (i, db w1)" by (cases rule: sql_cases) auto
  moreover have "find P (products (db w)) = Some q \<Longrightarrow> Product_ID q \<noteq> Product_ID p" for P q
    using find_SomeD assms(2) by (metis imageI)
  ultimately show ?thesis using i
    by (auto simp: stmt_InsertProduct_def split: option.splits if_splits)
qed

lemma ProductPostgres_GetByID_Inr:
  assumes "ProductPostgres_GetByID i w = (Inr p, w1)"
  shows "db w1 = db w \<and> p \<in> set (products (db w)) \<and> Product_ID p = i"
proof -
  have "sql (stmt_GetProduct i) w = (Inr p, w1)"
    using assms unfolding ProductPostgres_GetByID_def by (auto split: prod.splits sum.splits if_splits)
  then have "stmt_GetProduct i (db w) = Inr (p, db w1)" by (cases rule: sql_cases) auto
  then show ?thesis
    by (auto simp: stmt_GetProduct_def query_row_def find_Some_iff split: option.splits)
qed

lemma ProductPostgres_Update_Inr:
  assumes "ProductPostgres_Update p w = (Inr x, w1)"
  shows "db w1 = (db w)\<lparr>products := map (\<lambda>q. if Product_ID q = Product_ID p then set_product p q else q) (products (db w))\<rparr>"
proof -
  obtain n where s: "sql (stmt_UpdateProduct p) w = (Inr n, w1)" and n: "n \<noteq> 0"
    using assms unfolding ProductPostgres_Update_def seq_Inr by blast
  from s have "stmt_UpdateProduct p (db w) = Inr (n, db w1)" by (cases rule: sql_cases) auto
  from stmt_UpdateProduct_Inr [OF this n] show ?thesis .
qed

lemma ProductPostgres_Delete_Inr:
  assumes "ProductPostgres_Delete i w = (Inr x, w1)"
  shows "db w1 = (db w)\<lparr>products := filter (\<lambda>p. Product_ID p \<noteq> i) (products (db w))\<rparr>"
proof -
  obtain n where s: "sql (stmt_DeleteProduct i) w = (Inr n, w1)"
    using assms unfolding ProductPostgres_Delete_def by (auto split: prod.splits sum.splits if_splits)
  then have "stmt_DeleteProduct i (db w) = Inr (n, db w1)" by (cases rule: sql_cases) auto
  then show ?thesis by (auto simp: stmt_DeleteProduct_def)
qed

section \<open>The invariant of the projection\<close>

text \<open>
  Replaying the pending events over the index gives the product table. The events are kept in the
  order of their creation, none is due later than now, and each of them can be applied.
\<close>

definition product_ok :: "Product \<Rightarrow> bool" where
  "product_ok p \<longleftrightarrow> int8_ok (Product_Price p) \<and> time_ok (Product_CreatedAt p)"

definition event_ok :: "int \<Rightarrow> CatalogEvent \<Rightarrow> bool" where
  "event_ok now e \<longleftrightarrow> CEvent_CreatedAt e \<le> pg_timestamp now \<and>
     (case CEvent_NextRetryAt e of None \<Rightarrow> False | Some t \<Rightarrow> t \<le> now)"

definition cat_ok :: "uuid_lib \<Rightarrow> int \<Rightarrow> (string \<rightharpoonup> json) \<Rightarrow> cat_db \<Rightarrow> bool" where
  "cat_ok L now docs d \<longleftrightarrow>
     distinct (map Product_ID (products d)) \<and> (\<forall>p\<in>set (products d). product_ok p) \<and>
     distinct (map CEvent_ID (cat_outbox d)) \<and> sorted (map CEvent_CreatedAt (cat_outbox d)) \<and>
     (\<forall>e\<in>set (cat_outbox d). event_ok now e) \<and> (\<forall>e\<in>set (pending d). event_effect L e \<noteq> None) \<and>
     replay L (pending d) docs = table_docs L (products d)"

lemma cat_ok_later: "cat_ok L now docs d \<Longrightarrow> now \<le> later \<Longrightarrow> cat_ok L later docs d"
  unfolding cat_ok_def event_ok_def using pg_timestamp_mono [of now later]
  by (fastforce split: option.splits)

lemma effect_stored [simp]: "event_effect L (stored_event e now) = event_effect L e"
  by (simp add: event_effect_def stored_event_def)

lemma cat_ok_append:
  assumes "cat_ok L now docs d" and "CEvent_ID e \<notin> CEvent_ID ` set (cat_outbox d)"
    and "CEvent_CreatedAt e = now" and "CEvent_NextRetryAt e = None"
    and "event_effect L e = Some (k, v)" and "table_docs L ps = (table_docs L (products d))(k := v)"
    and "distinct (map Product_ID ps)" and "\<forall>p\<in>set ps. product_ok p"
  shows "cat_ok L now docs (d\<lparr>products := ps, cat_outbox := cat_outbox d @ [stored_event e now]\<rparr>)"
proof -
  have "event_effect L (stored_event e now) = Some (k, v)" using assms(5) by simp
  then show ?thesis using assms pg_timestamp_le [of now]
    by (auto simp: cat_ok_def pending_def stored_event_def event_ok_def sorted_append apply_event_def)
qed

lemma effect_product:
  assumes "uuid_lib_ok L" and "product_ok p" and "t = ''ProductCreated'' \<or> t = ''ProductUpdated''"
  shows "event_effect L (product_event i a t (product_json L p) now) =
    Some (uuid_String L (Product_ID p), Some (es_doc L p))"
  using assms by (auto simp: event_effect_def product_event_def unmarshal_product_json product_ok_def)

lemma effect_delete:
  assumes "uuid_lib_ok L"
  shows "event_effect L (product_event eid a ''ProductDeleted'' (JObj [(''product_id'', JStr (uuid_String L i))]) now) =
    Some (uuid_String L i, None)"
  using assms by (simp add: event_effect_def product_event_def unmarshal_delete_json uuid_lib_ok_def)

lemma product_event_sel [simp]:
  "CEvent_ID (product_event i a t j now) = i" "CEvent_CreatedAt (product_event i a t j now) = now"
  "CEvent_NextRetryAt (product_event i a t j now) = None"
  by (simp_all add: product_event_def)

lemma create_product_tx_frame:
  "create_product_tx p e w = (r, w') \<Longrightarrow> clock w' = clock w \<and> es w' = es w"
  unfolding create_product_tx_def
  by (auto split: prod.splits sum.splits dest!: ProductPostgres_frames CatalogOutbox_Create_frame)

lemma create_product_tx_ok:
  assumes inv: "cat_ok L (clock w) docs (db w)" and L: "uuid_lib_ok L"
    and run: "create_product_tx p (product_event eid a ''ProductCreated'' (product_json L p) (clock w)) w = (Inr i, w')"
    and p: "product_ok p" and new: "Product_ID p \<notin> Product_ID ` set (products (db w))"
  shows "cat_ok L (clock w) docs (db w')"
proof -
  let ?e = "product_event eid a ''ProductCreated'' (product_json L p) (clock w)"
  let ?p = "p\<lparr>Product_CreatedAt := pg_timestamp (Product_CreatedAt p)\<rparr>"
  let ?ps = "products (db w) @ [?p]"
  obtain w1 y where c: "ProductPostgres_Create p w = (Inr i, w1)" and o: "CatalogOutbox_Create ?e w1 = (Inr y, w')"
    using run unfolding create_product_tx_def by (auto split: prod.splits sum.splits)
  have d1: "db w1 = (db w)\<lparr>products := ?ps\<rparr>" using ProductPostgres_Create_Inr [OF c new] by simp
  have t: "clock w1 = clock w" using ProductPostgres_frames(1) [OF c] by simp
  note d2 = CatalogOutbox_Create_Inr [OF o product_event_sel(3), unfolded t d1]
  have "cat_ok L (clock w) docs ((db w)\<lparr>products := ?ps, cat_outbox := cat_outbox (db w) @ [stored_event ?e (clock w)]\<rparr>)"
  proof (rule cat_ok_append [OF inv _ _ _ effect_product [OF L p]])
    show "table_docs L ?ps = (table_docs L (products (db w)))(uuid_String L (Product_ID p) := Some (es_doc L p))"
      using table_docs_insert [OF L, of ?p] new by simp
    show "distinct (map Product_ID ?ps)" "\<forall>p\<in>set ?ps. product_ok p"
      using inv p new by (auto simp: cat_ok_def product_ok_def)
  qed (use d2 in auto)
  then show ?thesis using d2 by simp
qed

lemma set_merge [simp]: "set_product (merge_product n de pr cs p) p = merge_product n de pr cs p"
  by (simp add: set_product_def merge_product_def)

lemma merge_sel [simp]:
  "Product_ID (merge_product n de pr cs p) = Product_ID p"
  "Product_CreatedAt (merge_product n de pr cs p) = Product_CreatedAt p"
  by (simp_all add: merge_product_def)

lemma update_product_tx_frame:
  "update_product_tx L i n de pr cs w = (r, w') \<Longrightarrow> clock w' = clock w \<and> es w' = es w"
  unfolding update_product_tx_def uuid_New_def Let_def
  by (auto split: prod.splits sum.splits dest!: ProductPostgres_frames CatalogOutbox_Create_frame)

lemma update_product_tx_ok:
  assumes inv: "cat_ok L (clock w) docs (db w)" and L: "uuid_lib_ok L"
    and run: "update_product_tx L i n de pr cs w = (Inr x, w')" and pr: "case_option True int8_ok pr"
  shows "cat_ok L (clock w) docs (db w')"
proof -
  obtain p w1 w2 y payload z where g: "ProductPostgres_GetByID i w = (Inr p, w1)"
    and u: "ProductPostgres_Update (merge_product n de pr cs p) w1 = (Inr y, w2)"
    and m: "marshal_product L (merge_product n de pr cs p) = Inr payload"
    and o: "CatalogOutbox_Create (product_event (uuid_src w2 (uuid_ctr w2)) (uuid_String L (Product_ID p)) ''ProductUpdated'' payload (clock w2))
        (w2\<lparr>uuid_ctr := Suc (uuid_ctr w2)\<rparr>) = (Inr z, w')"
    using run unfolding update_product_tx_def uuid_New_def Let_def by (auto split: prod.splits sum.splits)
  let ?q = "merge_product n de pr cs p"
  let ?ps = "map (\<lambda>x. if Product_ID x = Product_ID p then ?q else x) (products (db w))"
  let ?e = "product_event (uuid_src w2 (uuid_ctr w2)) (uuid_String L (Product_ID p)) ''ProductUpdated'' (product_json L ?q) (clock w)"
  have d1: "db w1 = db w" and p: "p \<in> set (products (db w))" using ProductPostgres_GetByID_Inr [OF g] by simp_all
  have t: "clock w2 = clock w"
    using ProductPostgres_frames(2) [OF g] ProductPostgres_frames(3) [OF u] by simp
  have only: "Product_ID x = Product_ID p \<Longrightarrow> x = p" if "x \<in> set (products (db w))" for x
    using inv p that by (auto simp: cat_ok_def distinct_map inj_on_def)
  have "map (\<lambda>x. if Product_ID x = Product_ID ?q then set_product ?q x else x) (products (db w)) = ?ps"
    using only by (intro map_cong refl) (metis merge_sel(1) set_merge)
  then have d2: "db w2 = (db w)\<lparr>products := ?ps\<rparr>" using ProductPostgres_Update_Inr [OF u] d1 by simp
  have pl: "payload = product_json L ?q" using m by (auto simp: marshal_product_def split: if_splits)
  have d3: "db w' = (db w2)\<lparr>cat_outbox := cat_outbox (db w2) @ [stored_event ?e (clock w)]\<rparr>"
    "CEvent_ID ?e \<notin> CEvent_ID ` set (cat_outbox (db w))"
    using CatalogOutbox_Create_Inr [OF o product_event_sel(3)] d2 t pl by simp_all
  have q: "product_ok ?q"
    using inv p pr by (auto simp: cat_ok_def product_ok_def merge_product_def split: option.splits)
  have ids: "map Product_ID ?ps = map Product_ID (products (db w))" by (auto intro!: map_cong)
  have "cat_ok L (clock w) docs ((db w)\<lparr>products := ?ps, cat_outbox := cat_outbox (db w) @ [stored_event ?e (clock w)]\<rparr>)"
  proof (rule cat_ok_append [OF inv _ _ _ effect_product [OF L q]])
    show "table_docs L ?ps = (table_docs L (products (db w)))(uuid_String L (Product_ID ?q) := Some (es_doc L ?q))"
      using table_docs_update [OF L _ p, of ?q] inv by (simp add: cat_ok_def)
    show "distinct (map Product_ID ?ps)" using inv unfolding ids by (simp add: cat_ok_def)
    show "\<forall>p\<in>set ?ps. product_ok p" using inv q by (auto simp: cat_ok_def)
  qed (use d3 in auto)
  then show ?thesis using d3(1) d2 by simp
qed

lemma delete_product_tx_frame:
  "delete_product_tx L i w = (r, w') \<Longrightarrow> clock w' = clock w \<and> es w' = es w"
  unfolding delete_product_tx_def uuid_New_def
  by (auto split: prod.splits sum.splits dest!: ProductPostgres_frames CatalogOutbox_Create_frame)

lemma delete_product_tx_ok:
  assumes inv: "cat_ok L (clock w) docs (db w)" and L: "uuid_lib_ok L"
    and run: "delete_product_tx L i w = (Inr x, w')"
  shows "cat_ok L (clock w) docs (db w')"
proof -
  obtain w1 y z where d: "ProductPostgres_Delete i w = (Inr y, w1)"
    and o: "CatalogOutbox_Create (product_event (uuid_src w1 (uuid_ctr w1)) (uuid_String L i) ''ProductDeleted''
        (JObj [(''product_id'', JStr (uuid_String L i))]) (clock w1)) (w1\<lparr>uuid_ctr := Suc (uuid_ctr w1)\<rparr>) = (Inr z, w')"
    using run unfolding delete_product_tx_def uuid_New_def by (auto split: prod.splits sum.splits)
  let ?ps = "filter (\<lambda>p. Product_ID p \<noteq> i) (products (db w))"
  let ?e = "product_event (uuid_src w1 (uuid_ctr w1)) (uuid_String L i) ''ProductDeleted''
      (JObj [(''product_id'', JStr (uuid_String L i))]) (clock w)"
  have t: "clock w1 = clock w" using ProductPostgres_frames(4) [OF d] by simp
  have d1: "db w1 = (db w)\<lparr>products := ?ps\<rparr>" by (rule ProductPostgres_Delete_Inr [OF d])
  have d3: "db w' = (db w1)\<lparr>cat_outbox := cat_outbox (db w1) @ [stored_event ?e (clock w)]\<rparr>"
    "CEvent_ID ?e \<notin> CEvent_ID ` set (cat_outbox (db w))"
    using CatalogOutbox_Create_Inr [OF o product_event_sel(3)] d1 t by simp_all
  have "cat_ok L (clock w) docs ((db w)\<lparr>products := ?ps, cat_outbox := cat_outbox (db w) @ [stored_event ?e (clock w)]\<rparr>)"
  proof (rule cat_ok_append [OF inv _ _ _ effect_delete [OF L]])
    show "table_docs L ?ps = (table_docs L (products (db w)))(uuid_String L i := None)"
      by (rule table_docs_delete [OF L])
    show "distinct (map Product_ID ?ps)" "\<forall>p\<in>set ?ps. product_ok p"
      using inv by (auto simp: cat_ok_def distinct_map inj_on_def)
  qed (use d3 in auto)
  then show ?thesis using d3(1) d1 by simp
qed

section \<open>Every write keeps it\<close>

definition cat_inv :: "uuid_lib \<Rightarrow> ('e \<Rightarrow> string \<rightharpoonup> json) \<Rightarrow> ('e, 'x) cw \<Rightarrow> bool" where
  "cat_inv L docs w \<longleftrightarrow> cat_ok L (clock w) (docs (es w)) (db w)"

lemma RunTx_cat_inv:
  assumes inv: "cat_inv L docs w"
    and frame: "\<And>w q w1. fn w = (q, w1) \<Longrightarrow> clock w1 = clock w \<and> es w1 = es w"
    and ok: "\<And>w0 x w1. db w0 = db w \<Longrightarrow> clock w0 = clock w \<Longrightarrow> fn w0 = (Inr x, w1) \<Longrightarrow>
      cat_ok L (clock w) (docs (es w)) (db w1)"
  shows "cat_inv L docs (snd (RunTx fn w))"
proof -
  obtain r w' where run: "txm_Run fn w = (r, w')" by fastforce
  have "cat_ok L (clock w') (docs (es w')) (db w')"
  proof (rule txm_Run_inv [OF run])
    fix fs show "cat_ok L (clock (w\<lparr>faults := fs\<rparr>)) (docs (es (w\<lparr>faults := fs\<rparr>))) (db (w\<lparr>faults := fs\<rparr>))"
      using inv by (simp add: cat_inv_def)
  next
    fix fs q w2 gs assume "fn (w\<lparr>faults := fs\<rparr>) = (q, w2)"
    from frame [OF this] show "cat_ok L (clock (w2\<lparr>faults := gs, db := db w\<rparr>))
        (docs (es (w2\<lparr>faults := gs, db := db w\<rparr>))) (db (w2\<lparr>faults := gs, db := db w\<rparr>))"
      using inv by (simp add: cat_inv_def)
  next
    fix fs x w2 gs assume f: "fn (w\<lparr>faults := fs\<rparr>) = (Inr x, w2)"
    from frame [OF f] ok [OF _ _ f] show "cat_ok L (clock (w2\<lparr>faults := gs\<rparr>)) (docs (es (w2\<lparr>faults := gs\<rparr>))) (db (w2\<lparr>faults := gs\<rparr>))"
      by simp
  qed
  then show ?thesis using run by (simp add: cat_inv_def RunTx_txm_Run)
qed

lemma create_product_inv:
  fixes w :: "('e, 'x) cw"
  assumes "cat_inv L docs w" and L: "uuid_lib_ok L" and price: "int8_ok price"
    and new: "fst (uuid_New w) \<notin> Product_ID ` set (products (db w))"
  shows "cat_inv L docs (snd (CatalogUsecase_CreateProduct L name descr price cats key w))"
proof -
  define w1 where "w1 = w\<lparr>uuid_ctr := Suc (uuid_ctr w)\<rparr>"
  define w2 where "w2 = w1\<lparr>uuid_ctr := Suc (uuid_ctr w1)\<rparr>"
  define p where "p = \<lparr>Product_ID = uuid_src w (uuid_ctr w), Product_Name = name, Product_Description = descr, Product_Price = price,
    Product_Categories = cats, Product_IdempotencyKey = key, Product_CreatedAt = clock w1\<rparr>"
  let ?e = "\<lambda>payload. product_event (uuid_src w1 (uuid_ctr w1)) (uuid_String L (uuid_src w (uuid_ctr w))) ''ProductCreated'' payload (clock w2)"
  have same: "clock w1 = clock w" "es w1 = es w" "db w1 = db w" "clock w2 = clock w" "es w2 = es w" "db w2 = db w"
    by (simp_all add: w1_def w2_def)
  have inv: "cat_inv L docs w1" "cat_inv L docs w2" using assms(1) by (simp_all add: cat_inv_def same)
  have run: "CatalogUsecase_CreateProduct L name descr price cats key w =
    (case marshal_product L p of Inl err \<Rightarrow> (Inl (errorf ''marshal product payload'' err), w1)
     | Inr payload \<Rightarrow> RunTx (create_product_tx p (?e payload)) w2)"
    unfolding CatalogUsecase_CreateProduct_def uuid_New_def p_def w2_def w1_def Let_def prod.case by (rule refl)
  show ?thesis
  proof (cases "marshal_product L p")
    case (Inl err)
    then show ?thesis using run inv by simp
  next
    case (Inr payload)
    then have pl: "payload = product_json L p" and p: "product_ok p"
      using price by (auto simp: marshal_product_def product_ok_def p_def split: if_splits)
    have "cat_inv L docs (snd (RunTx (create_product_tx p (?e payload)) w2))"
    proof (rule RunTx_cat_inv [OF inv(2) create_product_tx_frame])
      fix w0 x w3
      assume w0: "db w0 = db w2" "clock w0 = clock w2" and r: "create_product_tx p (?e payload) w0 = (Inr x, w3)"
      have "cat_ok L (clock w0) (docs (es w2)) (db w3)"
        by (rule create_product_tx_ok [OF _ L r [unfolded pl w0(2) [symmetric]] p])
          (use inv(2) new w0 same in \<open>simp_all add: cat_inv_def p_def uuid_New_def\<close>)
      then show "cat_ok L (clock w2) (docs (es w2)) (db w3)" using w0 by simp
    qed
    then show ?thesis using run Inr by simp
  qed
qed

lemma update_product_inv:
  assumes "cat_inv L docs w" and "uuid_lib_ok L" and "case_option True int8_ok price"
  shows "cat_inv L docs (snd (CatalogUsecase_UpdateProduct L i name descr price cats w))"
  unfolding CatalogUsecase_UpdateProduct_def
proof (rule RunTx_cat_inv [OF assms(1) update_product_tx_frame])
  fix w0 x w1 assume w0: "db w0 = db w" "clock w0 = clock w" and r: "update_product_tx L i name descr price cats w0 = (Inr x, w1)"
  show "cat_ok L (clock w) (docs (es w)) (db w1)"
    using update_product_tx_ok [OF _ assms(2) r assms(3), of "docs (es w)"] w0 assms(1) by (simp add: cat_inv_def)
qed

lemma delete_product_inv:
  assumes "cat_inv L docs w" and "uuid_lib_ok L"
  shows "cat_inv L docs (snd (CatalogUsecase_DeleteProduct L i w))"
  unfolding CatalogUsecase_DeleteProduct_def
proof (rule RunTx_cat_inv [OF assms(1) delete_product_tx_frame])
  fix w0 x w1 assume w0: "db w0 = db w" "clock w0 = clock w" and r: "delete_product_tx L i w0 = (Inr x, w1)"
  show "cat_ok L (clock w) (docs (es w)) (db w1)"
    using delete_product_tx_ok [OF _ assms(2) r, of "docs (es w)"] w0 assms(1) by (simp add: cat_inv_def)
qed

lemma catalog_handlers_snd:
  "snd (CatalogHandler_CreateProduct L c req w) = snd (CatalogUsecase_CreateProduct L (CreateProductRequest_Name req)
     (CreateProductRequest_Description req) (CreateProductRequest_PriceCents req) (CreateProductRequest_Categories req)
     (CreateProductRequest_IdempotencyKey req) w)"
  "snd (CatalogHandler_UpdateProduct L c ureq w) = w \<or> (\<exists>i. snd (CatalogHandler_UpdateProduct L c ureq w) =
     snd (CatalogUsecase_UpdateProduct L i (UpdateProductRequest_Name ureq) (UpdateProductRequest_Description ureq)
       (UpdateProductRequest_PriceCents ureq) (UpdateProductRequest_Categories ureq) w))"
  "snd (CatalogHandler_DeleteProduct L c s w) = w \<or>
     (\<exists>i. snd (CatalogHandler_DeleteProduct L c s w) = snd (CatalogUsecase_DeleteProduct L i w))"
  unfolding CatalogHandler_CreateProduct_def CatalogHandler_UpdateProduct_def CatalogHandler_DeleteProduct_def
  by (auto split: prod.splits sum.splits option.splits) (metis snd_conv)+

section \<open>Reads leave it alone\<close>

lemma sql_query_frame:
  fixes w :: "('e, 'x) cw"
  assumes "sql (query_rows q) w = (r, w1)"
  shows "clock w1 = clock w \<and> es w1 = es w \<and> db w1 = db w \<and> (\<forall>x. r = Inr x \<longrightarrow> x = q (db w))"
proof -
  have "db w1 = db w" using sql_query_rows_db [of q w] assms by simp
  moreover have "r = Inr x \<Longrightarrow> x = q (db w)" for x
    using assms by (cases rule: sql_cases) (auto simp: query_rows_def)
  ultimately show ?thesis using sql_cat_frame [OF assms] by simp
qed

lemma cat_inv_frame: "cat_inv L docs w \<Longrightarrow> clock w1 = clock w \<Longrightarrow> es w1 = es w \<Longrightarrow> db w1 = db w \<Longrightarrow> cat_inv L docs w1"
  by (simp add: cat_inv_def)

section \<open>The relay\<close>

lemma GetUnprocessed_frame:
  fixes w :: "('e, 'x) cw"
  assumes "CatalogOutbox_GetUnprocessed locked limit w = (r, w1)"
  shows "clock w1 = clock w \<and> es w1 = es w \<and> db w1 = db w \<and> (\<forall>evs. r = Inr evs \<longrightarrow>
    evs = take (nat limit) (sort_key CEvent_CreatedAt (filter (\<lambda>e. cat_due (clock w) e \<and> \<not> locked (CEvent_ID e)) (cat_outbox (db w)))))"
proof -
  obtain q w2 where s: "sql (stmt_UnprocessedCatalog locked (clock w) limit) w = (q, w2)" by fastforce
  obtain z w3 where e: "rows_Err w2 = (z, w3)" by fastforce
  show ?thesis
    using assms s e sql_query_frame [OF s [unfolded stmt_UnprocessedCatalog_def]] rows_Err_cat_frame [OF e]
    unfolding CatalogOutbox_GetUnprocessed_def by (cases q; cases z) auto
qed

lemma RunTx_read:
  fixes w :: "('e, 'x) cw"
  assumes "RunTx fn w = (r, w')"
    and "\<And>w q w1. fn w = (q, w1) \<Longrightarrow> clock w1 = clock w \<and> es w1 = es w \<and> db w1 = db w"
  shows "clock w' = clock w \<and> es w' = es w \<and> db w' = db w"
proof -
  have "db w' = db w"
    using rtx.stable [where fn = fn and w = w] assms by (metis snd_conv)
  moreover have "clock w' = clock w \<and> es w' = es w"
    by (rule RunTx_cat_frame [OF assms(1)]) (use assms(2) in blast)
  ultimately show ?thesis by simp
qed

lemma due_events:
  assumes "cat_ok L now docs d"
  shows "take 100 (sort_key CEvent_CreatedAt (filter (\<lambda>e. cat_due now e \<and> \<not> False) (cat_outbox d))) = take 100 (pending d)"
proof -
  have "filter (\<lambda>e. cat_due now e \<and> \<not> False) (cat_outbox d) = pending d"
    unfolding pending_def using assms
    by (intro filter_cong) (auto simp: cat_ok_def event_ok_def cat_due_def split: option.splits)
  moreover have "sorted (map CEvent_CreatedAt (pending d))"
    using assms unfolding pending_def cat_ok_def by (auto intro: sorted_filter)
  ultimately show ?thesis by (simp add: sort_key_id_if_sorted)
qed

lemma poll_fetch:
  fixes w :: "('e, 'x) cw"
  assumes inv: "cat_inv L docs w" and run: "RunTx (CatalogOutbox_GetUnprocessed (\<lambda>_. False) 100) w = (r, w1)"
  shows "clock w1 = clock w \<and> es w1 = es w \<and> db w1 = db w \<and> (\<forall>evs. r = Inr evs \<longrightarrow> evs = take 100 (pending (db w)))"
proof -
  have f: "clock w1 = clock w \<and> es w1 = es w \<and> db w1 = db w"
    by (rule RunTx_read [OF run]) (use GetUnprocessed_frame in blast)
  have "evs = take 100 (pending (db w))" if r: "r = Inr evs" for evs
  proof -
    from txm_Run_success [OF run [unfolded r RunTx_txm_Run]]
    obtain fs w2 where "CatalogOutbox_GetUnprocessed (\<lambda>_. False) 100 (w\<lparr>faults := fs\<rparr>) = (Inr evs, w2)" by metis
    from GetUnprocessed_frame [OF this] show ?thesis
      using due_events [OF inv [unfolded cat_inv_def]] by simp
  qed
  with f show ?thesis by simp
qed

lemma ESHandler_Handle_up:
  fixes w :: "('e, 'x) cw"
  assumes "es_up C docs" and "event_effect L e \<noteq> None" and "ESHandler_Handle L C e w = (r, w1)"
  shows "r = None \<and> docs (es w1) = apply_event L e (docs (es w)) \<and> db w1 = db w \<and> clock w1 = clock w \<and> faults w1 = faults w"
proof -
  have ix: "fst (es_Index C indexName k v s) = None \<and> docs (snd (es_Index C indexName k v s)) = (docs s)(k \<mapsto> v)" for k v s
    using assms(1) by (simp add: es_up_def indexName_def)
  have dl: "(case fst (es_Delete C indexName k s) of None \<Rightarrow> True | Some err \<Rightarrow> es_IsNotFound C err)
      \<and> docs (snd (es_Delete C indexName k s)) = (docs s)(k := None)" for k s
    using assms(1) by (simp add: es_up_def indexName_def)
  consider p where "CEvent_EventType e = ''ProductCreated'' \<or> CEvent_EventType e = ''ProductUpdated''"
      "unmarshal_product L (CEvent_Payload e) = Inr p"
    | s i where "\<not> (CEvent_EventType e = ''ProductCreated'' \<or> CEvent_EventType e = ''ProductUpdated'')"
      "CEvent_EventType e = ''ProductDeleted''" "unmarshal_delete (CEvent_Payload e) = Inr s" "uuid_Parse L s = Inr i"
    using assms(2) unfolding event_effect_def by (auto split: if_splits sum.splits)
  then show ?thesis
  proof cases
    case 1
    then show ?thesis
      using assms(3) ix [of "uuid_String L (Product_ID p)" "es_doc L p" "es w"]
      by (cases "es_Index C indexName (uuid_String L (Product_ID p)) (es_doc L p) (es w)")
        (auto simp: ESHandler_Handle_def ProductES_Index_def apply_event_def event_effect_def)
  next
    case 2
    then show ?thesis
      using assms(3) dl [of "uuid_String L i" "es w"]
      by (cases "es_Delete C indexName (uuid_String L i) (es w)")
        (auto simp: ESHandler_Handle_def ProductES_Delete_def apply_event_def event_effect_def split: option.splits if_splits)
  qed
qed

lemma handle_events_up:
  fixes w :: "('e, 'x) cw"
  assumes "es_up C docs"
  shows "\<forall>e\<in>set evs. event_effect L e \<noteq> None \<Longrightarrow> handle_events L C evs w = (rs, w1) \<Longrightarrow>
    rs = map (\<lambda>e. (e, None)) evs \<and> docs (es w1) = replay L evs (docs (es w)) \<and> db w1 = db w \<and> clock w1 = clock w \<and> faults w1 = faults w"
proof (induction evs arbitrary: w rs w1)
  case Nil
  then show ?case by simp
next
  case (Cons e evs)
  obtain r w2 where h: "ESHandler_Handle L C e w = (r, w2)" by fastforce
  obtain qs w3 where t: "handle_events L C evs w2 = (qs, w3)" by fastforce
  have "event_effect L e \<noteq> None" using Cons.prems(1) by simp
  note 1 = ESHandler_Handle_up [OF assms this h]
  have "\<forall>e\<in>set evs. event_effect L e \<noteq> None" using Cons.prems(1) by simp
  note 2 = Cons.IH [OF this t]
  show ?case using Cons.prems(2) h t 1 2 by simp
qed

definition mark_events :: "int \<Rightarrow> CatalogEvent list \<Rightarrow> cat_db \<Rightarrow> cat_db" where
  "mark_events now evs d = update_events (\<lambda>e. CEvent_ID e \<in> CEvent_ID ` set evs) (\<lambda>e. e\<lparr>CEvent_ProcessedAt := Some now\<rparr>) d"

lemma mark_events_Nil [simp]: "mark_events now [] d = d"
  by (simp add: mark_events_def update_events_def)

lemma mark_events_Cons: "mark_events now evs (mark_events now [e] d) = mark_events now (e # evs) d"
  by (auto simp: mark_events_def update_events_def intro!: map_cong)

lemma apply_result_None:
  fixes w :: "('e, 'x) cw"
  assumes "apply_result now e None w = (r, w1)"
  shows "clock w1 = clock w \<and> es w1 = es w \<and> (\<forall>x. r = Inr x \<longrightarrow> db w1 = mark_events (clock w) [e] (db w))"
proof -
  obtain q w2 where s: "sql (stmt_MarkCatalog (clock w) [CEvent_ID e]) w = (q, w2)" by fastforce
  have "q = Inr y \<Longrightarrow> db w2 = mark_events (clock w) [e] (db w)" for y
    using s by (cases rule: sql_cases) (auto simp: stmt_MarkCatalog_def mark_events_def)
  then show ?thesis using assms s sql_cat_frame [OF s]
    by (cases q) (auto simp: apply_result_def CatalogOutbox_BatchMarkProcessed_def)
qed

lemma apply_results_marks:
  fixes w :: "('e, 'x) cw"
  shows "apply_results now (map (\<lambda>e. (e, None)) evs) w = (r, w1) \<Longrightarrow>
    clock w1 = clock w \<and> es w1 = es w \<and> (\<forall>x. r = Inr x \<longrightarrow> db w1 = mark_events (clock w) evs (db w))"
proof (induction evs arbitrary: w)
  case Nil
  then show ?case by simp
next
  case (Cons e evs)
  obtain q w2 where a: "apply_result now e None w = (q, w2)" by fastforce
  note 1 = apply_result_None [OF a]
  show ?case
  proof (cases q)
    case (Inl err)
    then show ?thesis using Cons.prems a 1 by auto
  next
    case (Inr y)
    with Cons.prems a have "apply_results now (map (\<lambda>e. (e, None)) evs) w2 = (r, w1)" by simp
    from Cons.IH [OF this] show ?thesis using 1 Inr by (simp add: mark_events_Cons)
  qed
qed

lemma filter_drop:
  assumes "distinct (map f xs)"
  shows "filter (\<lambda>x. f x \<notin> f ` set (take n xs)) xs = drop n xs"
proof -
  have "distinct (map f (take n xs @ drop n xs))" using assms by simp
  then have disj: "f ` set (take n xs) \<inter> f ` set (drop n xs) = {}" by (simp only: map_append distinct_append) auto
  have "filter (\<lambda>x. f x \<notin> f ` set (take n xs)) (take n xs @ drop n xs) = drop n xs"
    unfolding filter_append using disj by (auto simp: filter_empty_conv intro!: filter_True)
  then show ?thesis by simp
qed

lemma pending_marked:
  assumes "distinct (map CEvent_ID (cat_outbox d))"
  shows "pending (mark_events now (take n (pending d)) d) = drop n (pending d)"
proof -
  let ?ids = "CEvent_ID ` set (take n (pending d))"
  have "filter (\<lambda>e. CEvent_ProcessedAt e = None) (map (\<lambda>e. if CEvent_ID e \<in> ?ids then e\<lparr>CEvent_ProcessedAt := Some now\<rparr> else e) xs)
      = filter (\<lambda>e. CEvent_ID e \<notin> ?ids) (filter (\<lambda>e. CEvent_ProcessedAt e = None) xs)" for xs
    by (induction xs) auto
  then have "pending (mark_events now (take n (pending d)) d) = filter (\<lambda>e. CEvent_ID e \<notin> ?ids) (pending d)"
    by (simp add: mark_events_def update_events_def pending_def)
  also have "\<dots> = drop n (pending d)"
    by (rule filter_drop) (use assms in \<open>simp add: pending_def distinct_map_filter\<close>)
  finally show ?thesis .
qed

lemma cat_ok_marked:
  assumes ok: "cat_ok L now docs d"
  shows "cat_ok L now (replay L (take n (pending d)) docs) (mark_events t (take n (pending d)) d)"
proof -
  let ?d = "mark_events t (take n (pending d)) d"
  have p: "pending ?d = drop n (pending d)" by (rule pending_marked) (use ok in \<open>simp add: cat_ok_def\<close>)
  have "replay L (drop n (pending d)) (replay L (take n (pending d)) docs) = replay L (pending d) docs"
    using replay_simps(3) [of L "take n (pending d)" "drop n (pending d)" docs] by simp
  moreover have "products ?d = products d" "map CEvent_ID (cat_outbox ?d) = map CEvent_ID (cat_outbox d)"
    "map CEvent_CreatedAt (cat_outbox ?d) = map CEvent_CreatedAt (cat_outbox d)"
    by (auto simp: mark_events_def update_events_def intro!: map_cong)
  moreover have "\<forall>e\<in>set (cat_outbox ?d). event_ok now e"
    using ok by (auto simp: mark_events_def update_events_def cat_ok_def event_ok_def)
  ultimately show ?thesis using ok p by (auto simp: cat_ok_def dest: in_set_dropD)
qed

lemma cat_ok_redone:
  assumes "cat_ok L now docs d"
  shows "cat_ok L now (replay L (take n (pending d)) docs) d"
proof -
  have "replay L (pending d) (replay L (take n (pending d)) docs) = replay L (pending d) docs"
    by (rule replay_again [OF event_keys_mono [OF set_take_subset]])
  then show ?thesis using assms by (simp add: cat_ok_def)
qed

lemma catalog_poll_inv:
  fixes w :: "('e, 'x) cw"
  assumes inv: "cat_inv L docs w" and up: "es_up C docs"
  shows "cat_inv L docs (CatalogRelay_poll L C (\<lambda>_. False) w)"
proof -
  obtain r w1 where g: "RunTx (CatalogOutbox_GetUnprocessed (\<lambda>_. False) 100) w = (r, w1)" by fastforce
  note f = poll_fetch [OF inv g]
  have inv1: "cat_inv L docs w1" by (rule cat_inv_frame [OF inv]) (use f in simp_all)
  show ?thesis
  proof (cases "\<exists>evs. r = Inr evs \<and> evs \<noteq> []")
    case False
    then show ?thesis using inv1 g by (cases r) (auto simp: CatalogRelay_poll_def)
  next
    case True
    then obtain evs where r: "r = Inr evs" "evs \<noteq> []" by blast
    have evs: "evs = take 100 (pending (db w1))" using f r by simp
    obtain rs w2 where h: "handle_events L C evs w1 = (rs, w2)" by fastforce
    have "\<forall>e\<in>set evs. event_effect L e \<noteq> None"
      using inv1 evs unfolding cat_inv_def cat_ok_def by (auto dest: in_set_takeD)
    note u = handle_events_up [OF up this h]
    have inv2: "cat_inv L docs w2"
      using cat_ok_redone [OF inv1 [unfolded cat_inv_def], of 100] u evs by (simp add: cat_inv_def)
    have "cat_inv L docs (snd (RunTx (apply_results (clock w2) (map (\<lambda>e. (e, None)) evs)) w2))"
    proof (rule RunTx_cat_inv [OF inv2])
      fix w0 x w3
      assume w0: "db w0 = db w2" "clock w0 = clock w2"
        and a: "apply_results (clock w2) (map (\<lambda>e. (e, None)) evs) w0 = (Inr x, w3)"
      have "db w3 = mark_events (clock w1) evs (db w1)" using apply_results_marks [OF a] w0 u by simp
      then show "cat_ok L (clock w2) (docs (es w2)) (db w3)"
        using cat_ok_marked [OF inv1 [unfolded cat_inv_def], of 100] u evs by simp
    qed (use apply_results_marks in blast)
    then show ?thesis using g r h u by (simp add: CatalogRelay_poll_def)
  qed
qed

end
