(* ===== verification/Catalog_Props.thy ===== *)
theory Catalog_Props
  imports Catalog_Index
begin

text \<open>
  The properties of the catalog service: the index is consistent with the table along every run
  and catches up when nothing fails, no event is lost, a product is created once per idempotency
  key, and search results show what was indexed.
\<close>

section \<open>Runs of the service\<close>

text \<open>
  A run interleaves requests, polls of the relay and the passing of time in any order, with any
  schedule of database faults. \<^verbatim>\<open>uuid.New\<close> does not return the id of a product already stored, and
  a price is a 64-bit integer.
\<close>

inductive cat_step :: "uuid_lib \<Rightarrow> 'e es_client \<Rightarrow> ('e, 'x) cw \<Rightarrow> ('e, 'x) cw \<Rightarrow> bool" for L C where
  create: "fst (uuid_New w) \<notin> Product_ID ` set (products (db w)) \<Longrightarrow> int8_ok (CreateProductRequest_PriceCents req) \<Longrightarrow>
    cat_step L C w (snd (CatalogHandler_CreateProduct L c req w))"
| update: "case_option True int8_ok (UpdateProductRequest_PriceCents ureq) \<Longrightarrow>
    cat_step L C w (snd (CatalogHandler_UpdateProduct L c ureq w))"
| delete: "cat_step L C w (snd (CatalogHandler_DeleteProduct L c s w))"
| get: "cat_step L C w (snd (CatalogHandler_GetProduct L c s w))"
| listing: "cat_step L C w (snd (CatalogHandler_ListProducts L c pg w))"
| search: "cat_step L C w (snd (CatalogHandler_SearchProducts L C c q w))"
| poll: "cat_step L C w (CatalogRelay_poll L C (\<lambda>_. False) w)"
| environment: "clock w \<le> t \<Longrightarrow> cat_step L C w (w\<lparr>clock := t, faults := fs, uuid_src := src, uuid_ctr := n\<rparr>)"

lemma CatalogHandler_GetProduct_frame:
  fixes w :: "('e, 'x) cw"
  assumes "snd (CatalogHandler_GetProduct L c s w) = w1"
  shows "clock w1 = clock w \<and> es w1 = es w \<and> db w1 = db w"
proof (cases "uuid_Parse L s")
  case (Inl e)
  then show ?thesis using assms by (simp add: CatalogHandler_GetProduct_def)
next
  case (Inr i)
  obtain r w2 where s: "sql (stmt_GetProduct i) w = (r, w2)" by fastforce
  have "db w2 = db w" using sql_query_row_db [of _ w] s unfolding stmt_GetProduct_def by (metis snd_conv)
  moreover have "w1 = w2"
    using assms s Inr unfolding CatalogHandler_GetProduct_def CatalogUsecase_GetProduct_def ProductPostgres_GetByID_def
    by (cases r) auto
  ultimately show ?thesis using sql_cat_frame [OF s] by simp
qed

lemma stmt_ListProducts_db: "stmt_ListProducts l f d = Inr (ps, d') \<Longrightarrow> d' = d"
  by (auto simp: stmt_ListProducts_def query_rows_def split: if_splits)

lemma CatalogHandler_ListProducts_frame:
  fixes w :: "('e, 'x) cw"
  assumes "snd (CatalogHandler_ListProducts L c pg w) = w'"
  shows "clock w' = clock w \<and> es w' = es w \<and> db w' = db w"
proof -
  define l where "l = (if snd pg < 1 then 10 else snd pg)"
  define f where "f = i64 (((if fst pg < 1 then 1 else fst pg) - 1) * l)"
  obtain r1 w1 where s1: "sql stmt_CountProducts w = (r1, w1)" by fastforce
  obtain r2 w2 where s2: "sql (stmt_ListProducts l f) w1 = (r2, w2)" by fastforce
  obtain r3 w3 where s3: "rows_Err w2 = (r3, w3)" by fastforce
  note f1 = sql_query_frame [OF s1 [unfolded stmt_CountProducts_def]]
  have d2: "db w2 = db w1" using s2 by (cases rule: sql_cases) (auto dest: stmt_ListProducts_db)
  have "w' = w1 \<or> w' = w2 \<or> w' = w3"
    using assms s1 s2 s3
    unfolding CatalogHandler_ListProducts_def CatalogUsecase_ListProducts_def ProductPostgres_List_def Let_def l_def f_def
    by (cases r1; cases r2; cases r3) (auto split: prod.splits)
  then show ?thesis using f1 d2 sql_cat_frame [OF s2] rows_Err_cat_frame [OF s3] by auto
qed

lemma CatalogHandler_SearchProducts_frame:
  fixes w :: "('e, 'x) cw"
  assumes "es_up C docs"
  shows "clock (snd (CatalogHandler_SearchProducts L C c q w)) = clock w \<and> db (snd (CatalogHandler_SearchProducts L C c q w)) = db w
    \<and> docs (es (snd (CatalogHandler_SearchProducts L C c q w))) = docs (es w)"
proof -
  have s: "docs (snd (es_Search C indexName q fields t a b (es w))) = docs (es w)" for q fields t a b
    using assms by (simp add: es_up_def indexName_def)
  obtain qu page size where q: "q = (qu, page, size)" by (cases q)
  define l where "l = (if size < 1 then 10 else size)"
  define f where "f = i64 (((if page < 1 then 1 else page) - 1) * l)"
  obtain r e where r: "es_Search C indexName qu [''name'', ''description''] ''best_fields'' f l (es w) = (r, e)" by fastforce
  have "snd (ProductES_Search L C qu page size w) = w\<lparr>es := e\<rparr>"
    using r unfolding ProductES_Search_def Let_def l_def f_def by (cases r) (simp_all split: prod.split sum.split)
  moreover have "snd (CatalogHandler_SearchProducts L C c q w) = snd (ProductES_Search L C qu page size w)"
    unfolding CatalogHandler_SearchProducts_def CatalogUsecase_SearchProducts_def q by (simp split: prod.split sum.split)
  ultimately have "snd (CatalogHandler_SearchProducts L C c q w) = w\<lparr>es := e\<rparr>" by simp
  then show ?thesis using s [of qu "[''name'', ''description'']" "''best_fields''" f l] r by simp
qed

lemma cat_step_inv:
  assumes "cat_step L C w w'" and inv: "cat_inv L docs w" and up: "es_up C docs" and L: "uuid_lib_ok L"
  shows "cat_inv L docs w'"
  using assms(1)
proof cases
  case (create req c)
  then show ?thesis using create_product_inv [OF inv L] by (simp add: catalog_handlers_snd)
next
  case (update ureq c)
  then show ?thesis using update_product_inv [OF inv L] catalog_handlers_snd(2) [of L c ureq w] inv by metis
next
  case (delete c s)
  then show ?thesis using delete_product_inv [OF inv L] catalog_handlers_snd(3) [of L c s w] inv by metis
next
  case (get c s)
  then show ?thesis using CatalogHandler_GetProduct_frame [OF get [symmetric]] inv by (auto intro: cat_inv_frame)
next
  case (listing c pg)
  then show ?thesis using CatalogHandler_ListProducts_frame [OF listing [symmetric]] inv by (auto intro: cat_inv_frame)
next
  case (search c q)
  then show ?thesis using CatalogHandler_SearchProducts_frame [OF up, of L c q w] inv by (simp add: cat_inv_def)
next
  case poll
  then show ?thesis using catalog_poll_inv [OF inv up] by simp
next
  case (environment t fs src n)
  then show ?thesis using cat_ok_later [of L "clock w" "docs (es w)" "db w" t] inv by (simp add: cat_inv_def)
qed

definition cat_start :: "('e \<Rightarrow> string \<rightharpoonup> json) \<Rightarrow> ('e, 'x) cw \<Rightarrow> bool" where
  "cat_start docs w \<longleftrightarrow> products (db w) = [] \<and> cat_outbox (db w) = [] \<and> docs (es w) = Map.empty"

lemma cat_start_inv: "cat_start docs w \<Longrightarrow> cat_inv L docs w"
  by (simp add: cat_start_def cat_inv_def cat_ok_def pending_def table_docs_def)

lemma cat_run_inv:
  assumes "(cat_step L C)\<^sup>*\<^sup>* w w'" and "cat_start docs w" and "es_up C docs" and "uuid_lib_ok L"
  shows "cat_inv L docs w'"
  using assms(1) by induction (use cat_step_inv assms cat_start_inv in blast)+

section \<open>A relay without faults catches up\<close>

lemma RunTx_quiet:
  assumes "faults w = []" and "fn w = (Inr x, w1)" and "faults w1 = []"
  shows "RunTx fn w = (Inr x, w1)"
  using assms by (simp add: RunTx_txm_Run txm_Run_def take_fault_no_faults)

lemma GetUnprocessed_quiet:
  "faults w = [] \<Longrightarrow> \<exists>evs. CatalogOutbox_GetUnprocessed locked limit w = (Inr evs, w)"
  by (simp add: CatalogOutbox_GetUnprocessed_def stmt_UnprocessedCatalog_def query_rows_def sql_no_faults rows_Err_def take_fault_no_faults)

lemma apply_results_quiet:
  fixes w :: "('e, 'x) cw"
  shows "faults w = [] \<Longrightarrow> \<exists>w1. apply_results now (map (\<lambda>e. (e, None)) evs) w = (Inr (), w1) \<and> faults w1 = []"
proof (induction evs arbitrary: w)
  case Nil
  then show ?case by simp
next
  case (Cons e evs)
  obtain d where "apply_result now e None w = (Inr (), w\<lparr>db := d\<rparr>)"
    using Cons.prems by (simp add: apply_result_def CatalogOutbox_BatchMarkProcessed_def sql_no_faults stmt_MarkCatalog_def)
  moreover obtain w1 where "apply_results now (map (\<lambda>e. (e, None)) evs) (w\<lparr>db := d\<rparr>) = (Inr (), w1)" "faults w1 = []"
    using Cons.IH [of "w\<lparr>db := d\<rparr>"] Cons.prems by auto
  ultimately show ?case by simp
qed

lemma poll_quiet:
  fixes w :: "('e, 'x) cw"
  assumes inv: "cat_inv L docs w" and up: "es_up C docs" and quiet: "faults w = []"
  defines "w' \<equiv> CatalogRelay_poll L C (\<lambda>_. False) w"
  shows "faults w' = [] \<and> products (db w') = products (db w) \<and> pending (db w') = drop 100 (pending (db w))"
proof -
  obtain evs where g0: "CatalogOutbox_GetUnprocessed (\<lambda>_. False) 100 w = (Inr evs, w)"
    using GetUnprocessed_quiet [OF quiet] by blast
  have g: "RunTx (CatalogOutbox_GetUnprocessed (\<lambda>_. False) 100) w = (Inr evs, w)"
    by (rule RunTx_quiet) (fact quiet, fact g0, fact quiet)
  have evs: "evs = take 100 (pending (db w))" using poll_fetch [OF inv g] by simp
  show ?thesis
  proof (cases "evs = []")
    case True
    then show ?thesis using g quiet evs by (simp add: w'_def CatalogRelay_poll_def)
  next
    case False
    obtain rs w2 where h: "handle_events L C evs w = (rs, w2)" by fastforce
    have "\<forall>e\<in>set evs. event_effect L e \<noteq> None"
      using inv evs unfolding cat_inv_def cat_ok_def by (auto dest: in_set_takeD)
    note u = handle_events_up [OF up this h]
    have q2: "faults w2 = []" using u quiet by simp
    obtain w3 where a: "apply_results (clock w2) (map (\<lambda>e. (e, None)) evs) w2 = (Inr (), w3)" and q3: "faults w3 = []"
      using apply_results_quiet [OF q2] by blast
    have "RunTx (apply_results (clock w2) (map (\<lambda>e. (e, None)) evs)) w2 = (Inr (), w3)"
      by (rule RunTx_quiet) (fact q2, fact a, fact q3)
    then have w': "w' = w3"
      using g h u False by (simp add: w'_def CatalogRelay_poll_def)
    have "db w3 = mark_events (clock w) (take 100 (pending (db w))) (db w)"
      using apply_results_marks [OF a] u evs by simp
    moreover have "distinct (map CEvent_ID (cat_outbox (db w)))" using inv by (simp add: cat_inv_def cat_ok_def)
    ultimately show ?thesis using w' q3 pending_marked [of "db w"]
      by (simp add: mark_events_def update_events_def)
  qed
qed

lemma polls_quiet:
  fixes w :: "('e, 'x) cw"
  assumes inv: "cat_inv L docs w" and up: "es_up C docs" and quiet: "faults w = []"
  shows "let w' = (CatalogRelay_poll L C (\<lambda>_. False) ^^ n) w in cat_inv L docs w' \<and> faults w' = [] \<and>
    products (db w') = products (db w) \<and> pending (db w') = drop (100 * n) (pending (db w))"
proof (induction n)
  case 0
  then show ?case using inv quiet by simp
next
  case (Suc n)
  let ?v = "(CatalogRelay_poll L C (\<lambda>_. False) ^^ n) w"
  have v: "cat_inv L docs ?v" "faults ?v = []" using Suc by (simp_all add: Let_def)
  show ?case
    using Suc catalog_poll_inv [OF v(1) up] poll_quiet [OF v(1) up v(2)]
    by (simp add: Let_def add.commute)
qed

text \<open>
  C5. As long as the index itself does not fail, it never contradicts the product table: after any
  run of requests, relay polls and database faults, replaying the pending outbox events over the
  index gives exactly the documents of the products in the table.
\<close>

theorem search_index_consistent:
  fixes w w' :: "('e, 'x) cw"
  assumes "cat_start docs w" and "(cat_step L C)\<^sup>*\<^sup>* w w'" and "es_up C docs" and "uuid_lib_ok L"
  shows "replay L (pending (db w')) (docs (es w')) = table_docs L (products (db w'))"
  using cat_run_inv [OF assms(2,1,3,4)] by (simp add: cat_inv_def cat_ok_def)

text \<open>
  C6. The search index catches up after database faults: in a run in which the index itself never
  fails, from any state on, when the database does not fail any more either, as many polls as there
  are hundreds of pending events make the index equal to the product table. If the index has
  failed before, this need not be so: an event that is retried after later events of its product
  can bring a deleted product back (\<open>deleted_product_returns\<close>).
\<close>

theorem search_index_converges:
  fixes w w' :: "('e, 'x) cw"
  assumes "cat_start docs w" and "(cat_step L C)\<^sup>*\<^sup>* w w'" and "es_up C docs" and "uuid_lib_ok L"
    and "faults w' = []" and "length (pending (db w')) \<le> 100 * n"
  shows "docs (es ((CatalogRelay_poll L C (\<lambda>_. False) ^^ n) w')) = table_docs L (products (db w'))"
  using polls_quiet [OF cat_run_inv [OF assms(2,1,3,4)] assms(3,5), of n] assms(6)
  by (auto simp: Let_def cat_inv_def cat_ok_def)

section \<open>A concrete service\<close>

definition map_es :: "(string \<rightharpoonup> json) es_client" where
  "map_es = \<lparr>es_Index = \<lambda>_ i doc e. (None, e(i \<mapsto> doc)), es_Delete = \<lambda>_ i e. (None, e(i := None)),
     es_IsNotFound = \<lambda>_. False, es_IndexExists = \<lambda>_ e. (Inr True, e), es_CreateIndex = \<lambda>_ _ e. (None, e),
     es_Search = \<lambda>_ _ _ _ _ _ e. (Inr ([], 0), e)\<rparr>"

lemma map_es_up [simp]: "es_up map_es (\<lambda>e. e)"
  by (simp add: es_up_def map_es_def)

definition demo_cat :: "(string \<rightharpoonup> json) cat_world" where
  "demo_cat = \<lparr>faults = [], clock = 1700000000123456789, uuid_src = of_nat, uuid_ctr = 1,
     db = \<lparr>products = [], cat_outbox = [], cat_dlq = []\<rparr>, es = Map.empty\<rparr>"

definition demo_create :: CreateProductRequest where
  "demo_create = \<lparr>CreateProductRequest_Name = ''pen'', CreateProductRequest_Description = ''blue'',
     CreateProductRequest_PriceCents = 150, CreateProductRequest_Categories = [''office''],
     CreateProductRequest_IdempotencyKey = ''k1''\<rparr>"

definition demo_cat1 :: "(string \<rightharpoonup> json) cat_world" where
  "demo_cat1 = snd (CatalogHandler_CreateProduct unary_uuid ctx_Background demo_create demo_cat)"

lemma demo_time_ok: "time_ok 1700000000123456789"
  by code_simp

lemma demo_cat1_eq:
  "demo_cat1 = demo_cat\<lparr>uuid_ctr := 3, db := \<lparr>products =
     [\<lparr>Product_ID = 1, Product_Name = ''pen'', Product_Description = ''blue'', Product_Price = 150, Product_Categories = [''office''],
       Product_IdempotencyKey = ''k1'', Product_CreatedAt = 1700000000123456000\<rparr>],
     cat_outbox = [stored_event (product_event 2 ''x'' ''ProductCreated''
       (product_json unary_uuid \<lparr>Product_ID = 1, Product_Name = ''pen'', Product_Description = ''blue'', Product_Price = 150,
         Product_Categories = [''office''], Product_IdempotencyKey = ''k1'', Product_CreatedAt = 1700000000123456789\<rparr>)
       1700000000123456789) 1700000000123456789], cat_dlq = []\<rparr>\<rparr>"
  by (simp add: demo_cat1_def demo_cat_def CatalogHandler_CreateProduct_def CatalogUsecase_CreateProduct_def demo_create_def uuid_New_def
      marshal_product_def demo_time_ok Let_def int4_ok_def RunTx_txm_Run txm_Run_def create_product_tx_def ProductPostgres_Create_def CatalogOutbox_Create_def
      rt_simps stmt_InsertProduct_def product_checks_def utf8_length_def stmt_InsertCatalogEvent_def product_event_def stored_event_def pg_timestamp_def)

lemma demo_cat_run: "(cat_step unary_uuid map_es)\<^sup>*\<^sup>* demo_cat demo_cat1"
  unfolding demo_cat1_def
  by (rule r_into_rtranclp, rule cat_step.create) (simp_all add: demo_cat_def demo_create_def int8_ok_def)

lemma demo_cat_start: "cat_start (\<lambda>e. e) demo_cat"
  by (simp add: cat_start_def demo_cat_def)

theorem search_index_consistent_witness:
  "replay unary_uuid (pending (db demo_cat1)) (es demo_cat1) = table_docs unary_uuid (products (db demo_cat1))
   \<and> products (db demo_cat1) \<noteq> []"
  using search_index_consistent [OF demo_cat_start demo_cat_run] by (simp add: demo_cat1_eq)

theorem search_index_converges_witness:
  "es ((CatalogRelay_poll unary_uuid map_es (\<lambda>_. False) ^^ 1) demo_cat1) = table_docs unary_uuid (products (db demo_cat1))
   \<and> products (db demo_cat1) \<noteq> []"
  using search_index_converges [OF demo_cat_start demo_cat_run, of 1]
  by (simp add: demo_cat1_eq demo_cat_def pending_def)

section \<open>No event is lost\<close>

text \<open>
  Whatever fails, an event of the outbox stays there or is in the dead-letter table, and it is
  marked as processed only when the handler reported no error for it.
\<close>

definition same_event :: "CatalogEvent \<Rightarrow> CatalogEvent \<Rightarrow> bool" where
  "same_event e e' \<longleftrightarrow> CEvent_ID e' = CEvent_ID e \<and> CEvent_EventType e' = CEvent_EventType e \<and>
     CEvent_AggregateID e' = CEvent_AggregateID e \<and> CEvent_Payload e' = CEvent_Payload e"

definition kept :: "uuid set \<Rightarrow> cat_db \<Rightarrow> cat_db \<Rightarrow> bool" where
  "kept done d d' \<longleftrightarrow>
     (\<forall>e\<in>set (cat_outbox d).
        (\<exists>e'\<in>set (cat_outbox d'). same_event e e' \<and>
           (CEvent_ProcessedAt e' \<noteq> None \<longrightarrow> CEvent_ProcessedAt e \<noteq> None \<or> CEvent_ID e \<in> done)) \<or>
        (\<exists>q\<in>set (cat_dlq d'). CDLQ_ID q = CEvent_ID e)) \<and>
     set (cat_dlq d) \<subseteq> set (cat_dlq d')"

lemma kept_refl: "kept A d d"
  by (auto simp: kept_def same_event_def)

lemma kept_mono: "kept A d d' \<Longrightarrow> A \<subseteq> B \<Longrightarrow> kept B d d'"
  unfolding kept_def by (meson subsetD)

lemma kept_trans:
  assumes "kept A d d1" and "kept B d1 d2"
  shows "kept (A \<union> B) d d2"
  unfolding kept_def
proof (intro conjI ballI)
  show "set (cat_dlq d) \<subseteq> set (cat_dlq d2)" using assms by (auto simp: kept_def)
next
  fix e assume e: "e \<in> set (cat_outbox d)"
  consider e1 where "e1 \<in> set (cat_outbox d1)" "same_event e e1"
      "CEvent_ProcessedAt e1 \<noteq> None \<longrightarrow> CEvent_ProcessedAt e \<noteq> None \<or> CEvent_ID e \<in> A"
    | q where "q \<in> set (cat_dlq d1)" "CDLQ_ID q = CEvent_ID e"
    using assms(1) e unfolding kept_def by blast
  then show "(\<exists>e'\<in>set (cat_outbox d2). same_event e e' \<and>
      (CEvent_ProcessedAt e' \<noteq> None \<longrightarrow> CEvent_ProcessedAt e \<noteq> None \<or> CEvent_ID e \<in> A \<union> B)) \<or>
      (\<exists>q\<in>set (cat_dlq d2). CDLQ_ID q = CEvent_ID e)"
  proof cases
    case 1
    have id: "CEvent_ID e1 = CEvent_ID e" using 1(2) by (simp add: same_event_def)
    from assms(2) 1(1) consider e2 where "e2 \<in> set (cat_outbox d2)" "same_event e1 e2"
        "CEvent_ProcessedAt e2 \<noteq> None \<longrightarrow> CEvent_ProcessedAt e1 \<noteq> None \<or> CEvent_ID e1 \<in> B"
      | q where "q \<in> set (cat_dlq d2)" "CDLQ_ID q = CEvent_ID e1"
      unfolding kept_def by blast
    then show ?thesis
    proof cases
      case 1: 1
      have "same_event e e2" using \<open>same_event e e1\<close> 1(2) by (simp add: same_event_def)
      then show ?thesis using 1 \<open>CEvent_ProcessedAt e1 \<noteq> None \<longrightarrow> _\<close> id by auto
    next
      case 2
      then show ?thesis using id by auto
    qed
  next
    case 2
    then show ?thesis using assms(2) unfolding kept_def by blast
  qed
qed

lemma sql_kept:
  assumes "sql stmt w = (r, w1)" and "\<And>x d'. stmt (db w) = Inr (x, d') \<Longrightarrow> kept A (db w) d'"
  shows "kept A (db w) (db w1)"
  using assms(1) by (cases rule: sql_cases) (use assms(2) kept_refl in auto)

lemma kept_update:
  assumes "\<And>e. same_event e (f e)"
    and "\<And>e. P e \<Longrightarrow> CEvent_ProcessedAt (f e) \<noteq> None \<Longrightarrow> CEvent_ProcessedAt e \<noteq> None \<or> CEvent_ID e \<in> A"
  shows "kept A d (update_events P f d)"
  unfolding kept_def
proof (intro conjI ballI disjI1)
  fix e assume e: "e \<in> set (cat_outbox d)"
  let ?e = "if P e then f e else e"
  have "?e \<in> set (cat_outbox (update_events P f d))" using e by (simp add: update_events_def)
  moreover have "same_event e ?e" using assms(1) by (simp add: same_event_def)
  moreover have "CEvent_ProcessedAt ?e \<noteq> None \<longrightarrow> CEvent_ProcessedAt e \<noteq> None \<or> CEvent_ID e \<in> A"
    using assms(2) [of e] by (cases "P e") simp_all
  ultimately show "\<exists>e'\<in>set (cat_outbox (update_events P f d)). same_event e e' \<and>
      (CEvent_ProcessedAt e' \<noteq> None \<longrightarrow> CEvent_ProcessedAt e \<noteq> None \<or> CEvent_ID e \<in> A)" by blast
qed (simp add: update_events_def)

lemma kept_delete:
  assumes "\<exists>q\<in>set (cat_dlq d). CDLQ_ID q = i" and "stmt_DeleteCatalogEvent i d = Inr (x, d')"
  shows "kept A d d'"
proof -
  have d': "d' = d\<lparr>cat_outbox := filter (\<lambda>e. CEvent_ID e \<noteq> i) (cat_outbox d)\<rparr>"
    using assms(2) by (simp add: stmt_DeleteCatalogEvent_def)
  show ?thesis unfolding kept_def d'
  proof (intro conjI ballI)
    fix e assume "e \<in> set (cat_outbox d)"
    then show "(\<exists>e'\<in>set (cat_outbox (d\<lparr>cat_outbox := filter (\<lambda>e. CEvent_ID e \<noteq> i) (cat_outbox d)\<rparr>)). same_event e e' \<and>
        (CEvent_ProcessedAt e' \<noteq> None \<longrightarrow> CEvent_ProcessedAt e \<noteq> None \<or> CEvent_ID e \<in> A)) \<or>
      (\<exists>q\<in>set (cat_dlq (d\<lparr>cat_outbox := filter (\<lambda>e. CEvent_ID e \<noteq> i) (cat_outbox d)\<rparr>)). CDLQ_ID q = CEvent_ID e)"
      using assms(1) by (cases "CEvent_ID e = i") (auto simp: same_event_def)
  qed simp
qed

lemma kept_dlq: "stmt_InsertCatalogDLQ q d = Inr (x, d') \<Longrightarrow> kept A d d' \<and> (\<exists>p\<in>set (cat_dlq d'). CDLQ_ID p = CDLQ_ID q)"
  by (auto simp: stmt_InsertCatalogDLQ_def kept_def same_event_def list_ex_iff split: if_splits)

lemma MoveToDLQ_kept:
  assumes "CatalogOutbox_MoveToDLQ e t m w = (Inr x, w')"
  shows "kept {} (db w) (db w')"
proof -
  obtain u w1 v where s1: "sql (stmt_InsertCatalogDLQ (catalog_dlq_event e t m)) w = (Inr u, w1)"
    and s2: "sql (stmt_DeleteCatalogEvent (CEvent_ID e)) w1 = (Inr v, w')"
    using assms unfolding CatalogOutbox_MoveToDLQ_def seq_Inr by blast
  from s1 have "stmt_InsertCatalogDLQ (catalog_dlq_event e t m) (db w) = Inr (u, db w1)" by (cases rule: sql_cases) auto
  note k1 = kept_dlq [OF this]
  from s2 have "stmt_DeleteCatalogEvent (CEvent_ID e) (db w1) = Inr (v, db w')" by (cases rule: sql_cases) auto
  from kept_delete [OF _ this] k1 have "kept {} (db w1) (db w')" by (simp add: catalog_dlq_event_def)
  with k1 show ?thesis using kept_trans [of "{}" _ "db w1" "{}"] by simp
qed

lemma apply_result_kept:
  assumes "apply_result now e res w = (Inr x, w')"
  shows "kept (if res = None then {CEvent_ID e} else {}) (db w) (db w')"
proof (cases res)
  case None
  then have "db w' = mark_events (clock w) [e] (db w)"
    using apply_result_None [of now e w "Inr x" w'] assms by simp
  then show ?thesis using None unfolding mark_events_def by (auto intro!: kept_update simp: same_event_def)
next
  case (Some err)
  consider "\<exists>y. CatalogOutbox_MoveToDLQ e now (err_Error err) w = (Inr y, w')"
    | u where "sql (stmt_RetryCatalog (CEvent_ID e) (err_Error err) (catalog_nextRetry (CEvent_RetryCount e) w)) w = (Inr u, w')"
    using assms Some unfolding apply_result_def CatalogOutbox_IncrementRetryAndSetError_def
    by (auto split: if_splits prod.splits sum.splits)
  then show ?thesis
  proof cases
    case 1
    then show ?thesis using MoveToDLQ_kept Some by auto
  next
    case 2
    from 2 have "kept {} (db w) (db w')"
      by (rule sql_kept) (auto simp: stmt_RetryCatalog_def same_event_def intro!: kept_update split: if_splits)
    then show ?thesis using Some by simp
  qed
qed

lemma apply_results_kept:
  "apply_results now rs w = (Inr x, w') \<Longrightarrow> kept {CEvent_ID e |e. (e, None) \<in> set rs} (db w) (db w')"
proof (induction rs arbitrary: w)
  case Nil
  then show ?case by (simp add: kept_refl)
next
  case (Cons r rs)
  obtain e res where r: "r = (e, res)" by (cases r)
  obtain y w1 where a: "apply_result now e res w = (Inr y, w1)" and b: "apply_results now rs w1 = (Inr x, w')"
    using Cons.prems unfolding r apply_results.simps seq_Inr by (auto split: prod.splits sum.splits)
  have "{CEvent_ID d |d. (d, None) \<in> set (r # rs)} = (if res = None then {CEvent_ID e} else {}) \<union> {CEvent_ID e |e. (e, None) \<in> set rs}"
    using r by auto
  then show ?case using kept_trans [OF apply_result_kept [OF a] Cons.IH [OF b]] by simp
qed

lemma wrapped_snd: "snd (case r of (Some err, w1) \<Rightarrow> (Some (g err), w1) | (None, w1) \<Rightarrow> (None, w1)) = snd r"
  by (cases r; cases "fst r") auto

lemma ProductES_db:
  fixes w :: "('e, 'x) cw"
  shows "db (snd (ProductES_Index L C p w)) = db w" "db (snd (ProductES_Delete L C i w)) = db w"
  unfolding ProductES_Index_def ProductES_Delete_def by (simp_all split: prod.split option.split)

lemma ESHandler_Handle_db:
  fixes w :: "('e, 'x) cw"
  shows "db (snd (ESHandler_Handle L C e w)) = db w"
  unfolding ESHandler_Handle_def by (simp add: wrapped_snd ProductES_db split: sum.split)

lemma handle_events_kept:
  fixes w :: "('e, 'x) cw"
  shows "handle_events L C evs w = (rs, w1) \<Longrightarrow> db w1 = db w \<and>
    (\<forall>e. (e, None) \<in> set rs \<longrightarrow> e \<in> set evs \<and> (\<exists>v :: ('e, 'x) cw. db v = db w \<and> fst (ESHandler_Handle L C e v) = None))"
proof (induction evs arbitrary: w rs w1)
  case Nil
  then show ?case by simp
next
  case (Cons e evs)
  obtain r w2 where h: "ESHandler_Handle L C e w = (r, w2)" by fastforce
  obtain qs w3 where t: "handle_events L C evs w2 = (qs, w3)" by fastforce
  have 1: "db w2 = db w" using ESHandler_Handle_db [of L C e w] h by simp
  have 2: "rs = (e, r) # qs" "w1 = w3" using Cons.prems h t by simp_all
  have "r = None \<Longrightarrow> fst (ESHandler_Handle L C e w) = None" using h by simp
  then show ?case using Cons.IH [OF t] 1 unfolding 2 by auto
qed

lemma GetUnprocessed_sub:
  fixes w :: "('e, 'x) cw"
  assumes run: "RunTx (CatalogOutbox_GetUnprocessed locked limit) w = (Inr evs, w1)"
  shows "set evs \<subseteq> set (cat_outbox (db w))"
proof -
  from txm_Run_success [OF run [unfolded RunTx_txm_Run]]
  obtain fs w2 where "CatalogOutbox_GetUnprocessed locked limit (w\<lparr>faults := fs\<rparr>) = (Inr evs, w2)" by metis
  from GetUnprocessed_frame [OF this] show ?thesis by (auto dest: in_set_takeD)
qed

lemma poll_kept:
  fixes w :: "('e, 'x) cw"
  shows "kept {CEvent_ID e |e. e \<in> set (cat_outbox (db w)) \<and> (\<exists>v :: ('e, 'x) cw. db v = db w \<and> fst (ESHandler_Handle L C e v) = None)}
    (db w) (db (CatalogRelay_poll L C locked w))"
proof -
  obtain r w1 where g: "RunTx (CatalogOutbox_GetUnprocessed locked 100) w = (r, w1)" by fastforce
  have "clock w1 = clock w \<and> es w1 = es w \<and> db w1 = db w"
    by (rule RunTx_read [OF g]) (drule GetUnprocessed_frame, simp)
  then have d1: "db w1 = db w" by simp
  show ?thesis
  proof (cases "\<exists>evs. r = Inr evs \<and> evs \<noteq> []")
    case False
    then have "CatalogRelay_poll L C locked w = w1" using g by (cases r) (auto simp: CatalogRelay_poll_def)
    then show ?thesis using d1 by (simp add: kept_refl)
  next
    case True
    then obtain evs where r: "r = Inr evs" "evs \<noteq> []" by blast
    obtain rs w2 where h: "handle_events L C evs w1 = (rs, w2)" by fastforce
    note u = handle_events_kept [OF h]
    have p: "CatalogRelay_poll L C locked w = snd (RunTx (apply_results (clock w2) rs) w2)"
      using g r h by (simp add: CatalogRelay_poll_def)
    have k: "kept {CEvent_ID e |e. (e, None) \<in> set rs} (db w2) (db (snd (RunTx (apply_results (clock w2) rs) w2)))"
      by (rule rtx.relation) (use kept_refl apply_results_kept in blast)+
    have sub: "{CEvent_ID e |e. (e, None) \<in> set rs} \<subseteq> {CEvent_ID e |e. e \<in> set (cat_outbox (db w)) \<and>
        (\<exists>v :: ('e, 'x) cw. db v = db w \<and> fst (ESHandler_Handle L C e v) = None)}"
      using u d1 GetUnprocessed_sub [OF g [unfolded r]] by fastforce
    show ?thesis using kept_mono [OF k sub] unfolding p using u d1 by simp
  qed
qed

text \<open>
  C24. A poll of the catalog relay loses no event, whatever the database and the index do: a pending
  event is still in the outbox, and marked processed only if the handler reported success for it,
  or it is in the dead-letter table.
\<close>

theorem catalog_events_kept:
  fixes w :: "('e, 'x) cw"
  assumes "e \<in> set (cat_outbox (db w))" and "CEvent_ProcessedAt e = None"
  shows "(\<exists>e'\<in>set (cat_outbox (db (CatalogRelay_poll L C locked w))). same_event e e' \<and>
      (CEvent_ProcessedAt e' = None \<or> (\<exists>ev\<in>set (cat_outbox (db w)). CEvent_ID ev = CEvent_ID e \<and>
         (\<exists>v :: ('e, 'x) cw. db v = db w \<and> fst (ESHandler_Handle L C ev v) = None))))
    \<or> (\<exists>q\<in>set (cat_dlq (db (CatalogRelay_poll L C locked w))). CDLQ_ID q = CEvent_ID e)"
  using poll_kept [of w L C locked] assms unfolding kept_def by fastforce

theorem catalog_events_kept_witness:
  "\<exists>e\<in>set (cat_outbox (db demo_cat1)).
     (\<exists>e'\<in>set (cat_outbox (db (CatalogRelay_poll unary_uuid map_es (\<lambda>_. False) (demo_cat1\<lparr>faults := [FailBefore (StdErr ''down'')]\<rparr>)))).
        same_event e e' \<and> (CEvent_ProcessedAt e' = None \<or> (\<exists>ev\<in>set (cat_outbox (db demo_cat1)). CEvent_ID ev = CEvent_ID e \<and>
          (\<exists>v :: (string \<rightharpoonup> json) cat_world. db v = db demo_cat1 \<and> fst (ESHandler_Handle unary_uuid map_es ev v) = None))))
     \<or> (\<exists>q\<in>set (cat_dlq (db (CatalogRelay_poll unary_uuid map_es (\<lambda>_. False) (demo_cat1\<lparr>faults := [FailBefore (StdErr ''down'')]\<rparr>)))).
        CDLQ_ID q = CEvent_ID e)"
proof -
  let ?w = "demo_cat1\<lparr>faults := [FailBefore (StdErr ''down'')]\<rparr>"
  obtain e where e: "e \<in> set (cat_outbox (db ?w))" "CEvent_ProcessedAt e = None"
    by (simp add: demo_cat1_eq stored_event_def)
  have d: "db ?w = db demo_cat1" by simp
  show ?thesis
    using catalog_events_kept [OF e, of unary_uuid map_es "\<lambda>_. False"] e(1) unfolding d by (rule bexI)
qed

section \<open>Creating a product twice\<close>

lemma create_product_tx_taken:
  assumes "p \<in> set (products (db w))" and "Product_IdempotencyKey p = Product_IdempotencyKey q"
    and "Product_ID q \<notin> Product_ID ` set (products (db w))"
  shows "create_product_tx q e w \<noteq> (Inr i, w')"
proof
  assume "create_product_tx q e w = (Inr i, w')"
  then obtain w1 where "ProductPostgres_Create q w = (Inr i, w1)" unfolding create_product_tx_def seq_Inr by blast
  then have s: "sql (stmt_InsertProduct q) w = (Inr i, w1)" and i: "i = Product_ID q"
    unfolding ProductPostgres_Create_def seq_Inr by auto
  from s have "stmt_InsertProduct q (db w) = Inr (i, db w1)" by (cases rule: sql_cases) auto
  moreover obtain p' where f: "find (\<lambda>p. Product_IdempotencyKey p = Product_IdempotencyKey q) (products (db w)) = Some p'"
    using assms(1,2) by (cases "find (\<lambda>p. Product_IdempotencyKey p = Product_IdempotencyKey q) (products (db w))")
      (auto simp: find_None_iff)
  moreover have "Product_ID p' \<noteq> Product_ID q" using find_SomeD [OF f] assms(3) by (metis imageI)
  ultimately show False using i by (auto simp: stmt_InsertProduct_def split: option.splits if_splits)
qed

text \<open>
  C28. A product is created once per idempotency key: with a key that is on record, and a fresh id,
  CreateProduct reports no success and leaves the tables unchanged under any faults.
\<close>

theorem product_created_once:
  fixes w :: "('e, 'x) cw"
  assumes "p \<in> set (products (db w))" and "Product_IdempotencyKey p = CreateProductRequest_IdempotencyKey req"
    and "fst (uuid_New w) \<notin> Product_ID ` set (products (db w))"
  shows "db (snd (CatalogHandler_CreateProduct L c req w)) = db w
    \<and> (\<forall>i. fst (CatalogHandler_CreateProduct L c req w) \<noteq> Inr i)"
proof -
  define w1 where "w1 = w\<lparr>uuid_ctr := Suc (uuid_ctr w)\<rparr>"
  define w2 where "w2 = w1\<lparr>uuid_ctr := Suc (uuid_ctr w1)\<rparr>"
  define q where "q = \<lparr>Product_ID = uuid_src w (uuid_ctr w), Product_Name = CreateProductRequest_Name req,
    Product_Description = CreateProductRequest_Description req, Product_Price = CreateProductRequest_PriceCents req,
    Product_Categories = CreateProductRequest_Categories req, Product_IdempotencyKey = CreateProductRequest_IdempotencyKey req,
    Product_CreatedAt = clock w1\<rparr>"
  let ?e = "\<lambda>payload. product_event (uuid_src w1 (uuid_ctr w1)) (uuid_String L (uuid_src w (uuid_ctr w))) ''ProductCreated'' payload (clock w2)"
  let ?u = "CatalogUsecase_CreateProduct L (CreateProductRequest_Name req) (CreateProductRequest_Description req)
    (CreateProductRequest_PriceCents req) (CreateProductRequest_Categories req) (CreateProductRequest_IdempotencyKey req) w"
  have run: "?u = (case marshal_product L q of Inl err \<Rightarrow> (Inl (errorf ''marshal product payload'' err), w1)
     | Inr payload \<Rightarrow> RunTx (create_product_tx q (?e payload)) w2)"
    unfolding CatalogUsecase_CreateProduct_def uuid_New_def q_def w2_def w1_def Let_def prod.case by (rule refl)
  have d: "db w1 = db w" "db w2 = db w" by (simp_all add: w1_def w2_def)
  have taken: "create_product_tx q e w0 \<noteq> (Inr i, w3)" if "db w0 = db w" for e w0 i w3
    by (rule create_product_tx_taken [of p]) (use assms that in \<open>simp_all add: q_def uuid_New_def\<close>)
  have "db (snd (RunTx (create_product_tx q e) w2)) = db w2" for e
    by (rule rtx.stable) (use taken d in auto)
  moreover have "fst (RunTx (create_product_tx q e) w2) \<noteq> Inr i" for e i
    using rtx.run_ok [of "create_product_tx q e" w2 i] taken d by (cases "RunTx (create_product_tx q e) w2") auto
  ultimately have "db (snd ?u) = db w \<and> (\<forall>i. fst ?u \<noteq> Inr i)"
    unfolding run using d by (simp split: sum.split)
  then show ?thesis unfolding catalog_handlers_snd(1) CatalogHandler_CreateProduct_def
    by (cases ?u; cases "fst ?u") simp_all
qed

theorem product_created_once_witness:
  "db (snd (CatalogHandler_CreateProduct unary_uuid ctx_Background demo_create demo_cat1)) = db demo_cat1
   \<and> (\<forall>i. fst (CatalogHandler_CreateProduct unary_uuid ctx_Background demo_create demo_cat1) \<noteq> Inr i)"
  by (rule product_created_once [of "hd (products (db demo_cat1))"])
    (simp_all add: demo_cat1_eq demo_create_def uuid_New_def demo_cat_def)

section \<open>Search results\<close>

lemma float64_exact: "\<bar>n\<bar> < 2 ^ 53 \<Longrightarrow> float64_of_int n = n"
proof -
  assume n: "\<bar>n\<bar> < 2 ^ 53"
  then have "nat \<bar>n\<bar> < 2 ^ 53" by (simp add: nat_less_iff)
  then have "floorlog 2 (nat \<bar>n\<bar>) \<le> 53" by (simp add: floorlog_le_iff)
  then show ?thesis by (simp add: float64_of_int_def Let_def)
qed

lemma float64_rounds: "float64_of_int (2 ^ 53 + 1) = 2 ^ 53"
  by (simp add: float64_of_int_def Let_def compute_floorlog)

definition search_view :: "Product \<Rightarrow> Product" where
  "search_view p = p\<lparr>Product_IdempotencyKey := '''', Product_CreatedAt := Product_CreatedAt p div 1000000000 * 1000000000\<rparr>"

lemma json_string_JStr: "json_string (Some (JStr s)) = Some s"
  by (simp add: json_string_def)

lemma json_strings_filter [simp]: "List.map_filter (\<lambda>c. json_string (Some c)) (map JStr cs) = cs"
  by (induction cs) (simp_all add: List.map_filter_simps json_string_def)

lemma es_doc_read:
  assumes "uuid_lib_ok L" and "uuid_String L (Product_ID p) \<noteq> ''''" and "product_ok p" and "\<bar>Product_Price p\<bar> < 2 ^ 53"
    and "es_doc L p = JObj kvs"
  shows "mapToProduct L (Some kvs) = Inr (search_view p)"
proof -
  have k: "kvs = [(''categories'', if Product_Categories p = [] then JNull else JArr (map JStr (Product_Categories p))),
     (''created_at'', JStr (time_RFC3339 (Product_CreatedAt p))), (''description'', JStr (Product_Description p)),
     (''id'', JStr (uuid_String L (Product_ID p))), (''name'', JStr (Product_Name p)), (''price_cents'', JNum (Product_Price p))]"
    using assms(5) by (simp add: es_doc_def)
  have m: "json_member kvs ''id'' = Some (JStr (uuid_String L (Product_ID p)))" "json_member kvs ''name'' = Some (JStr (Product_Name p))"
    "json_member kvs ''description'' = Some (JStr (Product_Description p))" "json_member kvs ''price_cents'' = Some (JNum (Product_Price p))"
    "json_member kvs ''categories'' = Some (if Product_Categories p = [] then JNull else JArr (map JStr (Product_Categories p)))"
    "json_member kvs ''created_at'' = Some (JStr (time_RFC3339 (Product_CreatedAt p)))"
    unfolding k json_member_def by simp_all
  show ?thesis
    using assms time_Parse_RFC3339 [of "Product_CreatedAt p" False] float64_exact [OF assms(4)] i64_id [of "Product_Price p"]
    by (simp add: mapToProduct_def m json_string_JStr uuid_lib_ok_def product_ok_def search_view_def)
qed

text \<open>
  C29. Search results show the products that were indexed: reading the indexed documents gives the
  products back, with the creation time to the second and without the idempotency key, for prices
  below 2 to the 53.
\<close>

theorem search_shows_products:
  assumes "uuid_lib_ok L" and "\<forall>p\<in>set ps. uuid_String L (Product_ID p) \<noteq> '''' \<and> product_ok p \<and> \<bar>Product_Price p\<bar> < 2 ^ 53"
  shows "hits_toProducts L (map (es_doc L) ps) = Inr (map search_view ps)"
  using assms(2)
proof (induction ps)
  case Nil
  then show ?case by simp
next
  case (Cons p ps)
  obtain kvs where k: "es_doc L p = JObj kvs" by (simp add: es_doc_def)
  have "mapToProduct L (Some kvs) = Inr (search_view p)"
    by (rule es_doc_read [OF assms(1)]) (use Cons.prems k in auto)
  then show ?case using Cons k by simp
qed

theorem search_shows_products_witness:
  "hits_toProducts unary_uuid (map (es_doc unary_uuid) (products (db demo_cat1))) = Inr (map search_view (products (db demo_cat1)))"
proof (rule search_shows_products)
  have "time_ok 1700000000123456000" by code_simp
  then show "\<forall>p\<in>set (products (db demo_cat1)). uuid_String unary_uuid (Product_ID p) \<noteq> '''' \<and> product_ok p \<and> \<bar>Product_Price p\<bar> < 2 ^ 53"
    by (simp add: demo_cat1_eq product_ok_def int8_ok_def)
qed simp

section \<open>Retries and the order of events\<close>

text \<open>
  When the index refuses an event, the later events of the product are applied all the same. Here
  the index is down for one call: the creation is put off, the deletion succeeds, and the retry
  brings the deleted product back. No event is left that would remove it.
\<close>

definition flaky_es :: "(bool \<times> (string \<rightharpoonup> json)) es_client" where
  "flaky_es = \<lparr>es_Index = \<lambda>_ i doc (down, e). if down then (Some (StdErr ''unavailable''), (False, e)) else (None, (down, e(i \<mapsto> doc))),
     es_Delete = \<lambda>_ i (down, e). (None, (down, e(i := None))), es_IsNotFound = \<lambda>_. False,
     es_IndexExists = \<lambda>_ e. (Inr True, e), es_CreateIndex = \<lambda>_ _ e. (None, e), es_Search = \<lambda>_ _ _ _ _ _ e. (Inr ([], 0), e)\<rparr>"

definition pen :: Product where
  "pen = \<lparr>Product_ID = 1, Product_Name = ''pen'', Product_Description = ''blue'', Product_Price = 150, Product_Categories = [],
     Product_IdempotencyKey = ''k1'', Product_CreatedAt = 1700000000123456789\<rparr>"

definition pen_created :: CatalogEvent where
  "pen_created = stored_event (product_event 2 ''x'' ''ProductCreated'' (product_json unary_uuid pen) 1700000000123456789) 1700000000123456789"

definition pen_deleted :: CatalogEvent where
  "pen_deleted = stored_event (product_event 3 ''x'' ''ProductDeleted'' (JObj [(''product_id'', JStr ''x'')]) 1700000000123456789) 1700000000123456789"

definition flaky_cat :: "(bool \<times> (string \<rightharpoonup> json)) cat_world" where
  "flaky_cat = \<lparr>faults = [], clock = 1700000000123456789, uuid_src = of_nat, uuid_ctr = 1,
     db = \<lparr>products = [], cat_outbox = [], cat_dlq = []\<rparr>, es = (True, Map.empty)\<rparr>"

definition flaky_cat2 :: "(bool \<times> (string \<rightharpoonup> json)) cat_world" where
  "flaky_cat2 = snd (CatalogUsecase_DeleteProduct unary_uuid 1
     (snd (CatalogUsecase_CreateProduct unary_uuid ''pen'' ''blue'' 150 [] ''k1'' flaky_cat)))"

definition flaky_cat3 :: "(bool \<times> (string \<rightharpoonup> json)) cat_world" where
  "flaky_cat3 = CatalogRelay_poll unary_uuid flaky_es (\<lambda>_. False) flaky_cat2"

definition flaky_cat4 :: "(bool \<times> (string \<rightharpoonup> json)) cat_world" where
  "flaky_cat4 = CatalogRelay_poll unary_uuid flaky_es (\<lambda>_. False) (sleep minute flaky_cat3)"

lemma flaky_cat2_eq:
  "flaky_cat2 = flaky_cat\<lparr>uuid_ctr := 4, db := \<lparr>products = [], cat_outbox = [pen_created, pen_deleted], cat_dlq = []\<rparr>\<rparr>"
  by (simp add: flaky_cat2_def flaky_cat_def CatalogUsecase_CreateProduct_def CatalogUsecase_DeleteProduct_def delete_product_tx_def
      ProductPostgres_Delete_def stmt_DeleteProduct_def uuid_New_def pen_def pen_created_def pen_deleted_def
      marshal_product_def demo_time_ok Let_def int4_ok_def RunTx_txm_Run txm_Run_def create_product_tx_def ProductPostgres_Create_def
      CatalogOutbox_Create_def rt_simps stmt_InsertProduct_def product_checks_def utf8_length_def stmt_InsertCatalogEvent_def
      product_event_def stored_event_def pg_timestamp_def)

lemma pen_payload: "unmarshal_product unary_uuid (product_json unary_uuid pen) = Inr pen"
  by (rule unmarshal_product_json) (simp_all add: pen_def int8_ok_def demo_time_ok)

lemma pen_handled:
  "CEvent_EventType e = ''ProductCreated'' \<Longrightarrow> CEvent_Payload e = product_json unary_uuid pen \<Longrightarrow>
   ESHandler_Handle unary_uuid flaky_es e w =
     (case es w of (down, docs) \<Rightarrow>
        if down then (Some (errorf ''index product'' (errorf ''index product'' (StdErr ''unavailable''))), w\<lparr>es := (False, docs)\<rparr>)
        else (None, w\<lparr>es := (down, docs(''x'' \<mapsto> es_doc unary_uuid pen))\<rparr>))"
  "CEvent_EventType e = ''ProductDeleted'' \<Longrightarrow> CEvent_Payload e = JObj [(''product_id'', JStr ''x'')] \<Longrightarrow>
   ESHandler_Handle unary_uuid flaky_es e w = (case es w of (down, docs) \<Rightarrow> (None, w\<lparr>es := (down, docs(''x'' := None))\<rparr>))"
proof -
  have "Product_ID pen = 1" by (simp add: pen_def)
  then show "CEvent_EventType e = ''ProductCreated'' \<Longrightarrow> CEvent_Payload e = product_json unary_uuid pen \<Longrightarrow>
    ESHandler_Handle unary_uuid flaky_es e w =
     (case es w of (down, docs) \<Rightarrow>
        if down then (Some (errorf ''index product'' (errorf ''index product'' (StdErr ''unavailable''))), w\<lparr>es := (False, docs)\<rparr>)
        else (None, w\<lparr>es := (down, docs(''x'' \<mapsto> es_doc unary_uuid pen))\<rparr>))"
    by (simp add: ESHandler_Handle_def pen_payload ProductES_Index_def flaky_es_def split: prod.split)
  show "CEvent_EventType e = ''ProductDeleted'' \<Longrightarrow> CEvent_Payload e = JObj [(''product_id'', JStr ''x'')] \<Longrightarrow>
   ESHandler_Handle unary_uuid flaky_es e w = (case es w of (down, docs) \<Rightarrow> (None, w\<lparr>es := (down, docs(''x'' := None))\<rparr>))"
    by (simp add: ESHandler_Handle_def unmarshal_delete_json ProductES_Delete_def flaky_es_def split: prod.split)
qed

lemma pen_event_sel:
  "CEvent_EventType pen_created = ''ProductCreated''" "CEvent_EventType pen_deleted = ''ProductDeleted''"
  "CEvent_Payload pen_created = product_json unary_uuid pen" "CEvent_Payload pen_deleted = JObj [(''product_id'', JStr ''x'')]"
  "CEvent_ID pen_created = 2" "CEvent_ID pen_deleted = 3" "CEvent_ProcessedAt pen_created = None" "CEvent_ProcessedAt pen_deleted = None"
  "CEvent_RetryCount pen_created = 0" "CEvent_CreatedAt pen_created = 1700000000123456000" "CEvent_CreatedAt pen_deleted = 1700000000123456000"
  "CEvent_NextRetryAt pen_created = Some 1700000000123456000" "CEvent_NextRetryAt pen_deleted = Some 1700000000123456000"
  by (simp_all add: pen_created_def pen_deleted_def stored_event_def product_event_def pg_timestamp_def)

lemma flaky_cat3_eq:
  "flaky_cat3 = flaky_cat2\<lparr>db := \<lparr>products = [], cat_outbox =
       [pen_created\<lparr>CEvent_RetryCount := 1, CEvent_LastError := Some ''index product: index product: unavailable'',
          CEvent_NextRetryAt := Some 1700000000623456000\<rparr>,
        pen_deleted\<lparr>CEvent_ProcessedAt := Some 1700000000123456789\<rparr>], cat_dlq = []\<rparr>, es := (False, Map.empty)\<rparr>"
  by (simp add: flaky_cat3_def flaky_cat2_eq flaky_cat_def CatalogRelay_poll_def RunTx_txm_Run txm_Run_def rt_simps
      CatalogOutbox_GetUnprocessed_def stmt_UnprocessedCatalog_def query_rows_def rows_Err_def cat_due_def pen_event_sel
      pen_handled apply_result_def CatalogOutbox_BatchMarkProcessed_def stmt_MarkCatalog_def update_events_def
      CatalogOutbox_IncrementRetryAndSetError_def stmt_RetryCatalog_def catalog_nextRetry_def catalog_maxRetries_def
      catalog_baseBackoff_def catalog_maxBackoff_def millisecond_def second_def i64_def int4_ok_def pg_timestamp_def Let_def errorf_def)

lemma deleted_product_returns:
  "products (db flaky_cat4) = [] \<and> pending (db flaky_cat4) = [] \<and> snd (es flaky_cat4) ''x'' \<noteq> None"
  by (simp add: flaky_cat4_def flaky_cat3_eq flaky_cat2_eq flaky_cat_def sleep_def minute_def CatalogRelay_poll_def RunTx_txm_Run txm_Run_def rt_simps
      CatalogOutbox_GetUnprocessed_def stmt_UnprocessedCatalog_def query_rows_def rows_Err_def cat_due_def pen_event_sel
      pen_handled apply_result_def CatalogOutbox_BatchMarkProcessed_def stmt_MarkCatalog_def update_events_def second_def pending_def)

end
