(* ===== verification/User_Model.thy ===== *)
theory User_Model
  imports Auth_Context Go_Std
begin

text \<open>
  The user service (src/services/user-service): users in PostgreSQL, the sliding-window rate
  limiter, registration, login and the issuing of tokens, and the gRPC handlers. The packages
  bcrypt and golang-jwt are parameters. Emails are ASCII text.
\<close>

section \<open>Data\<close>

record User =
  User_ID :: uuid
  User_Email :: string
  User_PasswordHash :: string
  User_Name :: string
  User_Role :: string
  User_CreatedAt :: int

record user_db =
  users :: "User list"

text \<open>
  The world of the service: the hits of the rate limiter by key and a counter for the randomness
  bcrypt draws its salts from.
\<close>

record user_world = "user_db world" +
  hits :: "string \<Rightarrow> int list"
  entropy :: nat

type_synonym 'x uw = "'x user_world_scheme"

section \<open>The rate limiter\<close>

text \<open>A missing key of Go's map reads as the empty slice.\<close>

datatype RateLimiter = NoopLimiter | MemoryRateLimiter (Limiter_limit: int) (Limiter_window: int)

definition NewMemoryRateLimiter :: "int \<Rightarrow> int \<Rightarrow> RateLimiter" where
  "NewMemoryRateLimiter limit window =
     MemoryRateLimiter (if limit \<le> 0 then 10 else limit) (if window \<le> 0 then minute else window)"

definition MemoryRateLimiter_Allow ::
  "int \<Rightarrow> int \<Rightarrow> int \<Rightarrow> string \<Rightarrow> (string \<Rightarrow> int list) \<Rightarrow> bool \<times> (string \<Rightarrow> int list)" where
  "MemoryRateLimiter_Allow limit window now key hs =
     (let cutoff = now - window; recent = filter (\<lambda>t. t > cutoff) (hs key) in
      if int (length recent) \<ge> limit then (False, hs(key := recent))
      else (True, hs(key := recent @ [now])))"

fun Allow :: "RateLimiter \<Rightarrow> string \<Rightarrow> 'x uw \<Rightarrow> bool \<times> 'x uw" where
  "Allow NoopLimiter key w = (True, w)"
| "Allow (MemoryRateLimiter limit window) key w =
     (case MemoryRateLimiter_Allow limit window (clock w) key (hits w) of
        (ok, hs) \<Rightarrow> (ok, w\<lparr>hits := hs\<rparr>))"

section \<open>The repository\<close>

definition stmt_InsertUser :: "User \<Rightarrow> (user_db, unit) stmt" where
  "stmt_InsertUser user d =
     (if utf8_length (User_Email user) > 255 \<or> utf8_length (User_PasswordHash user) > 255 \<or> utf8_length (User_Name user) > 255
      then Inl (StdErr ''value too long for type character varying(255)'')
      else if utf8_length (User_Role user) > 50 then Inl (StdErr ''value too long for type character varying(50)'')
      else if list_ex (\<lambda>u. User_ID u = User_ID user \<or> User_Email u = User_Email user) (users d)
        then Inl (Sentinel PgUniqueViolation)
      else Inr ((), d\<lparr>users := users d @ [user\<lparr>User_CreatedAt := pg_timestamp (User_CreatedAt user)\<rparr>]\<rparr>))"

definition UserPostgres_Create :: "User \<Rightarrow> 'x uw \<Rightarrow> unit result \<times> 'x uw" where
  "UserPostgres_Create user w =
     (case sql (stmt_InsertUser user) w of
        (Inl err, w1) \<Rightarrow>
          if errors_Is err PgUniqueViolation
          then (Inl (sentinelf ErrAlreadyExists (''user with email '' @ User_Email user)), w1)
          else (Inl (errorf ''insert user'' err), w1)
      | (Inr _, w1) \<Rightarrow> (Inr (), w1))"

definition stmt_UserByID :: "uuid \<Rightarrow> (user_db, User) stmt" where
  "stmt_UserByID i = query_row (\<lambda>d. find (\<lambda>u. User_ID u = i) (users d))"

definition UserPostgres_GetByID :: "uuid \<Rightarrow> 'x uw \<Rightarrow> User result \<times> 'x uw" where
  "UserPostgres_GetByID i w =
     (case sql (stmt_UserByID i) w of
        (Inl err, w1) \<Rightarrow>
          if errors_Is err ErrNoRows then (Inl (sentinelf ErrNotFound ''user''), w1)
          else (Inl (errorf ''get user by id'' err), w1)
      | (Inr user, w1) \<Rightarrow> (Inr user, w1))"

definition stmt_UserByEmail :: "string \<Rightarrow> (user_db, User) stmt" where
  "stmt_UserByEmail email = query_row (\<lambda>d. find (\<lambda>u. User_Email u = email) (users d))"

definition UserPostgres_GetByEmail :: "string \<Rightarrow> 'x uw \<Rightarrow> User result \<times> 'x uw" where
  "UserPostgres_GetByEmail email w =
     (case sql (stmt_UserByEmail email) w of
        (Inl err, w1) \<Rightarrow>
          if errors_Is err ErrNoRows then (Inl (sentinelf ErrNotFound ''user''), w1)
          else (Inl (errorf ''get user by email'' err), w1)
      | (Inr user, w1) \<Rightarrow> (Inr user, w1))"

section \<open>The use case\<close>

text \<open>
  The package bcrypt: hashing draws a salt, and it documents that a hash compares equal to the
  password it was made of.
\<close>

record bcrypt_lib =
  bcrypt_GenerateFromPassword :: "string \<Rightarrow> nat \<Rightarrow> string result"
  bcrypt_CompareHashAndPassword :: "string \<Rightarrow> string \<Rightarrow> go_error option"

definition bcrypt_ok :: "bcrypt_lib \<Rightarrow> bool" where
  "bcrypt_ok B \<longleftrightarrow> (\<forall>password salt h. bcrypt_GenerateFromPassword B password salt = Inr h \<longrightarrow>
     bcrypt_CompareHashAndPassword B h password = None)"

record userUsecase =
  uc_jwtSecret :: string
  uc_rateLimiter :: RateLimiter

definition NewUserUsecase :: "string \<Rightarrow> RateLimiter option \<Rightarrow> userUsecase" where
  "NewUserUsecase jwtSecret rateLimiter =
     \<lparr>uc_jwtSecret = jwtSecret, uc_rateLimiter = (case rateLimiter of None \<Rightarrow> NoopLimiter | Some rl \<Rightarrow> rl)\<rparr>"

definition normalizeEmail :: "string \<Rightarrow> string" where
  "normalizeEmail email = strings_ToLower (strings_TrimSpace email)"

definition hashPassword :: "bcrypt_lib \<Rightarrow> string \<Rightarrow> 'x uw \<Rightarrow> string result \<times> 'x uw" where
  "hashPassword B password w =
     (case bcrypt_GenerateFromPassword B password (entropy w) of
        Inl err \<Rightarrow> (Inl (errorf ''hash password'' err), w\<lparr>entropy := Suc (entropy w)\<rparr>)
      | Inr h \<Rightarrow> (Inr h, w\<lparr>entropy := Suc (entropy w)\<rparr>))"

definition verifyPassword :: "bcrypt_lib \<Rightarrow> string \<Rightarrow> string \<Rightarrow> bool" where
  "verifyPassword B h password = (bcrypt_CompareHashAndPassword B h password = None)"

definition user_claims :: "jwt_lib \<Rightarrow> uuid_lib \<Rightarrow> User \<Rightarrow> uuid \<Rightarrow> int \<Rightarrow> CustomClaims" where
  "user_claims J L user jti now =
     \<lparr>Subject = uuid_String L (User_ID user), Issuer = ''go-ozon-marketplace'', Audience = [''api-gateway''],
      JWT_ID = uuid_String L jti, NotBefore = Some (jwt_NewNumericDate J now), IssuedAt = Some (jwt_NewNumericDate J now),
      ExpiresAt = Some (jwt_NewNumericDate J (now + 24 * hour)),
      Claims_Role = (if User_Role user = '''' then RoleUser else User_Role user)\<rparr>"

definition issueToken :: "jwt_lib \<Rightarrow> uuid_lib \<Rightarrow> userUsecase \<Rightarrow> User \<Rightarrow> 'x uw \<Rightarrow> string result \<times> 'x uw" where
  "issueToken J L u user w =
     (let now = clock w in
      case uuid_New w of
        (jti, w1) \<Rightarrow>
          (case jwt_SignedString J (user_claims J L user jti now) (uc_jwtSecret u) of
             Inl err \<Rightarrow> (Inl (errorf ''sign token'' err), w1)
           | Inr tokenString \<Rightarrow> (Inr tokenString, w1)))"

definition rate_limit_exceeded :: go_error where
  "rate_limit_exceeded = Wrap (Some (Sentinel ErrFailedPrecondition)) ''failed_precondition'' ''rate limit exceeded''"

definition UserUsecase_Register ::
  "bcrypt_lib \<Rightarrow> userUsecase \<Rightarrow> string \<Rightarrow> string \<Rightarrow> string \<Rightarrow> 'x uw \<Rightarrow> uuid result \<times> 'x uw" where
  "UserUsecase_Register B u email password name w =
     (let email = normalizeEmail email in
      case Allow (uc_rateLimiter u) (''register:'' @ email) w of
        (ok, w1) \<Rightarrow>
          if \<not> ok then (Inl rate_limit_exceeded, w1)
          else (case hashPassword B password w1 of
                  (Inl err, w2) \<Rightarrow> (Inl err, w2)
                | (Inr h, w2) \<Rightarrow>
                    (case uuid_New w2 of
                       (i, w3) \<Rightarrow>
                         (case UserPostgres_Create \<lparr>User_ID = i, User_Email = email, User_PasswordHash = h, User_Name = name,
                                 User_Role = RoleUser, User_CreatedAt = clock w3\<rparr> w3 of
                            (Inl err, w4) \<Rightarrow> (Inl (errorf ''create user'' err), w4)
                          | (Inr _, w4) \<Rightarrow> (Inr i, w4)))))"

definition UserUsecase_Login ::
  "jwt_lib \<Rightarrow> uuid_lib \<Rightarrow> bcrypt_lib \<Rightarrow> userUsecase \<Rightarrow> string \<Rightarrow> string \<Rightarrow> 'x uw \<Rightarrow> string result \<times> 'x uw" where
  "UserUsecase_Login J L B u email password w =
     (let email = normalizeEmail email in
      case Allow (uc_rateLimiter u) (''login:'' @ email) w of
        (ok, w1) \<Rightarrow>
          if \<not> ok then (Inl rate_limit_exceeded, w1)
          else (case UserPostgres_GetByEmail email w1 of
                  (Inl err, w2) \<Rightarrow>
                    if errors_Is err ErrNotFound then (Inl (Sentinel ErrInvalidCredentials), w2)
                    else (Inl (errorf ''lookup user'' err), w2)
                | (Inr user, w2) \<Rightarrow>
                    if \<not> verifyPassword B (User_PasswordHash user) password
                    then (Inl (Sentinel ErrInvalidCredentials), w2)
                    else issueToken J L u user w2))"

definition UserUsecase_GetUser :: "uuid \<Rightarrow> 'x uw \<Rightarrow> User result \<times> 'x uw" where
  "UserUsecase_GetUser i w = UserPostgres_GetByID i w"

section \<open>The gRPC handlers\<close>

record RegisterRequest =
  RegisterRequest_Email :: string
  RegisterRequest_Password :: string
  RegisterRequest_Name :: string

record LoginRequest =
  LoginRequest_Email :: string
  LoginRequest_Password :: string

record GetUserResponse =
  GetUserResponse_UserId :: string
  GetUserResponse_Email :: string
  GetUserResponse_Name :: string
  GetUserResponse_CreatedAt :: string

definition UserHandler_Register ::
  "uuid_lib \<Rightarrow> bcrypt_lib \<Rightarrow> userUsecase \<Rightarrow> (RegisterRequest, string, 'x uw) handler" where
  "UserHandler_Register L B u c req w =
     (case UserUsecase_Register B u (RegisterRequest_Email req) (RegisterRequest_Password req) (RegisterRequest_Name req) w of
        (Inl err, w1) \<Rightarrow> (Inl (to_status err), w1)
      | (Inr i, w1) \<Rightarrow> (Inr (uuid_String L i), w1))"

definition UserHandler_Login ::
  "jwt_lib \<Rightarrow> uuid_lib \<Rightarrow> bcrypt_lib \<Rightarrow> userUsecase \<Rightarrow> (LoginRequest, string, 'x uw) handler" where
  "UserHandler_Login J L B u c req w =
     (case UserUsecase_Login J L B u (LoginRequest_Email req) (LoginRequest_Password req) w of
        (Inl err, w1) \<Rightarrow> (Inl (to_status err), w1)
      | (Inr token, w1) \<Rightarrow> (Inr token, w1))"

definition UserHandler_GetUser :: "uuid_lib \<Rightarrow> (string, GetUserResponse, 'x uw) handler" where
  "UserHandler_GetUser L c req w =
     (case GetUserID c of
        (self, ok) \<Rightarrow>
          if \<not> ok \<or> self = ''''
          then (Inl (to_status (Wrap (Some (Sentinel ErrInvalidCredentials)) ''unauthenticated'' ''missing user identity'')), w)
          else if req \<noteq> '''' \<and> fst (GetRole c) \<noteq> RoleAdmin
          then (Inl (to_status (Wrap (Some (Sentinel ErrPermissionDenied)) ''permission_denied''
                  ''only admin can request other user profile'')), w)
          else (let targetIDStr = (if req \<noteq> '''' then req else self) in
                case uuid_Parse L targetIDStr of
                  Inl err \<Rightarrow> (Inl (to_status (Wrap (Some (Sentinel ErrInvalidArgument)) ''invalid_argument''
                              (''invalid user id: '' @ err_Error err))), w)
                | Inr i \<Rightarrow>
                    (case UserUsecase_GetUser i w of
                       (Inl err, w1) \<Rightarrow> (Inl (to_status err), w1)
                     | (Inr user, w1) \<Rightarrow>
                         (Inr \<lparr>GetUserResponse_UserId = uuid_String L (User_ID user), GetUserResponse_Email = User_Email user,
                               GetUserResponse_Name = User_Name user, GetUserResponse_CreatedAt = time_RFC3339 (User_CreatedAt user)\<rparr>, w1))))"

end
