(* ===== verification/User_Props.thy ===== *)
theory User_Props
  imports User_Model
begin

text \<open>
  The properties of the user service: the rate limiter agrees with counting over the whole
  history and keeps its bound in every window, the users table stays well formed along every run,
  a registered user can log in and gets a token that identifies them, and a profile is shown to
  its owner or an administrator only.
\<close>

section \<open>The rate limiter against counting\<close>

text \<open>
  The reference keeps every allowed call and counts those of the key in the window before now. The
  limiter keeps only recent ones.
\<close>

definition ref_Allow :: "int \<Rightarrow> int \<Rightarrow> int \<Rightarrow> string \<Rightarrow> (string \<times> int) list \<Rightarrow> bool" where
  "ref_Allow limit window now key hist \<longleftrightarrow> int (length (filter (\<lambda>(k, t). k = key \<and> t > now - window) hist)) < limit"

fun ref_run :: "int \<Rightarrow> int \<Rightarrow> (string \<times> int) list \<Rightarrow> (string \<times> int) list \<Rightarrow> bool list" where
  "ref_run limit window hist [] = []"
| "ref_run limit window hist ((key, now) # calls) =
     (let ok = ref_Allow limit window now key hist
      in ok # ref_run limit window (if ok then hist @ [(key, now)] else hist) calls)"

fun limiter_run :: "int \<Rightarrow> int \<Rightarrow> (string \<Rightarrow> int list) \<Rightarrow> (string \<times> int) list \<Rightarrow> bool list" where
  "limiter_run limit window hs [] = []"
| "limiter_run limit window hs ((key, now) # calls) =
     (case MemoryRateLimiter_Allow limit window now key hs of
        (ok, hs') \<Rightarrow> ok # limiter_run limit window hs' calls)"

definition key_times :: "string \<Rightarrow> (string \<times> int) list \<Rightarrow> int list" where
  "key_times key hist = map snd (filter (\<lambda>e. fst e = key) hist)"

lemma key_times_simps [simp]:
  "key_times key [] = []" "key_times key (xs @ ys) = key_times key xs @ key_times key ys"
  "key_times key [(k, t)] = (if k = key then [t] else [])"
  by (auto simp: key_times_def)

lemma count_key_times:
  "length (filter (\<lambda>(k, t). k = key \<and> P t) hist) = length (filter P (key_times key hist))"
  by (induction hist) (auto simp: key_times_def)

definition remembers :: "int \<Rightarrow> int \<Rightarrow> (string \<Rightarrow> int list) \<Rightarrow> (string \<times> int) list \<Rightarrow> bool" where
  "remembers window since hs hist \<longleftrightarrow>
     (\<forall>key now. since \<le> now \<longrightarrow> filter (\<lambda>t. t > now - window) (hs key) = filter (\<lambda>t. t > now - window) (key_times key hist))"

lemma filter_later: "(a :: int) \<le> b \<Longrightarrow> filter (\<lambda>t. t > b) (filter (\<lambda>t. t > a) xs) = filter (\<lambda>t. t > b) xs"
  by (auto intro: filter_cong)

lemma limiter_step:
  assumes "remembers window since hs hist" and "since \<le> now"
    and "MemoryRateLimiter_Allow limit window now key hs = (ok, hs')"
  shows "ok = ref_Allow limit window now key hist
    \<and> remembers window now hs' (if ok then hist @ [(key, now)] else hist)"
proof -
  let ?recent = "filter (\<lambda>t. t > now - window) (hs key)"
  have r: "?recent = filter (\<lambda>t. t > now - window) (key_times key hist)"
    using assms(1,2) by (simp add: remembers_def)
  have ok: "ok = ref_Allow limit window now key hist"
    using assms(3) r by (auto simp: MemoryRateLimiter_Allow_def ref_Allow_def count_key_times Let_def split: if_splits)
  have hs': "hs' = hs(key := if ok then ?recent @ [now] else ?recent)"
    using assms(3) by (auto simp: MemoryRateLimiter_Allow_def Let_def split: if_splits)
  have "filter (\<lambda>t. t > n - window) (hs' k) = filter (\<lambda>t. t > n - window) (key_times k (if ok then hist @ [(key, now)] else hist))"
    if "now \<le> n" for k n
  proof -
    have "filter (\<lambda>t. t > n - window) (hs k) = filter (\<lambda>t. t > n - window) (key_times k hist)"
      using assms(1,2) that by (simp add: remembers_def)
    then show ?thesis unfolding hs' using that filter_later [of "now - window" "n - window" "hs key"] by auto
  qed
  with ok show ?thesis by (simp add: remembers_def)
qed

lemma limiter_run_ref:
  "remembers window since hs hist \<Longrightarrow> sorted (map snd calls) \<Longrightarrow> \<forall>c\<in>set calls. since \<le> snd c \<Longrightarrow>
   limiter_run limit window hs calls = ref_run limit window hist calls"
proof (induction calls arbitrary: hs hist since)
  case Nil
  then show ?case by simp
next
  case (Cons c calls)
  obtain key now where c: "c = (key, now)" by (cases c)
  obtain ok hs' where a: "MemoryRateLimiter_Allow limit window now key hs = (ok, hs')" by fastforce
  have "since \<le> now" using Cons.prems(3) c by simp
  note s = limiter_step [OF Cons.prems(1) this a]
  have "limiter_run limit window hs' calls = ref_run limit window (if ok then hist @ [(key, now)] else hist) calls"
    by (rule Cons.IH [of now]) (use s Cons.prems(2) c in auto)
  then show ?case using s a c by (simp add: Let_def)
qed



fun allowed :: "(string \<times> int) list \<Rightarrow> bool list \<Rightarrow> (string \<times> int) list" where
  "allowed (c # calls) (ok # oks) = (if ok then c # allowed calls oks else allowed calls oks)"
| "allowed _ _ = []"

definition in_window :: "string \<Rightarrow> int \<Rightarrow> int \<Rightarrow> string \<times> int \<Rightarrow> bool" where
  "in_window key t0 window e \<longleftrightarrow> fst e = key \<and> t0 < snd e \<and> snd e \<le> t0 + window"

lemma ref_run_bound:
  assumes "0 < limit"
  shows "(\<forall>t0. int (length (filter (in_window key t0 window) hist)) \<le> limit) \<Longrightarrow>
   sorted (map snd calls) \<Longrightarrow> \<forall>c\<in>set calls. \<forall>e\<in>set hist. snd e \<le> snd c \<Longrightarrow>
   int (length (filter (in_window key t0 window) (hist @ allowed calls (ref_run limit window hist calls)))) \<le> limit"
proof (induction calls arbitrary: hist)
  case Nil
  then show ?case by simp
next
  case (Cons c calls)
  obtain k now where c: "c = (k, now)" by (cases c)
  let ?ok = "ref_Allow limit window now k hist"
  have "int (length (filter (in_window key t window) (hist @ [(k, now)]))) \<le> limit" if ok: ?ok for t
  proof (cases "in_window key t window (k, now)")
    case True
    have "filter (in_window key t window) hist = filter (in_window key t window) (filter (\<lambda>(k', t'). k' = k \<and> t' > now - window) hist)"
      unfolding filter_filter using True by (intro filter_cong) (auto simp: in_window_def)
    then have "length (filter (in_window key t window) hist) \<le> length (filter (\<lambda>(k', t'). k' = k \<and> t' > now - window) hist)"
      by (metis length_filter_le)
    then show ?thesis using ok True by (simp add: ref_Allow_def)
  next
    case False
    then show ?thesis using Cons.prems(1) by simp
  qed
  then have new: "\<forall>t. int (length (filter (in_window key t window) (if ?ok then hist @ [(k, now)] else hist))) \<le> limit"
    using Cons.prems(1) by simp
  have "\<forall>d\<in>set calls. \<forall>e\<in>set (if ?ok then hist @ [(k, now)] else hist). snd e \<le> snd d"
    using Cons.prems(2,3) c by auto
  note ih = Cons.IH [OF new _ this]
  have "sorted (map snd calls)" using Cons.prems(2) by simp
  from ih [OF this] show ?case unfolding c by (cases ?ok) (simp_all add: Let_def)
qed

text \<open>
  However often it is called, the limiter allows at most \<open>limit\<close> calls of a key within any
  period of the length of its window.
\<close>

theorem limiter_window_bound:
  assumes "0 < limit" and "sorted (map snd calls)"
  shows "int (length (filter (in_window key t0 window) (allowed calls (limiter_run limit window (\<lambda>_. []) calls)))) \<le> limit"
proof -
  have "limiter_run limit window (\<lambda>_. []) calls = ref_run limit window [] calls"
  proof (cases calls)
    case (Cons c cs)
    show ?thesis by (rule limiter_run_ref [of _ "snd c"]) (use assms Cons in \<open>auto simp: remembers_def\<close>)
  qed simp
  then show ?thesis using ref_run_bound [OF assms(1), of key window "[]" calls t0] assms by simp
qed

theorem limiter_window_bound_witness:
  "int (length (filter (in_window ''a'' 0 10) (allowed [(''a'', 1), (''a'', 2), (''a'', 3)]
     (limiter_run 2 10 (\<lambda>_. []) [(''a'', 1), (''a'', 2), (''a'', 3)])))) \<le> 2"
  by (rule limiter_window_bound) simp_all

section \<open>The users table\<close>

definition users_ok :: "user_db \<Rightarrow> bool" where
  "users_ok d \<longleftrightarrow> distinct (map User_ID (users d)) \<and> distinct (map User_Email (users d)) \<and>
     (\<forall>u\<in>set (users d). normalizeEmail (User_Email u) = User_Email u \<and> User_Role u = RoleUser)"

lemma char_space_lower [simp]: "char_space (char_lower c) = char_space c"
proof (cases "65 \<le> (of_char c :: nat) \<and> (of_char c :: nat) \<le> 90")
  case True
  then have "(of_char (char_of ((of_char c :: nat) + 32) :: char) :: nat) = of_char c + 32" by simp
  then show ?thesis using True by (auto simp: char_lower_def char_space_def Let_def)
next
  case False
  then have "char_lower c = c" by (simp only: char_lower_def Let_def if_False)
  then show ?thesis by simp
qed

lemma char_lower_idem [simp]: "char_lower (char_lower c) = char_lower c"
proof (cases "65 \<le> (of_char c :: nat) \<and> (of_char c :: nat) \<le> 90")
  case True
  then have "(of_char (char_of ((of_char c :: nat) + 32) :: char) :: nat) = of_char c + 32" by simp
  then show ?thesis using True by (auto simp: char_lower_def Let_def)
next
  case False
  then have "char_lower c = c" by (simp only: char_lower_def Let_def if_False)
  then show ?thesis by simp
qed

lemma TrimSpace_ToLower: "strings_TrimSpace (strings_ToLower s) = strings_ToLower (strings_TrimSpace s)"
proof -
  have d: "dropWhile char_space (map char_lower s) = map char_lower (dropWhile char_space s)" for s
    by (induction s) simp_all
  show ?thesis by (simp add: strings_TrimSpace_def strings_ToLower_def d rev_map)
qed

lemma TrimSpace_idem: "strings_TrimSpace (strings_TrimSpace s) = strings_TrimSpace s"
proof -
  have hd: "dropWhile P (rev (dropWhile P (rev xs))) = rev (dropWhile P (rev xs))" if "dropWhile P xs = xs" for P and xs :: "'a list"
  proof (cases xs)
    case (Cons x ys)
    then have nx: "\<not> P x" using that by (metis dropWhile_eq_Cons_conv list.distinct(1))
    have "rev (dropWhile P (rev (x # ys))) = x # rev (dropWhile P (rev ys))"
      using nx by (simp add: dropWhile_append)
    then show ?thesis using Cons nx by simp
  qed simp
  show ?thesis by (simp add: strings_TrimSpace_def hd)
qed

lemma normalizeEmail_idem [simp]: "normalizeEmail (normalizeEmail e) = normalizeEmail e"
proof -
  have "strings_ToLower (strings_ToLower s) = strings_ToLower s" for s by (simp add: strings_ToLower_def)
  then show ?thesis by (simp add: normalizeEmail_def TrimSpace_ToLower TrimSpace_idem)
qed

lemma stmt_InsertUser_Inr:
  assumes "stmt_InsertUser user d = Inr (x, d')"
  shows "d' = d\<lparr>users := users d @ [user\<lparr>User_CreatedAt := pg_timestamp (User_CreatedAt user)\<rparr>]\<rparr>
    \<and> User_ID user \<notin> User_ID ` set (users d) \<and> User_Email user \<notin> User_Email ` set (users d)"
  using assms unfolding stmt_InsertUser_def by (auto simp: list_ex_iff split: if_splits)

lemma Allow_db [simp]: "db (snd (Allow rl key w)) = db w"
  by (cases rl) (simp_all split: prod.split)

lemma hashPassword_db [simp]: "db (snd (hashPassword B p w)) = db w"
  by (simp add: hashPassword_def split: sum.split)

lemma Allow_same: "Allow rl key w = (ok, w1) \<Longrightarrow> db w1 = db w"
  using Allow_db [of rl key w] by simp

lemma hashPassword_same: "hashPassword B p w = (r, w1) \<Longrightarrow> db w1 = db w"
  using hashPassword_db [of B p w] by simp

text \<open>Registration adds at most one user at the end of the table, and nothing else writes.\<close>

definition registered :: "string \<Rightarrow> User \<Rightarrow> user_db \<Rightarrow> user_db \<Rightarrow> bool" where
  "registered email user d d' \<longleftrightarrow> users d' = users d @ [user] \<and> User_ID user \<notin> User_ID ` set (users d) \<and>
     User_Email user \<notin> User_Email ` set (users d) \<and> User_Email user = normalizeEmail email \<and> User_Role user = RoleUser"

lemma UserPostgres_Create_db:
  assumes "UserPostgres_Create user w = (r, w')"
  shows "(db w' = db w \<and> (\<exists>e. r = Inl e)) \<or> (stmt_InsertUser user (db w) = Inr ((), db w'))"
proof -
  obtain q w1 where s: "sql (stmt_InsertUser user) w = (q, w1)" by fastforce
  have "w1 = w'" and "(\<exists>e. r = Inl e) \<longleftrightarrow> (\<exists>e. q = Inl e)"
    using assms s unfolding UserPostgres_Create_def by (auto split: sum.splits if_splits)
  with s show ?thesis by (cases rule: sql_cases) auto
qed

lemma Register_effect:
  assumes "UserUsecase_Register B u email password name w = (r, w')"
  shows "db w' = db w \<and> (\<exists>e. r = Inl e) \<or> (\<exists>user. registered email user (db w) (db w'))"
proof -
  obtain ok w1 where a: "Allow (uc_rateLimiter u) (''register:'' @ normalizeEmail email) w = (ok, w1)" by fastforce
  obtain h w2 where h: "hashPassword B password w1 = (h, w2)" by fastforce
  have d: "db w1 = db w" "db w2 = db w"
    using Allow_same [OF a] hashPassword_same [OF h] by simp_all
  show ?thesis
  proof (cases "ok \<and> (\<exists>s. h = Inr s)")
    case False
    then show ?thesis using assms a h d unfolding UserUsecase_Register_def Let_def by (cases ok; cases h) auto
  next
    case True
    then obtain s where s: "ok" "h = Inr s" by blast
    define w3 where "w3 = w2\<lparr>uuid_ctr := Suc (uuid_ctr w2)\<rparr>"
    define user where "user = \<lparr>User_ID = uuid_src w2 (uuid_ctr w2), User_Email = normalizeEmail email, User_PasswordHash = s,
      User_Name = name, User_Role = RoleUser, User_CreatedAt = clock w3\<rparr>"
    obtain q w4 where c: "UserPostgres_Create user w3 = (q, w4)" by fastforce
    have r: "w' = w4 \<and> ((\<exists>e. q = Inl e) \<longrightarrow> (\<exists>e. r = Inl e))"
      using assms a h s c unfolding UserUsecase_Register_def Let_def uuid_New_def user_def w3_def by (cases q) auto
    have "db w3 = db w" using d by (simp add: w3_def)
    moreover have "registered email (user\<lparr>User_CreatedAt := pg_timestamp (User_CreatedAt user)\<rparr>) (db w3) (db w4)"
      if "stmt_InsertUser user (db w3) = Inr ((), db w4)"
      using stmt_InsertUser_Inr [OF that] by (simp add: registered_def user_def)
    ultimately show ?thesis using UserPostgres_Create_db [OF c] r by metis
  qed
qed

lemma Login_db: "db (snd (UserUsecase_Login J L B u email password w)) = db w"
proof -
  obtain ok w1 where a: "Allow (uc_rateLimiter u) (''login:'' @ normalizeEmail email) w = (ok, w1)" by fastforce
  have d1: "db w1 = db w" by (rule Allow_same [OF a])
  obtain r w2 where g: "UserPostgres_GetByEmail (normalizeEmail email) w1 = (r, w2)" by fastforce
  have "db w2 = db w1"
    using g sql_query_row_db [of "\<lambda>d. find (\<lambda>u. User_Email u = normalizeEmail email) (users d)" w1]
    unfolding UserPostgres_GetByEmail_def stmt_UserByEmail_def by (auto split: prod.splits sum.splits if_splits)
  moreover have "db (snd (issueToken J L u user w2)) = db w2" for user
    by (simp add: issueToken_def uuid_New_def Let_def split: sum.split)
  ultimately show ?thesis using a g d1 unfolding UserUsecase_Login_def Let_def by (cases r) simp_all
qed

lemma wrapped_result_snd:
  "snd (case r of (Inl err, w1) \<Rightarrow> (Inl (f err), w1) | (Inr x, w1) \<Rightarrow> (Inr (g x), w1)) = snd r"
  by (cases r; cases "fst r") auto

lemma GetUser_db: "db (snd (UserHandler_GetUser L c req w)) = db w"
proof -
  have "db (snd (UserUsecase_GetUser i w)) = db w" for i
    using sql_query_row_db [of "\<lambda>d. find (\<lambda>u. User_ID u = i) (users d)" w]
    unfolding UserUsecase_GetUser_def UserPostgres_GetByID_def stmt_UserByID_def by (auto split: prod.splits sum.splits if_splits)
  then show ?thesis unfolding UserHandler_GetUser_def Let_def by (simp add: wrapped_result_snd split: prod.split sum.split)
qed

lemma handler_snd:
  "snd (UserHandler_Register L B u c req w) =
     snd (UserUsecase_Register B u (RegisterRequest_Email req) (RegisterRequest_Password req) (RegisterRequest_Name req) w)"
  "snd (UserHandler_Login J L B u c lreq w) = snd (UserUsecase_Login J L B u (LoginRequest_Email lreq) (LoginRequest_Password lreq) w)"
  unfolding UserHandler_Register_def UserHandler_Login_def by (simp_all split: prod.split sum.split)

section \<open>Runs\<close>

inductive user_step :: "jwt_lib \<Rightarrow> uuid_lib \<Rightarrow> bcrypt_lib \<Rightarrow> userUsecase \<Rightarrow> 'x uw \<Rightarrow> 'x uw \<Rightarrow> bool" for J L B u where
  register: "user_step J L B u w (snd (UserHandler_Register L B u c req w))"
| login: "user_step J L B u w (snd (UserHandler_Login J L B u c lreq w))"
| get: "user_step J L B u w (snd (UserHandler_GetUser L c s w))"
| environment: "clock w \<le> t \<Longrightarrow>
    user_step J L B u w (w\<lparr>clock := t, faults := fs, uuid_src := src, uuid_ctr := n, entropy := k\<rparr>)"

lemma user_step_effect:
  assumes "user_step J L B u w w'"
  shows "db w' = db w \<or> (\<exists>email user. registered email user (db w) (db w'))"
  using assms
proof cases
  case (register c req)
  obtain r w1 where "UserUsecase_Register B u (RegisterRequest_Email req) (RegisterRequest_Password req) (RegisterRequest_Name req) w = (r, w1)"
    by fastforce
  with Register_effect [OF this] show ?thesis unfolding register handler_snd by auto
qed (auto simp: handler_snd Login_db GetUser_db)

lemma users_ok_registered: "users_ok d \<Longrightarrow> registered email user d d' \<Longrightarrow> users_ok d'"
  by (auto simp: users_ok_def registered_def)

text \<open>
  C25. Along every run of the user service, with any faults, ids and emails of the stored users are
  unique, every email is normalised, and nobody has registered themselves another role than user.
\<close>

theorem users_invariant:
  assumes "(user_step J L B u)\<^sup>*\<^sup>* w w'" and "users_ok (db w)"
  shows "users_ok (db w')"
  using assms
proof induction
  case (step v w)
  then show ?case using user_step_effect [OF step(2)] users_ok_registered by metis
qed

lemma users_grow:
  assumes "(user_step J L B u)\<^sup>*\<^sup>* w w'"
  shows "\<exists>new. users (db w') = users (db w) @ new"
  using assms
proof induction
  case (step v w')
  then obtain new where "users (db v) = users (db w) @ new" by blast
  then show ?case using user_step_effect [OF step(2)] by (auto simp: registered_def)
qed simp

section \<open>Registration and login\<close>

lemma find_first: "\<forall>x\<in>set xs. \<not> P x \<Longrightarrow> P y \<Longrightarrow> find P (xs @ y # ys) = Some y"
  by (induction xs) auto

lemma Register_Inr:
  assumes "UserUsecase_Register B u email password name w = (Inr i, w')"
  obtains user where "registered email user (db w) (db w')" "User_ID user = i"
    "\<exists>salt. bcrypt_GenerateFromPassword B password salt = Inr (User_PasswordHash user)"
proof -
  obtain ok w1 where a: "Allow (uc_rateLimiter u) (''register:'' @ normalizeEmail email) w = (ok, w1)" by fastforce
  obtain h w2 where h: "hashPassword B password w1 = (h, w2)" by fastforce
  have d: "db w2 = db w"
    using Allow_same [OF a] hashPassword_same [OF h] by simp
  obtain s where s: "ok" "h = Inr s"
    using assms a h unfolding UserUsecase_Register_def Let_def by (cases h) (auto split: if_splits)
  define w3 where "w3 = w2\<lparr>uuid_ctr := Suc (uuid_ctr w2)\<rparr>"
  define user where "user = \<lparr>User_ID = uuid_src w2 (uuid_ctr w2), User_Email = normalizeEmail email, User_PasswordHash = s,
    User_Name = name, User_Role = RoleUser, User_CreatedAt = clock w3\<rparr>"
  obtain q w4 where c: "UserPostgres_Create user w3 = (q, w4)" by fastforce
  have r: "w' = w4" "\<not> (\<exists>e. q = Inl e)" "i = User_ID user"
    using assms a h s c unfolding UserUsecase_Register_def Let_def uuid_New_def user_def w3_def by (cases q; auto)+
  have "stmt_InsertUser user (db w3) = Inr ((), db w4)" using UserPostgres_Create_db [OF c] r(2) by blast
  from stmt_InsertUser_Inr [OF this]
  have "registered email (user\<lparr>User_CreatedAt := pg_timestamp (User_CreatedAt user)\<rparr>) (db w) (db w')"
    using d r(1) by (simp add: registered_def user_def w3_def)
  moreover have "bcrypt_GenerateFromPassword B password (entropy w1) = Inr s"
    using h s by (auto simp: hashPassword_def split: sum.splits)
  ultimately show thesis using that [of "user\<lparr>User_CreatedAt := pg_timestamp (User_CreatedAt user)\<rparr>"] r(3)
    by (auto simp: user_def)
qed

lemma token_verifies:
  assumes J: "jwt_lib_ok J" and sign: "jwt_SignedString J (user_claims J L user jti t) secret = Inr tok"
    and "uuid_String L (User_ID user) \<noteq> ''''" and "uuid_String L jti \<noteq> ''''" and role: "User_Role user = RoleUser"
    and now: "t \<le> now" "now \<le> t + 24 * hour - second"
  shows "Verify J (NewJWTVerifier secret []) now tok =
    Inr \<lparr>Identity_UserID = uuid_String L (User_ID user), Identity_Role = RoleUser, Identity_AuthorizationHeader = ''''\<rparr>"
proof -
  let ?c = "user_claims J L user jti t"
  have nd: "jwt_NewNumericDate J x \<le> x" "x < jwt_NewNumericDate J x + 1000000000" for x
    using J by (simp_all add: jwt_lib_ok_def)
  have nb: "jwt_NewNumericDate J t \<le> now" using nd(1) [of t] now(1) by linarith
  have ex: "now < jwt_NewNumericDate J (t + 24 * hour)" using nd(2) [of "t + 24 * hour"] now(2) by (simp add: second_def)
  have "time_valid now ?c" using nb ex by (simp add: time_valid_def user_claims_def)
  moreover have "hmac_keyfunc secret True ''HS256'' = Inr secret" by (simp add: hmac_keyfunc_def)
  ultimately have p: "jwt_ParseWithClaims J tok (hmac_keyfunc secret) now = (\<lparr>Token_Valid = True, Token_Claims = ?c\<rparr>, None)"
    using J sign unfolding jwt_lib_ok_def by blast
  have "parseJWT J now tok secret ''go-ozon-marketplace'' ''api-gateway'' = Inr ?c"
    using assms(3,4) nb ex role
    by (simp add: parseJWT_def p user_claims_def audienceContains_def Let_def RoleUser_def)
  then show ?thesis using role by (simp add: Verify_def NewJWTVerifier_def user_claims_def RoleUser_def)
qed

text \<open>
  C14. Whoever registered can log in later with the same password and an email that differs in case
  or surrounding blanks only: when the limiter allows it and no database call fails, Login answers
  with a token (unless signing fails), and for a day the verifier of the other services reads the
  new user's id and the role user from it.
\<close>

theorem register_then_login:
  fixes w :: "'x uw"
  assumes "bcrypt_ok B" and "jwt_lib_ok J" and "\<forall>i. uuid_String L i \<noteq> ''''"
    and "UserUsecase_Register B u email password name w = (Inr i, w1)"
    and "(user_step J L B u)\<^sup>*\<^sup>* w1 w2"
    and "normalizeEmail email' = normalizeEmail email"
    and "fst (Allow (uc_rateLimiter u) (''login:'' @ normalizeEmail email') w2)" and "faults w2 = []"
  shows "(\<exists>tok. fst (UserUsecase_Login J L B u email' password w2) = Inr tok \<and>
      (\<forall>now. clock w2 \<le> now \<and> now \<le> clock w2 + 24 * hour - second \<longrightarrow>
         Verify J (NewJWTVerifier (uc_jwtSecret u) []) now tok =
           Inr \<lparr>Identity_UserID = uuid_String L i, Identity_Role = RoleUser, Identity_AuthorizationHeader = ''''\<rparr>))
    \<or> (\<exists>err. fst (UserUsecase_Login J L B u email' password w2) = Inl (errorf ''sign token'' err))"
proof -
  obtain user where reg: "registered email user (db w) (db w1)" and id: "User_ID user = i"
    and h: "\<exists>salt. bcrypt_GenerateFromPassword B password salt = Inr (User_PasswordHash user)"
    using Register_Inr [OF assms(4)] .
  have pw: "verifyPassword B (User_PasswordHash user) password"
    using assms(1) h by (auto simp: bcrypt_ok_def verifyPassword_def)
  obtain new where "users (db w2) = users (db w1) @ new" using users_grow [OF assms(5)] by blast
  then have us: "users (db w2) = users (db w) @ user # new" using reg by (simp add: registered_def)
  obtain w3 where a: "Allow (uc_rateLimiter u) (''login:'' @ normalizeEmail email') w2 = (True, w3)"
    using assms(7) by (cases "Allow (uc_rateLimiter u) (''login:'' @ normalizeEmail email') w2") simp
  have w3: "db w3 = db w2" "faults w3 = []" "clock w3 = clock w2"
    using a assms(8) by (cases "uc_rateLimiter u"; auto split: prod.splits)+
  have "find (\<lambda>x. User_Email x = normalizeEmail email') (users (db w3)) = Some user"
    unfolding w3 us by (rule find_first) (use reg assms(6) in \<open>auto simp: registered_def image_iff\<close>)
  then have g: "UserPostgres_GetByEmail (normalizeEmail email') w3 = (Inr user, w3)"
    by (simp add: UserPostgres_GetByEmail_def stmt_UserByEmail_def query_row_def sql_no_faults [OF w3(2)])
  have l: "UserUsecase_Login J L B u email' password w2 = issueToken J L u user w3"
    using a g pw by (simp add: UserUsecase_Login_def)
  have role: "User_Role user = RoleUser" using reg by (simp add: registered_def)
  show ?thesis
  proof (cases "jwt_SignedString J (user_claims J L user (uuid_src w3 (uuid_ctr w3)) (clock w3)) (uc_jwtSecret u)")
    case (Inl err)
    then have "fst (UserUsecase_Login J L B u email' password w2) = Inl (errorf ''sign token'' err)"
      unfolding l by (simp add: issueToken_def uuid_New_def)
    then show ?thesis by blast
  next
    case (Inr tok)
    have "fst (UserUsecase_Login J L B u email' password w2) = Inr tok"
      unfolding l using Inr by (simp add: issueToken_def uuid_New_def)
    moreover have "Verify J (NewJWTVerifier (uc_jwtSecret u) []) now tok =
        Inr \<lparr>Identity_UserID = uuid_String L i, Identity_Role = RoleUser, Identity_AuthorizationHeader = ''''\<rparr>"
      if "clock w2 \<le> now" "now \<le> clock w2 + 24 * hour - second" for now
      using token_verifies [OF assms(2) Inr _ _ role] assms(3) that id w3(3) by simp
    ultimately show ?thesis by blast
  qed
qed

text \<open>
  A profile is shown to its owner or to an administrator only: when GetUser answers with a
  profile and the caller is no administrator, the profile is the caller's own.
\<close>

theorem profile_of_caller_only:
  assumes "uuid_lib_ok L" and "GetUserID c = (uuid_String L i, True)" and "fst (GetRole c) \<noteq> RoleAdmin"
    and "fst (UserHandler_GetUser L c req w) = Inr resp"
  shows "req = '''' \<and> GetUserResponse_UserId resp = uuid_String L i"
proof -
  have req: "req = ''''" using assms by (auto simp: UserHandler_GetUser_def split: if_splits)
  obtain q w1 where g: "sql (stmt_UserByID i) w = (q, w1)" by fastforce
  obtain user where q: "q = Inr user" and resp: "GetUserResponse_UserId resp = uuid_String L (User_ID user)"
    using assms g req
    by (cases q) (auto simp: UserHandler_GetUser_def uuid_lib_ok_def UserUsecase_GetUser_def UserPostgres_GetByID_def Let_def split: if_splits)
  from g have "stmt_UserByID i (db w) = Inr (user, db w1)" unfolding q by (cases rule: sql_cases) auto
  then have "User_ID user = i"
    by (auto simp: stmt_UserByID_def query_row_def find_Some_iff split: option.splits)
  then show ?thesis using req resp by simp
qed

section \<open>Witnesses\<close>

definition tagged_uuid :: uuid_lib where
  "tagged_uuid = \<lparr>uuid_String = \<lambda>i. CHR ''u'' # uuid_String unary_uuid i,
     uuid_Parse = \<lambda>s. case s of [] \<Rightarrow> Inl (StdErr ''invalid UUID'') | c # cs \<Rightarrow> uuid_Parse unary_uuid cs\<rparr>"

definition demo_bcrypt :: bcrypt_lib where
  "demo_bcrypt = \<lparr>bcrypt_GenerateFromPassword = \<lambda>p salt. Inr (''h'' @ p),
     bcrypt_CompareHashAndPassword = \<lambda>h p. if h = ''h'' @ p then None else Some (StdErr ''mismatch'')\<rparr>"

definition demo_claims :: CustomClaims where
  "demo_claims = \<lparr>Subject = ''ux'', Issuer = ''go-ozon-marketplace'', Audience = [''api-gateway''], JWT_ID = ''uxx'',
     NotBefore = Some 0, IssuedAt = Some 0, ExpiresAt = Some 86400000000000, Claims_Role = ''user''\<rparr>"

text \<open>A package that signs these claims only.\<close>

definition demo_jwt :: jwt_lib where
  "demo_jwt = \<lparr>jwt_SignedString = \<lambda>c s. if c = demo_claims \<and> s = ''key'' then Inr ''token'' else Inl (StdErr ''unsupported''),
     jwt_ParseWithClaims = \<lambda>tok kf now. if tok = ''token'' \<and> kf True ''HS256'' = Inr ''key'' \<and> time_valid now demo_claims
       then (\<lparr>Token_Valid = True, Token_Claims = demo_claims\<rparr>, None)
       else (\<lparr>Token_Valid = False, Token_Claims = demo_claims\<rparr>, Some (StdErr ''invalid'')),
     jwt_NewNumericDate = \<lambda>t. t div 1000000000 * 1000000000\<rparr>"

lemma demo_jwt_ok: "jwt_lib_ok demo_jwt"
proof -
  have "t div 1000000000 * 1000000000 \<le> t \<and> t < t div 1000000000 * 1000000000 + (1000000000 :: int)" for t
    using div_mult_mod_eq [of t 1000000000] pos_mod_sign [of 1000000000 t] pos_mod_bound [of 1000000000 t] by linarith
  then show ?thesis by (auto simp: jwt_lib_ok_def demo_jwt_def)
qed

definition demo_users :: user_world where
  "demo_users = \<lparr>faults = [], clock = 7, uuid_src = of_nat, uuid_ctr = 1, db = \<lparr>users = []\<rparr>, hits = \<lambda>_. [], entropy = 0\<rparr>"

definition demo_uc :: userUsecase where
  "demo_uc = NewUserUsecase ''key'' (Some (NewMemoryRateLimiter 5 minute))"

definition demo_ann :: User where
  "demo_ann = \<lparr>User_ID = 1, User_Email = ''ann@x'', User_PasswordHash = ''hpw'', User_Name = ''Ann'', User_Role = ''user'', User_CreatedAt = 0\<rparr>"

definition demo_registered :: user_world where
  "demo_registered = demo_users\<lparr>uuid_ctr := 2, db := \<lparr>users = [demo_ann]\<rparr>, hits := (\<lambda>_. [])(''register:ann@x'' := [7]), entropy := 1\<rparr>"

lemma demo_email: "normalizeEmail '' Ann@x '' = ''ann@x''" "normalizeEmail ''ann@x'' = ''ann@x''" "normalizeEmail ''ANN@X'' = ''ann@x''"
  by code_simp+

lemma demo_register:
  "UserUsecase_Register demo_bcrypt demo_uc '' Ann@x '' ''pw'' ''Ann'' demo_users = (Inr 1, demo_registered)"
  by (simp add: UserUsecase_Register_def demo_email demo_uc_def NewUserUsecase_def NewMemoryRateLimiter_def MemoryRateLimiter_Allow_def
      demo_users_def demo_registered_def demo_ann_def hashPassword_def demo_bcrypt_def uuid_New_def UserPostgres_Create_def rt_simps
      stmt_InsertUser_def utf8_length_def pg_timestamp_def RoleUser_def Let_def)

theorem users_invariant_witness: "users_ok (db demo_registered) \<and> users (db demo_registered) \<noteq> []"
proof -
  have "demo_registered = snd (UserHandler_Register unary_uuid demo_bcrypt demo_uc ctx_Background
      \<lparr>RegisterRequest_Email = '' Ann@x '', RegisterRequest_Password = ''pw'', RegisterRequest_Name = ''Ann''\<rparr> demo_users)"
    by (simp add: handler_snd demo_register)
  then have "(user_step demo_jwt unary_uuid demo_bcrypt demo_uc)\<^sup>*\<^sup>* demo_users demo_registered"
    using user_step.register by (metis r_into_rtranclp)
  moreover have "users_ok (db demo_users)" by (simp add: users_ok_def demo_users_def)
  ultimately have "users_ok (db demo_registered)" by (rule users_invariant)
  then show ?thesis by (simp add: demo_registered_def)
qed

theorem register_then_login_witness:
  "fst (UserUsecase_Login demo_jwt tagged_uuid demo_bcrypt demo_uc ''ANN@X'' ''pw'' demo_registered) = Inr ''token'' \<and>
   Verify demo_jwt (NewJWTVerifier ''key'' []) 7 ''token'' =
     Inr \<lparr>Identity_UserID = ''ux'', Identity_Role = RoleUser, Identity_AuthorizationHeader = ''''\<rparr>"
proof -
  have B: "bcrypt_ok demo_bcrypt" by (simp add: bcrypt_ok_def demo_bcrypt_def)
  have s: "uc_jwtSecret demo_uc = ''key''" by (simp add: demo_uc_def NewUserUsecase_def)
  have l: "fst (UserUsecase_Login demo_jwt tagged_uuid demo_bcrypt demo_uc ''ANN@X'' ''pw'' demo_registered) = Inr ''token''"
    by (simp add: UserUsecase_Login_def demo_email demo_uc_def NewUserUsecase_def NewMemoryRateLimiter_def MemoryRateLimiter_Allow_def
        demo_registered_def demo_users_def demo_ann_def UserPostgres_GetByEmail_def stmt_UserByEmail_def query_row_def rt_simps
        verifyPassword_def demo_bcrypt_def issueToken_def uuid_New_def user_claims_def tagged_uuid_def demo_jwt_def demo_claims_def
        hour_def Let_def)
  have "(\<exists>tok. fst (UserUsecase_Login demo_jwt tagged_uuid demo_bcrypt demo_uc ''ANN@X'' ''pw'' demo_registered) = Inr tok \<and>
      (\<forall>now. clock demo_registered \<le> now \<and> now \<le> clock demo_registered + 24 * hour - second \<longrightarrow>
         Verify demo_jwt (NewJWTVerifier (uc_jwtSecret demo_uc) []) now tok =
           Inr \<lparr>Identity_UserID = uuid_String tagged_uuid 1, Identity_Role = RoleUser, Identity_AuthorizationHeader = ''''\<rparr>))
    \<or> (\<exists>err. fst (UserUsecase_Login demo_jwt tagged_uuid demo_bcrypt demo_uc ''ANN@X'' ''pw'' demo_registered) = Inl (errorf ''sign token'' err))"
    by (rule register_then_login [OF B demo_jwt_ok _ demo_register rtranclp.rtrancl_refl])
      (simp_all add: tagged_uuid_def demo_email demo_uc_def NewUserUsecase_def NewMemoryRateLimiter_def MemoryRateLimiter_Allow_def
        demo_registered_def demo_users_def Let_def)
  then show ?thesis using l s by (simp add: demo_registered_def demo_users_def hour_def second_def tagged_uuid_def)
qed

definition demo_self :: ctx where
  "demo_self = WithIdentity ctx_Background
     \<lparr>Identity_UserID = ''x'', Identity_Role = RoleUser, Identity_AuthorizationHeader = ''''\<rparr>"

theorem profile_of_caller_only_witness:
  "\<exists>resp. fst (UserHandler_GetUser unary_uuid demo_self '''' demo_registered) = Inr resp \<and>
     GetUserResponse_UserId resp = uuid_String unary_uuid 1"
proof -
  obtain resp where r: "fst (UserHandler_GetUser unary_uuid demo_self '''' demo_registered) = Inr resp"
    by (simp add: UserHandler_GetUser_def demo_self_def UserUsecase_GetUser_def UserPostgres_GetByID_def stmt_UserByID_def
        query_row_def demo_registered_def demo_users_def demo_ann_def rt_simps)
  have "GetUserID demo_self = (uuid_String unary_uuid 1, True)" "fst (GetRole demo_self) \<noteq> RoleAdmin"
    by (simp_all add: demo_self_def role_defs)
  from profile_of_caller_only [OF unary_uuid_ok this r] r show ?thesis by blast
qed

end
