(* ===== verification/Kafka_Consumer.thy ===== *)
theory Kafka_Consumer
  imports Go_Time
begin

text \<open>
  The Kafka consumer of src/pkg/kafka: processing a message with retries, dead letters and the
  marking of offsets. The session of the Sarama package and the producer of dead letters are
  parameters.
\<close>

section \<open>Messages and configuration\<close>

record ConsumerMessage =
  Msg_Topic :: string
  Msg_Partition :: int
  Msg_Offset :: int
  Msg_Key :: string
  Msg_Value :: json

record DLQEnvelope =
  DLQ_OriginalTopic :: string
  DLQ_Partition :: int
  DLQ_Offset :: int
  DLQ_Key :: string
  DLQ_Value :: json
  DLQ_Error :: string
  DLQ_Attempts :: int
  DLQ_Timestamp :: int

record kafka_Config =
  Cfg_Brokers :: "string list"
  Cfg_DLQTopic :: string
  Cfg_RebalanceStrategy :: string
  Cfg_InitialOffset :: int
  Cfg_MaxRetries :: int
  Cfg_InitialBackoff :: int
  Cfg_ProcessTimeout :: int
  Cfg_IsPermanent :: "(go_error \<Rightarrow> bool) option"

text \<open>\<^verbatim>\<open>sarama.OffsetOldest\<close> is -2.\<close>

definition kafka_setDefaults :: "kafka_Config \<Rightarrow> kafka_Config" where
  "kafka_setDefaults c =
     c\<lparr>Cfg_RebalanceStrategy := (if Cfg_RebalanceStrategy c = '''' then ''roundrobin'' else Cfg_RebalanceStrategy c),
       Cfg_InitialOffset := (if Cfg_InitialOffset c = 0 then - 2 else Cfg_InitialOffset c),
       Cfg_MaxRetries := (if Cfg_MaxRetries c < 0 then 0 else Cfg_MaxRetries c),
       Cfg_InitialBackoff := (if Cfg_InitialBackoff c \<le> 0 then 50 * millisecond else Cfg_InitialBackoff c),
       Cfg_ProcessTimeout := (if Cfg_ProcessTimeout c \<le> 0 then 10 * second else Cfg_ProcessTimeout c),
       Cfg_IsPermanent := (case Cfg_IsPermanent c of None \<Rightarrow> Some (\<lambda>_. False) | Some p \<Rightarrow> Some p)\<rparr>"

datatype balance_strategy = BalanceRoundRobin | BalanceRange | BalanceSticky

definition saramaConfig :: "kafka_Config \<Rightarrow> (balance_strategy \<times> int) result" where
  "saramaConfig c =
     (case (if Cfg_RebalanceStrategy c = ''roundrobin'' then Some BalanceRoundRobin
            else if Cfg_RebalanceStrategy c = ''range'' then Some BalanceRange
            else if Cfg_RebalanceStrategy c = ''sticky'' then Some BalanceSticky else None) of
        None \<Rightarrow> Inl (StdErr (''unsupported rebalance strategy: '' @ [CHR 0x22] @ Cfg_RebalanceStrategy c @ [CHR 0x22]))
      | Some s \<Rightarrow> Inr (s, Cfg_InitialOffset c))"

text \<open>
  A consumer: its processor, the producer of dead letters, if any, and the session, on the state
  \<open>'w\<close> of everything outside. The value the producer is given stands for the JSON text of the
  envelope.
\<close>

record 'w consumer =
  c_cfg :: kafka_Config
  c_processor :: "ConsumerMessage \<Rightarrow> 'w \<Rightarrow> go_error option \<times> 'w"
  c_dlq :: "(string \<Rightarrow> string \<Rightarrow> DLQEnvelope \<Rightarrow> 'w \<Rightarrow> go_error option \<times> 'w) option"
  c_MarkMessage :: "ConsumerMessage \<Rightarrow> 'w \<Rightarrow> 'w"

definition IsPermanent :: "'w consumer \<Rightarrow> go_error \<Rightarrow> bool" where
  "IsPermanent C err = (case Cfg_IsPermanent (c_cfg C) of None \<Rightarrow> False | Some p \<Rightarrow> p err)"

section \<open>Processing\<close>

definition sendToDLQ ::
  "('db, 'x) world_scheme consumer \<Rightarrow> ConsumerMessage \<Rightarrow> go_error \<Rightarrow> int \<Rightarrow> ('db, 'x) world_scheme \<Rightarrow> ('db, 'x) world_scheme" where
  "sendToDLQ C msg err attempts w =
     (case c_dlq C of
        None \<Rightarrow> w
      | Some SendMessage \<Rightarrow>
          if Cfg_DLQTopic (c_cfg C) = '''' then w
          else (let envelope = \<lparr>DLQ_OriginalTopic = Msg_Topic msg, DLQ_Partition = Msg_Partition msg, DLQ_Offset = Msg_Offset msg,
                      DLQ_Key = Msg_Key msg, DLQ_Value = Msg_Value msg, DLQ_Error = err_Error err, DLQ_Attempts = attempts,
                      DLQ_Timestamp = clock w\<rparr> in
                if \<not> time_ok (DLQ_Timestamp envelope) then w
                else snd (SendMessage (Cfg_DLQTopic (c_cfg C)) (Msg_Key msg) envelope w)))"

datatype attempts_result = Processed | Cancelled go_error | Failed go_error int

text \<open>
  The loop over the attempts: \<open>n\<close> retries are left, \<open>attempts\<close> is the loop variable. A permanent
  error breaks out of it before the variable is increased.
\<close>

fun process_attempts ::
  "nat \<Rightarrow> int \<Rightarrow> int \<Rightarrow> ('db, 'x) world_scheme consumer \<Rightarrow> ConsumerMessage \<Rightarrow> ('db, 'x) world_scheme \<Rightarrow>
   attempts_result \<times> ('db, 'x) world_scheme" where
  "process_attempts 0 attempts backoff C msg w =
     (case c_processor C msg w of
        (None, w1) \<Rightarrow> (Processed, w1)
      | (Some err, w1) \<Rightarrow> (Failed err (if IsPermanent C err then attempts else attempts + 1), w1))"
| "process_attempts (Suc n) attempts backoff C msg w =
     (case c_processor C msg w of
        (None, w1) \<Rightarrow> (Processed, w1)
      | (Some err, w1) \<Rightarrow>
          if IsPermanent C err then (Failed err attempts, w1)
          else (case ctx_wait backoff w1 of
                  (Some cerr, w2) \<Rightarrow> (Cancelled cerr, w2)
                | (None, w2) \<Rightarrow> process_attempts n (attempts + 1) (i64 (backoff * 2)) C msg w2))"

definition kafka_process ::
  "('db, 'x) world_scheme consumer \<Rightarrow> ConsumerMessage \<Rightarrow> ('db, 'x) world_scheme \<Rightarrow> go_error option \<times> ('db, 'x) world_scheme" where
  "kafka_process C msg w =
     (case process_attempts (nat (Cfg_MaxRetries (c_cfg C))) 0 (Cfg_InitialBackoff (c_cfg C)) C msg w of
        (Processed, w1) \<Rightarrow> (None, c_MarkMessage C msg w1)
      | (Cancelled err, w1) \<Rightarrow> (Some err, w1)
      | (Failed err attempts, w1) \<Rightarrow>
          if IsPermanent C err then (None, c_MarkMessage C msg (sendToDLQ C msg err attempts w1))
          else if attempts > Cfg_MaxRetries (c_cfg C) then
            (let w2 = sendToDLQ C msg err attempts w1
             in (None, if Cfg_DLQTopic (c_cfg C) \<noteq> '''' then c_MarkMessage C msg w2 else w2))
          else (Some err, w1))"

text \<open>The messages of a claim in order; an error is logged.\<close>

fun ConsumeClaim ::
  "('db, 'x) world_scheme consumer \<Rightarrow> ConsumerMessage list \<Rightarrow> ('db, 'x) world_scheme \<Rightarrow> ('db, 'x) world_scheme" where
  "ConsumeClaim C [] w = w"
| "ConsumeClaim C (msg # msgs) w = ConsumeClaim C msgs (snd (kafka_process C msg w))"

section \<open>What is marked\<close>

text \<open>
  Sarama documents that marking a message makes the group resume behind it, and never before an
  offset already marked. \<open>resume\<close> reads that offset.
\<close>

definition session_ok :: "'w consumer \<Rightarrow> ('w \<Rightarrow> int) \<Rightarrow> bool" where
  "session_ok C resume \<longleftrightarrow> (\<forall>msg w. resume (c_MarkMessage C msg w) = max (resume w) (Msg_Offset msg + 1))"

lemma process_attempts_count:
  "process_attempts n attempts backoff C msg w = (Failed err k, w') \<Longrightarrow>
     (if IsPermanent C err then attempts \<le> k \<and> k \<le> attempts + int n else k = attempts + int n + 1)"
proof (induction n arbitrary: attempts backoff w)
  case 0
  then show ?case by (auto split: prod.splits option.splits if_splits)
next
  case (Suc n)
  obtain r w1 where p: "c_processor C msg w = (r, w1)" by fastforce
  show ?case
  proof (cases r)
    case None
    then show ?thesis using Suc.prems p by simp
  next
    case (Some e)
    show ?thesis
    proof (cases "IsPermanent C e")
      case True
      then show ?thesis using Suc.prems p Some by simp
    next
      case False
      obtain q w2 where c: "ctx_wait backoff w1 = (q, w2)" by fastforce
      show ?thesis
      proof (cases q)
        case None
        then have "process_attempts n (attempts + 1) (i64 (backoff * 2)) C msg w2 = (Failed err k, w')"
          using Suc.prems p Some False c by simp
        from Suc.IH [OF this] show ?thesis by (auto split: if_splits)
      qed (use Suc.prems p Some False c in simp)
    qed
  qed
qed

text \<open>
  With the defaults applied, processing always decides: it is done, cut short by its context, or
  handed to the dead letters.
\<close>

lemma kafka_process_cases:
  assumes "0 \<le> Cfg_MaxRetries (c_cfg C)"
  shows "(\<exists>w1. process_attempts (nat (Cfg_MaxRetries (c_cfg C))) 0 (Cfg_InitialBackoff (c_cfg C)) C msg w = (Processed, w1)
        \<and> kafka_process C msg w = (None, c_MarkMessage C msg w1))
    \<or> (\<exists>err w1. process_attempts (nat (Cfg_MaxRetries (c_cfg C))) 0 (Cfg_InitialBackoff (c_cfg C)) C msg w = (Cancelled err, w1)
        \<and> kafka_process C msg w = (Some err, w1))
    \<or> (\<exists>err k w1. process_attempts (nat (Cfg_MaxRetries (c_cfg C))) 0 (Cfg_InitialBackoff (c_cfg C)) C msg w = (Failed err k, w1)
        \<and> kafka_process C msg w = (None, (if IsPermanent C err \<or> Cfg_DLQTopic (c_cfg C) \<noteq> '''' then c_MarkMessage C msg else id)
              (sendToDLQ C msg err k w1)))"
proof -
  obtain r w1 where r: "process_attempts (nat (Cfg_MaxRetries (c_cfg C))) 0 (Cfg_InitialBackoff (c_cfg C)) C msg w = (r, w1)"
    by fastforce
  show ?thesis
  proof (cases r)
    case (Failed err k)
    then have "if IsPermanent C err then 0 \<le> k \<and> k \<le> Cfg_MaxRetries (c_cfg C) else k = Cfg_MaxRetries (c_cfg C) + 1"
      using process_attempts_count [OF r [unfolded Failed]] assms by (auto split: if_splits)
    then show ?thesis using r Failed by (auto simp: kafka_process_def Let_def split: if_splits)
  qed (use r in \<open>simp_all add: kafka_process_def\<close>)
qed

text \<open>
  C39. A message whose processing is cut short by its context is not marked, but it is skipped all
  the same: the claim goes on, and as soon as the next message is processed the group resumes
  behind both.
\<close>

theorem cancelled_message_skipped:
  assumes "session_ok C resume" and "0 \<le> Cfg_MaxRetries (c_cfg C)" and "Msg_Offset m1 < Msg_Offset m2"
    and "process_attempts (nat (Cfg_MaxRetries (c_cfg C))) 0 (Cfg_InitialBackoff (c_cfg C)) C m1 w = (Cancelled err, w1)"
    and "process_attempts (nat (Cfg_MaxRetries (c_cfg C))) 0 (Cfg_InitialBackoff (c_cfg C)) C m2 w1 = (Processed, w2)"
  shows "snd (kafka_process C m1 w) = w1 \<and> Msg_Offset m1 < resume (ConsumeClaim C [m1, m2] w)"
proof -
  have "snd (kafka_process C m1 w) = w1" using assms(4) by (simp add: kafka_process_def)
  moreover have "kafka_process C m2 w1 = (None, c_MarkMessage C m2 w2)" using assms(5) by (simp add: kafka_process_def)
  ultimately show ?thesis using assms(1,3) by (simp add: session_ok_def)
qed

text \<open>
  The attempts of a message that fail with the errors \<open>errs\<close>, one after the other: every error but
  the last is transient, and the pauses between the attempts pass undisturbed.
\<close>

fun failed_attempts ::
  "('db, 'x) world_scheme consumer \<Rightarrow> ConsumerMessage \<Rightarrow> int \<Rightarrow> go_error list \<Rightarrow> ('db, 'x) world_scheme \<Rightarrow> ('db, 'x) world_scheme \<Rightarrow> bool" where
  "failed_attempts C msg backoff [] w w' \<longleftrightarrow> False"
| "failed_attempts C msg backoff [err] w w' \<longleftrightarrow> c_processor C msg w = (Some err, w')"
| "failed_attempts C msg backoff (err # e # errs) w w' \<longleftrightarrow>
     \<not> IsPermanent C err
   \<and> (case c_processor C msg w of
        (r, w1) \<Rightarrow> r = Some err
          \<and> (case ctx_wait backoff w1 of
               (c, w2) \<Rightarrow> c = None \<and> failed_attempts C msg (i64 (backoff * 2)) (e # errs) w2 w'))"

lemma process_failed_attempts:
  assumes "failed_attempts C msg backoff errs w w'" and "length errs \<le> n + 1"
    and "IsPermanent C (last errs) \<or> length errs = n + 1"
  shows "process_attempts n k backoff C msg w =
    (Failed (last errs) (k + int (length errs) - (if IsPermanent C (last errs) then 1 else 0)), w')"
  using assms
proof (induction C msg backoff errs w w' arbitrary: n k rule: failed_attempts.induct)
  case (1 C msg backoff w w')
  then show ?case by simp
next
  case (2 C msg backoff err w w')
  then show ?case by (cases n) auto
next
  case (3 C msg backoff err e errs w w')
  obtain r w1 where p: "c_processor C msg w = (r, w1)" by fastforce
  obtain c w2 where q: "ctx_wait backoff w1 = (c, w2)" by fastforce
  have "r = Some err" "c = None" "\<not> IsPermanent C err" and rest: "failed_attempts C msg (i64 (backoff * 2)) (e # errs) w2 w'"
    using "3.prems"(1) p q by simp_all
  moreover obtain n' where n': "n = Suc n'" using "3.prems"(2) by (cases n) auto
  ultimately have "process_attempts n k backoff C msg w = process_attempts n' (k + 1) (i64 (backoff * 2)) C msg w2"
    using p q by simp
  also have "\<dots> = (Failed (last (e # errs)) (k + 1 + int (length (e # errs)) - (if IsPermanent C (last (e # errs)) then 1 else 0)), w')"
    by (rule "3.IH" [OF p [symmetric] q [symmetric] rest]) (use "3.prems" n' in simp_all)
  finally show ?case by simp
qed

text \<open>
  C38. What happens to a message that cannot be processed, whose attempts fail until an error is
  permanent or the retries are used up: processing reports no error; the message is given to the
  producer of dead letters exactly when there is a producer, a topic is set and the time can be
  written, with its topic, partition, offset, key, value, last error and the number of attempts,
  which is one less than were made if the error is permanent; whether the producer accepts it is
  not looked at; the message is then marked if the error is permanent or a topic is set, and
  otherwise left unmarked.
\<close>

theorem failed_message_outcome:
  assumes "0 \<le> Cfg_MaxRetries (c_cfg C)"
    and "failed_attempts C msg (Cfg_InitialBackoff (c_cfg C)) errs w w1" and "int (length errs) \<le> Cfg_MaxRetries (c_cfg C) + 1"
    and "IsPermanent C (last errs) \<or> int (length errs) = Cfg_MaxRetries (c_cfg C) + 1"
  shows "kafka_process C msg w =
    (let permanent = IsPermanent C (last errs); topic = Cfg_DLQTopic (c_cfg C);
         envelope = \<lparr>DLQ_OriginalTopic = Msg_Topic msg, DLQ_Partition = Msg_Partition msg, DLQ_Offset = Msg_Offset msg,
           DLQ_Key = Msg_Key msg, DLQ_Value = Msg_Value msg, DLQ_Error = err_Error (last errs),
           DLQ_Attempts = int (length errs) - (if permanent then 1 else 0), DLQ_Timestamp = clock w1\<rparr>;
         w2 = (case c_dlq C of
                 Some send \<Rightarrow> if topic \<noteq> '''' \<and> time_ok (clock w1) then snd (send topic (Msg_Key msg) envelope w1) else w1
               | None \<Rightarrow> w1)
     in (None, if permanent \<or> topic \<noteq> '''' then c_MarkMessage C msg w2 else w2))"
proof -
  let ?p = "IsPermanent C (last errs)" and ?n = "nat (Cfg_MaxRetries (c_cfg C))"
  have "process_attempts ?n 0 (Cfg_InitialBackoff (c_cfg C)) C msg w =
      (Failed (last errs) (0 + int (length errs) - (if ?p then 1 else 0)), w1)"
    by (rule process_failed_attempts [OF assms(2)]) (use assms(1,3,4) in auto)
  then show ?thesis
    using assms(4) by (auto simp: kafka_process_def sendToDLQ_def Let_def split: option.split)
qed

text \<open>
  A permanent error is reported with one attempt less than were made, and without a producer a
  failed message is marked and dropped.
\<close>

lemma permanent_error_attempts:
  assumes "c_processor C msg w = (Some err, w1)" and "IsPermanent C err"
  shows "process_attempts n 0 backoff C msg w = (Failed err 0, w1)"
  using assms by (cases n) simp_all

lemma dropped_without_producer:
  assumes "c_processor C msg w = (Some err, w1)" and "IsPermanent C err" and "c_dlq C = None"
  shows "kafka_process C msg w = (None, c_MarkMessage C msg w1)"
  using permanent_error_attempts [OF assms(1,2)] assms by (simp add: kafka_process_def sendToDLQ_def)

section \<open>A concrete consumer\<close>

text \<open>The database of this world holds the resume offset and the dead letters.\<close>

definition demo_consumer :: "(int \<times> DLQEnvelope list) world consumer" where
  "demo_consumer = \<lparr>c_cfg = kafka_setDefaults \<lparr>Cfg_Brokers = [''b''], Cfg_DLQTopic = ''dead'', Cfg_RebalanceStrategy = '''',
       Cfg_InitialOffset = 0, Cfg_MaxRetries = 1, Cfg_InitialBackoff = 0, Cfg_ProcessTimeout = 0, Cfg_IsPermanent = None\<rparr>,
     c_processor = \<lambda>msg w. (if Msg_Value msg = JNull then Some (StdErr ''bad'') else None, w),
     c_dlq = Some (\<lambda>topic key e w. (None, w\<lparr>db := (fst (db w), snd (db w) @ [e])\<rparr>)),
     c_MarkMessage = \<lambda>msg w. w\<lparr>db := (max (fst (db w)) (Msg_Offset msg + 1), snd (db w))\<rparr>\<rparr>"

definition demo_broker :: "fault list \<Rightarrow> (int \<times> DLQEnvelope list) world" where
  "demo_broker fs = \<lparr>faults = fs, clock = 0, uuid_src = of_nat, uuid_ctr = 0, db = (0, [])\<rparr>"

definition demo_msg :: "int \<Rightarrow> json \<Rightarrow> ConsumerMessage" where
  "demo_msg i v = \<lparr>Msg_Topic = ''orders'', Msg_Partition = 0, Msg_Offset = i, Msg_Key = ''k'', Msg_Value = v\<rparr>"

theorem cancelled_message_skipped_witness:
  "snd (kafka_process demo_consumer (demo_msg 0 JNull) (demo_broker [FailBefore (StdErr ''context canceled'')])) = demo_broker []
   \<and> 0 < fst (db (ConsumeClaim demo_consumer [demo_msg 0 JNull, demo_msg 1 (JNum 1)]
        (demo_broker [FailBefore (StdErr ''context canceled'')])))"
proof -
  have s: "session_ok demo_consumer (\<lambda>w. fst (db w))" by (simp add: session_ok_def demo_consumer_def)
  let ?n = "nat (Cfg_MaxRetries (c_cfg demo_consumer))" and ?b = "Cfg_InitialBackoff (c_cfg demo_consumer)"
  note d = demo_consumer_def demo_msg_def demo_broker_def kafka_setDefaults_def ctx_wait_def take_fault_def IsPermanent_def
  have n: "0 \<le> Cfg_MaxRetries (c_cfg demo_consumer)" by (simp add: d)
  have 1: "process_attempts ?n 0 ?b demo_consumer (demo_msg 0 JNull) (demo_broker [FailBefore (StdErr ''context canceled'')])
      = (Cancelled (StdErr ''context canceled''), demo_broker [])" by (simp add: d)
  have 2: "process_attempts ?n 0 ?b demo_consumer (demo_msg 1 (JNum 1)) (demo_broker []) = (Processed, demo_broker [])"
    by (simp add: d)
  have "Msg_Offset (demo_msg 0 JNull) < Msg_Offset (demo_msg 1 (JNum 1))" by (simp add: demo_msg_def)
  moreover have "Msg_Offset (demo_msg 0 JNull) = 0" by (simp add: demo_msg_def)
  ultimately show ?thesis using cancelled_message_skipped [OF s n _ 1 2] by metis
qed

theorem failed_message_outcome_witness:
  "db (snd (kafka_process demo_consumer (demo_msg 3 JNull) (demo_broker []))) =
     (4, [\<lparr>DLQ_OriginalTopic = ''orders'', DLQ_Partition = 0, DLQ_Offset = 3, DLQ_Key = ''k'', DLQ_Value = JNull,
           DLQ_Error = ''bad'', DLQ_Attempts = 2, DLQ_Timestamp = 50000000\<rparr>])"
proof -
  have t: "time_ok 50000000" by code_simp
  have "failed_attempts demo_consumer (demo_msg 3 JNull) (Cfg_InitialBackoff (c_cfg demo_consumer))
      [StdErr ''bad'', StdErr ''bad''] (demo_broker []) ((demo_broker [])\<lparr>clock := 50000000\<rparr>)"
    by (simp add: demo_consumer_def demo_msg_def demo_broker_def kafka_setDefaults_def ctx_wait_def take_fault_def IsPermanent_def
        sleep_def millisecond_def)
  from failed_message_outcome [OF _ this] t show ?thesis
    by (simp add: demo_consumer_def kafka_setDefaults_def demo_broker_def demo_msg_def IsPermanent_def)
qed

end
