(* ===== verification/Analytics_Model.thy ===== *)
theory Analytics_Model
  imports Kafka_Consumer Auth_Context
begin

text \<open>
  The analytics service (src/services/analytics-service): the batcher that buffers events, the
  ClickHouse repository, the Kafka processor and the gRPC handlers. ClickHouse is state with
  faults; the evaluation of its aggregate query is a parameter.
\<close>

section \<open>Data\<close>

type_synonym EventType = string

definition EventTypeOrderCreated :: EventType where "EventTypeOrderCreated = ''order_created''"
definition EventTypeOrderConfirmed :: EventType where "EventTypeOrderConfirmed = ''order_confirmed''"
definition EventTypeOrderCancelled :: EventType where "EventTypeOrderCancelled = ''order_cancelled''"
definition EventTypePaymentSuccess :: EventType where "EventTypePaymentSuccess = ''payment_success''"
definition EventTypeUserRegistered :: EventType where "EventTypeUserRegistered = ''user_registered''"

text \<open>
  An amount is a \<^verbatim>\<open>float64\<close>: the nearest one to an integer, or the quotient of an integer number
  of cents by 100.
\<close>

datatype amount = Whole int | Cents int

record analytics_Event =
  AEvent_EventType :: EventType
  AEvent_AggregateID :: string
  AEvent_Payload :: json
  AEvent_Amount :: amount
  AEvent_Currency :: string
  AEvent_OccurredAt :: int
  AEvent_CreatedAt :: int
  AEvent_AggregationKey :: string

record ABTestEvent =
  ABTest_EventID :: uuid
  ABTest_Experiment :: string
  ABTest_Variation :: string
  ABTest_UserID :: uuid
  ABTest_Conversion :: bool
  ABTest_RevenueMinor :: int
  ABTest_CreatedAt :: int

record ch_db =
  ch_events :: "analytics_Event list"
  ch_ab_test_events :: "ABTestEvent list"

record analytics_world = "ch_db world" +
  buffer :: "analytics_Event list"
  stop_closed :: bool

type_synonym 'x aw = "'x analytics_world_scheme"

section \<open>The repository\<close>

text \<open>A \<^verbatim>\<open>DateTime\<close> column keeps seconds. Preparing a batch and appending to it can fail like any call.\<close>

definition ch_DateTime :: "int \<Rightarrow> int" where
  "ch_DateTime t = t div second * second"

definition event_row :: "analytics_Event \<Rightarrow> analytics_Event" where
  "event_row e = e\<lparr>AEvent_OccurredAt := ch_DateTime (AEvent_OccurredAt e), AEvent_CreatedAt := ch_DateTime (AEvent_CreatedAt e)\<rparr>"

definition stmt_SendEvents :: "analytics_Event list \<Rightarrow> (ch_db, unit) stmt" where
  "stmt_SendEvents events d = Inr ((), d\<lparr>ch_events := ch_events d @ map event_row events\<rparr>)"

fun append_all :: "'a list \<Rightarrow> ('db, 'x) world_scheme \<Rightarrow> go_error option \<times> ('db, 'x) world_scheme" where
  "append_all [] w = (None, w)"
| "append_all (e # es) w =
     (case rows_Err w of
        (Inl err, w1) \<Rightarrow> (Some (errorf ''append event'' err), w1)
      | (Inr _, w1) \<Rightarrow> append_all es w1)"

definition EventRepo_BatchInsert :: "analytics_Event list \<Rightarrow> 'x aw \<Rightarrow> go_error option \<times> 'x aw" where
  "EventRepo_BatchInsert events w =
     (case rows_Err w of
        (Inl err, w1) \<Rightarrow> (Some (errorf ''prepare batch'' err), w1)
      | (Inr _, w1) \<Rightarrow>
          (case append_all events w1 of
             (Some err, w2) \<Rightarrow> (Some err, w2)
           | (None, w2) \<Rightarrow>
               (case sql (stmt_SendEvents events) w2 of
                  (Inl err, w3) \<Rightarrow> (Some (errorf ''send batch'' err), w3)
                | (Inr _, w3) \<Rightarrow> (None, w3))))"

definition stmt_SendABTest :: "ABTestEvent \<Rightarrow> (ch_db, unit) stmt" where
  "stmt_SendABTest event d =
     Inr ((), d\<lparr>ch_ab_test_events := ch_ab_test_events d @ [event\<lparr>ABTest_CreatedAt := ch_DateTime (ABTest_CreatedAt event)\<rparr>]\<rparr>)"

text \<open>The nil UUID is 0.\<close>

definition EventRepo_TrackABTestEvent :: "ABTestEvent \<Rightarrow> 'x aw \<Rightarrow> go_error option \<times> 'x aw" where
  "EventRepo_TrackABTestEvent event w =
     (case rows_Err w of
        (Inl err, w1) \<Rightarrow> (Some (errorf ''prepare batch'' err), w1)
      | (Inr _, w1) \<Rightarrow>
          (case (if ABTest_EventID event = 0 then uuid_New w1 else (ABTest_EventID event, w1)) of
             (i, w2) \<Rightarrow>
               (let event1 = event\<lparr>ABTest_EventID := i,
                      ABTest_CreatedAt := (if ABTest_CreatedAt event = time_zero then clock w2 else ABTest_CreatedAt event)\<rparr> in
                case append_all [event1] w2 of
                  (Some err, w3) \<Rightarrow> (Some err, w3)
                | (None, w3) \<Rightarrow>
                    (case sql (stmt_SendABTest event1) w3 of
                       (Inl err, w4) \<Rightarrow> (Some (errorf ''send batch'' err), w4)
                     | (Inr _, w4) \<Rightarrow> (None, w4)))))"

text \<open>\<open>query date rows\<close> is ClickHouse's sum of the amounts of the day's payments.\<close>

definition EventRepo_GetDailyRevenue ::
  "(string \<Rightarrow> analytics_Event list \<Rightarrow> 'f result) \<Rightarrow> string \<Rightarrow> 'x aw \<Rightarrow> 'f result \<times> 'x aw" where
  "EventRepo_GetDailyRevenue query date w =
     (case sql (\<lambda>d. case query date (ch_events d) of Inl err \<Rightarrow> Inl err | Inr revenue \<Rightarrow> Inr (revenue, d)) w of
        (Inl err, w1) \<Rightarrow> (Inl (errorf ''scan revenue'' err), w1)
      | (Inr revenue, w1) \<Rightarrow> (Inr revenue, w1))"

section \<open>The batcher\<close>

definition batch_size :: int where "batch_size = 100"

text \<open>
  \<^verbatim>\<open>Add\<close> and \<^verbatim>\<open>Flush\<close> hold the mutex only around their accesses to the buffer. These are their
  critical sections.
\<close>

definition add_locked :: "analytics_Event \<Rightarrow> 'x aw \<Rightarrow> bool \<times> 'x aw" where
  "add_locked event w = (int (length (buffer w @ [event])) \<ge> batch_size, w\<lparr>buffer := buffer w @ [event]\<rparr>)"

definition take_locked :: "'x aw \<Rightarrow> analytics_Event list \<times> 'x aw" where
  "take_locked w = (buffer w, w\<lparr>buffer := []\<rparr>)"

definition restore_locked :: "analytics_Event list \<Rightarrow> 'x aw \<Rightarrow> 'x aw" where
  "restore_locked events w = w\<lparr>buffer := events @ buffer w\<rparr>"

definition batcher_Flush :: "'x aw \<Rightarrow> go_error option \<times> 'x aw" where
  "batcher_Flush w =
     (case take_locked w of
        (events, w1) \<Rightarrow>
          if events = [] then (None, w)
          else (case EventRepo_BatchInsert events w1 of
                  (Some err, w2) \<Rightarrow> (Some err, restore_locked events w2)
                | (None, w2) \<Rightarrow> (None, w2)))"

definition batcher_Add :: "analytics_Event \<Rightarrow> 'x aw \<Rightarrow> go_error option \<times> 'x aw" where
  "batcher_Add event w =
     (case add_locked event w of
        (shouldFlush, w1) \<Rightarrow> if shouldFlush then batcher_Flush w1 else (None, w1))"

text \<open>A tick of the background loop; its error is logged.\<close>

definition batcher_tick :: "'x aw \<Rightarrow> 'x aw" where
  "batcher_tick w = (if stop_closed w then w else snd (batcher_Flush w))"

text \<open>Closing a closed channel panics.\<close>

definition batcher_Stop :: "'x aw \<Rightarrow> go_error option \<times> 'x aw" where
  "batcher_Stop w =
     (if stop_closed w then (Some (StdErr ''panic: close of closed channel''), w)
      else batcher_Flush (w\<lparr>stop_closed := True\<rparr>))"

section \<open>The use case\<close>

definition AnalyticsUsecase_TrackEvent ::
  "EventType \<Rightarrow> string \<Rightarrow> json \<Rightarrow> string \<Rightarrow> amount \<Rightarrow> 'x aw \<Rightarrow> go_error option \<times> 'x aw" where
  "AnalyticsUsecase_TrackEvent eventType aggregateID payload aggregationKey amnt w =
     batcher_Add \<lparr>AEvent_EventType = eventType, AEvent_AggregateID = aggregateID, AEvent_Payload = payload, AEvent_Amount = amnt,
       AEvent_Currency = '''', AEvent_OccurredAt = clock w, AEvent_CreatedAt = clock w, AEvent_AggregationKey = aggregationKey\<rparr> w"

definition AnalyticsUsecase_GetDailyRevenue ::
  "(string \<Rightarrow> analytics_Event list \<Rightarrow> 'f result) \<Rightarrow> string \<Rightarrow> 'x aw \<Rightarrow> 'f result \<times> 'x aw" where
  "AnalyticsUsecase_GetDailyRevenue query date w = EventRepo_GetDailyRevenue query date w"

definition AnalyticsUsecase_TrackABTestEvent :: "ABTestEvent \<Rightarrow> 'x aw \<Rightarrow> go_error option \<times> 'x aw" where
  "AnalyticsUsecase_TrackABTestEvent event w = EventRepo_TrackABTestEvent event w"

definition AnalyticsUsecase_Flush :: "'x aw \<Rightarrow> go_error option \<times> 'x aw" where
  "AnalyticsUsecase_Flush w = batcher_Stop w"

section \<open>The Kafka processor\<close>

record analytics_Message =
  AMsg_EventType :: string
  AMsg_OrderID :: string
  AMsg_UserID :: string
  AMsg_AmountCents :: int
  AMsg_Amount :: int

definition put_analytics :: "string \<Rightarrow> json \<Rightarrow> analytics_Message \<Rightarrow> analytics_Message result" where
  "put_analytics k v m =
     (if EqualFold k ''event_type'' then (case v of JStr s \<Rightarrow> Inr (m\<lparr>AMsg_EventType := s\<rparr>) | _ \<Rightarrow> json_type_error)
      else if EqualFold k ''order_id'' then (case v of JStr s \<Rightarrow> Inr (m\<lparr>AMsg_OrderID := s\<rparr>) | _ \<Rightarrow> json_type_error)
      else if EqualFold k ''user_id'' then (case v of JStr s \<Rightarrow> Inr (m\<lparr>AMsg_UserID := s\<rparr>) | _ \<Rightarrow> json_type_error)
      else if EqualFold k ''amount_cents'' then
        (case v of JNum n \<Rightarrow> if int8_ok n then Inr (m\<lparr>AMsg_AmountCents := n\<rparr>) else json_type_error | _ \<Rightarrow> json_type_error)
      else if EqualFold k ''amount'' then (case v of JNum n \<Rightarrow> Inr (m\<lparr>AMsg_Amount := n\<rparr>) | _ \<Rightarrow> json_type_error)
      else Inr m)"

definition unmarshal_analytics :: "json \<Rightarrow> analytics_Message result" where
  "unmarshal_analytics j = json_object put_analytics j
     \<lparr>AMsg_EventType = '''', AMsg_OrderID = '''', AMsg_UserID = '''', AMsg_AmountCents = 0, AMsg_Amount = 0\<rparr>"

definition mapEventType :: "string \<Rightarrow> EventType option" where
  "mapEventType eventType =
     (if eventType = ''OrderCreated'' then Some EventTypeOrderCreated
      else if eventType = ''OrderConfirmed'' then Some EventTypeOrderConfirmed
      else if eventType = ''OrderCancelled'' then Some EventTypeOrderCancelled
      else if eventType = ''PaymentSuccess'' then Some EventTypePaymentSuccess
      else None)"

definition aggregationKey :: "ConsumerMessage \<Rightarrow> string" where
  "aggregationKey msg =
     (if Msg_Key msg \<noteq> '''' then Msg_Key msg
      else Msg_Topic msg @ '':'' @ int_str (Msg_Partition msg) @ '':'' @ int_str (Msg_Offset msg))"

definition AnalyticsProcessor_Process :: "ConsumerMessage \<Rightarrow> 'x aw \<Rightarrow> go_error option \<times> 'x aw" where
  "AnalyticsProcessor_Process msg w =
     (case unmarshal_analytics (Msg_Value msg) of
        Inl err \<Rightarrow> (Some (errorf ''unmarshal analytics event'' err), w)
      | Inr event \<Rightarrow>
          (case mapEventType (AMsg_EventType event) of
             None \<Rightarrow> (Some (StdErr (''unknown analytics event type: '' @ AMsg_EventType event)), w)
           | Some eventType \<Rightarrow>
               AnalyticsUsecase_TrackEvent eventType (AMsg_OrderID event) (Msg_Value msg) (aggregationKey msg)
                 (if AMsg_Amount event = 0 \<and> AMsg_AmountCents event \<noteq> 0 then Cents (AMsg_AmountCents event)
                  else Whole (AMsg_Amount event)) w))"

section \<open>The gRPC handlers\<close>

record TrackEventRequest =
  TrackEventRequest_EventType :: string
  TrackEventRequest_AggregateId :: string
  TrackEventRequest_Payload :: json
  TrackEventRequest_AggregationKey :: string

record TrackABTestEventRequest =
  TrackABTestEventRequest_Experiment :: string
  TrackABTestEventRequest_Variation :: string
  TrackABTestEventRequest_UserId :: string
  TrackABTestEventRequest_Conversion :: bool
  TrackABTestEventRequest_RevenueMinor :: int

definition AnalyticsHandler_TrackEvent :: "(TrackEventRequest, bool, 'x aw) handler" where
  "AnalyticsHandler_TrackEvent c req w =
     (case AnalyticsUsecase_TrackEvent (TrackEventRequest_EventType req) (TrackEventRequest_AggregateId req)
             (TrackEventRequest_Payload req) (TrackEventRequest_AggregationKey req) (Whole 0) w of
        (Some err, w1) \<Rightarrow> (Inl (to_status err), w1)
      | (None, w1) \<Rightarrow> (Inr True, w1))"

definition AnalyticsHandler_GetDailyRevenue ::
  "(string \<Rightarrow> analytics_Event list \<Rightarrow> 'f result) \<Rightarrow> (string, 'f, 'x aw) handler" where
  "AnalyticsHandler_GetDailyRevenue query c req w =
     (case AnalyticsUsecase_GetDailyRevenue query req w of
        (Inl err, w1) \<Rightarrow> (Inl (to_status err), w1)
      | (Inr revenue, w1) \<Rightarrow> (Inr revenue, w1))"

definition AnalyticsHandler_TrackABTestEvent :: "uuid_lib \<Rightarrow> (TrackABTestEventRequest, bool, 'x aw) handler" where
  "AnalyticsHandler_TrackABTestEvent L c req w =
     (case uuid_Parse L (TrackABTestEventRequest_UserId req) of
        Inl err \<Rightarrow> (Inl (to_status (Sentinel ErrInvalidArgument)), w)
      | Inr userID \<Rightarrow>
          (case AnalyticsUsecase_TrackABTestEvent
                  \<lparr>ABTest_EventID = 0, ABTest_Experiment = TrackABTestEventRequest_Experiment req,
                   ABTest_Variation = TrackABTestEventRequest_Variation req, ABTest_UserID = userID,
                   ABTest_Conversion = TrackABTestEventRequest_Conversion req,
                   ABTest_RevenueMinor = TrackABTestEventRequest_RevenueMinor req, ABTest_CreatedAt = clock w\<rparr> w of
             (Some err, w1) \<Rightarrow> (Inl (to_status err), w1)
           | (None, w1) \<Rightarrow> (Inr True, w1)))"

end
