(* ===== verification/Analytics_Props.thy ===== *)
theory Analytics_Props
  imports Analytics_Model "HOL-Library.Multiset"
begin

text \<open>
  The properties of the analytics service. Calls of Add, Flush and the background loop run
  concurrently; the step relation below interleaves their critical sections and inserts in any
  order, and the events are counted as multisets.
\<close>

section \<open>Inserting a batch\<close>

definition no_lost_replies :: "fault list \<Rightarrow> bool" where
  "no_lost_replies fs \<longleftrightarrow> (\<forall>f\<in>set fs. \<forall>e. f \<noteq> FailAfter e)"

lemma take_fault_replies:
  "take_fault w = (f, w1) \<Longrightarrow> no_lost_replies (faults w) \<Longrightarrow> no_lost_replies (faults w1) \<and> (\<forall>e. f \<noteq> FailAfter e)"
  by (auto simp: take_fault_def no_lost_replies_def split: list.splits)

lemma rows_Err_effect:
  fixes w :: "'x aw"
  assumes "rows_Err w = (r, w1)"
  shows "buffer w1 = buffer w \<and> db w1 = db w \<and> stop_closed w1 = stop_closed w \<and> (no_lost_replies (faults w) \<longrightarrow> no_lost_replies (faults w1))"
proof -
  obtain f w0 where tf: "take_fault w = (f, w0)" by fastforce
  have "w1 = w0" using assms tf by (cases f) (simp_all add: rows_Err_def)
  then show ?thesis using take_fault_world [OF tf] take_fault_replies [OF tf] by auto
qed

lemma append_all_effect:
  fixes w :: "'x aw"
  shows "append_all es w = (r, w1) \<Longrightarrow>
    buffer w1 = buffer w \<and> db w1 = db w \<and> stop_closed w1 = stop_closed w \<and> (no_lost_replies (faults w) \<longrightarrow> no_lost_replies (faults w1))"
proof (induction es arbitrary: w)
  case Nil
  then show ?case by simp
next
  case (Cons e es)
  obtain q w2 where q: "rows_Err w = (q, w2)" by fastforce
  note 1 = rows_Err_effect [OF q]
  show ?case
  proof (cases q)
    case (Inl err)
    then show ?thesis using Cons.prems q 1 by simp
  next
    case (Inr x)
    then have "append_all es w2 = (r, w1)" using Cons.prems q by simp
    from Cons.IH [OF this] 1 show ?thesis by simp
  qed
qed

lemma send_effect:
  fixes w :: "'x aw"
  assumes "sql (stmt_SendEvents events) w = (r, w1)"
  shows "buffer w1 = buffer w \<and> stop_closed w1 = stop_closed w \<and>
    (no_lost_replies (faults w) \<longrightarrow> no_lost_replies (faults w1)) \<and>
    (if (\<exists>x. r = Inr x) then ch_events (db w1) = ch_events (db w) @ map event_row events
     else ch_events (db w1) = ch_events (db w) \<or>
       \<not> no_lost_replies (faults w) \<and> ch_events (db w1) = ch_events (db w) @ map event_row events)"
proof -
  obtain f w0 where tf: "take_fault w = (f, w0)" by fastforce
  have w0: "buffer w0 = buffer w" "stop_closed w0 = stop_closed w" "db w0 = db w" using take_fault_world [OF tf] by auto
  show ?thesis
    using assms tf take_fault_replies [OF tf] w0
    by (cases f) (auto simp: sql_def stmt_SendEvents_def)
qed

lemma BatchInsert_effect:
  fixes w :: "'x aw"
  assumes "EventRepo_BatchInsert events w = (r, w1)"
  shows "buffer w1 = buffer w \<and> stop_closed w1 = stop_closed w \<and>
    (no_lost_replies (faults w) \<longrightarrow> no_lost_replies (faults w1)) \<and>
    (if r = None then ch_events (db w1) = ch_events (db w) @ map event_row events
     else ch_events (db w1) = ch_events (db w) \<or>
       \<not> no_lost_replies (faults w) \<and> ch_events (db w1) = ch_events (db w) @ map event_row events)"
proof -
  obtain q1 v1 where q1: "rows_Err w = (q1, v1)" by fastforce
  obtain q2 v2 where q2: "append_all events v1 = (q2, v2)" by fastforce
  obtain q3 v3 where q3: "sql (stmt_SendEvents events) v2 = (q3, v3)" by fastforce
  note e = rows_Err_effect [OF q1] append_all_effect [OF q2] send_effect [OF q3]
  show ?thesis
  proof (cases q1)
    case (Inl err)
    then show ?thesis using assms q1 e by (auto simp: EventRepo_BatchInsert_def)
  next
    case (Inr x)
    show ?thesis
    proof (cases q2)
      case (Some err)
      then show ?thesis using assms q1 q2 Inr e by (auto simp: EventRepo_BatchInsert_def)
    next
      case None
      then show ?thesis using assms q1 q2 q3 Inr e by (cases q3) (auto simp: EventRepo_BatchInsert_def)
    qed
  qed
qed

section \<open>Interleavings\<close>

text \<open>A Flush in progress is inserting its batch, or has failed to and is about to put it back.\<close>

datatype flush_pc = Inserting "analytics_Event list" | Restoring "analytics_Event list"

fun pc_events :: "flush_pc \<Rightarrow> analytics_Event list" where
  "pc_events (Inserting b) = b"
| "pc_events (Restoring b) = b"

record batch_run =
  br_world :: analytics_world
  br_flushes :: "flush_pc list"
  br_added :: "analytics_Event list"

inductive batch_step :: "bool \<Rightarrow> batch_run \<Rightarrow> batch_run \<Rightarrow> bool" for lossy where
  add: "batch_step lossy s (s\<lparr>br_world := snd (add_locked e (br_world s)), br_added := br_added s @ [e]\<rparr>)"
| start: "fst (take_locked (br_world s)) \<noteq> [] \<Longrightarrow>
    batch_step lossy s (s\<lparr>br_world := snd (take_locked (br_world s)),
      br_flushes := br_flushes s @ [Inserting (fst (take_locked (br_world s)))]\<rparr>)"
| inserted: "br_flushes s = xs @ Inserting b # ys \<Longrightarrow> EventRepo_BatchInsert b (br_world s) = (None, w1) \<Longrightarrow>
    batch_step lossy s (s\<lparr>br_world := w1, br_flushes := xs @ ys\<rparr>)"
| refused: "br_flushes s = xs @ Inserting b # ys \<Longrightarrow> EventRepo_BatchInsert b (br_world s) = (Some err, w1) \<Longrightarrow>
    batch_step lossy s (s\<lparr>br_world := w1, br_flushes := xs @ Restoring b # ys\<rparr>)"
| restored: "br_flushes s = xs @ Restoring b # ys \<Longrightarrow>
    batch_step lossy s (s\<lparr>br_world := restore_locked b (br_world s), br_flushes := xs @ ys\<rparr>)"
| environment: "lossy \<or> no_lost_replies fs \<Longrightarrow>
    batch_step lossy s (s\<lparr>br_world := (br_world s)\<lparr>clock := t, faults := fs\<rparr>\<rparr>)"

definition rows :: "analytics_Event list \<Rightarrow> analytics_Event multiset" where
  "rows evs = mset (map event_row evs)"

lemma rows_simps [simp]: "rows [] = {#}" "rows (xs @ ys) = rows xs + rows ys" "rows (x # xs) = add_mset (event_row x) (rows xs)"
  by (simp_all add: rows_def)

text \<open>Where the added events are: in the table, in the buffer, or with a Flush in progress.\<close>

definition held :: "batch_run \<Rightarrow> analytics_Event multiset" where
  "held s = mset (ch_events (db (br_world s))) + rows (buffer (br_world s)) + rows (concat (map pc_events (br_flushes s)))"

definition batch_inv :: "bool \<Rightarrow> batch_run \<Rightarrow> bool" where
  "batch_inv lossy s \<longleftrightarrow> rows (br_added s) \<subseteq># held s \<and>
     (\<not> lossy \<longrightarrow> rows (br_added s) = held s \<and> no_lost_replies (faults (br_world s)))"

lemma batch_step_inv:
  assumes "batch_step lossy s s'" and inv: "batch_inv lossy s"
  shows "batch_inv lossy s'"
  using assms(1)
proof cases
  case (add e)
  then have "held s' = held s + rows [e]" "rows (br_added s') = rows (br_added s) + rows [e]"
    "faults (br_world s') = faults (br_world s)"
    by (simp_all add: held_def add_locked_def)
  then show ?thesis using inv by (simp add: batch_inv_def)
next
  case start
  then have "held s' = held s" "br_added s' = br_added s" "faults (br_world s') = faults (br_world s)"
    by (simp_all add: held_def take_locked_def)
  then show ?thesis using inv by (simp add: batch_inv_def)
next
  case (inserted xs b ys w1)
  note e = BatchInsert_effect [OF inserted(3)]
  have "held s' = held s" using e inserted by (simp add: held_def rows_def)
  then show ?thesis using inv e inserted by (simp add: batch_inv_def)
next
  case (refused xs b ys err w1)
  note e = BatchInsert_effect [OF refused(3)]
  have h: "held s' = held s \<or> \<not> no_lost_replies (faults (br_world s)) \<and> held s' = held s + rows b"
    using e refused by (auto simp: held_def rows_def)
  then have "held s \<subseteq># held s'" by auto
  then show ?thesis using inv e refused h by (auto simp: batch_inv_def intro: subset_mset.order_trans)
next
  case (restored xs b ys)
  then have "held s' = held s" by (simp add: held_def restore_locked_def)
  then show ?thesis using inv restored by (simp add: batch_inv_def restore_locked_def)
next
  case (environment fs t)
  then show ?thesis using inv by (auto simp: batch_inv_def held_def)
qed

definition batch_start :: "bool \<Rightarrow> batch_run \<Rightarrow> bool" where
  "batch_start lossy s \<longleftrightarrow> ch_events (db (br_world s)) = [] \<and> buffer (br_world s) = [] \<and> br_flushes s = [] \<and> br_added s = [] \<and>
     (lossy \<or> no_lost_replies (faults (br_world s)))"

text \<open>
  C13. The batcher loses no event: however calls of Add, Flush and the ticker interleave and
  whatever fails, every event added is in the table, in the buffer or with a Flush in progress, as
  often as it was added, and exactly as often when no reply of ClickHouse is lost.
\<close>

theorem batcher_loses_no_event:
  assumes "(batch_step lossy)\<^sup>*\<^sup>* s s'" and "batch_start lossy s"
  shows "rows (br_added s') \<subseteq># held s' \<and> (\<not> lossy \<longrightarrow> rows (br_added s') = held s')"
proof -
  have "batch_inv lossy s'" using assms(1)
  proof induction
    case base
    then show ?case using assms(2) by (auto simp: batch_start_def batch_inv_def held_def)
  qed (rule batch_step_inv)
  then show ?thesis by (simp add: batch_inv_def)
qed

section \<open>A flush without faults\<close>

lemma append_all_quiet: "faults w = [] \<Longrightarrow> append_all es w = (None, w)"
  by (induction es) (simp_all add: rows_Err_def take_fault_no_faults)

lemma flush_quiet:
  fixes w :: "'x aw"
  assumes "faults w = []"
  shows "batcher_Flush w = (None, w\<lparr>buffer := [], db := (db w)\<lparr>ch_events := ch_events (db w) @ map event_row (buffer w)\<rparr>\<rparr>)"
proof (cases "buffer w = []")
  case True
  then have "w\<lparr>buffer := []\<rparr> = w" by (metis analytics_world.surjective analytics_world.update_convs(1))
  then show ?thesis using True by (simp add: batcher_Flush_def take_locked_def)
next
  case False
  have "faults (w\<lparr>buffer := []\<rparr>) = []" using assms by simp
  then show ?thesis using False
    by (simp add: batcher_Flush_def take_locked_def EventRepo_BatchInsert_def rows_Err_def take_fault_no_faults append_all_quiet
        sql_no_faults stmt_SendEvents_def)
qed

text \<open>
  C37. An event whose Add reported an error is kept all the same, so the retry the consumer makes
  counts it twice: after the failed Add the event is in the buffer, and when the second Add
  succeeds without faults the buffer and the table hold it two times more than before.
\<close>

theorem failed_event_counted_twice:
  fixes w :: "'x aw"
  assumes "batcher_Add e w = (Some err, w1)" and "no_lost_replies (faults w)" and "faults w1 = []"
  shows "e \<in> set (buffer w1) \<and>
    (case batcher_Add e w1 of (r, w2) \<Rightarrow> r = None \<and>
       mset (ch_events (db w2)) + rows (buffer w2) = mset (ch_events (db w)) + rows (buffer w) + {#event_row e, event_row e#})"
proof -
  let ?b = "buffer w @ [e]"
  have flush: "batcher_Flush (w\<lparr>buffer := ?b\<rparr>) = (Some err, w1)"
    using assms(1) by (auto simp: batcher_Add_def add_locked_def split: if_splits)
  obtain v where i: "EventRepo_BatchInsert ?b (w\<lparr>buffer := []\<rparr>) = (Some err, v)" and w1: "w1 = restore_locked ?b v"
    using flush by (auto simp: batcher_Flush_def take_locked_def split: prod.splits option.splits)
  have "buffer v = []" and d: "ch_events (db v) = ch_events (db w)"
    using BatchInsert_effect [OF i] assms(2) by auto
  then have b: "buffer w1 = ?b" and d1: "ch_events (db w1) = ch_events (db w)" using w1 by (simp_all add: restore_locked_def)
  have full: "int (length ?b) \<ge> batch_size"
    using assms(1) by (auto simp: batcher_Add_def add_locked_def split: if_splits)
  have "faults (w1\<lparr>buffer := ?b @ [e]\<rparr>) = []" using assms(3) by simp
  note q = flush_quiet [OF this]
  have "batcher_Add e w1 = batcher_Flush (w1\<lparr>buffer := ?b @ [e]\<rparr>)"
    using full by (simp add: batcher_Add_def add_locked_def b)
  then have "batcher_Add e w1 = (None, w1\<lparr>buffer := [], db := (db w1)\<lparr>ch_events := ch_events (db w1) @ map event_row (?b @ [e])\<rparr>\<rparr>)"
    unfolding q by simp
  then show ?thesis using b d1 by (simp add: rows_def)
qed

section \<open>Witnesses\<close>

definition demo_event :: analytics_Event where
  "demo_event = \<lparr>AEvent_EventType = EventTypeOrderCreated, AEvent_AggregateID = ''o'', AEvent_Payload = JNull, AEvent_Amount = Cents 100,
     AEvent_Currency = '''', AEvent_OccurredAt = 0, AEvent_CreatedAt = 0, AEvent_AggregationKey = ''k''\<rparr>"

definition demo_analytics :: "fault list \<Rightarrow> analytics_world" where
  "demo_analytics fs = \<lparr>faults = fs, clock = 0, uuid_src = of_nat, uuid_ctr = 0, db = \<lparr>ch_events = [], ch_ab_test_events = []\<rparr>,
     buffer = [], stop_closed = False\<rparr>"

definition demo_run :: "batch_run" where
  "demo_run = \<lparr>br_world = demo_analytics [], br_flushes = [], br_added = []\<rparr>"

definition demo_run2 :: "batch_run" where
  "demo_run2 = \<lparr>br_world = (demo_analytics [])\<lparr>buffer := []\<rparr>, br_flushes = [Inserting [demo_event]], br_added = [demo_event]\<rparr>"

theorem batcher_loses_no_event_witness:
  "rows (br_added demo_run2) = held demo_run2 \<and> br_added demo_run2 = [demo_event]"
proof -
  have 1: "batch_step False demo_run (demo_run\<lparr>br_world := snd (add_locked demo_event (br_world demo_run)), br_added := br_added demo_run @ [demo_event]\<rparr>)"
    (is "batch_step False demo_run ?s") by (rule batch_step.add)
  have "batch_step False ?s (?s\<lparr>br_world := snd (take_locked (br_world ?s)), br_flushes := br_flushes ?s @ [Inserting (fst (take_locked (br_world ?s)))]\<rparr>)"
    by (rule batch_step.start) (simp add: take_locked_def add_locked_def)
  also have "?s\<lparr>br_world := snd (take_locked (br_world ?s)), br_flushes := br_flushes ?s @ [Inserting (fst (take_locked (br_world ?s)))]\<rparr> = demo_run2"
    by (simp add: demo_run_def demo_run2_def demo_analytics_def take_locked_def add_locked_def)
  finally have "(batch_step False)\<^sup>*\<^sup>* demo_run demo_run2" using 1 by (metis converse_rtranclp_into_rtranclp r_into_rtranclp)
  moreover have "batch_start False demo_run" by (simp add: batch_start_def demo_run_def demo_analytics_def no_lost_replies_def)
  ultimately have "rows (br_added demo_run2) = held demo_run2" using batcher_loses_no_event by blast
  then show ?thesis by (simp add: demo_run2_def)
qed

definition demo_full :: analytics_world where
  "demo_full = (demo_analytics [FailBefore (StdErr ''down'')])\<lparr>buffer := replicate 99 demo_event\<rparr>"

theorem failed_event_counted_twice_witness:
  "\<exists>err w1. batcher_Add demo_event demo_full = (Some err, w1) \<and> demo_event \<in> set (buffer w1) \<and> fst (batcher_Add demo_event w1) = None"
proof -
  have a: "batcher_Add demo_event demo_full = (Some (errorf ''prepare batch'' (StdErr ''down'')),
      (demo_analytics [])\<lparr>buffer := replicate 99 demo_event @ [demo_event]\<rparr>)"
    by (simp add: batcher_Add_def add_locked_def batch_size_def demo_full_def batcher_Flush_def take_locked_def EventRepo_BatchInsert_def
        rows_Err_def take_fault_def demo_analytics_def restore_locked_def)
  have "no_lost_replies (faults demo_full)" by (simp add: demo_full_def demo_analytics_def no_lost_replies_def)
  moreover have "faults ((demo_analytics [])\<lparr>buffer := replicate 99 demo_event @ [demo_event]\<rparr>) = []" by (simp add: demo_analytics_def)
  ultimately show ?thesis using failed_event_counted_twice [OF a] a by (auto split: prod.splits)
qed

end
