(* ===== verification/Notification_Model.thy ===== *)
theory Notification_Model
  imports Kafka_Consumer Auth_Context
begin

text \<open>
  The notification service (src/services/notification-service): masking and building of mails,
  the providers, the use case, the Kafka processor and the gRPC handler, with what they ensure.
  The address parser of \<^verbatim>\<open>net/mail\<close> and the mail server are parameters.
\<close>

section \<open>Mails\<close>

definition CRLF :: string where "CRLF = [CHR 0x0D, CHR 0x0A]"

definition MaskEmail :: "string \<Rightarrow> string" where
  "MaskEmail email =
     (let local = takeWhile (\<lambda>c. c \<noteq> CHR 0x40) email; rest = dropWhile (\<lambda>c. c \<noteq> CHR 0x40) email in
      if rest = [] \<or> local = [] then
        (if length email \<le> 3 then replicate (length email) (CHR ''*'')
         else take 3 email @ replicate (length email - 3) (CHR ''*''))
      else if length local \<le> 3 then replicate (length local) (CHR ''*'') @ rest
      else take 3 local @ replicate (length local - 3) (CHR ''*'') @ rest)"

definition buildMessage :: "string \<Rightarrow> string \<Rightarrow> string \<Rightarrow> string \<Rightarrow> string" where
  "buildMessage from to subject body =
     ''From: '' @ from @ CRLF @ ''To: '' @ to @ CRLF @ ''Subject: '' @ subject @ CRLF @
     ''MIME-Version: 1.0'' @ CRLF @ ''Content-Type: text/plain; charset='' @ [CHR 0x22] @ ''utf-8'' @ [CHR 0x22] @ CRLF @ CRLF @ body"

text \<open>
  A provider sends a mail. The one for SMTP hands the message to the server in a goroutine and
  waits for it or for the context: a fault is the context ending first, before the server took
  the message or after. \<open>post\<close> is \<^verbatim>\<open>smtp.SendMail\<close>.
\<close>

type_synonym 'w provider = "string \<Rightarrow> string \<Rightarrow> string \<Rightarrow> 'w \<Rightarrow> go_error option \<times> 'w"

definition SMTPProvider_Send ::
  "(string \<Rightarrow> string list \<Rightarrow> string \<Rightarrow> ('db, 'x) world_scheme \<Rightarrow> go_error option \<times> ('db, 'x) world_scheme) \<Rightarrow> string \<Rightarrow>
   ('db, 'x) world_scheme provider" where
  "SMTPProvider_Send post from to subject body w =
     (let msg = buildMessage from to subject body in
      case take_fault w of
        (NoFault, w1) \<Rightarrow> post from [to] msg w1
      | (FailBefore err, w1) \<Rightarrow> (Some err, w1)
      | (FailAfter err, w1) \<Rightarrow> (Some err, snd (post from [to] msg w1)))"

definition LogProvider_Send :: "'w provider" where
  "LogProvider_Send to subject body w = (None, w)"

section \<open>The use case\<close>

text \<open>\<open>parse\<close> is \<^verbatim>\<open>mail.ParseAddress\<close>, as far as it reports an error.\<close>

definition validateSendEmail :: "(string \<Rightarrow> go_error option) \<Rightarrow> string \<Rightarrow> string \<Rightarrow> string \<Rightarrow> go_error option" where
  "validateSendEmail parse to subject body =
     (if parse to \<noteq> None \<or> to = '''' then Some (sentinelf ErrInvalidArgument ''invalid email address'')
      else if subject = '''' then Some (sentinelf ErrInvalidArgument ''subject is required'')
      else if body = '''' then Some (sentinelf ErrInvalidArgument ''body is required'')
      else None)"

definition NotificationUsecase_SendEmail ::
  "(string \<Rightarrow> go_error option) \<Rightarrow> 'w provider \<Rightarrow> string \<Rightarrow> string \<Rightarrow> string \<Rightarrow> 'w \<Rightarrow> go_error option \<times> 'w" where
  "NotificationUsecase_SendEmail parse send to subject body w =
     (case validateSendEmail parse to subject body of
        Some err \<Rightarrow> (Some err, w)
      | None \<Rightarrow>
          (case send to subject body w of
             (Some err, w1) \<Rightarrow> (Some (errorf ''send email'' err), w1)
           | (None, w1) \<Rightarrow> (None, w1)))"

section \<open>The Kafka processor\<close>

record notification_Event =
  NEvent_EventType :: string
  NEvent_OrderID :: string
  NEvent_UserID :: string
  NEvent_Email :: string

definition put_notification :: "string \<Rightarrow> json \<Rightarrow> notification_Event \<Rightarrow> notification_Event result" where
  "put_notification k v m =
     (if EqualFold k ''event_type'' then (case v of JStr s \<Rightarrow> Inr (m\<lparr>NEvent_EventType := s\<rparr>) | _ \<Rightarrow> json_type_error)
      else if EqualFold k ''order_id'' then (case v of JStr s \<Rightarrow> Inr (m\<lparr>NEvent_OrderID := s\<rparr>) | _ \<Rightarrow> json_type_error)
      else if EqualFold k ''user_id'' then (case v of JStr s \<Rightarrow> Inr (m\<lparr>NEvent_UserID := s\<rparr>) | _ \<Rightarrow> json_type_error)
      else if EqualFold k ''email'' then (case v of JStr s \<Rightarrow> Inr (m\<lparr>NEvent_Email := s\<rparr>) | _ \<Rightarrow> json_type_error)
      else Inr m)"

definition unmarshal_notification :: "json \<Rightarrow> notification_Event result" where
  "unmarshal_notification j = json_object put_notification j
     \<lparr>NEvent_EventType = '''', NEvent_OrderID = '''', NEvent_UserID = '''', NEvent_Email = ''''\<rparr>"

definition messageFor :: "notification_Event \<Rightarrow> (string \<times> string) option" where
  "messageFor event =
     (if NEvent_EventType event = ''OrderConfirmed''
      then Some (''Order Confirmed'', ''Your order '' @ NEvent_OrderID event @ '' has been confirmed.'')
      else if NEvent_EventType event = ''OrderCancelled''
      then Some (''Order Cancelled'', ''Your order '' @ NEvent_OrderID event @ '' has been cancelled.'')
      else if NEvent_EventType event = ''PaymentFailed''
      then Some (''Payment Failed'', ''Payment for order '' @ NEvent_OrderID event @ '' failed.'')
      else None)"

definition NotificationProcessor_Process ::
  "(string \<Rightarrow> go_error option) \<Rightarrow> 'w provider \<Rightarrow> ConsumerMessage \<Rightarrow> 'w \<Rightarrow> go_error option \<times> 'w" where
  "NotificationProcessor_Process parse send msg w =
     (case unmarshal_notification (Msg_Value msg) of
        Inl err \<Rightarrow> (None, w)
      | Inr event \<Rightarrow>
          (case messageFor event of
             None \<Rightarrow> (None, w)
           | Some (subject, body) \<Rightarrow>
               (case NotificationUsecase_SendEmail parse send (NEvent_Email event) subject body w of
                  (Some err, w1) \<Rightarrow> (Some (errorf (''send email for '' @ NEvent_EventType event) err), w1)
                | (None, w1) \<Rightarrow> (None, w1))))"

section \<open>The gRPC handler\<close>

record SendEmailRequest =
  SendEmailRequest_To :: string
  SendEmailRequest_Subject :: string
  SendEmailRequest_Body :: string

text \<open>\<open>None\<close> is a nil request.\<close>

definition validateSendEmailRequest :: "(string \<Rightarrow> go_error option) \<Rightarrow> SendEmailRequest option \<Rightarrow> go_error option" where
  "validateSendEmailRequest parse req =
     (case req of
        None \<Rightarrow> Some (sentinelf ErrInvalidArgument ''request is nil'')
      | Some r \<Rightarrow>
          if parse (SendEmailRequest_To r) \<noteq> None \<or> SendEmailRequest_To r = ''''
          then Some (sentinelf ErrInvalidArgument ''invalid email address'')
          else if SendEmailRequest_Subject r = '''' then Some (sentinelf ErrInvalidArgument ''subject is required'')
          else if SendEmailRequest_Body r = '''' then Some (sentinelf ErrInvalidArgument ''body is required'')
          else None)"

definition NotificationHandler_SendEmail ::
  "(string \<Rightarrow> go_error option) \<Rightarrow> 'w provider \<Rightarrow> (SendEmailRequest, bool, 'w) handler" where
  "NotificationHandler_SendEmail parse send c req w =
     (case RequireRole c [RoleService] of
        Some err \<Rightarrow> (Inl err, w)
      | None \<Rightarrow>
          (case validateSendEmailRequest parse (Some req) of
             Some err \<Rightarrow> (Inl (to_status err), w)
           | None \<Rightarrow>
               (case NotificationUsecase_SendEmail parse send (SendEmailRequest_To req) (SendEmailRequest_Subject req)
                       (SendEmailRequest_Body req) w of
                  (Some err, w1) \<Rightarrow> (Inl (to_status err), w1)
                | (None, w1) \<Rightarrow> (Inr True, w1))))"

section \<open>Properties\<close>

text \<open>
  A masked address is as long as the original, keeps what follows the first at sign, and of the
  part before it shows three characters at most: any other character there is a star.
\<close>

lemma MaskEmail_length [simp]: "length (MaskEmail email) = length email"
proof -
  have "length (takeWhile (\<lambda>c. c \<noteq> CHR 0x40) email) + length (dropWhile (\<lambda>c. c \<noteq> CHR 0x40) email) = length email"
    by (metis length_append takeWhile_dropWhile_id)
  then show ?thesis by (auto simp: MaskEmail_def Let_def)
qed

text \<open>
  A masked address gives away nothing else than its domain and three characters: two addresses
  of the same length with the same domain and the same first three characters before it are
  masked to the same text.
\<close>

theorem mask_hides_local_part:
  assumes "length a = length b" and "3 < length a" and "3 < length b" and "take 3 a = take 3 b"
    and "\<forall>c\<in>set a. c \<noteq> CHR 0x40" and "\<forall>c\<in>set b. c \<noteq> CHR 0x40"
  shows "MaskEmail (a @ CHR 0x40 # domain) = MaskEmail (b @ CHR 0x40 # domain)
    \<and> drop 3 (MaskEmail (a @ CHR 0x40 # domain)) = replicate (length a - 3) (CHR ''*'') @ CHR 0x40 # domain"
proof -
  have split: "takeWhile (\<lambda>c. c \<noteq> CHR 0x40) (x @ CHR 0x40 # domain) = x \<and> dropWhile (\<lambda>c. c \<noteq> CHR 0x40) (x @ CHR 0x40 # domain) = CHR 0x40 # domain"
    if "\<forall>c\<in>set x. c \<noteq> CHR 0x40" for x using that by (auto simp: takeWhile_append dropWhile_append)
  have m: "MaskEmail (x @ CHR 0x40 # domain) = take 3 x @ replicate (length x - 3) (CHR ''*'') @ CHR 0x40 # domain"
    if "\<forall>c\<in>set x. c \<noteq> CHR 0x40" "3 < length x" for x
    unfolding MaskEmail_def Let_def split [OF that(1), THEN conjunct1] split [OF that(1), THEN conjunct2] using that(2) by auto
  show ?thesis unfolding m [OF assms(5,2)] m [OF assms(6,3)] using assms by simp
qed

theorem mask_hides_local_part_witness:
  "MaskEmail ''alice@x'' = MaskEmail ''alina@x'' \<and> drop 3 (MaskEmail ''alice@x'') = ''**@x''"
  using mask_hides_local_part [of "''alice''" "''alina''" "''x''"] by (auto simp: numeral_2_eq_2)

text \<open>The subject is written into the header as it is, so a line break in it adds a header.\<close>

lemma subject_adds_header:
  "buildMessage from to (''Hi'' @ CRLF @ ''Bcc: '' @ victim) body =
     ''From: '' @ from @ CRLF @ ''To: '' @ to @ CRLF @ ''Subject: Hi'' @ CRLF @ ''Bcc: '' @ victim @ CRLF @
     ''MIME-Version: 1.0'' @ CRLF @ ''Content-Type: text/plain; charset='' @ [CHR 0x22] @ ''utf-8'' @ [CHR 0x22] @ CRLF @ CRLF @ body"
  by (simp add: buildMessage_def)

text \<open>
  A mail leaves the notification service only for a caller with the service role and with an
  address the parser accepts, a subject and a body; in every other case the handler reports an
  error and does nothing.
\<close>

theorem mail_needs_service_and_content:
  assumes "GetRole c \<noteq> (RoleService, True) \<or> parse (SendEmailRequest_To req) \<noteq> None \<or> SendEmailRequest_To req = '''' \<or>
    SendEmailRequest_Subject req = '''' \<or> SendEmailRequest_Body req = ''''"
  shows "\<exists>err. NotificationHandler_SendEmail parse send c req w = (Inl err, w)"
proof (cases "RequireRole c [RoleService]")
  case None
  then have "GetRole c = (RoleService, True)" by (simp add: RequireRole_None prod_eq_iff)
  then show ?thesis using assms None by (auto simp: NotificationHandler_SendEmail_def validateSendEmailRequest_def)
qed (simp add: NotificationHandler_SendEmail_def)

theorem mail_needs_service_and_content_witness:
  "\<exists>err. NotificationHandler_SendEmail (\<lambda>s. None) LogProvider_Send ctx_Background
     \<lparr>SendEmailRequest_To = ''a@b'', SendEmailRequest_Subject = ''s'', SendEmailRequest_Body = ''b''\<rparr> (0 :: nat) = (Inl err, 0)"
  by (rule mail_needs_service_and_content) (simp add: GetRole_def ctx_Background_def IdentityFromContext_def)

end
