(* ===== verification/Rate_Limit.thy ===== *)
theory Rate_Limit
  imports Auth_Context Go_Std
begin

text \<open>
  The rate limiters of src/pkg/middleware/ratelimit.go: the limiter over a store of the package
  ulule/limiter, which is a parameter, the choice of a limiter by role, and the HTTP middleware.
  The address of the client is an argument of the middleware.
\<close>

record Rate =
  Rate_Period :: int
  Rate_Max :: int

text \<open>\<open>limiter_Get rate key\<close> counts a call and tells whether the limit is reached.\<close>

type_synonym 'c limiter_Get = "Rate \<Rightarrow> string \<Rightarrow> 'c \<Rightarrow> bool result \<times> 'c"

definition NewRedisRateLimiter :: "int \<Rightarrow> int \<Rightarrow> Rate" where
  "NewRedisRateLimiter limit window =
     \<lparr>Rate_Period = (if window \<le> 0 then second else window), Rate_Max = (if limit \<le> 0 then 10 else limit)\<rparr>"

definition RedisRateLimiter_Allow :: "'c limiter_Get \<Rightarrow> Rate \<Rightarrow> string \<Rightarrow> 'c \<Rightarrow> bool \<times> 'c" where
  "RedisRateLimiter_Allow G rate key c =
     (case G rate key c of (Inl err, c1) \<Rightarrow> (False, c1) | (Inr reached, c1) \<Rightarrow> (\<not> reached, c1))"

definition noopRateLimiter_Allow :: "string \<Rightarrow> 'c \<Rightarrow> bool \<times> 'c" where
  "noopRateLimiter_Allow key c = (True, c)"

record RoleRateLimiter =
  limiter_user :: Rate
  limiter_admin :: Rate

definition NewRoleRateLimiter :: "int \<Rightarrow> int \<Rightarrow> int \<Rightarrow> RoleRateLimiter" where
  "NewRoleRateLimiter userLimit adminLimit window =
     \<lparr>limiter_user = NewRedisRateLimiter userLimit window, limiter_admin = NewRedisRateLimiter adminLimit window\<rparr>"

definition RoleRateLimiter_Allow :: "'c limiter_Get \<Rightarrow> RoleRateLimiter \<Rightarrow> ctx \<Rightarrow> string \<Rightarrow> 'c \<Rightarrow> bool \<times> 'c" where
  "RoleRateLimiter_Allow G rl c key s =
     (let role = fst (GetRole c) in
      if role = RoleAdmin then RedisRateLimiter_Allow G (limiter_admin rl) key s
      else if role = RoleService then noopRateLimiter_Allow key s
      else RedisRateLimiter_Allow G (limiter_user rl) key s)"

text \<open>The middleware answers with the status 429 or calls the handler.\<close>

definition RateLimitHTTP :: "(string \<Rightarrow> 'c \<Rightarrow> bool \<times> 'c) \<Rightarrow> string \<Rightarrow> ('c \<Rightarrow> nat \<times> 'c) \<Rightarrow> 'c \<Rightarrow> nat \<times> 'c" where
  "RateLimitHTTP allow ip next_fn c =
     (case allow ip c of (ok, c1) \<Rightarrow> if \<not> ok then (429, c1) else next_fn c1)"

section \<open>Refusals\<close>

text \<open>The limiter fails closed: without an answer of the store only services get through.\<close>

lemma limiter_fails_closed:
  assumes "\<And>rate key c. isl (fst (G rate key c))"
  shows "fst (RoleRateLimiter_Allow G rl c key s) \<longleftrightarrow> fst (GetRole c) = RoleService"
proof -
  obtain e1 s1 where "G (limiter_admin rl) key s = (Inl e1, s1)"
    using assms [of "limiter_admin rl" key s] by (cases "G (limiter_admin rl) key s") (auto simp: isl_def)
  moreover obtain e2 s2 where "G (limiter_user rl) key s = (Inl e2, s2)"
    using assms [of "limiter_user rl" key s] by (cases "G (limiter_user rl) key s") (auto simp: isl_def)
  ultimately show ?thesis
    by (simp add: RoleRateLimiter_Allow_def RedisRateLimiter_Allow_def noopRateLimiter_Allow_def RoleAdmin_def RoleService_def Let_def)
qed

text \<open>A limiter always has a positive limit and a positive period.\<close>

lemma limiter_positive: "0 < Rate_Max (NewRedisRateLimiter limit window) \<and> 0 < Rate_Period (NewRedisRateLimiter limit window)"
  by (simp add: NewRedisRateLimiter_def second_def)

end
