(* ===== verification/Feature_Flags.thy ===== *)
theory Feature_Flags
  imports Go_Std "HOL-Library.AList" "HOL-Library.Multiset"
begin

text \<open>
  Feature flags (src/pkg/featureflags) and A/B tests (src/pkg/abtesting): the store in a Redis
  hash or in memory, the OpenFeature provider with its strategies, and the assignment of users
  to the variations of an experiment. The Redis client is a parameter; both packages hash with
  the 32-bit FNV-1a function of the Go standard library.
\<close>

unbundle bit_operations_syntax

section \<open>The hash\<close>

definition hashUserID :: "string \<Rightarrow> 32 word" where
  "hashUserID s = fold (\<lambda>c h. (h XOR word_of_nat (of_char c)) * 16777619) s 2166136261"

definition hashString :: "string \<Rightarrow> 32 word" where
  "hashString s = fold (\<lambda>c h. (h XOR word_of_nat (of_char c)) * 16777619) s 2166136261"

section \<open>Flags and their store\<close>

record Flag =
  Flag_Name :: string
  Flag_Enabled :: bool
  Flag_Strategy :: string
  Flag_Percentage :: int

text \<open>Marshalling replaces the bytes of a string that are not UTF-8.\<close>

definition flag_json :: "Flag \<Rightarrow> json" where
  "flag_json f = JObj [(''name'', JStr (utf8_coerce (Flag_Name f))), (''enabled'', JBool (Flag_Enabled f)),
     (''strategy'', JStr (utf8_coerce (Flag_Strategy f))), (''percentage'', JNum (Flag_Percentage f))]"

definition put_flag :: "string \<Rightarrow> json \<Rightarrow> Flag \<Rightarrow> Flag result" where
  "put_flag k v f =
     (if EqualFold k ''name'' then (case v of JStr s \<Rightarrow> Inr (f\<lparr>Flag_Name := s\<rparr>) | _ \<Rightarrow> json_type_error)
      else if EqualFold k ''enabled'' then (case v of JBool b \<Rightarrow> Inr (f\<lparr>Flag_Enabled := b\<rparr>) | _ \<Rightarrow> json_type_error)
      else if EqualFold k ''strategy'' then (case v of JStr s \<Rightarrow> Inr (f\<lparr>Flag_Strategy := s\<rparr>) | _ \<Rightarrow> json_type_error)
      else if EqualFold k ''percentage'' then
        (case v of JNum n \<Rightarrow> if int8_ok n then Inr (f\<lparr>Flag_Percentage := n\<rparr>) else json_type_error | _ \<Rightarrow> json_type_error)
      else Inr f)"

definition flag_zero :: Flag where
  "flag_zero = \<lparr>Flag_Name = '''', Flag_Enabled = False, Flag_Strategy = '''', Flag_Percentage = 0\<rparr>"

definition unmarshal_flag :: "json \<Rightarrow> Flag result" where
  "unmarshal_flag j = json_object put_flag j flag_zero"

definition redisKey :: string where
  "redisKey = ''featureflags''"

text \<open>
  The commands of the Redis client on hashes, as functions of its state. \<open>Inr None\<close> of \<open>HGet\<close> is
  \<^verbatim>\<open>redis.Nil\<close>.
\<close>

record 'c hash_client =
  redis_HGet :: "string \<Rightarrow> string \<Rightarrow> 'c \<Rightarrow> json option result \<times> 'c"
  redis_HSet :: "string \<Rightarrow> string \<Rightarrow> json \<Rightarrow> 'c \<Rightarrow> go_error option \<times> 'c"
  redis_HGetAll :: "string \<Rightarrow> 'c \<Rightarrow> (string \<times> json) list result \<times> 'c"

text \<open>The store: no client means the map in memory. A map is listed in no particular order.\<close>

record 'c RedisStore =
  store_client :: "'c hash_client option"
  store_redis :: 'c
  store_local :: "(string \<times> Flag) list"

definition NewRedisStore :: "'c hash_client option \<Rightarrow> 'c \<Rightarrow> 'c RedisStore" where
  "NewRedisStore client c = \<lparr>store_client = client, store_redis = c, store_local = []\<rparr>"

definition RedisStore_Get :: "string \<Rightarrow> 'c RedisStore \<Rightarrow> Flag option result \<times> 'c RedisStore" where
  "RedisStore_Get name s =
     (case store_client s of
        None \<Rightarrow> (Inr (map_of (store_local s) name), s)
      | Some client \<Rightarrow>
          (case redis_HGet client redisKey name (store_redis s) of
             (Inl err, c) \<Rightarrow> (Inl (errorf (''hget featureflags/'' @ name) err), s\<lparr>store_redis := c\<rparr>)
           | (Inr None, c) \<Rightarrow> (Inr None, s\<lparr>store_redis := c\<rparr>)
           | (Inr (Some raw), c) \<Rightarrow>
               (case unmarshal_flag raw of
                  Inl err \<Rightarrow> (Inl (errorf (''unmarshal flag '' @ name) err), s\<lparr>store_redis := c\<rparr>)
                | Inr f \<Rightarrow> (Inr (Some (f\<lparr>Flag_Name := name\<rparr>)), s\<lparr>store_redis := c\<rparr>))))"

definition RedisStore_Set :: "Flag \<Rightarrow> 'c RedisStore \<Rightarrow> go_error option \<times> 'c RedisStore" where
  "RedisStore_Set flag s =
     (case store_client s of
        None \<Rightarrow> (None, s\<lparr>store_local := AList.update (Flag_Name flag) flag (store_local s)\<rparr>)
      | Some client \<Rightarrow>
          (case redis_HSet client redisKey (Flag_Name flag) (flag_json flag) (store_redis s) of
             (Some err, c) \<Rightarrow> (Some (errorf (''hset featureflags/'' @ Flag_Name flag) err), s\<lparr>store_redis := c\<rparr>)
           | (None, c) \<Rightarrow> (None, s\<lparr>store_redis := c\<rparr>)))"

fun unmarshal_flags :: "(string \<times> json) list \<Rightarrow> Flag list result" where
  "unmarshal_flags [] = Inr []"
| "unmarshal_flags ((name, raw) # data) =
     (case unmarshal_flag raw of
        Inl err \<Rightarrow> Inl (errorf (''unmarshal flag '' @ name) err)
      | Inr f \<Rightarrow> (case unmarshal_flags data of Inl err \<Rightarrow> Inl err | Inr fs \<Rightarrow> Inr (f\<lparr>Flag_Name := name\<rparr> # fs)))"

definition RedisStore_List :: "'c RedisStore \<Rightarrow> Flag list result \<times> 'c RedisStore" where
  "RedisStore_List s =
     (case store_client s of
        None \<Rightarrow> (Inr (map snd (store_local s)), s)
      | Some client \<Rightarrow>
          (case redis_HGetAll client redisKey (store_redis s) of
             (Inl err, c) \<Rightarrow> (Inl (errorf ''hgetall featureflags'' err), s\<lparr>store_redis := c\<rparr>)
           | (Inr data, c) \<Rightarrow> (unmarshal_flags data, s\<lparr>store_redis := c\<rparr>)))"

definition RedisStore_SetEnabled :: "string \<Rightarrow> bool \<Rightarrow> 'c RedisStore \<Rightarrow> go_error option \<times> 'c RedisStore" where
  "RedisStore_SetEnabled name enabled s =
     (case RedisStore_Get name s of
        (Inl err, s1) \<Rightarrow> (Some err, s1)
      | (Inr found, s1) \<Rightarrow>
          let flag = (case found of None \<Rightarrow> flag_zero\<lparr>Flag_Name := name, Flag_Strategy := ''default''\<rparr> | Some f \<Rightarrow> f)
          in RedisStore_Set (flag\<lparr>Flag_Enabled := enabled\<rparr>) s1)"

definition RedisStore_SetPercentage :: "string \<Rightarrow> int \<Rightarrow> 'c RedisStore \<Rightarrow> go_error option \<times> 'c RedisStore" where
  "RedisStore_SetPercentage name percentage s =
     (if percentage < 0 \<or> percentage > 100 then (Some (StdErr ''percentage must be 0-100''), s)
      else (case RedisStore_Get name s of
              (Inl err, s1) \<Rightarrow> (Some err, s1)
            | (Inr found, s1) \<Rightarrow>
                let flag = (case found of None \<Rightarrow> flag_zero\<lparr>Flag_Name := name\<rparr> | Some f \<Rightarrow> f)
                in RedisStore_Set (flag\<lparr>Flag_Strategy := ''percentage'', Flag_Percentage := percentage,
                                         Flag_Enabled := True\<rparr>) s1))"

section \<open>The provider\<close>

definition evaluate :: "Flag \<Rightarrow> string \<Rightarrow> bool" where
  "evaluate f userID =
     (if Flag_Strategy f = ''percentage'' then
        (if userID = '''' then False
         else hashUserID (userID @ Flag_Name f) mod 100 < word_of_int (Flag_Percentage f))
      else if Flag_Strategy f = ''user_id'' then userID \<noteq> ''''
      else True)"

datatype resolution_error = GeneralError string | FlagNotFound string | TypeMismatch string

datatype Reason = ErrorReason | DisabledReason | TargetingMatchReason

record 'a ResolutionDetail =
  Detail_Value :: 'a
  Detail_Error :: "resolution_error option"
  Detail_Reason :: Reason

text \<open>The targeting key of the evaluation context is the id of the user, empty when it is absent.\<close>

definition BooleanEvaluation ::
  "string \<Rightarrow> bool \<Rightarrow> string \<Rightarrow> 'c RedisStore \<Rightarrow> bool ResolutionDetail \<times> 'c RedisStore" where
  "BooleanEvaluation flag defaultValue userID s =
     (case RedisStore_Get flag s of
        (Inl err, s1) \<Rightarrow>
          (\<lparr>Detail_Value = defaultValue, Detail_Error = Some (GeneralError (err_Error err)), Detail_Reason = ErrorReason\<rparr>, s1)
      | (Inr None, s1) \<Rightarrow>
          (\<lparr>Detail_Value = defaultValue, Detail_Error = Some (FlagNotFound flag), Detail_Reason = ErrorReason\<rparr>, s1)
      | (Inr (Some f), s1) \<Rightarrow>
          if \<not> Flag_Enabled f then
            (\<lparr>Detail_Value = defaultValue, Detail_Error = None, Detail_Reason = DisabledReason\<rparr>, s1)
          else (\<lparr>Detail_Value = evaluate f userID, Detail_Error = None, Detail_Reason = TargetingMatchReason\<rparr>, s1))"

text \<open>Strings, floats, integers and objects are answered alike: with the default and an error.\<close>

definition mismatch_evaluation :: "string \<Rightarrow> 'a \<Rightarrow> 'a ResolutionDetail" where
  "mismatch_evaluation flag defaultValue =
     \<lparr>Detail_Value = defaultValue, Detail_Error = Some (TypeMismatch flag), Detail_Reason = ErrorReason\<rparr>"

section \<open>A/B tests\<close>

record Variation =
  Variation_Name :: string
  Variation_Weight :: int

record Experiment =
  Experiment_Name :: string
  Variations :: "Variation list"

fun assign_loop :: "int \<Rightarrow> int \<Rightarrow> Variation list \<Rightarrow> string option" where
  "assign_loop slot cumulative [] = None"
| "assign_loop slot cumulative (v # vs) =
     (let cumulative = i64 (cumulative + Variation_Weight v)
      in if slot < cumulative then Some (Variation_Name v) else assign_loop slot cumulative vs)"

definition slot_of :: "Experiment \<Rightarrow> string \<Rightarrow> int" where
  "slot_of e userID = uint (hashString (userID @ Experiment_Name e) mod 100)"

definition Assign :: "Experiment \<Rightarrow> string \<Rightarrow> string" where
  "Assign e userID =
     (if Variations e = [] then ''''
      else (case assign_loop (slot_of e userID) 0 (Variations e) of
              Some name \<Rightarrow> name
            | None \<Rightarrow> Variation_Name (last (Variations e))))"

section \<open>Redis and the map in memory agree\<close>

text \<open>
  What the store relies on: a hash returns what was set last, field by field, or all fields in some
  order, and nothing fails.
\<close>

definition hash_ok :: "'c hash_client \<Rightarrow> ('c \<Rightarrow> string \<Rightarrow> json option) \<Rightarrow> bool" where
  "hash_ok H view \<longleftrightarrow>
     (\<forall>name c. fst (redis_HGet H redisKey name c) = Inr (view c name)
        \<and> view (snd (redis_HGet H redisKey name c)) = view c)
   \<and> (\<forall>name v c. fst (redis_HSet H redisKey name v c) = None
        \<and> view (snd (redis_HSet H redisKey name v c)) = (view c)(name \<mapsto> v))
   \<and> (\<forall>c. (\<exists>data. fst (redis_HGetAll H redisKey c) = Inr data \<and> distinct (map fst data) \<and> map_of data = view c)
        \<and> view (snd (redis_HGetAll H redisKey c)) = view c)"

datatype flag_op =
    Op_Get string | Op_Set Flag | Op_SetEnabled string bool | Op_SetPercentage string int
  | Op_Evaluate string bool string | Op_List

text \<open>A listing is in no particular order.\<close>

datatype flag_answer =
    Got "Flag option result" | Done "go_error option" | Evaluated "bool ResolutionDetail"
  | Listed "Flag multiset result"

fun flag_apply :: "flag_op \<Rightarrow> 'c RedisStore \<Rightarrow> flag_answer \<times> 'c RedisStore" where
  "flag_apply (Op_Get name) s = (let (r, s1) = RedisStore_Get name s in (Got r, s1))"
| "flag_apply (Op_Set flag) s = (let (r, s1) = RedisStore_Set flag s in (Done r, s1))"
| "flag_apply (Op_SetEnabled name b) s = (let (r, s1) = RedisStore_SetEnabled name b s in (Done r, s1))"
| "flag_apply (Op_SetPercentage name p) s = (let (r, s1) = RedisStore_SetPercentage name p s in (Done r, s1))"
| "flag_apply (Op_Evaluate name d u) s = (let (r, s1) = BooleanEvaluation name d u s in (Evaluated r, s1))"
| "flag_apply Op_List s = (let (r, s1) = RedisStore_List s in (Listed (map_sum id mset r), s1))"

fun flag_answers :: "flag_op list \<Rightarrow> 'c RedisStore \<Rightarrow> flag_answer list" where
  "flag_answers [] s = []"
| "flag_answers (op # ops) s = (let (r, s1) = flag_apply op s in r # flag_answers ops s1)"

text \<open>Go's \<^verbatim>\<open>int\<close> has 64 bits; a strategy survives JSON if it is UTF-8.\<close>

definition flag_ok :: "Flag \<Rightarrow> bool" where
  "flag_ok f \<longleftrightarrow> int8_ok (Flag_Percentage f) \<and> utf8_valid (Flag_Strategy f)"

lemma flag_ok_name [simp]: "flag_ok (f\<lparr>Flag_Name := name\<rparr>) = flag_ok f"
  by (simp add: flag_ok_def)

fun op_ok :: "flag_op \<Rightarrow> bool" where
  "op_ok (Op_Set flag) \<longleftrightarrow> flag_ok flag"
| "op_ok _ \<longleftrightarrow> True"

definition same_flags :: "('c \<Rightarrow> string \<Rightarrow> json option) \<Rightarrow> 'c RedisStore \<Rightarrow> 'd RedisStore \<Rightarrow> bool" where
  "same_flags view r m \<longleftrightarrow>
     store_client m = None \<and> distinct (map fst (store_local m))
   \<and> view (store_redis r) = map_option flag_json \<circ> map_of (store_local m)
   \<and> (\<forall>name f. map_of (store_local m) name = Some f \<longrightarrow> Flag_Name f = name \<and> flag_ok f)"

lemma unmarshal_flag_json:
  "flag_ok f \<Longrightarrow> unmarshal_flag (flag_json f) = Inr (f\<lparr>Flag_Name := utf8_coerce (Flag_Name f)\<rparr>)"
  by (simp add: unmarshal_flag_def flag_json_def flag_zero_def put_flag_def json_object_def EqualFold_def
      strings_ToLower_def char_lower_def flag_ok_def utf8_valid_def)

lemma flag_strategies_valid [simp]: "utf8_valid ''default''" "utf8_valid ''percentage''"
  unfolding utf8_valid_def by (rule utf8_coerce_ascii, simp add: byte_in_def)+

text \<open>The two stores run side by side: \<open>r\<close> over Redis, \<open>m\<close> in memory.\<close>

definition side_by_side :: "'c hash_client \<Rightarrow> ('c \<Rightarrow> string \<Rightarrow> json option) \<Rightarrow> 'c RedisStore \<Rightarrow> 'd RedisStore \<Rightarrow> bool" where
  "side_by_side H view r m \<longleftrightarrow> hash_ok H view \<and> store_client r = Some H \<and> same_flags view r m"

lemma Get_agrees:
  assumes "side_by_side H view r m"
  shows "\<exists>x r1. RedisStore_Get name r = (Inr x, r1) \<and> RedisStore_Get name m = (Inr x, m)
    \<and> side_by_side H view r1 m
    \<and> (\<forall>f. x = Some f \<longrightarrow> Flag_Name f = name \<and> flag_ok f)"
proof -
  obtain y c where hget: "redis_HGet H redisKey name (store_redis r) = (y, c)" by fastforce
  have H: "hash_ok H view" "store_client r = Some H" and m: "same_flags view r m"
    using assms by (simp_all add: side_by_side_def)
  have y: "y = Inr (map_option flag_json (map_of (store_local m) name))" and c: "view c = view (store_redis r)"
    using H(1) hget m unfolding hash_ok_def same_flags_def by (metis comp_apply fst_conv, metis snd_conv)
  have sim: "side_by_side H view (r\<lparr>store_redis := c\<rparr>) m"
    using H m c by (simp add: side_by_side_def same_flags_def)
  show ?thesis
  proof (cases "map_of (store_local m) name")
    case None
    then show ?thesis using sim y hget H m by (simp add: RedisStore_Get_def same_flags_def)
  next
    case (Some f)
    then have f: "Flag_Name f = name" "flag_ok f" using m by (auto simp: same_flags_def)
    then have "f\<lparr>Flag_Name := name\<rparr> = f" by auto
    moreover have "RedisStore_Get name r = (Inr (Some (f\<lparr>Flag_Name := name\<rparr>)), r\<lparr>store_redis := c\<rparr>)"
      using y hget H f Some by (simp add: RedisStore_Get_def unmarshal_flag_json)
    ultimately show ?thesis using sim m f Some by (simp add: RedisStore_Get_def same_flags_def)
  qed
qed

lemma Set_agrees:
  assumes "side_by_side H view r m" and "flag_ok f"
  shows "\<exists>r1 m1. RedisStore_Set f r = (None, r1) \<and> RedisStore_Set f m = (None, m1) \<and> side_by_side H view r1 m1"
proof -
  obtain e c where hset: "redis_HSet H redisKey (Flag_Name f) (flag_json f) (store_redis r) = (e, c)" by fastforce
  have H: "hash_ok H view" "store_client r = Some H" and m: "same_flags view r m"
    using assms(1) by (simp_all add: side_by_side_def)
  have e: "e = None" and c: "view c = (view (store_redis r))(Flag_Name f \<mapsto> flag_json f)"
    using H(1) hset unfolding hash_ok_def by (metis fst_conv, metis snd_conv)
  have "view c = map_option flag_json \<circ> map_of (AList.update (Flag_Name f) f (store_local m))"
    using c m by (auto simp: same_flags_def update_conv' fun_eq_iff)
  then have "side_by_side H view (r\<lparr>store_redis := c\<rparr>)
      (m\<lparr>store_local := AList.update (Flag_Name f) f (store_local m)\<rparr>)"
    using H m assms(2) by (simp add: side_by_side_def same_flags_def update_conv' distinct_update)
  then show ?thesis using hset e H m by (simp add: RedisStore_Set_def same_flags_def)
qed

lemma unmarshal_flags_Inr:
  "\<forall>(name, raw)\<in>set data. unmarshal_flag raw = Inr (g (name, raw)) \<Longrightarrow>
   unmarshal_flags data = Inr (map (\<lambda>(name, raw). (g (name, raw))\<lparr>Flag_Name := name\<rparr>) data)"
  by (induction data rule: unmarshal_flags.induct) auto

lemma mset_map_of_eq:
  assumes "distinct (map fst xs)" and "distinct (map fst ys)" and "map_of xs = map_of ys"
  shows "mset xs = mset ys"
proof -
  have "set xs = set ys" using assms map_of_inject_set by blast
  moreover have "distinct xs" "distinct ys" using assms(1,2) by (simp_all add: distinct_map)
  ultimately show ?thesis using set_eq_iff_mset_eq_distinct by blast
qed

lemma List_agrees:
  assumes "side_by_side H view r m"
  shows "\<exists>fs gs r1. RedisStore_List r = (Inr fs, r1) \<and> RedisStore_List m = (Inr gs, m) \<and> mset fs = mset gs
    \<and> side_by_side H view r1 m"
proof -
  have H: "hash_ok H view" "store_client r = Some H" and m: "same_flags view r m"
    using assms by (simp_all add: side_by_side_def)
  obtain y c where all: "redis_HGetAll H redisKey (store_redis r) = (y, c)" by fastforce
  obtain data where data: "y = Inr data" "distinct (map fst data)" "map_of data = view (store_redis r)"
    and c: "view c = view (store_redis r)"
    using H(1) all unfolding hash_ok_def by (metis fst_conv snd_conv)
  have sim: "side_by_side H view (r\<lparr>store_redis := c\<rparr>) m"
    using H m c by (simp add: side_by_side_def same_flags_def)
  let ?local = "map (\<lambda>(name, f). (name, flag_json f)) (store_local m)"
  have "map_of data = map_of ?local" using data(3) m by (simp add: same_flags_def map_of_map)
  moreover have "distinct (map fst ?local)"
    using m by (simp add: same_flags_def o_def case_prod_beta)
  ultimately have ms: "mset data = mset ?local" using data(2) mset_map_of_eq by blast
  let ?g = "\<lambda>(name, raw). (case unmarshal_flag raw of Inr f \<Rightarrow> f | Inl e \<Rightarrow> flag_zero)"
  have flag: "unmarshal_flag (flag_json f) = Inr (f\<lparr>Flag_Name := utf8_coerce (Flag_Name f)\<rparr>) \<and> Flag_Name f = name"
    if "(name, f) \<in> set (store_local m)" for name f
    using that m unmarshal_flag_json [of f] by (auto simp: same_flags_def)
  have set: "set data = set ?local" using ms by (metis set_mset_mset)
  have fs: "unmarshal_flags data = Inr (map (\<lambda>(name, raw). (?g (name, raw))\<lparr>Flag_Name := name\<rparr>) data)"
    by (rule unmarshal_flags_Inr) (use flag in \<open>auto simp: set\<close>)
  have "mset (map (\<lambda>(name, raw). (?g (name, raw))\<lparr>Flag_Name := name\<rparr>) data)
      = mset (map (\<lambda>(name, raw). (?g (name, raw))\<lparr>Flag_Name := name\<rparr>) ?local)"
    using ms by (simp only: mset_map)
  also have "map (\<lambda>(name, raw). (?g (name, raw))\<lparr>Flag_Name := name\<rparr>) ?local = map snd (store_local m)"
    using flag by auto
  finally show ?thesis
    using sim all data(1) fs H m by (simp add: RedisStore_List_def same_flags_def)
qed

lemma flag_apply_agrees:
  assumes "side_by_side H view r m" and "op_ok op"
  shows "\<exists>a r1 m1. flag_apply op r = (a, r1) \<and> flag_apply op m = (a, m1) \<and> side_by_side H view r1 m1"
proof (cases op)
  case (Op_Get name)
  then show ?thesis using Get_agrees [OF assms(1), of name] by auto
next
  case (Op_Set f)
  then show ?thesis using Set_agrees [OF assms(1), of f] assms(2) by auto
next
  case (Op_SetEnabled name b)
  obtain x r1 where g: "RedisStore_Get name r = (Inr x, r1)" "RedisStore_Get name m = (Inr x, m)"
    "side_by_side H view r1 m" "\<And>f. x = Some f \<Longrightarrow> flag_ok f"
    using Get_agrees [OF assms(1), of name] by blast
  let ?f = "(case x of None \<Rightarrow> flag_zero\<lparr>Flag_Name := name, Flag_Strategy := ''default''\<rparr> | Some f \<Rightarrow> f)\<lparr>Flag_Enabled := b\<rparr>"
  have "flag_ok ?f" using g(4) by (simp add: flag_ok_def flag_zero_def int8_ok_def split: option.split)
  from Set_agrees [OF g(3) this] show ?thesis
    using g(1,2) by (auto simp: Op_SetEnabled RedisStore_SetEnabled_def)
next
  case (Op_SetPercentage name p)
  obtain x r1 where g: "RedisStore_Get name r = (Inr x, r1)" "RedisStore_Get name m = (Inr x, m)"
    "side_by_side H view r1 m" using Get_agrees [OF assms(1), of name] by blast
  let ?f = "(case x of None \<Rightarrow> flag_zero\<lparr>Flag_Name := name\<rparr> | Some f \<Rightarrow> f)
    \<lparr>Flag_Strategy := ''percentage'', Flag_Percentage := p, Flag_Enabled := True\<rparr>"
  show ?thesis
  proof (cases "p < 0 \<or> p > 100")
    case True
    then show ?thesis using assms(1) by (auto simp: Op_SetPercentage RedisStore_SetPercentage_def)
  next
    case False
    then have "flag_ok ?f" by (simp add: flag_ok_def int8_ok_def)
    from Set_agrees [OF g(3) this] show ?thesis
      using g(1,2) False by (auto simp: Op_SetPercentage RedisStore_SetPercentage_def)
  qed
next
  case (Op_Evaluate name d u)
  obtain x r1 where g: "RedisStore_Get name r = (Inr x, r1)" "RedisStore_Get name m = (Inr x, m)"
    "side_by_side H view r1 m" using Get_agrees [OF assms(1), of name] by blast
  then show ?thesis by (cases x) (auto simp: Op_Evaluate BooleanEvaluation_def)
next
  case Op_List
  then show ?thesis using List_agrees [OF assms(1)] by fastforce
qed

text \<open>
  C26. The flags behave the same in Redis and in memory: for a Redis hash that keeps what is set and
  never fails, every sequence of reads, writes, switches, roll-outs, evaluations and listings is
  answered alike by a new store over Redis and by a new store without a client, listings up to
  their order. The strategies written are UTF-8; other bytes do not survive the JSON in Redis.
\<close>

theorem flag_stores_agree:
  assumes "hash_ok H view" and "view c = Map.empty" and "\<forall>op\<in>set ops. op_ok op"
  shows "flag_answers ops (NewRedisStore (Some H) c) = flag_answers ops (NewRedisStore None c')"
proof -
  have "flag_answers ops r = flag_answers ops m" if "side_by_side H view r m" for r m
    using that assms(3)
  proof (induction ops arbitrary: r m)
    case (Cons op ops)
    obtain a r1 m1 where "flag_apply op r = (a, r1)" "flag_apply op m = (a, m1)" "side_by_side H view r1 m1"
      using flag_apply_agrees [OF Cons.prems(1)] Cons.prems(2) by fastforce
    then show ?case using Cons by simp
  qed simp
  moreover have "side_by_side H view (NewRedisStore (Some H) c) (NewRedisStore None c')"
    using assms(1,2) by (auto simp: side_by_side_def same_flags_def NewRedisStore_def)
  ultimately show ?thesis by blast
qed

text \<open>A hash kept as a list of fields.\<close>

definition list_hash :: "(string \<times> json) list hash_client" where
  "list_hash = \<lparr>redis_HGet = \<lambda>key name c. (Inr (map_of c name), c),
     redis_HSet = \<lambda>key name v c. (None, AList.update name v c),
     redis_HGetAll = \<lambda>key c. (Inr (AList.clearjunk c), c)\<rparr>"

lemma list_hash_ok: "hash_ok list_hash map_of"
  by (simp add: hash_ok_def list_hash_def update_conv' distinct_clearjunk map_of_clearjunk)

theorem flag_stores_agree_witness:
  "let ops = [Op_SetPercentage ''search'' 30, Op_SetEnabled ''search'' False, Op_Get ''search'', Op_SetEnabled ''cart'' True, Op_List] in
     flag_answers ops (NewRedisStore (Some list_hash) [])
     = (let f = \<lparr>Flag_Name = ''search'', Flag_Enabled = False, Flag_Strategy = ''percentage'', Flag_Percentage = 30\<rparr>;
            g = \<lparr>Flag_Name = ''cart'', Flag_Enabled = True, Flag_Strategy = ''default'', Flag_Percentage = 0\<rparr>
        in [Done None, Done None, Got (Inr (Some f)), Done None, Listed (Inr {#f, g#})])"
proof -
  let ?ops = "[Op_SetPercentage ''search'' 30, Op_SetEnabled ''search'' False, Op_Get ''search'', Op_SetEnabled ''cart'' True, Op_List]"
  have "flag_answers ?ops (NewRedisStore (Some list_hash) []) = flag_answers ?ops (NewRedisStore None ())"
    by (rule flag_stores_agree [OF list_hash_ok]) simp_all
  moreover have "flag_answers ?ops (NewRedisStore None ())
     = (let f = \<lparr>Flag_Name = ''search'', Flag_Enabled = False, Flag_Strategy = ''percentage'', Flag_Percentage = 30\<rparr>;
            g = \<lparr>Flag_Name = ''cart'', Flag_Enabled = True, Flag_Strategy = ''default'', Flag_Percentage = 0\<rparr>
        in [Done None, Done None, Got (Inr (Some f)), Done None, Listed (Inr {#f, g#})])"
    by (simp add: NewRedisStore_def RedisStore_SetPercentage_def RedisStore_SetEnabled_def
        RedisStore_Get_def RedisStore_Set_def RedisStore_List_def flag_zero_def Let_def)
  ultimately show ?thesis by (simp only: Let_def)
qed

text \<open>Without that condition the stores differ: Redis gives back U+FFFD for a byte that is not UTF-8.\<close>

lemma invalid_strategy_differs:
  fixes f defines "f \<equiv> \<lparr>Flag_Name = ''a'', Flag_Enabled = True, Flag_Strategy = [CHR 0xFF], Flag_Percentage = 0\<rparr>"
  shows "flag_answers [Op_Set f, Op_Get ''a''] (NewRedisStore (Some list_hash) [])
    = [Done None, Got (Inr (Some (f\<lparr>Flag_Strategy := [CHR 0xEF, CHR 0xBF, CHR 0xBD]\<rparr>)))]
   \<and> flag_answers [Op_Set f, Op_Get ''a''] (NewRedisStore None ()) = [Done None, Got (Inr (Some f))]"
proof -
  have "utf8_coerce [CHR 0xFF] = [CHR 0xEF, CHR 0xBF, CHR 0xBD]" "utf8_coerce ''a'' = ''a''"
    by (simp_all add: utf8_coerce.simps utf8_rune_def byte_in_def)
  then show ?thesis
    by (simp add: f_def NewRedisStore_def RedisStore_Get_def RedisStore_Set_def list_hash_def flag_json_def unmarshal_flag_def
        flag_zero_def put_flag_def json_object_def EqualFold_def strings_ToLower_def char_lower_def int8_ok_def)
qed

section \<open>Roll-outs\<close>

lemma evaluate_percentage:
  assumes "Flag_Strategy f = ''percentage''" and "0 \<le> p" and "p \<le> 100"
  shows "evaluate (f\<lparr>Flag_Percentage := p\<rparr>) u \<longleftrightarrow> u \<noteq> '''' \<and> uint (hashUserID (u @ Flag_Name f) mod 100) < p"
proof -
  have "uint (word_of_int p :: 32 word) = p" using assms(2,3) by (simp add: uint_word_of_int)
  then show ?thesis using assms(1) by (simp add: evaluate_def word_less_def)
qed

text \<open>
  A percentage roll-out does what it says: with a percentage from 0 to 100 a flag is on for the
  known users whose slot from 0 to 99 is below it. Raising the percentage takes it away from no
  one, at 0 it is on for nobody and at 100 for every known user.
\<close>

theorem rollout_grows:
  assumes "Flag_Strategy f = ''percentage''" and "0 \<le> p" and "p \<le> p'" and "p' \<le> 100"
  shows "{u. evaluate (f\<lparr>Flag_Percentage := p\<rparr>) u} = {u. u \<noteq> '''' \<and> uint (hashUserID (u @ Flag_Name f) mod 100) < p}
    \<and> {u. evaluate (f\<lparr>Flag_Percentage := p\<rparr>) u} \<subseteq> {u. evaluate (f\<lparr>Flag_Percentage := p'\<rparr>) u}
    \<and> {u. evaluate (f\<lparr>Flag_Percentage := 0\<rparr>) u} = {}
    \<and> {u. evaluate (f\<lparr>Flag_Percentage := 100\<rparr>) u} = {u. u \<noteq> ''''}"
proof -
  have "uint (h mod 100 :: 32 word) < 100" for h
    using word_mod_less_divisor [of 100 h] by (simp add: word_less_def)
  then show ?thesis using assms by (auto simp: evaluate_percentage not_less)
qed

theorem rollout_grows_witness:
  "let f = \<lparr>Flag_Name = ''search'', Flag_Enabled = True, Flag_Strategy = ''percentage'', Flag_Percentage = 0\<rparr> in
     {u. evaluate (f\<lparr>Flag_Percentage := 30\<rparr>) u} \<subseteq> {u. evaluate (f\<lparr>Flag_Percentage := 60\<rparr>) u}
   \<and> {u. evaluate (f\<lparr>Flag_Percentage := 100\<rparr>) u} = {u. u \<noteq> ''''}"
  using rollout_grows [of "\<lparr>Flag_Name = ''search'', Flag_Enabled = True, Flag_Strategy = ''percentage'',
      Flag_Percentage = 0\<rparr>" 30 60]
  unfolding Let_def by (simp only: Flag.simps) auto

text \<open>
  \<open>Register\<close> does not check the percentage, and the conversion to an unsigned number turns a
  negative one into a large one: the flag is on for everybody instead of nobody.
\<close>

lemma negative_percentage_enables_all:
  assumes "Flag_Strategy f = ''percentage''" and "u \<noteq> ''''"
  shows "evaluate (f\<lparr>Flag_Percentage := -1\<rparr>) u"
proof -
  have "hashUserID (u @ Flag_Name f) mod 100 < 100" by (rule word_mod_less_divisor) simp
  then have "hashUserID (u @ Flag_Name f) mod 100 < - 1" by (rule less_trans) simp
  then show ?thesis using assms by (simp add: evaluate_def)
qed

section \<open>Experiments\<close>

lemma assign_loop_prefix:
  assumes "\<forall>v\<in>set (pre @ vs). 0 \<le> Variation_Weight v" and "0 \<le> c"
    and "c + sum_list (map Variation_Weight (pre @ vs)) \<le> 100"
    and "c + sum_list (map Variation_Weight pre) \<le> slot"
  shows "assign_loop slot c (pre @ vs) = assign_loop slot (c + sum_list (map Variation_Weight pre)) vs"
  using assms
proof (induction pre arbitrary: c)
  case (Cons v pre)
  have pos: "0 \<le> sum_list (map Variation_Weight (pre @ vs))" "0 \<le> sum_list (map Variation_Weight pre)"
    using Cons.prems(1) by (auto intro!: sum_list_nonneg add_nonneg_nonneg)
  then have "i64 (c + Variation_Weight v) = c + Variation_Weight v"
    using Cons.prems by (intro i64_id) (simp add: int8_ok_def)
  then show ?case using Cons pos by (simp add: algebra_simps)
qed simp

lemma assign_loop_early:
  assumes "\<forall>v\<in>set pre. 0 \<le> Variation_Weight v" and "0 \<le> c" and "c + sum_list (map Variation_Weight pre) \<le> 100"
    and "slot < c + sum_list (map Variation_Weight pre)" and "c \<le> slot"
  shows "\<exists>v\<in>set pre. assign_loop slot c (pre @ vs) = Some (Variation_Name v)"
  using assms
proof (induction pre arbitrary: c)
  case (Cons v pre)
  have pos: "0 \<le> sum_list (map Variation_Weight pre)"
    using Cons.prems(1) by (auto intro!: sum_list_nonneg)
  then have "i64 (c + Variation_Weight v) = c + Variation_Weight v"
    using Cons.prems by (intro i64_id) (simp add: int8_ok_def)
  then show ?case using Cons pos by (auto simp: algebra_simps Let_def)
qed simp

text \<open>
  C27. An experiment whose weights are not negative and add up to 100 splits the hundred slots
  without gaps or overlaps: a user gets a variation exactly when the user's slot lies in the
  interval as long as its weight that starts at the weights of the variations before it.
\<close>

theorem experiment_splits_users:
  assumes "Variations e = pre @ v # post" and "distinct (map Variation_Name (Variations e))"
    and "\<forall>x\<in>set (Variations e). 0 \<le> Variation_Weight x" and "sum_list (map Variation_Weight (Variations e)) = 100"
  shows "Assign e u = Variation_Name v \<longleftrightarrow>
      sum_list (map Variation_Weight pre) \<le> slot_of e u
    \<and> slot_of e u < sum_list (map Variation_Weight pre) + Variation_Weight v"
proof -
  let ?w = "\<lambda>xs. sum_list (map Variation_Weight xs)" and ?s = "slot_of e u"
  have slot: "0 \<le> ?s" "?s < 100"
    using word_mod_less_divisor [of 100 "hashString (u @ Experiment_Name e)"] by (simp_all add: slot_of_def word_less_def)
  have nonneg: "0 \<le> ?w post" "0 \<le> ?w pre" "0 \<le> Variation_Weight v"
    using assms(1,3) by (auto intro!: sum_list_nonneg)
  have total: "?w pre + (Variation_Weight v + ?w post) = 100" using assms(1,4) by simp
  consider "?s < ?w pre" | "?w pre \<le> ?s" "?s < ?w pre + Variation_Weight v" | "?w pre + Variation_Weight v \<le> ?s"
    by linarith
  then show ?thesis
  proof cases
    case 1
    then obtain x where "x \<in> set pre" "assign_loop ?s 0 (pre @ v # post) = Some (Variation_Name x)"
      using assign_loop_early [of pre 0 ?s "v # post"] assms(1,3) slot nonneg total by auto
    then show ?thesis using 1 assms(1,2) by (auto simp: Assign_def rev_image_eqI)
  next
    case 2
    have "i64 (?w pre + Variation_Weight v) = ?w pre + Variation_Weight v"
      using nonneg total by (intro i64_id) (simp add: int8_ok_def)
    then have "assign_loop ?s 0 (pre @ v # post) = Some (Variation_Name v)"
      using assign_loop_prefix [of pre "v # post" 0 ?s] 2 assms(1,3) total by simp
    then show ?thesis using 2 assms(1) by (simp add: Assign_def)
  next
    case 3
    have "assign_loop ?s 0 ((pre @ [v]) @ post) = assign_loop ?s (?w pre + Variation_Weight v) (post @ [])"
      using assign_loop_prefix [of "pre @ [v]" post 0 ?s] 3 assms(1,3) total by simp
    moreover obtain x where "x \<in> set post"
      "assign_loop ?s (?w pre + Variation_Weight v) (post @ []) = Some (Variation_Name x)"
      using assign_loop_early [of post "?w pre + Variation_Weight v" ?s "[]"] 3 assms(1,3) slot nonneg total by auto
    ultimately show ?thesis using 3 assms(1,2) by (auto simp: Assign_def rev_image_eqI)
  qed
qed

theorem experiment_splits_users_witness:
  "let e = \<lparr>Experiment_Name = ''b'', Variations = [\<lparr>Variation_Name = ''old'', Variation_Weight = 40\<rparr>,
             \<lparr>Variation_Name = ''new'', Variation_Weight = 60\<rparr>]\<rparr> in
     (Assign e ''ann'' = ''new'' \<longleftrightarrow> 40 \<le> slot_of e ''ann'') \<and> slot_of e ''ann'' < 100"
  using experiment_splits_users [of "\<lparr>Experiment_Name = ''b'', Variations = [\<lparr>Variation_Name = ''old'', Variation_Weight = 40\<rparr>,
             \<lparr>Variation_Name = ''new'', Variation_Weight = 60\<rparr>]\<rparr>" "[\<lparr>Variation_Name = ''old'', Variation_Weight = 40\<rparr>]"
      "\<lparr>Variation_Name = ''new'', Variation_Weight = 60\<rparr>" "[]" "''ann''"]
  word_mod_less_divisor [of 100 "hashString ''annb''"]
  by (simp add: slot_of_def word_less_def)

end
