(* ===== verification/Worker_Lifecycle.thy ===== *)
theory Worker_Lifecycle
  imports Main
begin

text \<open>
  The life of the background workers: the outbox relays of the order and the catalog service and
  the recovery worker of the sagas start a goroutine that works at every tick of a clock until its
  stop channel is closed. The three have the same Start, Stop and loop, except that the recovery
  worker also works once inside Start; what they do at a tick is \<open>Relay_poll\<close>, \<open>CatalogRelay_poll\<close>
  and \<open>recoverOnce\<close> of their theories.
\<close>

section \<open>The worker\<close>

text \<open>
  A goroutine is blocked in its select, listening to the stop channel the field held when the
  select began, or it is outside of it. Channels are numbered in the order of their creation.
\<close>

datatype loop_pc = Selecting nat | Outside

record worker =
  wk_started :: bool
  wk_stop :: nat
  wk_closed :: "nat list"
  wk_loops :: "loop_pc list"
  wk_waiting :: nat

definition worker_new :: worker where
  "worker_new = \<lparr>wk_started = False, wk_stop = 0, wk_closed = [], wk_loops = [], wk_waiting = 0\<rparr>"

definition worker_Start :: "worker \<Rightarrow> worker" where
  "worker_Start w =
     (if wk_started w then w
      else w\<lparr>wk_started := True, wk_stop := Suc (wk_stop w), wk_loops := wk_loops w @ [Outside]\<rparr>)"

text \<open>Stop up to its wait for the goroutines; \<open>wk_waiting\<close> counts the calls that wait.\<close>

definition worker_Stop :: "worker \<Rightarrow> worker" where
  "worker_Stop w =
     (if \<not> wk_started w then w
      else w\<lparr>wk_started := False, wk_closed := wk_stop w # wk_closed w, wk_waiting := Suc (wk_waiting w)\<rparr>)"

definition worker_Wait :: "worker \<Rightarrow> worker option" where
  "worker_Wait w = (if 0 < wk_waiting w \<and> wk_loops w = [] then Some (w\<lparr>wk_waiting := wk_waiting w - 1\<rparr>) else None)"

text \<open>
  A goroutine enters its select, leaves it at a tick to work, and ends when the channel it listens
  to is closed or the context is done.
\<close>

inductive worker_loop :: "worker \<Rightarrow> worker \<Rightarrow> bool" where
  select: "wk_loops w = xs @ Outside # ys \<Longrightarrow> worker_loop w (w\<lparr>wk_loops := xs @ Selecting (wk_stop w) # ys\<rparr>)"
| tick: "wk_loops w = xs @ Selecting ch # ys \<Longrightarrow> worker_loop w (w\<lparr>wk_loops := xs @ Outside # ys\<rparr>)"
| stopped: "wk_loops w = xs @ Selecting ch # ys \<Longrightarrow> ch \<in> set (wk_closed w) \<Longrightarrow> worker_loop w (w\<lparr>wk_loops := xs @ ys\<rparr>)"
| cancelled: "wk_loops w = xs @ Selecting ch # ys \<Longrightarrow> worker_loop w (w\<lparr>wk_loops := xs @ ys\<rparr>)"

section \<open>One goroutine at a time\<close>

text \<open>Any interleaving; with \<open>overlap\<close> a Start may come while a Stop still waits.\<close>

inductive worker_step :: "bool \<Rightarrow> worker \<Rightarrow> worker \<Rightarrow> bool" for overlap where
  start: "overlap \<or> wk_waiting w = 0 \<Longrightarrow> worker_step overlap w (worker_Start w)"
| stop: "worker_step overlap w (worker_Stop w)"
| wait: "worker_Wait w = Some w' \<Longrightarrow> worker_step overlap w w'"
| loop: "worker_loop w w' \<Longrightarrow> worker_step overlap w w'"

definition worker_inv :: "worker \<Rightarrow> bool" where
  "worker_inv w \<longleftrightarrow>
     length (wk_loops w) \<le> 1 \<and> set (wk_loops w) \<subseteq> {Outside, Selecting (wk_stop w)}
   \<and> set (wk_closed w) \<subseteq> {..wk_stop w}
   \<and> (wk_started w \<longrightarrow> wk_stop w \<notin> set (wk_closed w) \<and> wk_waiting w = 0)
   \<and> (\<not> wk_started w \<longrightarrow> wk_loops w = [] \<or> wk_stop w \<in> set (wk_closed w) \<and> 0 < wk_waiting w)"

lemma worker_loop_inv: "worker_loop w w' \<Longrightarrow> worker_inv w \<Longrightarrow> worker_inv w'"
  by (induction rule: worker_loop.induct) (auto simp: worker_inv_def)

lemma worker_step_inv: "worker_step False w w' \<Longrightarrow> worker_inv w \<Longrightarrow> worker_inv w'"
proof (induction rule: worker_step.induct)
  case (start w)
  then show ?case by (auto simp: worker_inv_def worker_Start_def)
next
  case (stop w)
  then show ?case by (auto simp: worker_inv_def worker_Stop_def)
next
  case (wait w w')
  then show ?case by (auto simp: worker_inv_def worker_Wait_def split: if_splits)
next
  case (loop w w')
  then show ?case by (rule worker_loop_inv)
qed

lemma worker_reachable_inv: "(worker_step False)\<^sup>*\<^sup>* worker_new w \<Longrightarrow> worker_inv w"
proof (induction rule: rtranclp_induct)
  case base
  then show ?case by (simp add: worker_inv_def worker_new_def)
qed (rule worker_step_inv)

text \<open>The goroutine a Stop waits for can always end, by entering its select and finding its channel closed.\<close>

lemma worker_can_end:
  assumes "worker_inv w" and "\<not> wk_started w" and "wk_loops w \<noteq> []"
  shows "\<exists>w'. worker_loop\<^sup>*\<^sup>* w w' \<and> wk_loops w' = [] \<and> wk_waiting w' = wk_waiting w"
proof -
  have closed: "wk_stop w \<in> set (wk_closed w)" using assms by (auto simp: worker_inv_def)
  obtain pc where pc: "wk_loops w = [pc]" "pc = Outside \<or> pc = Selecting (wk_stop w)"
    using assms(1,3) by (cases "wk_loops w") (auto simp: worker_inv_def)
  let ?s = "w\<lparr>wk_loops := [Selecting (wk_stop w)]\<rparr>"
  have "worker_loop\<^sup>*\<^sup>* w ?s"
  proof (cases "pc = Outside")
    case True
    then show ?thesis using pc(1) worker_loop.select [of w "[]" "[]"] by auto
  next
    case False
    then have "?s = w" using pc by (cases w) simp
    then show ?thesis by simp
  qed
  also have "worker_loop ?s (w\<lparr>wk_loops := []\<rparr>)"
    using worker_loop.stopped [of ?s "[]" "wk_stop w" "[]"] closed by simp
  finally show ?thesis by (intro exI [of _ "w\<lparr>wk_loops := []\<rparr>"]) simp
qed

text \<open>
  C40. A worker that is not started while it is being stopped never runs two goroutines: in every
  interleaving of starts, stops and the goroutine's own steps at most one runs, and none when the
  worker is stopped and no Stop is still waiting. While a Stop waits, the goroutine finds its
  channel closed the next time it looks, so that it can always end and the Stop return; when it
  does, no goroutine is left. A Stop of a worker that is already stopped returns at once and says
  nothing about the goroutine, for which the first Stop may still be waiting.
\<close>

theorem worker_runs_once:
  assumes "(worker_step False)\<^sup>*\<^sup>* worker_new w"
  shows "length (wk_loops w) \<le> 1
    \<and> (\<not> wk_started w \<and> wk_waiting w = 0 \<longrightarrow> wk_loops w = [])
    \<and> (\<not> wk_started w \<and> wk_loops w \<noteq> [] \<longrightarrow> wk_stop w \<in> set (wk_closed w) \<and> set (wk_loops w) \<subseteq> {Outside, Selecting (wk_stop w)})
    \<and> (0 < wk_waiting w \<longrightarrow> (\<exists>w1 w2. worker_loop\<^sup>*\<^sup>* w w1 \<and> worker_Wait w1 = Some w2))
    \<and> (\<forall>w2. worker_Wait w = Some w2 \<longrightarrow> \<not> wk_started w2 \<and> wk_loops w2 = [])
    \<and> (\<not> wk_started w \<longrightarrow> worker_Stop w = w)"
proof -
  have inv: "worker_inv w" by (rule worker_reachable_inv [OF assms])
  have "\<exists>w1 w2. worker_loop\<^sup>*\<^sup>* w w1 \<and> worker_Wait w1 = Some w2" if "0 < wk_waiting w"
  proof (cases "wk_loops w = []")
    case True
    then have "worker_Wait w = Some (w\<lparr>wk_waiting := wk_waiting w - 1\<rparr>)" using that by (simp add: worker_Wait_def)
    then show ?thesis by blast
  next
    case False
    have "\<not> wk_started w" using inv that by (auto simp: worker_inv_def)
    from worker_can_end [OF inv this False] obtain w1 where "worker_loop\<^sup>*\<^sup>* w w1" "wk_loops w1 = []" "wk_waiting w1 = wk_waiting w"
      by blast
    then have "worker_Wait w1 = Some (w1\<lparr>wk_waiting := wk_waiting w1 - 1\<rparr>)" using that by (simp add: worker_Wait_def)
    then show ?thesis using \<open>worker_loop\<^sup>*\<^sup>* w w1\<close> by blast
  qed
  moreover have "\<not> wk_started w2 \<and> wk_loops w2 = []" if "worker_Wait w = Some w2" for w2
    using that inv by (auto simp: worker_Wait_def worker_inv_def split: if_splits)
  moreover have "\<not> wk_started w \<longrightarrow> worker_Stop w = w" by (simp add: worker_Stop_def)
  ultimately show ?thesis using inv by (auto simp: worker_inv_def)
qed

theorem worker_runs_once_witness:
  "let w = worker_Stop (worker_Start worker_new) in
     length (wk_loops w) = 1 \<and> worker_Stop w = w \<and> (\<exists>w1 w2. worker_loop\<^sup>*\<^sup>* w w1 \<and> worker_Wait w1 = Some w2)"
proof -
  let ?w = "worker_Stop (worker_Start worker_new)"
  have "worker_step False worker_new (worker_Start worker_new)"
    by (rule worker_step.start) (simp add: worker_new_def)
  then have "(worker_step False)\<^sup>*\<^sup>* worker_new ?w"
    using worker_step.stop by (metis converse_rtranclp_into_rtranclp r_into_rtranclp)
  from worker_runs_once [OF this]
  have "\<not> wk_started ?w \<longrightarrow> worker_Stop ?w = ?w"
    "0 < wk_waiting ?w \<longrightarrow> (\<exists>w1 w2. worker_loop\<^sup>*\<^sup>* ?w w1 \<and> worker_Wait w1 = Some w2)" by blast+
  moreover have "\<not> wk_started ?w" "0 < wk_waiting ?w" "length (wk_loops ?w) = 1"
    by (simp_all add: worker_Stop_def worker_Start_def worker_new_def)
  ultimately show ?thesis unfolding Let_def by blast
qed

text \<open>
  Start during a Stop is different: a goroutine that is working while both happen comes back to the
  new channel. Two goroutines run then, and the Stop waits for both although it closed a channel
  neither of them listens to.
\<close>

lemma restart_race:
  "\<exists>w. (worker_step True)\<^sup>*\<^sup>* worker_new w \<and> wk_waiting w = 1
    \<and> wk_loops w = [Selecting (wk_stop w), Selecting (wk_stop w)] \<and> wk_stop w \<notin> set (wk_closed w)"
proof -
  let ?w = "\<lambda>s n c l k. \<lparr>wk_started = s, wk_stop = n, wk_closed = c, wk_loops = l, wk_waiting = k\<rparr>"
  have "worker_step True worker_new (?w True 1 [] [Outside] 0)"
    using worker_step.start [of True worker_new] by (simp add: worker_Start_def worker_new_def)
  moreover have "worker_step True (?w True 1 [] [Outside] 0) (?w False 1 [1] [Outside] 1)"
    using worker_step.stop [of True "?w True 1 [] [Outside] 0"] by (simp add: worker_Stop_def)
  moreover have "worker_step True (?w False 1 [1] [Outside] 1) (?w True 2 [1] [Outside, Outside] 1)"
    using worker_step.start [of True "?w False 1 [1] [Outside] 1"] by (simp add: worker_Start_def numeral_2_eq_2)
  moreover have "worker_step True (?w True 2 [1] [Outside, Outside] 1) (?w True 2 [1] [Selecting 2, Outside] 1)"
    using worker_loop.select [of "?w True 2 [1] [Outside, Outside] 1" "[]" "[Outside]"] by (auto intro: worker_step.loop)
  moreover have "worker_step True (?w True 2 [1] [Selecting 2, Outside] 1) (?w True 2 [1] [Selecting 2, Selecting 2] 1)"
    using worker_loop.select [of "?w True 2 [1] [Selecting 2, Outside] 1" "[Selecting 2]" "[]"] by (auto intro: worker_step.loop)
  ultimately have "(worker_step True)\<^sup>*\<^sup>* worker_new (?w True 2 [1] [Selecting 2, Selecting 2] 1)"
    by (meson converse_rtranclp_into_rtranclp r_into_rtranclp)
  then show ?thesis by (intro exI conjI) auto
qed

end
