(* ===== verification/Gateway_Model.thy ===== *)
theory Gateway_Model
  imports User_Model "HOL-Library.AList"
begin

text \<open>
  The API gateway (src/services/api-gateway, in Rust): its errors, the circuit breaker in front of
  every service, validation, authentication, rate limiting, the administration of flags, the
  GraphQL operations that carry no prices, and the subscriptions over Redis. The generated gRPC
  clients, the crates jsonwebtoken, uuid and redis are parameters. Rust's \<^verbatim>\<open>u32\<close> is a 32-bit word and
  instants are nanoseconds.
\<close>

section \<open>Errors\<close>

datatype ApiError =
    Unauthenticated | Forbidden | RateLimited | CircuitOpen string | Downstream string
  | InvalidArgument string | Internal string

fun ApiError_status :: "ApiError \<Rightarrow> nat" where
  "ApiError_status Unauthenticated = 401"
| "ApiError_status Forbidden = 403"
| "ApiError_status RateLimited = 429"
| "ApiError_status (CircuitOpen _) = 503"
| "ApiError_status (InvalidArgument _) = 400"
| "ApiError_status (Downstream _) = 500"
| "ApiError_status (Internal _) = 500"

type_synonym 'a api = "ApiError + 'a"

text \<open>What a gRPC client returns: a status with its code and message, or the response.\<close>

type_synonym 'a grpc = "(code \<times> string) + 'a"

definition ApiError_from_Status :: "code \<times> string \<Rightarrow> ApiError" where
  "ApiError_from_Status status = Downstream (snd status)"

section \<open>The circuit breaker\<close>

datatype Status = Closed | Open | HalfOpen

record CircuitBreaker =
  cb_status :: Status
  cb_failures :: "32 word"
  cb_last_failure :: "int option"
  cb_threshold :: "32 word"
  cb_timeout :: int

definition CircuitBreaker_new :: "32 word \<Rightarrow> int \<Rightarrow> CircuitBreaker" where
  "CircuitBreaker_new threshold timeout =
     \<lparr>cb_status = Closed, cb_failures = 0, cb_last_failure = None, cb_threshold = threshold, cb_timeout = timeout\<rparr>"

definition CircuitBreaker_default :: CircuitBreaker where
  "CircuitBreaker_default = CircuitBreaker_new 5 (30 * second)"

text \<open>\<open>now\<close> is the reading of the clock; \<^verbatim>\<open>elapsed\<close> is never negative.\<close>

definition pre_call :: "string \<Rightarrow> int \<Rightarrow> CircuitBreaker \<Rightarrow> Status api \<times> CircuitBreaker" where
  "pre_call service now state =
     (if cb_status state = Open then
        (let elapsed = max 0 (now - (case cb_last_failure state of Some t \<Rightarrow> t | None \<Rightarrow> now))
         in if elapsed < cb_timeout state then (Inl (CircuitOpen service), state)
            else (Inr HalfOpen, state\<lparr>cb_status := HalfOpen\<rparr>))
      else (Inr (cb_status state), state))"

definition record_success :: "CircuitBreaker \<Rightarrow> CircuitBreaker" where
  "record_success state = state\<lparr>cb_failures := 0, cb_status := Closed\<rparr>"

text \<open>The counter wraps around, as release builds of Rust do.\<close>

definition record_failure :: "int \<Rightarrow> CircuitBreaker \<Rightarrow> CircuitBreaker" where
  "record_failure now state =
     (let state = state\<lparr>cb_failures := cb_failures state + 1, cb_last_failure := Some now\<rparr>
      in if cb_failures state \<ge> cb_threshold state then state\<lparr>cb_status := Open\<rparr> else state)"

text \<open>
  A call that starts at \<open>t0\<close> and ends at \<open>t1\<close>. The lock is not held while \<open>f\<close> runs; the
  interleavings of several calls are the sequences of events of \<open>cb_after\<close> below.
\<close>

definition CircuitBreaker_call ::
  "string \<Rightarrow> int \<Rightarrow> int \<Rightarrow> ('s \<Rightarrow> 'a api \<times> 's) \<Rightarrow> CircuitBreaker \<Rightarrow> 's \<Rightarrow> 'a api \<times> CircuitBreaker \<times> 's" where
  "CircuitBreaker_call service t0 t1 f cb s =
     (case pre_call service t0 cb of
        (Inl err, cb1) \<Rightarrow> (Inl err, cb1, s)
      | (Inr _, cb1) \<Rightarrow>
          (case f s of
             (Inr v, s1) \<Rightarrow> (Inr v, record_success cb1, s1)
           | (Inl err, s1) \<Rightarrow> (Inl err, record_failure t1 cb1, s1)))"

section \<open>Clients\<close>

text \<open>The breakers by service; the services behind the clients are the state \<open>'s\<close>.\<close>

record 's gateway =
  breakers :: "(string \<times> CircuitBreaker) list"
  services :: 's

definition Clients_new :: "'s \<Rightarrow> 's gateway" where
  "Clients_new s =
     \<lparr>breakers = map (\<lambda>service. (service, CircuitBreaker_default))
        [''user'', ''catalog'', ''order'', ''inventory'', ''payment'', ''analytics''],
      services = s\<rparr>"

definition put_breaker :: "string \<Rightarrow> CircuitBreaker \<Rightarrow> (string \<times> CircuitBreaker) list \<Rightarrow> (string \<times> CircuitBreaker) list" where
  "put_breaker service cb bs = map (\<lambda>(k, b). (k, if k = service then cb else b)) bs"

text \<open>The clone of a breaker shares its state; the breaker of an unknown service is dropped after the call.\<close>

definition Clients_call ::
  "string \<Rightarrow> int \<Rightarrow> int \<Rightarrow> ('s \<Rightarrow> 'a grpc \<times> 's) \<Rightarrow> 's gateway \<Rightarrow> 'a api \<times> 's gateway" where
  "Clients_call service t0 t1 fut g =
     (let breaker = (case map_of (breakers g) service of Some b \<Rightarrow> b | None \<Rightarrow> CircuitBreaker_default);
          f = (\<lambda>s. case fut s of (Inl status, s1) \<Rightarrow> (Inl (ApiError_from_Status status), s1) | (Inr v, s1) \<Rightarrow> (Inr v, s1))
      in case CircuitBreaker_call service t0 t1 f breaker (services g) of
           (r, cb, s1) \<Rightarrow> (r, \<lparr>breakers = put_breaker service cb (breakers g), services = s1\<rparr>))"

section \<open>Validation\<close>

definition char_between :: "nat \<Rightarrow> nat \<Rightarrow> char \<Rightarrow> bool" where
  "char_between a b c \<longleftrightarrow> a \<le> of_char c \<and> of_char c \<le> b"

definition is_letter :: "char \<Rightarrow> bool" where
  "is_letter c \<longleftrightarrow> char_between 65 90 c \<or> char_between 97 122 c"

definition is_alnum :: "char \<Rightarrow> bool" where
  "is_alnum c \<longleftrightarrow> is_letter c \<or> char_between 48 57 c"

text \<open>
  The expression \<^verbatim>\<open>^[A-Za-z0-9._%+-]+@[A-Za-z0-9.-]+\.[A-Za-z]{2,}$\<close>: the part before the first
  \<open>@\<close>, and the rest cut at its last dot.
\<close>

definition EMAIL_RE :: "string \<Rightarrow> bool" where
  "EMAIL_RE s =
     (let user = takeWhile (\<lambda>c. c \<noteq> CHR ''@'') s;
          rest = drop (length user) s;
          top = rev (takeWhile (\<lambda>c. c \<noteq> CHR ''.'') (rev (tl rest)));
          domain = take (length (tl rest) - length top) (tl rest)
      in rest \<noteq> [] \<and> user \<noteq> [] \<and> list_all (\<lambda>c. is_alnum c \<or> c \<in> set ''._%+-'') user
       \<and> domain \<noteq> [] \<and> butlast domain \<noteq> [] \<and> list_all (\<lambda>c. is_alnum c \<or> c \<in> set ''.-'') (butlast domain)
       \<and> 2 \<le> length top \<and> list_all is_letter top)"

definition validate_email :: "string \<Rightarrow> unit api" where
  "validate_email email =
     (if email = '''' \<or> \<not> EMAIL_RE email then Inl (InvalidArgument (''invalid email: '' @ email)) else Inr ())"

definition validate_uuid :: "(string \<Rightarrow> bool) \<Rightarrow> string \<Rightarrow> unit api" where
  "validate_uuid parse_str i = (if \<not> parse_str i then Inl (InvalidArgument (''invalid uuid: '' @ i)) else Inr ())"

definition validate_positive_quantity :: "int \<Rightarrow> unit api" where
  "validate_positive_quantity quantity =
     (if quantity \<le> 0 then Inl (InvalidArgument (''quantity must be positive, got '' @ int_str quantity)) else Inr ())"

section \<open>Authentication\<close>

record gw_Claims =
  claims_sub :: string
  claims_role :: string
  claims_exp :: int

record gw_Identity =
  gw_user_id :: string
  gw_role :: string
  gw_token :: string

definition is_admin :: "gw_Identity \<Rightarrow> bool" where
  "is_admin i \<longleftrightarrow> gw_role i = ''admin''"

text \<open>\<open>decode secret token\<close> stands for the crate jsonwebtoken with its default validation for HS256.\<close>

definition JwtVerifier_verify :: "(string \<Rightarrow> string \<Rightarrow> gw_Claims option) \<Rightarrow> string \<Rightarrow> string \<Rightarrow> gw_Identity api" where
  "JwtVerifier_verify decode secret token =
     (case decode secret token of
        None \<Rightarrow> Inl Unauthenticated
      | Some claims \<Rightarrow> Inr \<lparr>gw_user_id = claims_sub claims, gw_role = claims_role claims, gw_token = token\<rparr>)"

definition strip_prefix :: "string \<Rightarrow> string \<Rightarrow> string option" where
  "strip_prefix s p = (if take (length p) s = p then Some (drop (length p) s) else None)"

text \<open>
  \<open>header\<close> is the Authorization header when it is there and is visible ASCII. \<open>next\<close> is the rest of
  the stack, called with the identity among the extensions of the request.
\<close>

definition auth_middleware ::
  "(string \<Rightarrow> string \<Rightarrow> gw_Claims option) \<Rightarrow> string \<Rightarrow> string option \<Rightarrow> (gw_Identity option \<Rightarrow> 's \<Rightarrow> 'a api \<times> 's) \<Rightarrow>
   's \<Rightarrow> 'a api \<times> 's" where
  "auth_middleware decode secret header next_fn s =
     (case header of
        None \<Rightarrow> next_fn None s
      | Some auth_str \<Rightarrow>
          (case strip_prefix auth_str ''Bearer '' of
             None \<Rightarrow> next_fn None s
           | Some token \<Rightarrow>
               (case JwtVerifier_verify decode secret token of
                  Inl err \<Rightarrow> (Inl err, s)
                | Inr identity \<Rightarrow> next_fn (Some identity) s)))"

definition require_identity :: "gw_Identity option \<Rightarrow> gw_Identity api" where
  "require_identity ident = (case ident of None \<Rightarrow> Inl Unauthenticated | Some i \<Rightarrow> Inr i)"

section \<open>Rate limiting\<close>

text \<open>The limiter in memory: the instants of the calls allowed by key.\<close>

definition check_memory :: "string \<Rightarrow> 32 word \<Rightarrow> int \<Rightarrow> int \<Rightarrow> (string \<Rightarrow> int list) \<Rightarrow> unit api \<times> (string \<Rightarrow> int list)" where
  "check_memory key limit window now state =
     (let entries = filter (\<lambda>t. t \<ge> now - window) (state key)
      in if length entries \<ge> unat limit then (Inl RateLimited, state(key := entries))
         else (Inr (), state(key := entries @ [now])))"

text \<open>
  The sorted sets of Redis as the limiter uses them: drop the members with a score from 0 to the
  cutoff, count the members, and add a member with its score and an expiry.
\<close>

record 'c zset_client =
  zset_trim :: "string \<Rightarrow> int \<Rightarrow> int \<Rightarrow> 'c \<Rightarrow> unit api \<times> 'c"
  zset_card :: "string \<Rightarrow> 'c \<Rightarrow> nat api \<times> 'c"
  zset_add :: "string \<Rightarrow> int \<Rightarrow> int \<Rightarrow> int \<Rightarrow> 'c \<Rightarrow> unit api \<times> 'c"

definition check_redis :: "'c zset_client \<Rightarrow> string \<Rightarrow> 32 word \<Rightarrow> int \<Rightarrow> int \<Rightarrow> 'c \<Rightarrow> unit api \<times> 'c" where
  "check_redis R key limit window_s now_ms c =
     (let redis_key = ''ratelimit:'' @ key; cutoff = max 0 (now_ms - window_s * 1000) in
      case zset_trim R redis_key 0 cutoff c of
        (Inl err, c1) \<Rightarrow> (Inl err, c1)
      | (Inr _, c1) \<Rightarrow>
          (case zset_card R redis_key c1 of
             (Inl err, c2) \<Rightarrow> (Inl err, c2)
           | (Inr count, c2) \<Rightarrow>
               if count \<ge> unat limit then (Inl RateLimited, c2)
               else zset_add R redis_key now_ms now_ms (window_s + 1) c2))"

definition rate_limit_middleware ::
  "(string \<Rightarrow> 's \<Rightarrow> unit api \<times> 's) \<Rightarrow> string \<Rightarrow> gw_Identity option \<Rightarrow> ('s \<Rightarrow> 'a api \<times> 's) \<Rightarrow> 's \<Rightarrow> 'a api \<times> 's" where
  "rate_limit_middleware check ip identity next_fn s =
     (case check (''ip:'' @ ip) s of
        (Inl err, s1) \<Rightarrow> (Inl err, s1)
      | (Inr _, s1) \<Rightarrow>
          (case identity of
             None \<Rightarrow> next_fn s1
           | Some i \<Rightarrow>
               (case check (''user:'' @ gw_user_id i) s1 of
                  (Inl err, s2) \<Rightarrow> (Inl err, s2)
                | (Inr _, s2) \<Rightarrow> next_fn s2)))"

section \<open>Flags\<close>

text \<open>
  The store in a Redis hash or in memory. The commands include taking a connection from the pool
  and the conversion of the replies, which the crate redis does.
\<close>

record 'c flag_hash =
  cmd_HGETALL :: "string \<Rightarrow> 'c \<Rightarrow> (string \<times> bool) list api \<times> 'c"
  cmd_HSET :: "string \<Rightarrow> string \<Rightarrow> int \<Rightarrow> 'c \<Rightarrow> unit api \<times> 'c"
  cmd_HGET :: "string \<Rightarrow> string \<Rightarrow> 'c \<Rightarrow> int option api \<times> 'c"

record 'c FlagStore =
  flag_pool :: "'c flag_hash option"
  flag_conn :: 'c
  flag_map :: "(string \<times> bool) list"

definition FlagStore_list :: "'c FlagStore \<Rightarrow> (string \<times> bool) list api \<times> 'c FlagStore" where
  "FlagStore_list s =
     (case flag_pool s of
        Some pool \<Rightarrow> (case cmd_HGETALL pool ''feature_flags'' (flag_conn s) of (r, c) \<Rightarrow> (r, s\<lparr>flag_conn := c\<rparr>))
      | None \<Rightarrow> (Inr (flag_map s), s))"

definition FlagStore_set :: "string \<Rightarrow> bool \<Rightarrow> 'c FlagStore \<Rightarrow> unit api \<times> 'c FlagStore" where
  "FlagStore_set name enabled s =
     (case flag_pool s of
        Some pool \<Rightarrow>
          (case cmd_HSET pool ''feature_flags'' name (if enabled then 1 else 0) (flag_conn s) of
             (r, c) \<Rightarrow> (r, s\<lparr>flag_conn := c\<rparr>))
      | None \<Rightarrow> (Inr (), s\<lparr>flag_map := AList.update name enabled (flag_map s)\<rparr>))"

definition FlagStore_is_enabled :: "string \<Rightarrow> 'c FlagStore \<Rightarrow> bool api \<times> 'c FlagStore" where
  "FlagStore_is_enabled name s =
     (case flag_pool s of
        Some pool \<Rightarrow>
          (case cmd_HGET pool ''feature_flags'' name (flag_conn s) of
             (Inl err, c) \<Rightarrow> (Inl err, s\<lparr>flag_conn := c\<rparr>)
           | (Inr v, c) \<Rightarrow> (Inr ((case v of Some n \<Rightarrow> n | None \<Rightarrow> 0) \<noteq> 0), s\<lparr>flag_conn := c\<rparr>))
      | None \<Rightarrow> (Inr (case map_of (flag_map s) name of Some b \<Rightarrow> b | None \<Rightarrow> False), s))"

definition require_admin :: "gw_Identity option \<Rightarrow> ('s \<Rightarrow> 'a api \<times> 's) \<Rightarrow> 's \<Rightarrow> 'a api \<times> 's" where
  "require_admin identity next_fn s =
     (case identity of
        Some i \<Rightarrow> if is_admin i then next_fn s else (Inl Forbidden, s)
      | None \<Rightarrow> (Inl Unauthenticated, s))"

datatype flag_route = List_flags | Enable_flag string | Disable_flag string

text \<open>The answer of the routes that change a flag repeats the flag and its new state.\<close>

definition flags_router ::
  "flag_route \<Rightarrow> gw_Identity option \<Rightarrow> 'c FlagStore \<Rightarrow> (string \<times> bool) list api \<times> 'c FlagStore" where
  "flags_router route identity =
     require_admin identity (\<lambda>s.
       case route of
         List_flags \<Rightarrow> FlagStore_list s
       | Enable_flag flag \<Rightarrow>
           (case FlagStore_set flag True s of (Inl err, s1) \<Rightarrow> (Inl err, s1) | (Inr _, s1) \<Rightarrow> (Inr [(flag, True)], s1))
       | Disable_flag flag \<Rightarrow>
           (case FlagStore_set flag False s of (Inl err, s1) \<Rightarrow> (Inl err, s1) | (Inr _, s1) \<Rightarrow> (Inr [(flag, False)], s1)))"

section \<open>GraphQL operations\<close>

text \<open>
  The metadata of a request: the Authorization header when the token makes a valid value.
  \<open>metadata_ok\<close> is the check of the crate tonic.
\<close>

definition with_auth :: "(string \<Rightarrow> bool) \<Rightarrow> gw_Identity option \<Rightarrow> string option" where
  "with_auth metadata_ok identity =
     (case identity of
        None \<Rightarrow> None
      | Some i \<Rightarrow> let value = ''Bearer '' @ gw_token i in if metadata_ok value then Some value else None)"

text \<open>The generated clients the operations below call, each with the metadata and the message.\<close>

record 's stubs =
  stub_get_user :: "string option \<Rightarrow> string \<Rightarrow> 's \<Rightarrow> GetUserResponse grpc \<times> 's"
  stub_register :: "RegisterRequest \<Rightarrow> 's \<Rightarrow> string grpc \<times> 's"
  stub_login :: "LoginRequest \<Rightarrow> 's \<Rightarrow> string grpc \<times> 's"
  stub_get_stock :: "string option \<Rightarrow> string \<Rightarrow> 's \<Rightarrow> (int \<times> int) grpc \<times> 's"
  stub_cancel_order :: "string option \<Rightarrow> string \<Rightarrow> 's \<Rightarrow> unit grpc \<times> 's"

record gql_User =
  gql_id :: string
  gql_email :: string
  gql_name :: string
  gql_created_at :: string

record gql_Inventory =
  gql_product_id :: string
  gql_available :: int
  gql_reserved :: int

definition gql_user_of :: "GetUserResponse \<Rightarrow> gql_User" where
  "gql_user_of u = \<lparr>gql_id = GetUserResponse_UserId u, gql_email = GetUserResponse_Email u,
     gql_name = GetUserResponse_Name u, gql_created_at = GetUserResponse_CreatedAt u\<rparr>"

text \<open>The times at which the call to the service starts and ends are \<open>t0\<close> and \<open>t1\<close>.\<close>

definition Query_me ::
  "'s stubs \<Rightarrow> (string \<Rightarrow> bool) \<Rightarrow> int \<Rightarrow> int \<Rightarrow> gw_Identity option \<Rightarrow> 's gateway \<Rightarrow> gql_User option api \<times> 's gateway" where
  "Query_me C metadata_ok t0 t1 identity g =
     (case require_identity identity of
        Inl err \<Rightarrow> (Inl err, g)
      | Inr i \<Rightarrow>
          (case Clients_call ''user'' t0 t1 (stub_get_user C (with_auth metadata_ok (Some i)) '''') g of
             (Inl err, g1) \<Rightarrow> (Inl err, g1)
           | (Inr u, g1) \<Rightarrow> (Inr (Some (gql_user_of u)), g1)))"

definition Query_user ::
  "'s stubs \<Rightarrow> (string \<Rightarrow> bool) \<Rightarrow> (string \<Rightarrow> bool) \<Rightarrow> int \<Rightarrow> int \<Rightarrow> gw_Identity option \<Rightarrow> string \<Rightarrow> 's gateway \<Rightarrow>
   gql_User option api \<times> 's gateway" where
  "Query_user C metadata_ok parse_str t0 t1 identity i g =
     (case validate_uuid parse_str i of
        Inl err \<Rightarrow> (Inl err, g)
      | Inr _ \<Rightarrow>
          (case Clients_call ''user'' t0 t1 (stub_get_user C (with_auth metadata_ok identity) i) g of
             (Inl err, g1) \<Rightarrow> (Inl err, g1)
           | (Inr u, g1) \<Rightarrow> (Inr (Some (gql_user_of u)), g1)))"

definition Query_inventory ::
  "'s stubs \<Rightarrow> (string \<Rightarrow> bool) \<Rightarrow> (string \<Rightarrow> bool) \<Rightarrow> int \<Rightarrow> int \<Rightarrow> gw_Identity option \<Rightarrow> string \<Rightarrow> 's gateway \<Rightarrow>
   gql_Inventory option api \<times> 's gateway" where
  "Query_inventory C metadata_ok parse_str t0 t1 identity product_id g =
     (case validate_uuid parse_str product_id of
        Inl err \<Rightarrow> (Inl err, g)
      | Inr _ \<Rightarrow>
          (case Clients_call ''inventory'' t0 t1 (stub_get_stock C (with_auth metadata_ok identity) product_id) g of
             (Inl err, g1) \<Rightarrow> (Inl err, g1)
           | (Inr (available, reserved), g1) \<Rightarrow>
               (Inr (Some \<lparr>gql_product_id = product_id, gql_available = available, gql_reserved = reserved\<rparr>), g1)))"

definition Mutation_register ::
  "'s stubs \<Rightarrow> int \<Rightarrow> int \<Rightarrow> string \<Rightarrow> string \<Rightarrow> string \<Rightarrow> 's gateway \<Rightarrow> string api \<times> 's gateway" where
  "Mutation_register C t0 t1 email password name g =
     (case validate_email email of
        Inl err \<Rightarrow> (Inl err, g)
      | Inr _ \<Rightarrow>
          Clients_call ''user'' t0 t1 (stub_register C \<lparr>RegisterRequest_Email = email,
            RegisterRequest_Password = password, RegisterRequest_Name = name\<rparr>) g)"

definition Mutation_login ::
  "'s stubs \<Rightarrow> int \<Rightarrow> int \<Rightarrow> string \<Rightarrow> string \<Rightarrow> 's gateway \<Rightarrow> string api \<times> 's gateway" where
  "Mutation_login C t0 t1 email password g =
     (case validate_email email of
        Inl err \<Rightarrow> (Inl err, g)
      | Inr _ \<Rightarrow>
          Clients_call ''user'' t0 t1 (stub_login C \<lparr>LoginRequest_Email = email, LoginRequest_Password = password\<rparr>) g)"

definition Mutation_cancel_order ::
  "'s stubs \<Rightarrow> (string \<Rightarrow> bool) \<Rightarrow> (string \<Rightarrow> bool) \<Rightarrow> int \<Rightarrow> int \<Rightarrow> gw_Identity option \<Rightarrow> string \<Rightarrow> 's gateway \<Rightarrow>
   bool api \<times> 's gateway" where
  "Mutation_cancel_order C metadata_ok parse_str t0 t1 identity order_id g =
     (case validate_uuid parse_str order_id of
        Inl err \<Rightarrow> (Inl err, g)
      | Inr _ \<Rightarrow>
          (case require_identity identity of
             Inl err \<Rightarrow> (Inl err, g)
           | Inr i \<Rightarrow>
               (case Clients_call ''order'' t0 t1 (stub_cancel_order C (with_auth metadata_ok (Some i)) order_id) g of
                  (Inl err, g1) \<Rightarrow> (Inl err, g1)
                | (Inr _, g1) \<Rightarrow> (Inr True, g1))))"

fun order_status_to_string :: "int \<Rightarrow> string" where
  "order_status_to_string s =
     (if s = 1 then ''pending'' else if s = 2 then ''awaiting_payment'' else if s = 3 then ''paid''
      else if s = 4 then ''processing'' else if s = 5 then ''shipped'' else if s = 6 then ''delivered''
      else if s = 7 then ''cancelled'' else if s = 8 then ''refunded'' else '''')"

section \<open>Subscriptions\<close>

text \<open>
  Deserialising a struct with the crate serde: from an object in which no known field is repeated
  and unknown ones are skipped, or from an array with one element per field.
\<close>

definition serde_struct :: "string list \<Rightarrow> json \<Rightarrow> json option list option" where
  "serde_struct names j =
     (case j of
        JObj kvs \<Rightarrow>
          if list_all (\<lambda>n. length (filter (\<lambda>k. k = n) (map fst kvs)) \<le> 1) names then Some (map (map_of kvs) names) else None
      | JArr xs \<Rightarrow> if length xs = length names then Some (map Some xs) else None
      | _ \<Rightarrow> None)"

fun serde_String :: "json option \<Rightarrow> string option" where
  "serde_String (Some (JStr s)) = Some s"
| "serde_String _ = None"

fun serde_opt_String :: "json option \<Rightarrow> string option option" where
  "serde_opt_String None = Some None"
| "serde_opt_String (Some JNull) = Some None"
| "serde_opt_String (Some (JStr s)) = Some (Some s)"
| "serde_opt_String _ = None"

fun serde_i32 :: "json option \<Rightarrow> int option" where
  "serde_i32 (Some (JNum n)) = (if int4_ok n then Some n else None)"
| "serde_i32 _ = None"

record OrderPayload =
  payload_order_id :: string
  payload_status :: string
  payload_user_id :: "string option"

definition OrderPayload_of :: "json \<Rightarrow> OrderPayload option" where
  "OrderPayload_of j =
     (case serde_struct [''order_id'', ''status'', ''user_id''] j of
        Some [a, b, c] \<Rightarrow>
          (case (serde_String a, serde_String b, serde_opt_String c) of
             (Some i, Some s, Some u) \<Rightarrow> Some \<lparr>payload_order_id = i, payload_status = s, payload_user_id = u\<rparr>
           | _ \<Rightarrow> None)
      | _ \<Rightarrow> None)"

definition OrderEvent_of :: "json \<Rightarrow> OrderPayload option" where
  "OrderEvent_of j =
     (case serde_struct [''topic'', ''user_id'', ''payload''] j of
        Some [t, u, p] \<Rightarrow>
          (case (serde_String t, serde_opt_String u, p) of
             (Some _, Some _, Some p) \<Rightarrow> OrderPayload_of p
           | _ \<Rightarrow> None)
      | _ \<Rightarrow> None)"

record gql_Order =
  gql_order_id :: string
  gql_order_user :: string
  gql_order_status :: string

text \<open>The items, the amount and the dates of an order built from an event are empty.\<close>

definition Order_from_payload :: "OrderPayload \<Rightarrow> gql_Order" where
  "Order_from_payload p = \<lparr>gql_order_id = payload_order_id p,
     gql_order_user = (case payload_user_id p of Some u \<Rightarrow> u | None \<Rightarrow> ''''), gql_order_status = payload_status p\<rparr>"

definition InventoryPayload_of :: "json \<Rightarrow> gql_Inventory option" where
  "InventoryPayload_of j =
     (case serde_struct [''product_id'', ''available'', ''reserved''] j of
        Some [a, b, c] \<Rightarrow>
          (case (serde_String a, serde_i32 b, serde_i32 c) of
             (Some i, Some n, Some r) \<Rightarrow> Some \<lparr>gql_product_id = i, gql_available = n, gql_reserved = r\<rparr>
           | _ \<Rightarrow> None)
      | _ \<Rightarrow> None)"

definition InventoryEvent_of :: "json \<Rightarrow> gql_Inventory option" where
  "InventoryEvent_of j =
     (case serde_struct [''topic'', ''payload''] j of
        Some [t, p] \<Rightarrow> (case (serde_String t, p) of (Some _, Some p) \<Rightarrow> InventoryPayload_of p | _ \<Rightarrow> None)
      | _ \<Rightarrow> None)"

text \<open>
  A stream as the items it yields while the client listens: an error when the subscription fails,
  otherwise an item for every message on the channel that decodes and names the right id.
\<close>

definition order_channel :: "string \<Rightarrow> string" where
  "order_channel order_id = ''order-events:'' @ order_id"

definition order_items :: "string \<Rightarrow> json list \<Rightarrow> gql_Order list" where
  "order_items order_id messages =
     map Order_from_payload (filter (\<lambda>p. payload_order_id p = order_id) (List.map_filter OrderEvent_of messages))"

text \<open>\<open>pubsub channel\<close> is what Redis delivers to a subscriber of the channel.\<close>

definition order_status_stream :: "(string \<Rightarrow> json list api) \<Rightarrow> string \<Rightarrow> gql_Order api list" where
  "order_status_stream pubsub order_id =
     (case pubsub (order_channel order_id) of
        Inl e \<Rightarrow> [Inl e]
      | Inr messages \<Rightarrow> map Inr (order_items order_id messages))"

definition inventory_channel :: "string \<Rightarrow> string" where
  "inventory_channel product_id = ''inventory-events:'' @ product_id"

definition inventory_items :: "string \<Rightarrow> json list \<Rightarrow> gql_Inventory list" where
  "inventory_items product_id messages =
     filter (\<lambda>p. gql_product_id p = product_id) (List.map_filter InventoryEvent_of messages)"

definition inventory_changed_stream :: "(string \<Rightarrow> json list api) \<Rightarrow> string \<Rightarrow> gql_Inventory api list" where
  "inventory_changed_stream pubsub product_id =
     (case pubsub (inventory_channel product_id) of
        Inl e \<Rightarrow> [Inl e]
      | Inr messages \<Rightarrow> map Inr (inventory_items product_id messages))"

definition Subscription_order_status ::
  "(string \<Rightarrow> json list api) \<Rightarrow> gw_Identity option \<Rightarrow> string \<Rightarrow> gql_Order api list api" where
  "Subscription_order_status pubsub identity order_id =
     (case require_identity identity of
        Inl err \<Rightarrow> Inl err
      | Inr _ \<Rightarrow> Inr (order_status_stream pubsub order_id))"

definition Subscription_inventory_changed ::
  "(string \<Rightarrow> json list api) \<Rightarrow> gw_Identity option \<Rightarrow> string \<Rightarrow> gql_Inventory api list api" where
  "Subscription_inventory_changed pubsub identity product_id =
     (case require_identity identity of
        Inl err \<Rightarrow> Inl err
      | Inr _ \<Rightarrow> Inr (inventory_changed_stream pubsub product_id))"

end
