(* ===== verification/Gateway_Props.thy ===== *)
theory Gateway_Props
  imports Gateway_Model
begin

text \<open>
  Properties of the API gateway: the circuit breaker against the history of the calls, what a
  refused call costs, and the language of the email expression.
\<close>

section \<open>The circuit breaker and the history of its calls\<close>















section \<open>Calls through the clients\<close>

lemma map_of_put_breaker:
  "map_of (put_breaker service cb bs) k = (if k = service then map_option (\<lambda>_. cb) (map_of bs k) else map_of bs k)"
  by (induction bs) (auto simp: put_breaker_def)

text \<open>A breaker that has seen \<open>n\<close> failures since it was closed.\<close>

definition failing :: "nat \<Rightarrow> CircuitBreaker \<Rightarrow> bool" where
  "failing n cb \<longleftrightarrow> cb_status cb = Closed \<and> unat (cb_failures cb) = n \<and> n < unat (cb_threshold cb)"

lemma Clients_call_fails:
  assumes "map_of (breakers g) service = Some cb" and "failing n cb" and "fut (services g) = (Inl status, s1)"
  shows "\<exists>cb1. Clients_call service t0 t1 fut g
      = (Inl (ApiError_from_Status status), \<lparr>breakers = put_breaker service cb1 (breakers g), services = s1\<rparr>)
    \<and> cb1 = record_failure t1 cb"
  using assms by (simp add: Clients_call_def CircuitBreaker_call_def pre_call_def failing_def)

lemma record_failure_failing:
  assumes "failing n cb"
  shows "Suc n < unat (cb_threshold cb) \<Longrightarrow> failing (Suc n) (record_failure t cb)"
    and "Suc n = unat (cb_threshold cb) \<Longrightarrow>
      cb_status (record_failure t cb) = Open \<and> cb_last_failure (record_failure t cb) = Some t"
    and "cb_threshold (record_failure t cb) = cb_threshold cb \<and> cb_timeout (record_failure t cb) = cb_timeout cb"
proof -
  have "unat (cb_threshold cb) < 2 ^ 32" using unsigned_less [of "cb_threshold cb", where 'a = nat] by simp
  then have "unat (cb_failures cb + 1) = Suc n"
    using assms by (subst unat_add_lem [THEN iffD1]) (auto simp: failing_def)
  then show "Suc n < unat (cb_threshold cb) \<Longrightarrow> failing (Suc n) (record_failure t cb)"
    and "Suc n = unat (cb_threshold cb) \<Longrightarrow>
      cb_status (record_failure t cb) = Open \<and> cb_last_failure (record_failure t cb) = Some t"
    and "cb_threshold (record_failure t cb) = cb_threshold cb \<and> cb_timeout (record_failure t cb) = cb_timeout cb"
    using assms by (auto simp: record_failure_def failing_def word_le_nat_alt Let_def)
qed

lemma Clients_call_refused:
  assumes "map_of (breakers g) service = Some cb" and "cb_status cb = Open" and "cb_last_failure cb = Some t"
    and "t \<le> t0" and "t0 < t + cb_timeout cb"
  shows "Clients_call service t0 t1 fut g = (Inl (CircuitOpen service), \<lparr>breakers = put_breaker service cb (breakers g), services = services g\<rparr>)"
  using assms by (simp add: Clients_call_def CircuitBreaker_call_def pre_call_def)

section \<open>Flags\<close>

text \<open>Without an administrator's identity no route of the flags reads or changes the store.\<close>

lemma flags_need_admin:
  assumes "\<not> (\<exists>i. identity = Some i \<and> is_admin i)"
  shows "\<exists>err. flags_router route identity s = (Inl err, s) \<and> err \<in> {Unauthenticated, Forbidden}"
  using assms by (cases identity) (auto simp: flags_router_def require_admin_def)

text \<open>A flag set in memory reads as it was set, and no other flag changes.\<close>

lemma flag_set_read:
  assumes "flag_pool s = None"
  shows "fst (FlagStore_is_enabled k (snd (FlagStore_set name b s)))
    = (if k = name then Inr b else fst (FlagStore_is_enabled k s))"
  using assms by (simp add: FlagStore_is_enabled_def FlagStore_set_def update_conv')

section \<open>Addresses\<close>

lemma EMAIL_RE_nonempty: "EMAIL_RE s \<Longrightarrow> s \<noteq> ''''"
  by (auto simp: EMAIL_RE_def)

lemma takeWhile_cut: "\<forall>x\<in>set xs. x \<noteq> c \<Longrightarrow> takeWhile (\<lambda>x. x \<noteq> c) (xs @ c # ys) = xs"
  by (induction xs) auto

lemma takeWhile_split:
  assumes "drop (length (takeWhile (\<lambda>x. x \<noteq> c) s)) s \<noteq> []"
  shows "s = takeWhile (\<lambda>x. x \<noteq> c) s @ c # tl (drop (length (takeWhile (\<lambda>x. x \<noteq> c) s)) s)"
  using assms by (induction s) auto

lemma takeWhile_split_rev:
  assumes "length (takeWhile (\<lambda>x. x \<noteq> c) (rev r)) < length r"
  shows "\<exists>d. r = d @ c # rev (takeWhile (\<lambda>x. x \<noteq> c) (rev r))
    \<and> take (length r - length (takeWhile (\<lambda>x. x \<noteq> c) (rev r))) r = d @ [c]"
proof -
  let ?t = "takeWhile (\<lambda>x. x \<noteq> c) (rev r)"
  have "rev r = ?t @ c # tl (drop (length ?t) (rev r))"
    using takeWhile_split [of c "rev r"] assms by simp
  then have r: "r = rev (tl (drop (length ?t) (rev r))) @ c # rev ?t"
    by (metis append_Cons append_Nil append_assoc rev.simps(2) rev_append rev_swap)
  let ?d = "rev (tl (drop (length ?t) (rev r)))"
  have "take (length r - length ?t) r = take (length (?d @ [c])) ((?d @ [c]) @ rev ?t)"
    by (metis r append_Cons append_Nil append_assoc length_append length_rev diff_add_inverse2)
  then have "take (length r - length ?t) r = ?d @ [c]" by (metis append_eq_conv_conj)
  then show ?thesis using r by blast
qed

lemma class_chars:
  "is_letter c \<Longrightarrow> c \<noteq> CHR ''.''" "is_alnum c \<Longrightarrow> c \<noteq> CHR ''@''"
  by (auto simp: is_letter_def is_alnum_def char_between_def)

text \<open>
  The check of an address accepts exactly the texts the regular expression describes: a name,
  an at sign, a domain, a dot and a top-level domain of at least two letters, each over its own
  characters.
\<close>

theorem email_language:
  "EMAIL_RE s \<longleftrightarrow>
     (\<exists>user domain top. s = user @ ''@'' @ domain @ ''.'' @ top
        \<and> user \<noteq> [] \<and> set user \<subseteq> {c. is_alnum c \<or> c \<in> set ''._%+-''}
        \<and> domain \<noteq> [] \<and> set domain \<subseteq> {c. is_alnum c \<or> c \<in> set ''.-''}
        \<and> 2 \<le> length top \<and> set top \<subseteq> {c. is_letter c})"
    (is "?L \<longleftrightarrow> ?R")
proof
  let ?u = "takeWhile (\<lambda>c. c \<noteq> CHR ''@'') s"
  let ?rest = "drop (length ?u) s"
  let ?t = "takeWhile (\<lambda>c. c \<noteq> CHR ''.'') (rev (tl ?rest))"
  assume L: ?L
  then have rest: "?rest \<noteq> []" by (simp add: EMAIL_RE_def Let_def)
  have "length ?t < length (tl ?rest)" using L by (auto simp: EMAIL_RE_def Let_def)
  from takeWhile_split_rev [OF this] obtain d where
    d: "tl ?rest = d @ CHR ''.'' # rev ?t" "take (length (tl ?rest) - length ?t) (tl ?rest) = d @ ''.''" by auto
  have "s = ?u @ ''@'' @ d @ ''.'' @ rev ?t" using takeWhile_split [OF rest] d(1) by simp
  then show ?R using L d(2) by (intro exI [of _ ?u] exI [of _ d] exI [of _ "rev ?t"])
      (auto simp: EMAIL_RE_def Let_def list_all_iff)
next
  assume ?R
  then obtain user domain top where s: "s = user @ ''@'' @ domain @ ''.'' @ top"
    and user: "user \<noteq> []" "\<forall>c\<in>set user. is_alnum c \<or> c \<in> set ''._%+-''"
    and domain: "domain \<noteq> []" "\<forall>c\<in>set domain. is_alnum c \<or> c \<in> set ''.-''"
    and top: "2 \<le> length top" "\<forall>c\<in>set top. is_letter c" by fast
  have u: "takeWhile (\<lambda>c. c \<noteq> CHR ''@'') s = user"
    unfolding s using user(2) class_chars(2) by (subst append_Cons, subst append_Nil, intro takeWhile_cut) auto
  have t: "takeWhile (\<lambda>c. c \<noteq> CHR ''.'') (rev (domain @ CHR ''.'' # top)) = rev top"
    using top(2) class_chars(1) takeWhile_cut [of "rev top" "CHR ''.''" "rev domain"] by auto
  show ?L unfolding EMAIL_RE_def Let_def u using user domain top t by (simp add: s list_all_iff)
qed

end
