(* ===== verification/Rust_Float.thy ===== *)
theory Rust_Float
  imports Complex_Main "HOL-Library.Log_Nat"
begin

text \<open>
  Rust's \<^verbatim>\<open>f64\<close>: binary floating-point numbers with 53 significant bits, rounded to the nearest and
  ties to even. A finite number is the rational it stands for; the two zeros are one.
\<close>

datatype f64 = NaN | Inf bool | Fin rat

text \<open>The exponent of the leading bit of a positive rational.\<close>

definition ilog2 :: "rat \<Rightarrow> int" where
  "ilog2 x = (let (p, q) = quotient_of x; k = bitlen p - bitlen q in if 2 powi k \<le> x then k else k - 1)"

text \<open>The weight of the last significant bit; below \<open>2 powi (-1022)\<close> numbers are subnormal.\<close>

definition f64_ulp :: "rat \<Rightarrow> rat" where
  "f64_ulp x = 2 powi (max (ilog2 \<bar>x\<bar>) (- 1022) - 52)"

definition round_half_even :: "rat \<Rightarrow> int" where
  "round_half_even x =
     (let f = \<lfloor>x\<rfloor>; d = x - of_int f in
      if d < 1/2 then f else if d > 1/2 then f + 1 else if even f then f else f + 1)"

text \<open>The number nearest to an exact result; results beyond the range are infinite.\<close>

definition f64_round :: "rat \<Rightarrow> f64" where
  "f64_round x =
     (if x = 0 then Fin 0
      else let y = of_int (round_half_even (x / f64_ulp x)) * f64_ulp x
           in if \<bar>y\<bar> \<ge> 2 ^ 1024 then Inf (x < 0) else Fin y)"

definition f64_of_i64 :: "int \<Rightarrow> f64" where
  "f64_of_i64 c = f64_round (of_int c)"

text \<open>Multiplication and division by a positive constant.\<close>

fun f64_mul_const :: "f64 \<Rightarrow> rat \<Rightarrow> f64" where
  "f64_mul_const NaN k = NaN"
| "f64_mul_const (Inf s) k = Inf s"
| "f64_mul_const (Fin x) k = f64_round (x * k)"

fun f64_div_const :: "f64 \<Rightarrow> rat \<Rightarrow> f64" where
  "f64_div_const NaN k = NaN"
| "f64_div_const (Inf s) k = Inf s"
| "f64_div_const (Fin x) k = f64_round (x / k)"

text \<open>\<^verbatim>\<open>round\<close>: to the nearest integer, halves away from zero.\<close>

fun f64_nearest :: "f64 \<Rightarrow> f64" where
  "f64_nearest (Fin x) = Fin (of_int (if x \<ge> 0 then \<lfloor>x + 1/2\<rfloor> else \<lceil>x - 1/2\<rceil>))"
| "f64_nearest f = f"

text \<open>\<^verbatim>\<open>as i64\<close>: towards zero, saturating; not-a-number gives 0.\<close>

fun f64_as_i64 :: "f64 \<Rightarrow> int" where
  "f64_as_i64 NaN = 0"
| "f64_as_i64 (Inf neg) = (if neg then - (2 ^ 63) else 2 ^ 63 - 1)"
| "f64_as_i64 (Fin x) = max (- (2 ^ 63)) (min (2 ^ 63 - 1) (if x \<ge> 0 then \<lfloor>x\<rfloor> else \<lceil>x\<rceil>))"

fun f64_is_finite :: "f64 \<Rightarrow> bool" where
  "f64_is_finite (Fin x) = True"
| "f64_is_finite _ = False"

fun f64_le_zero :: "f64 \<Rightarrow> bool" where
  "f64_le_zero NaN = False"
| "f64_le_zero (Inf neg) = neg"
| "f64_le_zero (Fin x) = (x \<le> 0)"

section \<open>The rounding error\<close>

lemma ilog2_le:
  assumes "0 < x"
  shows "2 powi ilog2 x \<le> x"
proof -
  obtain p q where pq: "quotient_of x = (p, q)" by fastforce
  have q: "0 < q" by (rule quotient_of_denom_pos [OF pq])
  have x: "x = of_int p / of_int q" by (rule quotient_of_div [OF pq])
  then have p: "0 < p" using assms q by (simp add: zero_less_divide_iff)
  have "0 < bitlen p" using p by (simp add: bitlen_eq_zero_iff bitlen_nonneg order_less_le)
  then have "2 powi (bitlen p - 1) = (of_int (2 ^ nat (bitlen p - 1)) :: rat)" by (simp add: power_int_def)
  then have lo: "2 powi (bitlen p - 1) \<le> (of_int p :: rat)" using bitlen_bounds [OF p] by (metis of_int_le_iff)
  have "2 powi bitlen q = (of_int (2 ^ nat (bitlen q)) :: rat)" by (simp add: power_int_def bitlen_nonneg)
  then have hi: "(of_int q :: rat) \<le> 2 powi bitlen q" using bitlen_bounds [OF q] by (metis of_int_le_iff less_imp_le)
  have "2 powi (bitlen p - bitlen q - 1) \<le> x"
  proof -
    have "2 powi (bitlen p - bitlen q - 1) = (2 powi (bitlen p - 1) / 2 powi bitlen q :: rat)"
      by (simp flip: power_int_diff) (simp add: algebra_simps)
    also have "\<dots> \<le> of_int p / of_int q"
      using lo hi q by (intro frac_le) (simp_all add: p less_imp_le)
    finally show ?thesis using x by simp
  qed
  then show ?thesis using pq by (simp add: ilog2_def Let_def)
qed

lemma f64_ulp_pos [simp]: "0 < f64_ulp x"
  by (simp add: f64_ulp_def)

lemma f64_ulp_le:
  assumes "2 powi (- 1022) \<le> \<bar>x\<bar>"
  shows "f64_ulp x \<le> \<bar>x\<bar> / 2 ^ 52"
proof -
  have "0 < \<bar>x\<bar>" using assms by (rule less_le_trans [rotated]) simp
  then have "2 powi (max (ilog2 \<bar>x\<bar>) (- 1022)) \<le> \<bar>x\<bar>" using assms ilog2_le by (simp add: max_def)
  then show ?thesis by (simp add: f64_ulp_def power_int_diff divide_right_mono)
qed

lemma round_half_even_near: "\<bar>of_int (round_half_even x) - x\<bar> \<le> 1/2"
proof -
  have "of_int \<lfloor>x\<rfloor> \<le> x" "x < of_int \<lfloor>x\<rfloor> + 1" by linarith+
  then show ?thesis unfolding round_half_even_def Let_def by (auto simp: abs_le_iff)
qed

lemma f64_round_near:
  assumes "2 powi (- 1022) \<le> \<bar>x\<bar>" and "\<bar>x\<bar> \<le> 2 ^ 100"
  shows "\<exists>y. f64_round x = Fin y \<and> \<bar>y - x\<bar> \<le> \<bar>x\<bar> / 2 ^ 53"
proof -
  let ?y = "of_int (round_half_even (x / f64_ulp x)) * f64_ulp x"
  have nz: "x \<noteq> 0" using assms(1) by auto
  have "?y - x = (of_int (round_half_even (x / f64_ulp x)) - x / f64_ulp x) * f64_ulp x"
    using f64_ulp_pos [of x] by (simp add: left_diff_distrib less_imp_neq [symmetric])
  then have "\<bar>?y - x\<bar> = \<bar>of_int (round_half_even (x / f64_ulp x)) - x / f64_ulp x\<bar> * f64_ulp x"
    using abs_of_pos [OF f64_ulp_pos [of x]] by (simp only: abs_mult)
  also have "\<dots> \<le> 1/2 * f64_ulp x"
    by (intro mult_right_mono round_half_even_near) (simp add: less_imp_le)
  also have "\<dots> \<le> \<bar>x\<bar> / 2 ^ 53" using f64_ulp_le [OF assms(1)] by simp
  finally have near: "\<bar>?y - x\<bar> \<le> \<bar>x\<bar> / 2 ^ 53" .
  have "\<bar>x\<bar> / 2 ^ 53 \<le> \<bar>x\<bar>" by (simp add: field_simps)
  then have "\<bar>?y\<bar> \<le> 2 * 2 ^ 100" using near assms(2) by linarith
  also have "\<dots> < (2 ^ 1024 :: rat)" by simp
  finally show ?thesis using near nz by (simp add: f64_round_def Let_def)
qed

section \<open>Prices\<close>

definition dollars_to_cents :: "f64 \<Rightarrow> int" where
  "dollars_to_cents d = f64_as_i64 (f64_nearest (f64_mul_const d 100))"

definition cents_to_dollars :: "int \<Rightarrow> f64" where
  "cents_to_dollars c = f64_div_const (f64_of_i64 c) 100"

lemma f64_nearest_int:
  assumes "\<bar>y - of_int c\<bar> < 1/2"
  shows "f64_nearest (Fin y) = Fin (of_int c)"
proof -
  have y: "y - of_int c < 1/2" "- (1/2) < y - of_int c" using assms by (simp_all only: abs_less_iff) linarith
  have "\<lfloor>y + 1/2\<rfloor> = c" using y by (intro floor_unique) linarith+
  moreover have "\<lceil>y - 1/2\<rceil> = c" using y by (intro ceiling_unique) linarith+
  ultimately show ?thesis by simp
qed

lemma f64_round_price:
  assumes "1/128 \<le> \<bar>x\<bar>" and "\<bar>x\<bar> \<le> 2 ^ 100"
  shows "\<exists>y. f64_round x = Fin y \<and> \<bar>y - x\<bar> \<le> \<bar>x\<bar> / 2 ^ 53"
proof (rule f64_round_near)
  have "2 powi (- 1022) = (1 / 2 ^ 1022 :: rat)" by (simp add: power_int_minus_divide)
  also have "\<dots> \<le> 1/128" by simp
  finally show "2 powi (- 1022) \<le> \<bar>x\<bar>" using assms(1) by linarith
qed (rule assms(2))

lemma abs_near: "\<bar>y - x\<bar> \<le> d \<Longrightarrow> \<bar>y\<bar> \<le> \<bar>x\<bar> + d \<and> \<bar>x\<bar> - d \<le> \<bar>y\<bar>" for x y d :: rat
  by linarith

text \<open>The two roundings on the way to dollars.\<close>

lemma cents_to_dollars_near:
  assumes "c \<noteq> 0" and "\<bar>c\<bar> < 2 ^ 50"
  shows "\<exists>a b. cents_to_dollars c = Fin b \<and> \<bar>a - of_int c\<bar> \<le> \<bar>of_int c\<bar> / 2 ^ 53 \<and> \<bar>b - a / 100\<bar> \<le> \<bar>a\<bar> / 100 / 2 ^ 53
    \<and> 1 \<le> \<bar>of_int c :: rat\<bar> \<and> \<bar>of_int c :: rat\<bar> \<le> 2 ^ 50"
proof -
  let ?c = "of_int c :: rat"
  have c1: "1 \<le> \<bar>?c\<bar>" using assms(1) by (metis int_one_le_iff_zero_less of_int_1_le_iff of_int_abs zero_less_abs_iff)
  have "\<bar>?c\<bar> \<le> of_int (2 ^ 50)" using assms(2) by (metis less_imp_le of_int_abs of_int_le_iff)
  then have c2: "\<bar>?c\<bar> \<le> 2 ^ 50" by simp
  obtain a where a: "f64_of_i64 c = Fin a" "\<bar>a - ?c\<bar> \<le> \<bar>?c\<bar> / 2 ^ 53"
    using f64_round_price [of ?c] c1 c2 by (auto simp: f64_of_i64_def)
  have a1: "\<bar>a\<bar> \<le> \<bar>?c\<bar> + \<bar>?c\<bar> / 2 ^ 53" "\<bar>?c\<bar> - \<bar>?c\<bar> / 2 ^ 53 \<le> \<bar>a\<bar>" using abs_near [OF a(2)] by auto
  obtain b where b: "f64_round (a / 100) = Fin b" "\<bar>b - a / 100\<bar> \<le> \<bar>a / 100\<bar> / 2 ^ 53"
    using f64_round_price [of "a / 100"] a1 c1 c2 by (auto simp: abs_divide)
  show ?thesis using a b c1 c2 by (intro exI [of _ a] exI [of _ b]) (simp add: cents_to_dollars_def)
qed

text \<open>
  A price in cents below 2 to the power of 50 that is shown in dollars as a floating-point number
  and read back gives the same number of cents, in spite of three roundings.
\<close>

lemma price_roundtrip:
  assumes "\<bar>c\<bar> < 2 ^ 50"
  shows "dollars_to_cents (cents_to_dollars c) = c"
proof (cases "c = 0")
  case True
  then show ?thesis using f64_nearest_int [of 0 0]
    by (simp add: dollars_to_cents_def cents_to_dollars_def f64_of_i64_def f64_round_def)
next
  case False
  let ?c = "of_int c :: rat"
  obtain a b where d: "cents_to_dollars c = Fin b" and a: "\<bar>a - ?c\<bar> \<le> \<bar>?c\<bar> / 2 ^ 53"
    and b: "\<bar>b - a / 100\<bar> \<le> \<bar>a\<bar> / 100 / 2 ^ 53" and c: "1 \<le> \<bar>?c\<bar>" "\<bar>?c\<bar> \<le> 2 ^ 50"
    using cents_to_dollars_near [OF False assms] by blast
  have a1: "\<bar>a\<bar> \<le> \<bar>?c\<bar> + \<bar>?c\<bar> / 2 ^ 53" "\<bar>?c\<bar> - \<bar>?c\<bar> / 2 ^ 53 \<le> \<bar>a\<bar>" using abs_near [OF a] by auto
  have b1: "\<bar>b\<bar> \<le> \<bar>a\<bar> / 100 + \<bar>a\<bar> / 100 / 2 ^ 53" "\<bar>a\<bar> / 100 - \<bar>a\<bar> / 100 / 2 ^ 53 \<le> \<bar>b\<bar>"
    using abs_near [OF b] by (simp_all only: abs_divide abs_numeral)
  obtain y where y: "f64_round (b * 100) = Fin y" "\<bar>y - b * 100\<bar> \<le> \<bar>b * 100\<bar> / 2 ^ 53"
    using f64_round_price [of "b * 100"] a1 b1 c by (auto simp: abs_mult)
  have "b * 100 - a = 100 * (b - a / 100)" by simp
  then have "\<bar>b * 100 - a\<bar> = 100 * \<bar>b - a / 100\<bar>" by (simp only: abs_mult abs_numeral)
  moreover have "\<bar>y - ?c\<bar> \<le> \<bar>y - b * 100\<bar> + \<bar>b * 100 - a\<bar> + \<bar>a - ?c\<bar>" by linarith
  ultimately have "\<bar>y - ?c\<bar> \<le> \<bar>y - b * 100\<bar> + 100 * \<bar>b - a / 100\<bar> + \<bar>a - ?c\<bar>" by simp
  also have "\<dots> \<le> \<bar>b\<bar> * 100 / 2 ^ 53 + \<bar>a\<bar> / 2 ^ 53 + \<bar>?c\<bar> / 2 ^ 53"
    using a b y(2) by (simp only: abs_divide abs_mult abs_numeral)
  also have "\<dots> < 1/2" using a1(1) b1(1) c(2) by simp
  finally have "\<bar>y - ?c\<bar> < 1/2" .
  then have "f64_nearest (Fin y) = Fin ?c" by (rule f64_nearest_int)
  then show ?thesis using assms d y(1) by (simp add: dollars_to_cents_def)
qed

lemma near_positive:
  assumes "\<bar>y - x\<bar> \<le> \<bar>x\<bar> / 2 ^ 53" and "0 < x"
  shows "0 < (y :: rat)"
proof -
  have "\<bar>x\<bar> / 2 ^ 53 < x" using assms(2) by (simp add: field_simps)
  then show ?thesis using assms by linarith
qed

lemma cents_to_dollars_positive:
  assumes "0 < c" and "c < 2 ^ 50"
  shows "f64_is_finite (cents_to_dollars c) \<and> \<not> f64_le_zero (cents_to_dollars c)"
proof -
  let ?c = "of_int c :: rat"
  have "c \<noteq> 0" "\<bar>c\<bar> < 2 ^ 50" using assms by auto
  from cents_to_dollars_near [OF this] obtain a b where d: "cents_to_dollars c = Fin b"
    and a: "\<bar>a - ?c\<bar> \<le> \<bar>?c\<bar> / 2 ^ 53" and b: "\<bar>b - a / 100\<bar> \<le> \<bar>a\<bar> / 100 / 2 ^ 53" by blast
  have "0 < ?c" using assms(1) by simp
  then have "0 < a / 100" using near_positive [OF a] by simp
  then have "0 < b" using near_positive [of b "a / 100"] b by (simp add: abs_divide)
  then show ?thesis using d by simp
qed

end
