(* ===== verification/Gateway_Graphql.thy ===== *)
theory Gateway_Graphql
  imports Gateway_Props Order_Handler Rust_Float
begin

text \<open>
  The GraphQL operations of the gateway that carry prices
  (src/services/api-gateway/src/graphql/resolvers.rs): products and orders. Inside the marketplace a
  price is a number of cents, in GraphQL a floating-point number of dollars.
\<close>

section \<open>Data\<close>

record gql_Product =
  gql_p_id :: string
  gql_p_name :: string
  gql_p_description :: string
  gql_p_price :: f64
  gql_p_categories :: "string list"
  gql_p_created_at :: string

record gql_OrderItem =
  gql_item_product_id :: string
  gql_item_quantity :: int
  gql_item_price :: f64

record gql_OrderView =
  gql_o_id :: string
  gql_o_user_id :: string
  gql_o_items :: "gql_OrderItem list"
  gql_o_total_amount :: f64
  gql_o_status :: string
  gql_o_created_at :: string
  gql_o_updated_at :: string

definition proto_product_to_model :: "ProductProto \<Rightarrow> gql_Product" where
  "proto_product_to_model p =
     \<lparr>gql_p_id = ProductProto_ProductId p, gql_p_name = ProductProto_Name p,
      gql_p_description = ProductProto_Description p, gql_p_price = cents_to_dollars (ProductProto_PriceCents p),
      gql_p_categories = ProductProto_Categories p, gql_p_created_at = ProductProto_CreatedAt p\<rparr>"

definition proto_order_to_model :: "OrderProto \<Rightarrow> gql_OrderView" where
  "proto_order_to_model o1 =
     \<lparr>gql_o_id = OrderProto_OrderId o1, gql_o_user_id = OrderProto_UserId o1,
      gql_o_items = map (\<lambda>i. \<lparr>gql_item_product_id = ItemProto_ProductId i, gql_item_quantity = ItemProto_Quantity i,
                               gql_item_price = cents_to_dollars (ItemProto_PriceCents i)\<rparr>) (OrderProto_Items o1),
      gql_o_total_amount = cents_to_dollars (OrderProto_TotalAmountCents o1),
      gql_o_status = order_status_to_string (OrderProto_Status o1),
      gql_o_created_at = OrderProto_CreatedAt o1, gql_o_updated_at = OrderProto_UpdatedAt o1\<rparr>"

text \<open>The generated clients of the catalog and the order service.\<close>

record 's shop_stubs =
  stub_get_product :: "string option \<Rightarrow> string \<Rightarrow> 's \<Rightarrow> ProductProto option grpc \<times> 's"
  stub_search_products :: "string option \<Rightarrow> string \<times> int \<times> int \<Rightarrow> 's \<Rightarrow> (ProductProto list \<times> int) grpc \<times> 's"
  stub_list_products :: "string option \<Rightarrow> int \<times> int \<Rightarrow> 's \<Rightarrow> (ProductProto list \<times> int) grpc \<times> 's"
  stub_create_product :: "string option \<Rightarrow> CreateProductRequest \<Rightarrow> 's \<Rightarrow> string grpc \<times> 's"
  stub_get_order :: "string option \<Rightarrow> string \<Rightarrow> 's \<Rightarrow> OrderProto option grpc \<times> 's"
  stub_list_orders :: "string option \<Rightarrow> int \<times> int \<Rightarrow> 's \<Rightarrow> (OrderProto list \<times> int) grpc \<times> 's"
  stub_create_order :: "string option \<Rightarrow> CreateOrderRequest \<Rightarrow> 's \<Rightarrow> string grpc \<times> 's"

text \<open>What an operation takes from its surroundings: the checks of crates and the rendering of a number in a message.\<close>

record gql_env =
  env_metadata_ok :: "string \<Rightarrow> bool"
  env_parse_str :: "string \<Rightarrow> bool"
  env_show_f64 :: "f64 \<Rightarrow> string"

definition validate_positive_price :: "gql_env \<Rightarrow> f64 \<Rightarrow> unit api" where
  "validate_positive_price env price =
     (if \<not> f64_is_finite price \<or> f64_le_zero price
      then Inl (InvalidArgument (''price must be positive, got '' @ env_show_f64 env price)) else Inr ())"

section \<open>Queries\<close>

definition page_of :: "int option \<Rightarrow> int" where
  "page_of page = (case page of Some p \<Rightarrow> if p > 0 then p else 1 | None \<Rightarrow> 1)"

definition page_size_of :: "int option \<Rightarrow> int" where
  "page_size_of page_size = (case page_size of Some s \<Rightarrow> if s > 0 \<and> s \<le> 100 then s else 10 | None \<Rightarrow> 10)"

definition Query_product ::
  "gql_env \<Rightarrow> 's shop_stubs \<Rightarrow> int \<Rightarrow> int \<Rightarrow> gw_Identity option \<Rightarrow> string \<Rightarrow> 's gateway \<Rightarrow> gql_Product option api \<times> 's gateway" where
  "Query_product env C t0 t1 identity i g =
     (case validate_uuid (env_parse_str env) i of
        Inl err \<Rightarrow> (Inl err, g)
      | Inr _ \<Rightarrow>
          (case Clients_call ''catalog'' t0 t1 (stub_get_product C (with_auth (env_metadata_ok env) identity) i) g of
             (Inl err, g1) \<Rightarrow> (Inl err, g1)
           | (Inr product, g1) \<Rightarrow> (Inr (map_option proto_product_to_model product), g1)))"

definition Query_products ::
  "gql_env \<Rightarrow> 's shop_stubs \<Rightarrow> int \<Rightarrow> int \<Rightarrow> gw_Identity option \<Rightarrow> string option \<Rightarrow> int option \<Rightarrow> int option \<Rightarrow> 's gateway \<Rightarrow>
   (gql_Product list \<times> int) api \<times> 's gateway" where
  "Query_products env C t0 t1 identity query page page_size g =
     (let page = page_of page; page_size = page_size_of page_size; auth = with_auth (env_metadata_ok env) identity;
          fut = (case query of
                   Some q \<Rightarrow> if q \<noteq> '''' then stub_search_products C auth (q, page, page_size)
                             else stub_list_products C auth (page, page_size)
                 | None \<Rightarrow> stub_list_products C auth (page, page_size))
      in case Clients_call ''catalog'' t0 t1 fut g of
           (Inl err, g1) \<Rightarrow> (Inl err, g1)
         | (Inr (ps, n), g1) \<Rightarrow> (Inr (map proto_product_to_model ps, n), g1))"

definition Query_order ::
  "gql_env \<Rightarrow> 's shop_stubs \<Rightarrow> int \<Rightarrow> int \<Rightarrow> gw_Identity option \<Rightarrow> string \<Rightarrow> 's gateway \<Rightarrow> gql_OrderView option api \<times> 's gateway" where
  "Query_order env C t0 t1 identity i g =
     (case validate_uuid (env_parse_str env) i of
        Inl err \<Rightarrow> (Inl err, g)
      | Inr _ \<Rightarrow>
          (case require_identity identity of
             Inl err \<Rightarrow> (Inl err, g)
           | Inr ident \<Rightarrow>
               (case Clients_call ''order'' t0 t1 (stub_get_order C (with_auth (env_metadata_ok env) (Some ident)) i) g of
                  (Inl err, g1) \<Rightarrow> (Inl err, g1)
                | (Inr order, g1) \<Rightarrow> (Inr (map_option proto_order_to_model order), g1))))"

text \<open>The id of the user is checked for its form and not used otherwise.\<close>

definition Query_orders ::
  "gql_env \<Rightarrow> 's shop_stubs \<Rightarrow> int \<Rightarrow> int \<Rightarrow> gw_Identity option \<Rightarrow> string \<Rightarrow> int option \<Rightarrow> int option \<Rightarrow> 's gateway \<Rightarrow>
   (gql_OrderView list \<times> int) api \<times> 's gateway" where
  "Query_orders env C t0 t1 identity user_id page page_size g =
     (case validate_uuid (env_parse_str env) user_id of
        Inl err \<Rightarrow> (Inl err, g)
      | Inr _ \<Rightarrow>
          (case require_identity identity of
             Inl err \<Rightarrow> (Inl err, g)
           | Inr ident \<Rightarrow>
               (case Clients_call ''order'' t0 t1
                       (stub_list_orders C (with_auth (env_metadata_ok env) (Some ident)) (page_of page, page_size_of page_size)) g of
                  (Inl err, g1) \<Rightarrow> (Inl err, g1)
                | (Inr (os, n), g1) \<Rightarrow> (Inr (map proto_order_to_model os, n), g1))))"

section \<open>Mutations\<close>

text \<open>\<open>key\<close> is the random UUID drawn as the idempotency key.\<close>

definition Mutation_create_product ::
  "gql_env \<Rightarrow> 's shop_stubs \<Rightarrow> int \<Rightarrow> int \<Rightarrow> string \<Rightarrow> gw_Identity option \<Rightarrow> string \<Rightarrow> string \<Rightarrow> f64 \<Rightarrow> string list \<Rightarrow> 's gateway \<Rightarrow>
   string api \<times> 's gateway" where
  "Mutation_create_product env C t0 t1 key identity name description price categories g =
     (case require_identity identity of
        Inl err \<Rightarrow> (Inl err, g)
      | Inr ident \<Rightarrow>
          if \<not> is_admin ident then (Inl Forbidden, g)
          else (case validate_positive_price env price of
                  Inl err \<Rightarrow> (Inl err, g)
                | Inr _ \<Rightarrow>
                    Clients_call ''catalog'' t0 t1 (stub_create_product C (with_auth (env_metadata_ok env) (Some ident))
                      \<lparr>CreateProductRequest_Name = name, CreateProductRequest_Description = description,
                       CreateProductRequest_PriceCents = dollars_to_cents price,
                       CreateProductRequest_Categories = categories, CreateProductRequest_IdempotencyKey = key\<rparr>) g))"

fun proto_items :: "gql_env \<Rightarrow> gql_OrderItem list \<Rightarrow> OrderItemProto list api" where
  "proto_items env [] = Inr []"
| "proto_items env (i # items) =
     (case validate_uuid (env_parse_str env) (gql_item_product_id i) of
        Inl err \<Rightarrow> Inl err
      | Inr _ \<Rightarrow>
          (case validate_positive_quantity (gql_item_quantity i) of
             Inl err \<Rightarrow> Inl err
           | Inr _ \<Rightarrow>
               (case validate_positive_price env (gql_item_price i) of
                  Inl err \<Rightarrow> Inl err
                | Inr _ \<Rightarrow>
                    (case proto_items env items of
                       Inl err \<Rightarrow> Inl err
                     | Inr rest \<Rightarrow>
                         Inr (\<lparr>ItemProto_ProductId = gql_item_product_id i, ItemProto_Quantity = gql_item_quantity i,
                               ItemProto_PriceCents = dollars_to_cents (gql_item_price i)\<rparr> # rest)))))"

definition Mutation_create_order ::
  "gql_env \<Rightarrow> 's shop_stubs \<Rightarrow> int \<Rightarrow> int \<Rightarrow> string \<Rightarrow> gw_Identity option \<Rightarrow> gql_OrderItem list \<Rightarrow> 's gateway \<Rightarrow>
   string api \<times> 's gateway" where
  "Mutation_create_order env C t0 t1 key identity items g =
     (case require_identity identity of
        Inl err \<Rightarrow> (Inl err, g)
      | Inr ident \<Rightarrow>
          if items = [] then (Inl (InvalidArgument ''empty order''), g)
          else (case proto_items env items of
                  Inl err \<Rightarrow> (Inl err, g)
                | Inr proto \<Rightarrow>
                    Clients_call ''order'' t0 t1 (stub_create_order C (with_auth (env_metadata_ok env) (Some ident))
                      \<lparr>CreateOrderRequest_Items = proto, CreateOrderRequest_IdempotencyKey = key\<rparr>) g))"

section \<open>Prices and statuses through the gateway\<close>

text \<open>An item as the gateway shows it: the product of the catalog at its price.\<close>

definition shown_item :: "OrderItemProto \<Rightarrow> gql_OrderItem" where
  "shown_item i = \<lparr>gql_item_product_id = ItemProto_ProductId i, gql_item_quantity = ItemProto_Quantity i,
     gql_item_price = cents_to_dollars (ItemProto_PriceCents i)\<rparr>"

definition orderable :: "gql_env \<Rightarrow> OrderItemProto \<Rightarrow> bool" where
  "orderable env i \<longleftrightarrow> env_parse_str env (ItemProto_ProductId i) \<and> 0 < ItemProto_Quantity i
     \<and> 0 < ItemProto_PriceCents i \<and> ItemProto_PriceCents i < 2 ^ 50"

lemma proto_items_shown:
  assumes "\<forall>i\<in>set items. orderable env i"
  shows "proto_items env (map shown_item items) = Inr items"
  using assms
proof (induction items)
  case (Cons i items)
  then have i: "orderable env i" by simp
  then have "dollars_to_cents (cents_to_dollars (ItemProto_PriceCents i)) = ItemProto_PriceCents i"
    by (intro price_roundtrip) (simp add: orderable_def)
  then show ?case using Cons i cents_to_dollars_positive [of "ItemProto_PriceCents i"]
    by (simp add: orderable_def shown_item_def validate_uuid_def validate_positive_quantity_def validate_positive_price_def)
qed simp

text \<open>
  C16. Prices survive the gateway: when a customer orders items at the prices the gateway showed,
  the order service receives exactly these items at exactly the prices of the catalog in cents,
  although the prices were converted to floating-point dollars and back.
\<close>

theorem ordered_at_shown_price:
  assumes "items \<noteq> []" and "\<forall>i\<in>set items. orderable env i"
  shows "Mutation_create_order env C t0 t1 key (Some ident) (map shown_item items) g
    = Clients_call ''order'' t0 t1 (stub_create_order C (with_auth (env_metadata_ok env) (Some ident))
        \<lparr>CreateOrderRequest_Items = items, CreateOrderRequest_IdempotencyKey = key\<rparr>) g"
  using assms by (simp add: Mutation_create_order_def require_identity_def proto_items_shown)

definition recording_shop :: "CreateOrderRequest list shop_stubs" where
  "recording_shop =
     \<lparr>stub_get_product = \<lambda>a i s. (Inr None, s), stub_search_products = \<lambda>a q s. (Inr ([], 0), s),
      stub_list_products = \<lambda>a q s. (Inr ([], 0), s), stub_create_product = \<lambda>a r s. (Inr '''', s),
      stub_get_order = \<lambda>a i s. (Inr None, s), stub_list_orders = \<lambda>a q s. (Inr ([], 0), s),
      stub_create_order = \<lambda>a r s. (Inr ''o1'', s @ [r])\<rparr>"

theorem ordered_at_shown_price_witness:
  "let item = \<lparr>ItemProto_ProductId = ''p1'', ItemProto_Quantity = 2, ItemProto_PriceCents = 1999\<rparr>;
       N = \<lparr>env_metadata_ok = \<lambda>_. True, env_parse_str = \<lambda>_. True, env_show_f64 = \<lambda>_. ''''\<rparr>
   in services (snd (Mutation_create_order N recording_shop 1 2 ''k'' (Some \<lparr>gw_user_id = ''u1'', gw_role = ''user'', gw_token = ''t''\<rparr>)
        [shown_item item] (Clients_new [])))
      = [\<lparr>CreateOrderRequest_Items = [item], CreateOrderRequest_IdempotencyKey = ''k''\<rparr>]"
  using ordered_at_shown_price [of "[\<lparr>ItemProto_ProductId = ''p1'', ItemProto_Quantity = 2, ItemProto_PriceCents = 1999\<rparr>]"
      "\<lparr>env_metadata_ok = \<lambda>_. True, env_parse_str = \<lambda>_. True, env_show_f64 = \<lambda>_. ''''\<rparr>" recording_shop 1 2 "''k''"
      "\<lparr>gw_user_id = ''u1'', gw_role = ''user'', gw_token = ''t''\<rparr>" "Clients_new []"]
  by (simp add: orderable_def recording_shop_def Clients_call_def CircuitBreaker_call_def pre_call_def Clients_new_def
      CircuitBreaker_default_def CircuitBreaker_new_def Let_def)

text \<open>The gateway shows the status of an order by the name the order service stores.\<close>

lemma gateway_shows_status:
  assumes "domainStatusToProtoMap status = Some n"
  shows "order_status_to_string n = status"
  using assms by (auto simp: domainStatusToProtoMap_def order_status_defs split: if_splits)

end
