(* ===== verification/Spec2Isabelle.thy ===== *)
theory Spec2Isabelle
  imports Inventory_Props Payment_Props Order_Props Catalog_Props User_Props Kafka_Consumer Analytics_Props
    Notification_Model Rate_Limit Feature_Flags Worker_Lifecycle Gateway_Graphql
begin

text \<open>
  Verification of go-ozon-marketplace, a marketplace of seven services in Go behind an API gateway
  in Rust.

  \<^bold>\<open>The program.\<close> The gateway (src/services/api-gateway) answers GraphQL requests by calling the
  services over gRPC. An order is created by the order service together with an event in its
  outbox; a saga then reserves stock at the inventory service, charges the payment service and
  confirms the order, and compensates on failure. A relay publishes the outbox to Kafka, from where
  the analytics and the notification service consume it. The catalog service keeps products in
  PostgreSQL and, through an outbox and a relay of its own, in Elasticsearch. The user service
  registers users and issues the tokens every service checks. Shared packages are in src/pkg.

  \<^bold>\<open>The model.\<close> Every Go function is a HOL function from its arguments and a world to a result and a
  new world; \<open>'a result\<close> is an error or a value, as \<^verbatim>\<open>(T, error)\<close> is in Go. A world
  (\<open>Go_Runtime\<close>) has the tables of the service's database, a clock, a source of UUIDs and a schedule
  of faults: every statement, commit or remote call consumes one entry, which lets it succeed, fail
  without effect, or fail after its effect. Theorems quantify over the whole schedule, so they cover
  lost connections and lost replies at every point. A transaction is a copy of the tables that a
  commit installs. Each SQL statement is a definition \<open>stmt_...\<close> over the tables with the constraints
  of the migrations; times are stored in microseconds (\<open>pg_timestamp\<close>). Go's \<^verbatim>\<open>int\<close>, \<^verbatim>\<open>int32\<close> and \<^verbatim>\<open>int64\<close> are integers wrapped by \<open>i64\<close> and \<open>i32\<close> where an
  operation can leave the range; hashes and Rust's \<^verbatim>\<open>u32\<close> are machine words. JSON is a datatype with
  Go's decoding rules (\<open>Go_Std\<close>). Third-party packages (golang-jwt, bcrypt, google/uuid, the Redis,
  Elasticsearch and Kafka clients, ulule/limiter, the crates of the gateway, gRPC stubs) and the
  address parser of net/mail are arguments; what a theorem needs of them is a hypothesis that states
  documented behaviour, and its witness has an instance.

  \<^bold>\<open>Theories and sources.\<close>
  \<^item> \<open>Market_Prelude\<close>, \<open>Go_Errors\<close> (src/pkg/errors), \<open>Go_Runtime\<close> (the world, SQL, src/pkg/txmanager),
    \<open>Go_Std\<close> and \<open>Go_Time\<close> (JSON, times, PostgreSQL types), \<open>Auth_Context\<close> (src/pkg/auth and the
    authentication of src/pkg/middleware), \<open>Rate_Limit\<close> (src/pkg/middleware/ratelimit.go),
    \<open>Feature_Flags\<close> (src/pkg/featureflags, src/pkg/abtesting), \<open>Kafka_Consumer\<close> (src/pkg/kafka),
    \<open>Worker_Lifecycle\<close> (Start, Stop and loop of the relays).
  \<^item> \<open>Inventory_Model\<close>, \<open>Inventory_Stock\<close>, \<open>Inventory_Props\<close>: src/services/inventory-service.
  \<^item> \<open>Payment_Model\<close>, \<open>Payment_Props\<close>: src/services/payment-service.
  \<^item> \<open>Order_Model\<close> (domain and repositories), \<open>Order_Saga\<close> (saga/), \<open>Order_Outbox\<close> (outbox/),
    \<open>Order_Usecase\<close>, \<open>Order_Handler\<close>, with the properties in \<open>Saga_Rules\<close>, \<open>Saga_Props\<close>, \<open>Order_Relay\<close>,
    \<open>Order_Invariant\<close> and \<open>Order_Props\<close>: src/services/order-service.
  \<^item> \<open>Catalog_Model\<close>, \<open>Catalog_Search\<close>, \<open>Catalog_Index\<close>, \<open>Catalog_Props\<close>: src/services/catalog-service.
  \<^item> \<open>User_Model\<close>, \<open>User_Props\<close>: src/services/user-service. \<open>Analytics_Model\<close>, \<open>Analytics_Props\<close>:
    src/services/analytics-service. \<open>Notification_Model\<close>: src/services/notification-service.
  \<^item> \<open>Gateway_Model\<close>, \<open>Gateway_Props\<close>, \<open>Gateway_Graphql\<close>: src/services/api-gateway, with Rust's
    floating-point numbers in \<open>Rust_Float\<close>.
  \<^item> This theory: properties of several services together.

  In each service the layers of the source keep their names: \<open>InventoryPostgres_GetStock\<close> is the
  repository's method, \<open>InventoryUsecase_Reserve\<close> the use case, \<open>InventoryHandler_Reserve\<close> the gRPC
  handler. State machines of the runtime (handlers, relays, faults and ticks in any order) are the
  inductive relations \<open>inv_step\<close>, \<open>pay_steps\<close>, \<open>ord_step\<close>, \<open>cat_step\<close>, \<open>user_step\<close>, \<open>batch_step\<close> and
  \<open>worker_step\<close>.

  \<^bold>\<open>What is shown.\<close>
  \<^item> Inventory: reservations and releases refine an abstract account; no unit is sold twice, retries
    are safe, only services change stock.
  \<^item> Payment: charges are exactly-once per order and refunds per key, across any requests in between;
    refunds never exceed the payment.
  \<^item> Order: the saga without failures, how it resumes and where it gets stuck; every order is
    announced; the relay loses nothing and publishes all that is due; the status table is followed and acyclic; a
    foreign order is protected.
  \<^item> Catalog: as long as the index itself does not fail (\<open>es_up\<close>), it replays to the product table and
    converges to it, whatever the database does; a failing index can bring a deleted product back.
  \<^item> User: unique users, login after registration, the limiter against a reference and its bound.
  \<^item> Analytics and Kafka: the batcher loses no event in any interleaving; what happens to a message
    that fails, and which messages are skipped.
  \<^item> Workers: one goroutine at a time, and a Stop that waits can complete.
  \<^item> Flags and experiments: Redis and memory agree for strategies in UTF-8; experiments split the users by weight.
  \<^item> Gateway: the circuit breaker against the history of its calls; prices survive the conversion to
    floating-point dollars; five wrong passwords lock everybody out; updates of orders never reach
    their subscribers.

  \<^bold>\<open>Shared contracts.\<close> The locales \<open>transactional\<close> and \<open>replayable\<close> state what a transaction and an idempotent operation promise and are
  interpreted on the transaction manager and on charging and refunding; \<open>retriable\<close> and
  \<open>saga_relation\<close> do the same for retries and for what the saga changes.

  \<^bold>\<open>Bounds and fuel.\<close> No definition uses fuel: the loop of the saga terminates by a measure on its
  status and the items left, retries count down, and the relays recurse on the batch they fetched.
  Liveness is stated as enough polls giving the result. The theorem on the circuit breaker assumes
  fewer than 2 to the power of 32 events, because its counter wraps around; prices survive the
  gateway below 2 to the power of 50 cents, where three roundings stay below half a cent; the total
  of an order is exact as long as it fits 64 bits.

  \<^bold>\<open>Not modelled.\<close> Configuration, construction of clients and servers, logging, metrics and tracing
  (wiring of third-party packages without logic of their own); the scripts that seed data; the
  definitions of tables sent to ClickHouse at start-up; the consumer-group session inside the Kafka
  client; \<^verbatim>\<open>ClientIP\<close>, whose outcome is an argument of the HTTP limiter, because it rests on the
  address and CIDR parsers of package net; the locks of PostgreSQL behind the recovery worker; the
  TLS set-up and the HTTP server of the gateway. Concurrency between transactions of one database is the order of
  their statements: isolation anomalies of PostgreSQL are not modelled, nor
  is the order in which \<^verbatim>\<open>jsonb\<close> gives back the members of an object, on which no reader depends.
\<close>

section \<open>Logins through the gateway\<close>

text \<open>The login client of the gateway when the user service answers; \<open>wire\<close> is what gRPC makes of an error.\<close>

definition login_stub ::
  "(go_error \<Rightarrow> code \<times> string) \<Rightarrow> jwt_lib \<Rightarrow> uuid_lib \<Rightarrow> bcrypt_lib \<Rightarrow> userUsecase \<Rightarrow> ctx \<Rightarrow> LoginRequest \<Rightarrow> 'x uw \<Rightarrow>
   string grpc \<times> 'x uw" where
  "login_stub wire J L B u c req w =
     (case UserHandler_Login J L B u c req w of
        (Inl err, w1) \<Rightarrow> (Inl (wire err), w1)
      | (Inr token, w1) \<Rightarrow> (Inr token, w1))"

text \<open>Attempts to log in with one address: a password and the times at which the call starts and ends.\<close>

fun gateway_logins :: "'s stubs \<Rightarrow> string \<Rightarrow> (string \<times> int \<times> int) list \<Rightarrow> 's gateway \<Rightarrow> 's gateway" where
  "gateway_logins C email [] g = g"
| "gateway_logins C email ((password, t0, t1) # tries) g =
     gateway_logins C email tries (snd (Mutation_login C t0 t1 email password g))"

definition wrong_password :: "bcrypt_lib \<Rightarrow> string \<Rightarrow> string \<Rightarrow> user_db \<Rightarrow> bool" where
  "wrong_password B email password d \<longleftrightarrow>
     (\<forall>x\<in>set (users d). User_Email x = normalizeEmail email \<longrightarrow> \<not> verifyPassword B (User_PasswordHash x) password)"

lemma GetByEmail_Inr:
  assumes "UserPostgres_GetByEmail email w = (Inr x, w1)"
  shows "x \<in> set (users (db w)) \<and> User_Email x = email"
proof -
  have "sql (stmt_UserByEmail email) w = (Inr x, w1)"
    using assms by (auto simp: UserPostgres_GetByEmail_def split: prod.splits sum.splits if_splits)
  then obtain d where "stmt_UserByEmail email (db w) = Inr (x, d)" using sql_Inr by fastforce
  then show ?thesis
    by (auto simp: stmt_UserByEmail_def query_row_def find_Some_iff split: option.splits)
qed

lemma login_stub_refuses:
  assumes "wrong_password B (LoginRequest_Email req) (LoginRequest_Password req) (db w)"
  shows "\<exists>status w1. login_stub wire J L B u c req w = (Inl status, w1) \<and> db w1 = db w"
proof -
  let ?e = "normalizeEmail (LoginRequest_Email req)"
  obtain r w1 where l: "UserUsecase_Login J L B u (LoginRequest_Email req) (LoginRequest_Password req) w = (r, w1)"
    by fastforce
  have d: "db w1 = db w" using l Login_db by (metis snd_conv)
  obtain ok w0 where a: "Allow (uc_rateLimiter u) (''login:'' @ ?e) w = (ok, w0)" by fastforce
  have d0: "db w0 = db w" by (rule Allow_same [OF a])
  have "\<not> verifyPassword B (User_PasswordHash x) (LoginRequest_Password req)"
    if "UserPostgres_GetByEmail ?e w0 = (Inr x, w2)" for x w2
    using GetByEmail_Inr [OF that] assms d0 by (simp add: wrong_password_def)
  then have "\<exists>err. r = Inl err"
    using l a unfolding UserUsecase_Login_def Let_def by (auto split: prod.splits sum.splits if_splits)
  then show ?thesis using l d by (auto simp: login_stub_def UserHandler_Login_def)
qed

lemma login_failures:
  assumes "stub_login C = login_stub wire J L B u c" and "EMAIL_RE email"
    and "map_of (breakers g) ''user'' = Some cb" and "failing n cb" and "cb_threshold cb = 5" and "cb_timeout cb = timeout"
    and "\<forall>(p, t0, t1)\<in>set tries. wrong_password B email p (db (services g))"
    and "n + length tries = 5" and "tries \<noteq> []" and "snd (snd (last tries)) = t"
  shows "\<exists>cb1. map_of (breakers (gateway_logins C email tries g)) ''user'' = Some cb1
    \<and> cb_status cb1 = Open \<and> cb_last_failure cb1 = Some t \<and> cb_timeout cb1 = timeout"
  using assms(3-)
proof (induction tries arbitrary: g cb n)
  case Nil
  then show ?case by blast
next
  case (Cons a tries)
  obtain p t0 t1 where a: "a = (p, t0, t1)" by (cases a) auto
  let ?req = "\<lparr>LoginRequest_Email = email, LoginRequest_Password = p\<rparr>"
  have "wrong_password B (LoginRequest_Email ?req) (LoginRequest_Password ?req) (db (services g))"
    using Cons.prems(5) a by simp
  from login_stub_refuses [OF this] obtain status w1 where
    s: "login_stub wire J L B u c ?req (services g) = (Inl status, w1)" "db w1 = db (services g)" by blast
  let ?g = "\<lparr>breakers = put_breaker ''user'' (record_failure t1 cb) (breakers g), services = w1\<rparr>"
  have "email \<noteq> ''''" by (rule EMAIL_RE_nonempty [OF assms(2)])
  then have g: "snd (Mutation_login C t0 t1 email p g) = ?g"
    using Clients_call_fails [OF Cons.prems(1,2), of "login_stub wire J L B u c ?req" status w1 t0 t1] s(1) assms(1,2)
    by (simp add: Mutation_login_def validate_email_def)
  note next_cb = record_failure_failing [OF Cons.prems(2), of t1]
  have b: "map_of (breakers ?g) ''user'' = Some (record_failure t1 cb)"
    using Cons.prems(1) by (simp add: map_of_put_breaker)
  show ?case
  proof (cases "tries = []")
    case True
    then have "Suc n = unat (cb_threshold cb)" using Cons.prems(3,6) by simp
    then show ?thesis using next_cb(2,3) b g True Cons.prems(4,8) a by simp
  next
    case False
    then have "Suc n < unat (cb_threshold cb)" using Cons.prems(3,6) by (cases tries) auto
    then show ?thesis
      using Cons.IH [OF b next_cb(1)] next_cb(3) Cons.prems False s(2) g a by simp
  qed
qed

text \<open>
  C17. Five wrong passwords lock everybody out: the breaker of the gateway counts every error of the
  user service as a failure of the service, rejected credentials included. After five attempts in
  a row with wrong passwords for one address, a login of anybody is refused for thirty seconds
  without reaching the user service.
\<close>

theorem wrong_passwords_block_logins:
  assumes "stub_login C = login_stub wire J L B u c" and "map_of (breakers g) ''user'' = Some CircuitBreaker_default"
    and "EMAIL_RE email" and "\<forall>(p, t0, t1)\<in>set tries. wrong_password B email p (db (services g))"
    and "length tries = 5" and "snd (snd (last tries)) \<le> now" and "now < snd (snd (last tries)) + 30 * second"
    and "EMAIL_RE email'"
  shows "(let g1 = gateway_logins C email tries g; (r, g2) = Mutation_login C now t1 email' password g1
      in r = Inl (CircuitOpen ''user'') \<and> services g2 = services g1)"
proof -
  have new: "failing 0 CircuitBreaker_default" "cb_threshold CircuitBreaker_default = 5"
    "cb_timeout CircuitBreaker_default = 30 * second"
    by (simp_all add: failing_def CircuitBreaker_default_def CircuitBreaker_new_def)
  have "tries \<noteq> []" using assms(5) by auto
  with login_failures [OF assms(1,3,2) new assms(4)] assms(5) obtain cb1 where
    cb1: "map_of (breakers (gateway_logins C email tries g)) ''user'' = Some cb1"
    "cb_status cb1 = Open" "cb_last_failure cb1 = Some (snd (snd (last tries)))" "cb_timeout cb1 = 30 * second" by auto
  have "email' \<noteq> ''''" by (rule EMAIL_RE_nonempty [OF assms(8)])
  then show ?thesis
    using Clients_call_refused [OF cb1(1-3) assms(6), of t1
        "stub_login C \<lparr>LoginRequest_Email = email', LoginRequest_Password = password\<rparr>"] cb1(4) assms(7,8)
    by (simp add: Mutation_login_def validate_email_def Let_def)
qed

section \<open>Events between the services\<close>

lemma order_json_ignored:
  "unmarshal_analytics (order_json L order) =
     Inr \<lparr>AMsg_EventType = '''', AMsg_OrderID = '''', AMsg_UserID = '''', AMsg_AmountCents = 0, AMsg_Amount = 0\<rparr>"
  "unmarshal_notification (order_json L order) =
     Inr \<lparr>NEvent_EventType = '''', NEvent_OrderID = '''', NEvent_UserID = '''', NEvent_Email = ''''\<rparr>"
  by (simp_all add: unmarshal_analytics_def unmarshal_notification_def order_json_def json_object_def put_analytics_def
      put_notification_def EqualFold_def strings_ToLower_def char_lower_def)

text \<open>
  C19. The events of the order service reach nobody: the payload it puts into the outbox for a new
  order names no event type, so the analytics consumer rejects the message and records nothing,
  and the notification consumer drops it without a mail.
\<close>

theorem order_events_not_understood:
  "let (event, w1) = outboxEventFromOrder L order w; msg = msg0\<lparr>Msg_Value := Outbox_Payload event\<rparr> in
     AnalyticsProcessor_Process msg a = (Some (StdErr ''unknown analytics event type: ''), a)
   \<and> NotificationProcessor_Process parse send msg n = (None, n)"
  by (simp add: outboxEventFromOrder_def AnalyticsProcessor_Process_def NotificationProcessor_Process_def order_json_ignored
      mapEventType_def messageFor_def Let_def split: prod.split)

text \<open>
  Redis as a publisher sees it: every message goes to the subscribers of exactly its channel.
  \<open>sent c\<close> are the messages published so far.
\<close>

definition pubsub_ok :: "'r redis_client \<Rightarrow> ('r \<Rightarrow> (string \<times> json) list) \<Rightarrow> bool" where
  "pubsub_ok R sent \<longleftrightarrow> (\<forall>ch m c. sent (redis_Publish R ch m c) = sent c @ [(ch, m)])"

definition delivered_to :: "(string \<times> json) list \<Rightarrow> string \<Rightarrow> json list api" where
  "delivered_to sent channel = Inr (map snd (filter (\<lambda>(ch, m). ch = channel) sent))"

fun publish_all :: "(string \<times> string \<times> string) list \<Rightarrow> ('c, 'r, 'x) ow \<Rightarrow> ('c, 'r, 'x) ow" where
  "publish_all [] w = w"
| "publish_all ((i, status, user) # events) w = publish_all events (publishOrderEvent i status user w)"

lemma publish_all_log:
  assumes "pubsub_ok R sent" and "ord_redis w = Some R"
  shows "sent (ord_cache (publish_all events w)) = sent (ord_cache w) @ map (\<lambda>(i, status, user). (''order-events'',
      JObj [(''payload'', JObj [(''order_id'', JStr i), (''status'', JStr status), (''user_id'', JStr user)]),
            (''topic'', JStr ''orders''), (''user_id'', JStr user)])) events"
  using assms(2)
proof (induction events arbitrary: w)
  case (Cons e events)
  obtain i status user where "e = (i, status, user)" by (cases e) auto
  then show ?case using Cons assms(1) by (simp add: publishOrderEvent_def pubsub_ok_def)
qed simp

lemma OrderEvent_of_published:
  "OrderEvent_of (JObj [(''payload'', JObj [(''order_id'', JStr i), (''status'', JStr status), (''user_id'', JStr user)]),
      (''topic'', JStr ''orders''), (''user_id'', JStr user)])
   = Some \<lparr>payload_order_id = i, payload_status = status, payload_user_id = Some user\<rparr>"
  by (simp add: OrderEvent_of_def OrderPayload_of_def serde_struct_def)

text \<open>
  C18. Subscribers to an order hear nothing: the order service publishes every change of status on
  one channel, the gateway listens on a channel per order. Whatever is published, the stream of a
  subscription stays empty, although the stream would show every change of its order if it got
  the messages.
\<close>

theorem order_updates_never_arrive:
  assumes "pubsub_ok R sent" and "ord_redis w = Some R" and "sent (ord_cache w) = []"
  shows "Subscription_order_status (delivered_to (sent (ord_cache (publish_all events w)))) (Some ident) i = Inr []
    \<and> order_items i (map snd (sent (ord_cache (publish_all events w))))
      = map (\<lambda>(j, status, user). \<lparr>gql_order_id = j, gql_order_user = user, gql_order_status = status\<rparr>)
          (filter (\<lambda>(j, _). j = i) events)"
proof -
  let ?sent = "sent (ord_cache (publish_all events w))"
  have "fst ` set ?sent \<subseteq> {''order-events''}"
    using publish_all_log [OF assms(1,2), of events] assms(3) by auto
  then have "delivered_to ?sent (order_channel i) = Inr []"
    by (auto simp: delivered_to_def order_channel_def filter_empty_conv)
  moreover have "order_items i (map snd ?sent)
      = map (\<lambda>(j, status, user). \<lparr>gql_order_id = j, gql_order_user = user, gql_order_status = status\<rparr>)
          (filter (\<lambda>(j, _). j = i) events)"
    unfolding publish_all_log [OF assms(1,2)] assms(3) order_items_def
    by (induction events) (auto simp: OrderEvent_of_published Order_from_payload_def List.map_filter_simps)
  ultimately show ?thesis
    by (simp add: Subscription_order_status_def require_identity_def order_status_stream_def order_items_def List.map_filter_simps)
qed

section \<open>Witnesses\<close>

definition demo_stubs :: "user_world stubs" where
  "demo_stubs = \<lparr>stub_get_user = \<lambda>auth i s. (Inl (codes_Unknown, ''''), s), stub_register = \<lambda>r s. (Inl (codes_Unknown, ''''), s),
     stub_login = login_stub (\<lambda>e. (codes_Unknown, err_Error e)) demo_jwt tagged_uuid demo_bcrypt demo_uc ctx_Background,
     stub_get_stock = \<lambda>auth i s. (Inl (codes_Unknown, ''''), s), stub_cancel_order = \<lambda>auth i s. (Inl (codes_Unknown, ''''), s)\<rparr>"

theorem wrong_passwords_block_logins_witness:
  "let tries = [(''a'', 1, 2), (''b'', 3, 4), (''c'', 5, 6), (''d'', 7, 8), (''e'', 9, 10)] in
   fst (Mutation_login demo_stubs 20 21 ''bob@x.org'' ''secret''
     (gateway_logins demo_stubs ''ann@x.org'' tries (Clients_new demo_registered))) = Inl (CircuitOpen ''user'')"
proof -
  let ?tries = "[(''a'', 1, 2), (''b'', 3, 4), (''c'', 5, 6), (''d'', 7, 8), (''e'', 9, 10)] :: (string \<times> int \<times> int) list"
  have n: "normalizeEmail ''ann@x.org'' = ''ann@x.org''" by code_simp
  have re: "EMAIL_RE ''ann@x.org''" "EMAIL_RE ''bob@x.org''" by code_simp+
  have w: "wrong_password demo_bcrypt ''ann@x.org'' p (db (services (Clients_new demo_registered)))" for p
    by (simp add: wrong_password_def n Clients_new_def demo_registered_def demo_ann_def)
  have "let g1 = gateway_logins demo_stubs ''ann@x.org'' ?tries (Clients_new demo_registered);
      (r, g2) = Mutation_login demo_stubs 20 21 ''bob@x.org'' ''secret'' g1
    in r = Inl (CircuitOpen ''user'') \<and> services g2 = services g1"
    by (rule wrong_passwords_block_logins [where B = demo_bcrypt])
      (use w re in \<open>simp_all add: demo_stubs_def Clients_new_def second_def\<close>)
  then show ?thesis by (simp add: Let_def split: prod.splits)
qed

text \<open>A Redis that records what is published.\<close>

definition recording_redis :: "(string \<times> json) list redis_client" where
  "recording_redis = \<lparr>redis_Get = \<lambda>k now c. (Inl (StdErr ''redis: nil''), c), redis_Set = \<lambda>k v ttl now c. (None, c),
     redis_Publish = \<lambda>ch m c. c @ [(ch, m)]\<rparr>"

definition publishing_world :: "((string \<times> json) list, unit) ord_world" where
  "publishing_world = \<lparr>faults = [], clock = 5, uuid_src = of_nat, uuid_ctr = 1,
     db = \<lparr>orders = [], order_items = [], sagas = [], outbox = [], outbox_dlq = []\<rparr>,
     ord_redis = Some recording_redis, ord_cache = [], ord_kafka = [], remote = ()\<rparr>"

theorem order_updates_never_arrive_witness:
  "Subscription_order_status (delivered_to (ord_cache (publish_all [(''o1'', ''paid'', ''u1'')] publishing_world)))
     (Some \<lparr>gw_user_id = ''u1'', gw_role = ''user'', gw_token = ''t''\<rparr>) ''o1'' = Inr []
   \<and> order_items ''o1'' (map snd (ord_cache (publish_all [(''o1'', ''paid'', ''u1'')] publishing_world)))
     = [\<lparr>gql_order_id = ''o1'', gql_order_user = ''u1'', gql_order_status = ''paid''\<rparr>]"
  using order_updates_never_arrive [of recording_redis "\<lambda>c. c" publishing_world "[(''o1'', ''paid'', ''u1'')]"
      "\<lparr>gw_user_id = ''u1'', gw_role = ''user'', gw_token = ''t''\<rparr>" "''o1''"]
  by (simp add: pubsub_ok_def recording_redis_def publishing_world_def)

end
